(* ===== verification/Go_Prelude.thy ===== *)
theory Go_Prelude
  imports Main "HOL-Library.State_Monad" "HOL-Library.Char_ord" "HOL-Library.List_Lexorder"
begin

section \<open>Prelude: Go strings, errors as values and the effect monad\<close>

text \<open>
  What every component shares: the functions of Go's \<open>strings\<close> and \<open>strconv\<close> packages the
  source calls (on byte strings, a \<open>string\<close> being a list of bytes), times and durations as
  integers, and the lemmas about the state monad of \<open>HOL-Library.State_Monad\<close> in which the
  stateful code is written. A Go call \<open>x, err := f(...)\<close> is a computation of type
  \<open>('w, 'e + 'a) state\<close> whose result is inspected by \<open>case\<close>, as the source does with
  \<open>if err != nil\<close>.
\<close>

named_theorems go_simps "unfolding rules for the models of small Go functions"
named_theorems op_frame "which parts of the world an operation leaves alone"

type_synonym time = int      \<comment> \<open>nanoseconds since Go's zero time\<close>
type_synonym duration = int  \<comment> \<open>nanoseconds\<close>

definition second :: duration where "second = 1000000000"
definition minute :: duration where "minute = 60 * second"
definition hour :: duration where "hour = 60 * minute"

subsection \<open>The \<open>strings\<close> package\<close>

definition has_prefix :: "string \<Rightarrow> string \<Rightarrow> bool" where
  "has_prefix s p = (take (length p) s = p)"

definition to_lower_char :: "char \<Rightarrow> char" where
  "to_lower_char c =
     (let n = (of_char c :: nat) in if 65 \<le> n \<and> n \<le> 90 then char_of (n + 32) else c)"

definition to_lower :: "string \<Rightarrow> string" where
  "to_lower s = map to_lower_char s"

definition is_space :: "char \<Rightarrow> bool" where
  "is_space c = (let n = (of_char c :: nat) in n = 32 \<or> (9 \<le> n \<and> n \<le> 13))"

definition trim_left_p :: "(char \<Rightarrow> bool) \<Rightarrow> string \<Rightarrow> string" where
  "trim_left_p p s = dropWhile p s"

definition trim_right_p :: "(char \<Rightarrow> bool) \<Rightarrow> string \<Rightarrow> string" where
  "trim_right_p p s = rev (dropWhile p (rev s))"

definition trim_space :: "string \<Rightarrow> string" where
  "trim_space s = trim_right_p is_space (trim_left_p is_space s)"

text \<open>\<open>strings.Cut\<close> on a one-byte separator: what stands before it, and what after it (if any).\<close>

definition cut :: "char \<Rightarrow> string \<Rightarrow> string \<times> string option" where
  "cut c s = (takeWhile (\<lambda>x. x \<noteq> c) s,
     (case dropWhile (\<lambda>x. x \<noteq> c) s of [] \<Rightarrow> None | _ # r \<Rightarrow> Some r))"

text \<open>\<open>strings.Split\<close> on a one-byte separator: always at least one part.\<close>

fun split_on :: "char \<Rightarrow> string \<Rightarrow> string list" where
  "split_on c [] = [[]]"
| "split_on c (x # xs) =
     (if x = c then [] # split_on c xs
      else (case split_on c xs of [] \<Rightarrow> [[x]] | p # ps \<Rightarrow> (x # p) # ps))"

fun join_with :: "string \<Rightarrow> string list \<Rightarrow> string" where
  "join_with sep [] = []"
| "join_with sep [x] = x"
| "join_with sep (x # y # ys) = x @ sep @ join_with sep (y # ys)"

text \<open>\<open>strings.ReplaceAll\<close> of one byte, and of a non-empty substring (leftmost, not overlapping).\<close>

definition replace_char :: "char \<Rightarrow> string \<Rightarrow> string \<Rightarrow> string" where
  "replace_char c r s = concat (map (\<lambda>x. if x = c then r else [x]) s)"

function replace_all :: "string \<Rightarrow> string \<Rightarrow> string \<Rightarrow> string" where
  "replace_all old new [] = []"
| "replace_all old new (x # xs) =
     (if old \<noteq> [] \<and> has_prefix (x # xs) old
      then new @ replace_all old new (drop (length old) (x # xs))
      else x # replace_all old new xs)"
  by pat_completeness auto
termination
  by (relation "measure (\<lambda>(old, new, s). length s)") auto

fun contains :: "string \<Rightarrow> string \<Rightarrow> bool" where
  "contains [] p = (p = [])"
| "contains (c # cs) p = (has_prefix (c # cs) p \<or> contains cs p)"

text \<open>\<open>strconv\<close>: decimal rendering.\<close>

fun show_nat :: "nat \<Rightarrow> string" where
  "show_nat n = (if n < 10 then [char_of (48 + n)]
                 else show_nat (n div 10) @ [char_of (48 + n mod 10)])"
declare show_nat.simps [simp del]

definition show_int :: "int \<Rightarrow> string" where
  "show_int i = (if i < 0 then CHR ''-'' # show_nat (nat (- i)) else show_nat (nat i))"

definition is_digit :: "char \<Rightarrow> bool" where
  "is_digit c = (let n = (of_char c :: nat) in 48 \<le> n \<and> n \<le> 57)"

definition digit_val :: "char \<Rightarrow> nat" where
  "digit_val c = (of_char c :: nat) - 48"

definition read_nat :: "string \<Rightarrow> nat" where
  "read_nat s = foldl (\<lambda>a c. 10 * a + digit_val c) 0 s"

lemma is_digit_char_of [simp]: "d < 10 \<Longrightarrow> is_digit (char_of (48 + (d::nat)))"
  by (simp add: is_digit_def)

lemma digit_val_char_of [simp]: "d < 10 \<Longrightarrow> digit_val (char_of (48 + (d::nat))) = d"
  by (simp add: digit_val_def)

lemma show_nat_nonempty [simp]: "show_nat n \<noteq> []"
  by (subst show_nat.simps) simp

lemma show_nat_digits: "c \<in> set (show_nat n) \<Longrightarrow> is_digit c"
proof (induction n rule: show_nat.induct)
  case (1 n)
  show ?case
  proof (cases "n < 10")
    case True
    with "1.prems" show ?thesis by (simp add: show_nat.simps [of n])
  next
    case False
    with "1" show ?thesis by (auto simp: show_nat.simps [of n])
  qed
qed

lemma read_nat_append_digit: "read_nat (s @ [c]) = 10 * read_nat s + digit_val c"
  by (simp add: read_nat_def)

text \<open>Decimal rendering round-trips.\<close>

lemma read_show_nat [simp]: "read_nat (show_nat n) = n"
proof (induction n rule: show_nat.induct)
  case (1 n)
  show ?case
  proof (cases "n < 10")
    case True
    then show ?thesis by (simp add: show_nat.simps [of n] read_nat_def)
  next
    case False
    with "1.IH" show ?thesis
      by (simp add: show_nat.simps [of n] read_nat_append_digit)
  qed
qed

lemma show_nat_inj [simp]: "show_nat a = show_nat b \<longleftrightarrow> a = b"
  by (metis read_show_nat)

lemma show_int_inj [simp]: "show_int a = show_int b \<longleftrightarrow> a = b"
proof
  assume eq: "show_int a = show_int b"
  have nodash: "CHR ''-'' # s \<noteq> show_nat n" for s n
  proof
    assume "CHR ''-'' # s = show_nat n"
    then have "is_digit (CHR ''-'')" using show_nat_digits [of "CHR ''-''" n]
      by (metis list.set_intros(1))
    then show False by (simp add: is_digit_def)
  qed
  from eq nodash nodash [symmetric] show "a = b"
    by (auto simp: show_int_def split: if_splits)
qed simp

subsection \<open>Lemmas on strings\<close>

lemma has_prefix_append [simp]: "has_prefix (p @ s) p"
  by (simp add: has_prefix_def)

lemma has_prefixD: "has_prefix s p \<Longrightarrow> \<exists>r. s = p @ r"
  by (metis append_take_drop_id has_prefix_def)

lemma split_on_nonempty [simp]: "split_on c s \<noteq> []"
  by (induction s) (auto split: list.splits)

lemma join_split_on: "join_with [c] (split_on c s) = s"
proof (induction s)
  case (Cons x xs)
  obtain p ps where ps: "split_on c xs = p # ps"
    by (cases "split_on c xs") auto
  show ?case
    using Cons ps by (cases ps) auto
qed simp

lemma to_lower_char_idem [simp]: "to_lower_char (to_lower_char c) = to_lower_char c"
  by (auto simp: to_lower_char_def Let_def)

lemma to_lower_idem [simp]: "to_lower (to_lower s) = to_lower s"
  by (simp add: to_lower_def)

lemma is_space_to_lower [simp]: "is_space (to_lower_char c) = is_space c"
  by (auto simp: is_space_def to_lower_char_def Let_def)

lemma dropWhile_map_commute:
  "(\<And>x. p (f x) = p x) \<Longrightarrow> dropWhile p (map f xs) = map f (dropWhile p xs)"
  by (induction xs) auto

lemma trim_space_to_lower: "trim_space (to_lower s) = to_lower (trim_space s)"
  by (simp add: trim_space_def trim_right_p_def trim_left_p_def to_lower_def
      dropWhile_map_commute rev_map)

lemma dropWhile_idem [simp]: "dropWhile p (dropWhile p xs) = dropWhile p xs"
  by (induction xs) auto

lemma dropWhile_rev_commute:
  "dropWhile p (rev (dropWhile p (rev (dropWhile p xs)))) = rev (dropWhile p (rev (dropWhile p xs)))"
proof (cases "dropWhile p xs")
  case (Cons y ys)
  then have "\<not> p y" by (metis hd_dropWhile list.distinct(1) list.sel(1))
  then have "rev (dropWhile p (rev (y # ys))) = y # rev (dropWhile p (rev ys))"
    by (simp add: dropWhile_append3 dropWhile_append)
  with \<open>\<not> p y\<close> Cons show ?thesis by simp
next
  case Nil
  then show ?thesis by (simp only: rev.simps dropWhile.simps)
qed

lemma trim_space_idem [simp]: "trim_space (trim_space s) = trim_space s"
  by (simp add: trim_space_def trim_right_p_def trim_left_p_def dropWhile_rev_commute)

subsection \<open>The effect monad\<close>

text \<open>
  \<open>ret\<close>, \<open>getw\<close> and \<open>modw\<close> name the monad's operations as the models use them;
  \<open>returnE\<close> and \<open>fail\<close> give the two results of a Go function.
\<close>

definition ret :: "'a \<Rightarrow> ('w, 'a) state" where "ret = State_Monad.return"
definition getw :: "('w \<Rightarrow> 'a) \<Rightarrow> ('w, 'a) state" where "getw f = State (\<lambda>w. (f w, w))"
definition modw :: "('w \<Rightarrow> 'w) \<Rightarrow> ('w, unit) state" where "modw f = State (\<lambda>w. ((), f w))"
definition fail :: "'e \<Rightarrow> ('w, 'e + 'a) state" where "fail e = ret (Inl e)"
definition returnE :: "'a \<Rightarrow> ('w, 'e + 'a) state" where "returnE x = ret (Inr x)"

lemma run_ret [simp]: "run_state (ret x) w = (x, w)"
  by (simp add: ret_def)

lemma run_getw [simp]: "run_state (getw f) w = (f w, w)"
  by (simp add: getw_def)

lemma run_modw [simp]: "run_state (modw f) w = ((), f w)"
  by (simp add: modw_def)

lemma run_fail [simp]: "run_state (fail e) w = (Inl e, w)"
  by (simp add: fail_def)

lemma run_returnE [simp]: "run_state (returnE x) w = (Inr x, w)"
  by (simp add: returnE_def)

text \<open>A loop over a slice whose body neither breaks nor returns.\<close>

fun for_each :: "('a \<Rightarrow> ('w, unit) state) \<Rightarrow> 'a list \<Rightarrow> ('w, unit) state" where
  "for_each f [] = ret ()"
| "for_each f (x # xs) = do { f x; for_each f xs }"

text \<open>A loop over a slice that stops at the first error.\<close>

fun for_each_err :: "('a \<Rightarrow> ('w, 'e + unit) state) \<Rightarrow> 'a list \<Rightarrow> ('w, 'e + unit) state" where
  "for_each_err f [] = returnE ()"
| "for_each_err f (x # xs) = do {
     r \<leftarrow> f x;
     case r of Inl e \<Rightarrow> fail e | Inr _ \<Rightarrow> for_each_err f xs }"

text \<open>Preservation: a computation keeps a predicate on the world.\<close>

definition keeps :: "('w \<Rightarrow> bool) \<Rightarrow> ('w, 'a) state \<Rightarrow> bool" where
  "keeps P m = (\<forall>w. P w \<longrightarrow> P (snd (run_state m w)))"

lemma keepsI: "(\<And>w. P w \<Longrightarrow> P (snd (run_state m w))) \<Longrightarrow> keeps P m"
  by (simp add: keeps_def)

lemma keepsD: "keeps P m \<Longrightarrow> P w \<Longrightarrow> P (snd (run_state m w))"
  by (simp add: keeps_def)

lemma keeps_ret [intro, simp]: "keeps P (ret x)" "keeps P (getw f)" "keeps P (fail e)" "keeps P (returnE y)"
  by (simp_all add: keeps_def)

lemma keeps_bind [intro]:
  assumes "keeps P m" and "\<And>x. keeps P (f x)"
  shows "keeps P (State_Monad.bind m f)"
  using assms by (fastforce simp: keeps_def split: prod.split)

lemma keeps_modw [intro]: "(\<And>w. P w \<Longrightarrow> P (f w)) \<Longrightarrow> keeps P (modw f)"
  by (simp add: keeps_def)

lemma keeps_sum [intro]:
  "(\<And>e. keeps P (f e)) \<Longrightarrow> (\<And>x. keeps P (g x)) \<Longrightarrow> keeps P (case r of Inl e \<Rightarrow> f e | Inr x \<Rightarrow> g x)"
  by (auto split: sum.split)

lemma keeps_option [intro]:
  "keeps P f \<Longrightarrow> (\<And>x. keeps P (g x)) \<Longrightarrow> keeps P (case r of None \<Rightarrow> f | Some x \<Rightarrow> g x)"
  by (auto split: option.split)

lemma keeps_if [intro]: "keeps P f \<Longrightarrow> keeps P g \<Longrightarrow> keeps P (if b then f else g)"
  by simp

lemma keeps_for_each [intro]: "(\<And>x. keeps P (f x)) \<Longrightarrow> keeps P (for_each f xs)"
  by (induction xs) auto

lemma keeps_for_each_err [intro]: "(\<And>x. keeps P (f x)) \<Longrightarrow> keeps P (for_each_err f xs)"
  by (induction xs) (auto intro!: keeps_sum)

text \<open>Framing: a computation leaves the part \<open>f\<close> of the world as it was.\<close>

definition frames :: "('w \<Rightarrow> 'b) \<Rightarrow> ('w, 'a) state \<Rightarrow> bool" where
  "frames f m = (\<forall>w. f (snd (run_state m w)) = f w)"

lemma framesD: "frames f m \<Longrightarrow> run_state m w = (x, w') \<Longrightarrow> f w' = f w"
  unfolding frames_def by (metis snd_conv)

lemma frames_simps [simp]: "frames f (ret x)" "frames f (getw g)" "frames f (fail e)" "frames f (returnE y)"
  by (simp_all add: frames_def)

lemma frames_bind: "frames f m \<Longrightarrow> (\<And>x. frames f (k x)) \<Longrightarrow> frames f (State_Monad.bind m k)"
  by (auto simp: frames_def split: prod.split dest: framesD) (metis snd_conv)

lemma frames_modw: "(\<And>w. f (g w) = f w) \<Longrightarrow> frames f (modw g)"
  by (simp add: frames_def)

lemma frames_sum:
  "(\<And>e. frames f (g e)) \<Longrightarrow> (\<And>x. frames f (h x)) \<Longrightarrow> frames f (case r of Inl e \<Rightarrow> g e | Inr x \<Rightarrow> h x)"
  by (auto split: sum.split)

lemma frames_option:
  "frames f g \<Longrightarrow> (\<And>x. frames f (h x)) \<Longrightarrow> frames f (case r of None \<Rightarrow> g | Some x \<Rightarrow> h x)"
  by (auto split: option.split)

lemma frames_if: "frames f g \<Longrightarrow> frames f h \<Longrightarrow> frames f (if p then g else h)"
  by simp

lemma frames_prod: "(\<And>a b. frames f (g a b)) \<Longrightarrow> frames f (case p of (a, b) \<Rightarrow> g a b)"
  by (auto split: prod.split)

lemma frames_for_each: "(\<And>x. frames f (g x)) \<Longrightarrow> frames f (for_each g xs)"
  by (induction xs) (auto intro: frames_bind)

lemmas frames_intros = frames_bind frames_modw frames_sum frames_option frames_if frames_prod frames_for_each

lemma run_bind_pair: "run_state m w = (x, w1) \<Longrightarrow> run_state (State_Monad.bind m f) w = run_state (f x) w1"
  by simp

end
