(* ===== verification/Go_Scan.thy ===== *)
theory Go_Scan
  imports Go_Prelude
begin

section \<open>Scanning and encoding: \<open>fmt.Sscanf\<close>, base64, times of day\<close>

text \<open>
  The parts of Go's \<open>fmt\<close> and \<open>encoding/base64\<close> packages the source uses, and the SQL
  \<open>time\<close> conversions \<open>TimeOfDay\<close> and \<open>TimeOfDayStr\<close> of \<open>internal/store/convert.go\<close> built on
  them. A scanner returns the value and the rest of the input, or \<open>None\<close> where \<open>Sscanf\<close> stops.
\<close>

subsection \<open>Verbs of \<open>Sscanf\<close>\<close>

text \<open>Leading blanks are skipped before \<open>%d\<close>; a newline is an error.\<close>

fun skip_space :: "string \<Rightarrow> string option" where
  "skip_space [] = Some []"
| "skip_space (c # cs) =
     (if c = CHR 0x0A then None else if is_space c then skip_space cs else Some (c # cs))"

definition scan_digits :: "string \<Rightarrow> (nat \<times> string) option" where
  "scan_digits s = (let ds = takeWhile is_digit s
     in if ds = [] then None else Some (read_nat ds, dropWhile is_digit s))"

definition scan_uint :: "nat \<Rightarrow> string \<Rightarrow> (nat \<times> string) option" where
  "scan_uint bits s = do {
     s \<leftarrow> skip_space s;
     (n, r) \<leftarrow> scan_digits s;
     if n < 2 ^ bits then Some (n, r) else None }"

definition scan_int :: "string \<Rightarrow> (int \<times> string) option" where
  "scan_int s = do {
     s \<leftarrow> skip_space s;
     (case s of
        c # r \<Rightarrow>
          if c = CHR ''-'' then do {
            (n, r) \<leftarrow> scan_digits r;
            if n \<le> 2 ^ 63 then Some (- int n, r) else None }
          else do {
            (n, r) \<leftarrow> scan_digits (if c = CHR ''+'' then r else s);
            if n < 2 ^ 63 then Some (int n, r) else None }
      | [] \<Rightarrow> None) }"

fun scan_lit :: "string \<Rightarrow> string \<Rightarrow> string option" where
  "scan_lit [] s = Some s"
| "scan_lit (p # ps) [] = None"
| "scan_lit (p # ps) (c # cs) = (if p = c then scan_lit ps cs else None)"

lemma scan_lit_append [simp]: "scan_lit p (p @ s) = Some s"
  by (induction p) auto

lemma scan_lit_colon [simp]: "scan_lit [c] (c # s) = Some s"
  by simp

lemma is_digit_not_space: "is_digit c \<Longrightarrow> \<not> is_space c \<and> c \<noteq> CHR 0x0A \<and> c \<noteq> CHR ''-'' \<and> c \<noteq> CHR ''+''"
  by (auto simp: is_digit_def is_space_def Let_def)

lemma skip_space_digit [simp]: "is_digit c \<Longrightarrow> skip_space (c # s) = Some (c # s)"
  by (simp add: is_digit_not_space)

definition stops :: "string \<Rightarrow> bool" where
  "stops r = (case r of [] \<Rightarrow> True | c # _ \<Rightarrow> \<not> is_digit c)"

lemma takeWhile_digits_append:
  "list_all is_digit ds \<Longrightarrow> stops r \<Longrightarrow> takeWhile is_digit (ds @ r) = ds"
  by (induction ds) (auto simp: stops_def split: list.splits)

lemma dropWhile_digits_append:
  "list_all is_digit ds \<Longrightarrow> stops r \<Longrightarrow> dropWhile is_digit (ds @ r) = r"
  by (induction ds) (auto simp: stops_def split: list.splits)

lemma scan_digits_append:
  "list_all is_digit ds \<Longrightarrow> ds \<noteq> [] \<Longrightarrow> stops r \<Longrightarrow> scan_digits (ds @ r) = Some (read_nat ds, r)"
  by (simp add: scan_digits_def takeWhile_digits_append dropWhile_digits_append)

lemma show_nat_all_digits [simp]: "list_all is_digit (show_nat n)"
  by (auto simp: list_all_iff dest: show_nat_digits)

lemma skip_space_digits [simp]:
  "list_all is_digit ds \<Longrightarrow> ds \<noteq> [] \<Longrightarrow> skip_space (ds @ r) = Some (ds @ r)"
  by (cases ds) (simp_all add: is_digit_not_space)

text \<open>Scanning what was printed gives the number back.\<close>

lemma scan_uint_show: "n < 2 ^ bits \<Longrightarrow> stops r \<Longrightarrow> scan_uint bits (show_nat n @ r) = Some (n, r)"
  by (simp add: scan_uint_def scan_digits_append)

lemma scan_int_digits:
  assumes "list_all is_digit ds" "ds \<noteq> []" "stops r" "read_nat ds < 2 ^ 63"
  shows "scan_int (ds @ r) = Some (int (read_nat ds), r)"
proof -
  obtain c cs where ds: "ds = c # cs" using assms(2) by (cases ds) auto
  with assms(1) is_digit_not_space [of c] have "c \<noteq> CHR ''-''" "c \<noteq> CHR ''+''" by auto
  with ds assms scan_digits_append [of ds r] show ?thesis
    by (simp add: scan_int_def is_digit_not_space)
qed

subsection \<open>Base64 without padding\<close>

text \<open>\<open>base64.RawStdEncoding\<close> and the URL alphabet; sextets are numbers below 64.\<close>

definition b64_char :: "bool \<Rightarrow> nat \<Rightarrow> char" where
  "b64_char url n =
     (if n < 26 then char_of (65 + n) else if n < 52 then char_of (71 + n)
      else if n < 62 then char_of (n - 4)
      else if n = 62 then (if url then CHR ''-'' else CHR ''+'')
      else (if url then CHR ''_'' else CHR ''/''))"

definition b64_val :: "bool \<Rightarrow> char \<Rightarrow> nat option" where
  "b64_val url c = (let n = (of_char c :: nat) in
     if 65 \<le> n \<and> n \<le> 90 then Some (n - 65)
     else if 97 \<le> n \<and> n \<le> 122 then Some (n - 71)
     else if 48 \<le> n \<and> n \<le> 57 then Some (n + 4)
     else if c = (if url then CHR ''-'' else CHR ''+'') then Some 62
     else if c = (if url then CHR ''_'' else CHR ''/'') then Some 63
     else None)"

fun sextets :: "nat list \<Rightarrow> nat list" where
  "sextets [] = []"
| "sextets [a] = [a div 4, (a mod 4) * 16]"
| "sextets [a, b] = [a div 4, (a mod 4) * 16 + b div 16, (b mod 16) * 4]"
| "sextets (a # b # c # r) =
     [a div 4, (a mod 4) * 16 + b div 16, (b mod 16) * 4 + c div 64, c mod 64] @ sextets r"

fun octets :: "nat list \<Rightarrow> nat list option" where
  "octets [] = Some []"
| "octets [x] = None"
| "octets [x, y] = Some [x * 4 + y div 16]"
| "octets [x, y, z] = Some [x * 4 + y div 16, (y mod 16) * 16 + z div 4]"
| "octets (x # y # z # w # r) =
     map_option (\<lambda>os. [x * 4 + y div 16, (y mod 16) * 16 + z div 4, (z mod 4) * 64 + w] @ os) (octets r)"

definition b64_encode :: "bool \<Rightarrow> string \<Rightarrow> string" where
  "b64_encode url s = map (b64_char url) (sextets (map of_char s))"

fun all_some :: "'a option list \<Rightarrow> 'a list option" where
  "all_some [] = Some []"
| "all_some (x # xs) = (case x of None \<Rightarrow> None | Some a \<Rightarrow> map_option ((#) a) (all_some xs))"

text \<open>The decoder skips line breaks and ignores the spare low bits of the last sextet.\<close>

definition b64_decode :: "bool \<Rightarrow> string \<Rightarrow> string option" where
  "b64_decode url s =
     (case all_some (map (b64_val url) (filter (\<lambda>c. c \<noteq> CHR 0x0A \<and> c \<noteq> CHR 0x0D) s)) of
        None \<Rightarrow> None
      | Some xs \<Rightarrow> map_option (map char_of) (octets xs))"

lemma less_64_cases: "n < 64 \<Longrightarrow> n < 26 \<or> (26 \<le> n \<and> n < 52) \<or> (52 \<le> n \<and> n < 62) \<or> n = 62 \<or> n = (63::nat)"
  by arith

lemma b64_val_char [simp]: "n < 64 \<Longrightarrow> b64_val url (b64_char url n) = Some n"
  using less_64_cases [of n] by (auto simp: b64_val_def b64_char_def Let_def)

lemma b64_val_plain: "b64_val url c = Some n \<Longrightarrow> c \<noteq> CHR ''$'' \<and> c \<noteq> CHR 0x0A \<and> c \<noteq> CHR 0x0D"
  by (cases url) (auto simp: b64_val_def Let_def)

lemma b64_char_plain:
  assumes "n < 64"
  shows "b64_char url n \<noteq> CHR ''$'' \<and> b64_char url n \<noteq> CHR 0x0A \<and> b64_char url n \<noteq> CHR 0x0D"
  by (rule b64_val_plain [OF b64_val_char [OF assms]])

lemma sextets_bound: "\<forall>a\<in>set xs. a < 256 \<Longrightarrow> \<forall>n\<in>set (sextets xs). n < 64"
proof (induction xs rule: sextets.induct)
  case (4 a b c r)
  have "a div 4 < 64" "b div 16 < 16" "c div 64 < 4" "(a mod 4) < 4" "(b mod 16) < 16" "c mod 64 < 64"
    using "4.prems" by (auto simp: less_mult_imp_div_less)
  then have "(a mod 4) * 16 + b div 16 < 64" "(b mod 16) * 4 + c div 64 < 64" by linarith+
  with 4 \<open>a div 4 < 64\<close> show ?case by simp
next
  case (3 a b)
  have "a div 4 < 64" "b div 16 < 16" "(a mod 4) < 4" "(b mod 16) < 16"
    using "3.prems" by (auto simp: less_mult_imp_div_less)
  then have "(a mod 4) * 16 + b div 16 < 64" "(b mod 16) * 4 < 64" by linarith+
  with \<open>a div 4 < 64\<close> show ?case by simp
next
  case (2 a)
  have "a div 4 < 64" "(a mod 4) < 4" using "2.prems" by (auto simp: less_mult_imp_div_less)
  then show ?case by simp
qed simp

text \<open>Splitting at a power of two and joining again, in the form the decoder computes it.\<close>

lemma join_split:
  fixes a b k m :: nat
  assumes "b div k < m" and "0 < m"
  shows "(a * m + b div k) div m = a" and "(a * m + b div k) mod m = b div k"
  using assms by simp_all

lemma octets_sextets: "\<forall>a\<in>set xs. a < 256 \<Longrightarrow> octets (sextets xs) = Some xs"
proof (induction xs rule: sextets.induct)
  case (4 a b c r)
  have "b div 16 < 16" "c div 64 < 4" using "4.prems" by (auto simp: less_mult_imp_div_less)
  note j = join_split [of b 16 16 "a mod 4", OF this(1)] join_split [of c 64 4 "b mod 16", OF this(2)]
  have "a mod 4 * 16 mod 256 = a mod 4 * 16" for a :: nat by simp
  with j 4 show ?case by (simp add: div_mult_mod_eq)
next
  case (3 a b)
  have "b div 16 < 16" using "3.prems" by (auto simp: less_mult_imp_div_less)
  from join_split [of b 16 16 "a mod 4", OF this] show ?case by (simp add: div_mult_mod_eq)
next
  case (2 a)
  show ?case by (simp add: div_mult_mod_eq)
qed simp

lemma all_some_map: "(\<And>x. x \<in> set xs \<Longrightarrow> f x = Some (g x)) \<Longrightarrow> all_some (map f xs) = Some (map g xs)"
  by (induction xs) auto

lemma b64_roundtrip: "b64_decode url (b64_encode url s) = Some s"
proof -
  let ?xs = "sextets (map of_char s)"
  have b: "\<forall>n\<in>set ?xs. n < 64" by (rule sextets_bound) auto
  then have "filter (\<lambda>c. c \<noteq> CHR 0x0A \<and> c \<noteq> CHR 0x0D) (b64_encode url s) = b64_encode url s"
    unfolding b64_encode_def by (simp add: filter_id_conv b64_char_plain)
  moreover have "all_some (map (b64_val url) (b64_encode url s)) = Some ?xs"
    using b all_some_map [of ?xs "\<lambda>n. b64_val url (b64_char url n)" "\<lambda>n. n"]
    by (simp add: b64_encode_def comp_def)
  moreover have "octets ?xs = Some (map of_char s)" by (rule octets_sextets) auto
  ultimately show ?thesis by (simp add: b64_decode_def comp_def)
qed

lemma b64_no_dollar: "CHR ''$'' \<notin> set (b64_encode url s)"
proof
  assume "CHR ''$'' \<in> set (b64_encode url s)"
  then obtain n where "n \<in> set (sextets (map of_char s))" "b64_char url n = CHR ''$''"
    by (auto simp: b64_encode_def)
  with sextets_bound [of "map of_char s"] b64_char_plain [of n url] show False by auto
qed

subsection \<open>SQL times of day\<close>

text \<open>Go's 64-bit \<open>int\<close> wraps; the products below are formed in it.\<close>

definition wrap64 :: "int \<Rightarrow> int" where
  "wrap64 i = (i + 2 ^ 63) mod 2 ^ 64 - 2 ^ 63"

text \<open>\<open>Sscanf(s, "%d:%d:%d")\<close>: how many items were read, and their values (zero if not).\<close>

definition scan_hms :: "string \<Rightarrow> nat \<times> int \<times> int \<times> int" where
  "scan_hms s =
     (case scan_int s of
        None \<Rightarrow> (0, 0, 0, 0)
      | Some (h, r) \<Rightarrow>
          (case Option.bind (scan_lit '':'' r) scan_int of
             None \<Rightarrow> (1, h, 0, 0)
           | Some (m, r) \<Rightarrow>
               (case Option.bind (scan_lit '':'' r) scan_int of
                  None \<Rightarrow> (2, h, m, 0)
                | Some (sec, r) \<Rightarrow> (3, h, m, sec))))"

definition TimeOfDay :: "string option \<Rightarrow> int option" where
  "TimeOfDay s =
     (case s of None \<Rightarrow> None
      | Some s \<Rightarrow>
          if s = [] then None
          else (let (n, h, m, sec) = scan_hms s
                in if n < 2 then None else Some (wrap64 (wrap64 (h * 3600 + m * 60 + sec) * 1000000))))"

definition pad2 :: "int \<Rightarrow> string" where
  "pad2 i = (let s = show_int i in if length s < 2 then CHR ''0'' # s else s)"

text \<open>Division truncates towards zero in Go; the column is never negative.\<close>

definition go_div :: "int \<Rightarrow> int \<Rightarrow> int" where "go_div a b = sgn a * sgn b * (\<bar>a\<bar> div \<bar>b\<bar>)"
definition go_mod :: "int \<Rightarrow> int \<Rightarrow> int" where "go_mod a b = a - go_div a b * b"

lemma go_div_nonneg [simp]: "0 \<le> a \<Longrightarrow> 0 < b \<Longrightarrow> go_div a b = a div b"
  by (simp add: go_div_def sgn_if)

lemma go_mod_nonneg [simp]: "0 \<le> a \<Longrightarrow> 0 < b \<Longrightarrow> go_mod a b = a mod b"
  by (simp add: go_mod_def minus_div_mult_eq_mod)

definition TimeOfDayStr :: "int option \<Rightarrow> string option" where
  "TimeOfDayStr t =
     (case t of None \<Rightarrow> None
      | Some us \<Rightarrow>
          let total = go_div us 1000000
          in Some (pad2 (go_div total 3600) @ '':'' @ pad2 (go_div (go_mod total 3600) 60)
                   @ '':'' @ pad2 (go_mod total 60)))"

lemma pad2_digits:
  assumes "0 \<le> i"
  shows "list_all is_digit (pad2 i)" "pad2 i \<noteq> []" "read_nat (pad2 i) = nat i"
proof -
  have "read_nat (CHR ''0'' # show_nat (nat i)) = read_nat (show_nat (nat i))"
    by (simp add: read_nat_def digit_val_def)
  with assms show "read_nat (pad2 i) = nat i"
    by (simp add: pad2_def show_int_def Let_def)
  show "list_all is_digit (pad2 i)" "pad2 i \<noteq> []" using assms
    by (auto simp: pad2_def show_int_def Let_def is_digit_def)
qed

lemma stops_colon [simp]: "stops (CHR '':'' # r)" "stops []"
  by (simp_all add: stops_def is_digit_def)

lemma scan_pad2: "0 \<le> i \<Longrightarrow> i < 2 ^ 63 \<Longrightarrow> stops r \<Longrightarrow> scan_int (pad2 i @ r) = Some (i, r)"
  using scan_int_digits [of "pad2 i" r] pad2_digits [of i] by simp

lemma scan_hms_printed:
  assumes "0 \<le> h" "h < 2 ^ 63" "0 \<le> m" "m < 2 ^ 63" "0 \<le> s" "s < 2 ^ 63"
  shows "scan_hms (pad2 h @ '':'' @ pad2 m @ '':'' @ pad2 s) = (3, h, m, s)"
  using assms scan_pad2 [of s "[]"]
  by (simp add: scan_hms_def scan_pad2)

lemma wrap64_id: "- (2 ^ 63) \<le> i \<Longrightarrow> i < 2 ^ 63 \<Longrightarrow> wrap64 i = i"
  by (simp add: wrap64_def mod_pos_pos_trivial)

lemma hms_bounds: "0 \<le> s \<Longrightarrow> s \<le> 86400 \<Longrightarrow>
    0 \<le> s div 3600 \<and> s div 3600 \<le> 24 \<and> 0 \<le> (s mod 3600) div 60 \<and> (s mod 3600) div 60 < 60 \<and>
    0 \<le> s mod 60 \<and> s mod (60::int) < 60"
  by (auto simp: pos_imp_zdiv_nonneg_iff zdiv_mono1 [of s 86400 3600, simplified] div_less_iff_less_mult)

lemma hms_split: "s div 3600 * 3600 + (s mod 3600) div 60 * 60 + s mod 60 = (s::int)"
proof -
  have "(s mod 3600) mod 60 = s mod 60" by (rule mod_mod_cancel) simp
  then show ?thesis
    using div_mult_mod_eq [of s 3600] div_mult_mod_eq [of "s mod 3600" 60] by linarith
qed

text \<open>Quiet hours survive the trip through the database: a \<open>time\<close> column value in
  whole seconds, printed by \<open>TimeOfDayStr\<close> and parsed back by \<open>TimeOfDay\<close>, is unchanged; the
  parser also reads the short form \<open>HH:MM\<close>.\<close>

theorem time_of_day_roundtrip:
  assumes "0 \<le> s" and "s \<le> 86400"
  shows "TimeOfDay (TimeOfDayStr (Some (s * 1000000))) = Some (s * 1000000)"
proof -
  let ?h = "s div 3600" and ?m = "(s mod 3600) div 60" and ?s = "s mod 60"
  have b: "0 \<le> ?h" "?h < 2 ^ 63" "0 \<le> ?m" "?m < 2 ^ 63" "0 \<le> ?s" "?s < 2 ^ 63"
    using assms hms_bounds [of s] by simp_all
  have p: "TimeOfDayStr (Some (s * 1000000)) = Some (pad2 ?h @ '':'' @ pad2 ?m @ '':'' @ pad2 ?s)"
    using assms by (simp add: TimeOfDayStr_def)
  have "TimeOfDay (TimeOfDayStr (Some (s * 1000000)))
      = Some (wrap64 (wrap64 (?h * 3600 + ?m * 60 + ?s) * 1000000))"
    unfolding p TimeOfDay_def using scan_hms_printed [OF b] pad2_digits(2) [OF b(1)] by simp
  then show ?thesis using assms hms_split [of s] by (simp add: wrap64_id)
qed

theorem time_of_day_roundtrip_witness:
  "(0::int) \<le> 79200 \<and> TimeOfDay (TimeOfDayStr (Some (79200 * 1000000))) = Some (79200 * 1000000)"
  using time_of_day_roundtrip [of 79200] by simp

end
