(* ===== verification/App_Errors.thy ===== *)
theory App_Errors
  imports Go_Prelude "HOL-Library.AList"
begin

section \<open>The domain error model and the registry of error codes\<close>

text \<open>
  Models \<open>internal/errs\<close>: the domain error \<open>errs.Error\<close> with its constructors and its
  copying modifiers, the shared errors, and \<open>internal/errs/codes\<close>, whose package-level
  variables are registered one by one in a global table. A panic of \<open>register\<close> is an \<open>Inl\<close>.
\<close>

subsection \<open>gRPC status codes\<close>

datatype gcode = OK | Canceled | Unknown | InvalidArgument | DeadlineExceeded | NotFound
  | AlreadyExists | PermissionDenied | ResourceExhausted | FailedPrecondition | Aborted
  | OutOfRange | Unimplemented | Internal | Unavailable | DataLoss | Unauthenticated

subsection \<open>The code registry\<close>

definition code_char_ok :: "char \<Rightarrow> bool" where
  "code_char_ok ch = (let n = (of_char ch :: nat) in
     (65 \<le> n \<and> n \<le> 90) \<or> (48 \<le> n \<and> n \<le> 57) \<or> ch = CHR ''_'')"

datatype code_panic = EmptyCode | CodeTooLong string | CodeNotUpperSnake string | CodeDuplicate string

text \<open>\<open>allCodes\<close> is the set of the values registered so far; \<open>register\<close> returns the new one.\<close>

definition register :: "string \<Rightarrow> string set \<Rightarrow> code_panic + string set" where
  "register v allCodes =
     (if v = [] then Inl EmptyCode
      else if length v > 64 then Inl (CodeTooLong v)
      else if \<not> list_all code_char_ok v then Inl (CodeNotUpperSnake v)
      else if v \<in> allCodes then Inl (CodeDuplicate v)
      else Inr (insert v allCodes))"

text \<open>Package initialisation: the variables in declaration order.\<close>

fun register_all :: "string list \<Rightarrow> string set \<Rightarrow> code_panic + string set" where
  "register_all [] A = Inr A"
| "register_all (v # vs) A = (case register v A of Inl p \<Rightarrow> Inl p | Inr A' \<Rightarrow> register_all vs A')"

definition admin_codes :: "string list" where
  "admin_codes = [''ADMIN_REQUIRED'', ''INSUFFICIENT_PERMISSIONS'']"

definition auth_codes :: "string list" where
  "auth_codes =
     [''INVALID_CREDENTIALS'', ''EMAIL_ALREADY_EXISTS'', ''EMAIL_NOT_VERIFIED'', ''ACCOUNT_INACTIVE'',
      ''INVALID_AUTH_TOKEN'', ''ACCESS_TOKEN_REVOKED'', ''SESSION_NOT_FOUND'',
      ''CANNOT_REMOVE_CURRENT_DEVICE'', ''INVALID_VERIFICATION_TOKEN'', ''INVALID_RESET_TOKEN'',
      ''INCORRECT_PASSWORD'', ''WEAK_PASSWORD'', ''TOO_MANY_ATTEMPTS'']"

definition common_codes :: "string list" where
  "common_codes =
     [''INTERNAL_ERROR'', ''INVALID_PAYLOAD'', ''INVALID_QUERY'', ''INVALID_ID'', ''INVALID_PARAM'',
      ''VALIDATION_ERROR'', ''FORBIDDEN'', ''NOT_FOUND'', ''NO_FIELDS_TO_UPDATE'', ''NO_CHANGES'',
      ''INVALID_DATE_RANGE'', ''DATE_IN_PAST'', ''METHOD_NOT_ALLOWED'', ''ROUTE_NOT_FOUND'',
      ''STORAGE_UNAVAILABLE'', ''UPLOAD_FAILED'']"

definition notification_codes :: "string list" where
  "notification_codes =
     [''PUSH_TOKEN_NOT_FOUND'', ''PUSH_TOKEN_INACTIVE'', ''DEVICE_MISMATCH'',
      ''NOTIFICATION_PREFS_NOT_FOUND'', ''PUSH_SEND_FAILED'']"

definition settings_codes :: "string list" where
  "settings_codes =
     [''SETTINGS_NOT_FOUND'', ''INVALID_PHONE_VISIBILITY'', ''INVALID_ARCHIVE_POLICY'',
      ''INVALID_DATA_SHARING_POLICY'', ''INVALID_SETTING_KEY'', ''INVALID_SETTING_VALUE'',
      ''AUTO_ACCEPT_NOT_ALLOWED'']"

definition suspension_codes :: "string list" where
  "suspension_codes = [''SUSPENSION_NOT_FOUND'']"

definition user_codes :: "string list" where
  "user_codes =
     [''USER_NOT_FOUND'', ''INVALID_USER_ID'', ''ACCOUNT_SUSPENDED'', ''CANNOT_REACTIVATE_SUSPENDED'',
      ''ACCOUNT_NOT_SUSPENDED'', ''INVALID_ROLE_TRANSITION'', ''CANNOT_DOWNGRADE_ROLE'',
      ''CANNOT_SWITCH_SINGLE_ROLE'', ''INVALID_COUNTRY_CODE'', ''NON_AVAILABLE_COUNTRY_CODE'',
      ''INVALID_TIMEZONE'', ''INVALID_TIMEZONE_FOR_COUNTRY'', ''AVATAR_INVALID_TYPE'',
      ''AVATAR_TOO_LARGE'']"

definition all_codes :: "string list" where
  "all_codes = admin_codes @ auth_codes @ common_codes @ notification_codes @ settings_codes
     @ suspension_codes @ user_codes"

definition code_ok :: "string \<Rightarrow> bool" where
  "code_ok v = (v \<noteq> [] \<and> length v \<le> 64 \<and> list_all code_char_ok v)"

lemma register_Inr_iff:
  "register v A = Inr A' \<longleftrightarrow> code_ok v \<and> v \<notin> A \<and> A' = insert v A"
  by (auto simp: register_def code_ok_def)

text \<open>
  The registry succeeds exactly on distinct well-formed codes, and then holds them all: the
  specification of package initialisation.
\<close>

lemma register_all_Inr_iff:
  "register_all vs A = Inr A' \<longleftrightarrow>
     list_all code_ok vs \<and> distinct vs \<and> set vs \<inter> A = {} \<and> A' = A \<union> set vs"
proof (induction vs arbitrary: A)
  case (Cons v vs)
  show ?case
  proof (cases "register v A")
    case (Inl p)
    then have "\<not> (code_ok v \<and> v \<notin> A)"
      using register_Inr_iff [of v A] by fastforce
    with Inl show ?thesis by auto
  next
    case (Inr B)
    with register_Inr_iff [of v A B] have "code_ok v" "v \<notin> A" "B = insert v A" by auto
    with Inr Cons.IH [of B] show ?thesis by auto
  qed
qed auto

subsection \<open>Domain errors\<close>

text \<open>A \<open>map[string]any\<close> of the program holds texts; it is kept as an association list.\<close>

type_synonym any_map = "(string \<times> string) list"

record app_error =
  grpcCode :: gcode
  appCode :: string
  messageKey :: string
  fieldViolations :: "(string \<times> string) list"
  errData :: any_map

definition newError :: "gcode \<Rightarrow> string \<Rightarrow> string \<Rightarrow> app_error" where
  "newError g c m = \<lparr>grpcCode = g, appCode = c, messageKey = m, fieldViolations = [], errData = []\<rparr>"

definition errNotFound :: "string \<Rightarrow> string \<Rightarrow> app_error" where "errNotFound = newError NotFound"
definition errBadRequest :: "string \<Rightarrow> string \<Rightarrow> app_error" where "errBadRequest = newError InvalidArgument"
definition errForbidden :: "string \<Rightarrow> string \<Rightarrow> app_error" where "errForbidden = newError PermissionDenied"
definition errUnauthorized :: "string \<Rightarrow> string \<Rightarrow> app_error" where "errUnauthorized = newError Unauthenticated"
definition errConflict :: "string \<Rightarrow> string \<Rightarrow> app_error" where "errConflict = newError AlreadyExists"
definition errUnprocessable :: "string \<Rightarrow> string \<Rightarrow> app_error" where "errUnprocessable = newError FailedPrecondition"
definition errTooManyRequests :: "string \<Rightarrow> string \<Rightarrow> app_error" where "errTooManyRequests = newError ResourceExhausted"
definition errInternal :: "string \<Rightarrow> string \<Rightarrow> app_error" where "errInternal = newError Internal"

definition errValidation :: "string \<Rightarrow> string \<Rightarrow> (string \<times> string) list \<Rightarrow> app_error" where
  "errValidation c m fs = (newError InvalidArgument c m)\<lparr>fieldViolations := fs\<rparr>"

definition withMessage :: "app_error \<Rightarrow> string \<Rightarrow> app_error" where
  "withMessage e m = e\<lparr>messageKey := m\<rparr>"

definition withCode :: "app_error \<Rightarrow> string \<Rightarrow> app_error" where
  "withCode e c = e\<lparr>appCode := c\<rparr>"

definition withData :: "app_error \<Rightarrow> any_map \<Rightarrow> app_error" where
  "withData e d = e\<lparr>errData := AList.merge (errData e) d\<rparr>"

definition withFieldViolations :: "app_error \<Rightarrow> (string \<times> string) list \<Rightarrow> app_error" where
  "withFieldViolations e fs = e\<lparr>fieldViolations := fieldViolations e @ fs\<rparr>"

lemmas err_ctor_defs [go_simps] = errNotFound_def errBadRequest_def errForbidden_def
  errUnauthorized_def errConflict_def errUnprocessable_def errTooManyRequests_def errInternal_def
  newError_def errValidation_def

definition ErrInvalidID :: app_error where "ErrInvalidID = errBadRequest ''INVALID_ID'' ''common.invalid_id''"
definition ErrForbidden :: app_error where "ErrForbidden = errForbidden ''FORBIDDEN'' ''common.forbidden''"
definition ErrNoFieldsToUpdate :: app_error where
  "ErrNoFieldsToUpdate = errBadRequest ''NO_FIELDS_TO_UPDATE'' ''common.no_fields_to_update''"
definition ErrInvalidDateRange :: app_error where
  "ErrInvalidDateRange = errBadRequest ''INVALID_DATE_RANGE'' ''common.date_invalid_range''"
definition ErrStartDateInPast :: app_error where
  "ErrStartDateInPast = errBadRequest ''DATE_IN_PAST'' ''common.date_in_past''"
definition ErrSessionNotFound :: app_error where
  "ErrSessionNotFound = errUnauthorized ''SESSION_NOT_FOUND'' ''auth.session_not_found''"
definition ErrUserNotFound :: app_error where
  "ErrUserNotFound = errNotFound ''USER_NOT_FOUND'' ''user.not_found''"

text \<open>The modifiers copy: they change what they name and nothing else, and accumulate.\<close>

lemma with_modifiers_keep_code [simp]:
  "grpcCode (withMessage e m) = grpcCode e" "grpcCode (withCode e c) = grpcCode e"
  "grpcCode (withData e d) = grpcCode e" "grpcCode (withFieldViolations e fs) = grpcCode e"
  by (simp_all add: withMessage_def withCode_def withData_def withFieldViolations_def)

lemma withData_merge: "map_of (errData (withData (withData e d1) d2)) = map_of (errData e) ++ map_of d1 ++ map_of d2"
  by (simp add: withData_def merge_conv')

lemma withFieldViolations_append:
  "withFieldViolations (withFieldViolations e fs) gs = withFieldViolations e (fs @ gs)"
  by (simp add: withFieldViolations_def)

subsection \<open>Go errors\<close>

text \<open>
  The errors that travel through the program: domain errors, gRPC status errors, the errors of
  PostgreSQL and Redis, plain \<open>errors.New\<close> values, and the wrappers of \<open>fmt.Errorf\<close> with
  \<open>%w\<close>. \<open>SkipRetry\<close> is Asynq's sentinel joined to an error.
\<close>

datatype pg_error = ConnDown | TxAborted | TxCommitRollback
  | UniqueViolation string  \<comment> \<open>the constraint's name\<close>
  | CheckViolation string | RaisedByTrigger string | RlsDenied string | ForeignKeyViolation string

datatype goerr = AppE app_error | StatusE gcode string | NoRows | PgE pg_error | RedisE
  | EntropyE | EnqueueFailedE | OutboxDuplicateE | DuplicateTaskE | TokenNotFoundE
  | StatusD gcode string string string "(string \<times> string) list"
    \<comment> \<open>a status with details: code, message, reason, locale, field violations\<close>
  | MsgE string | WrapE string goerr | SkipRetryE goerr | PanicE string

text \<open>\<open>errors.Is\<close> and \<open>errors.As\<close> look through the wrappers.\<close>

fun unwrap :: "goerr \<Rightarrow> goerr" where
  "unwrap (WrapE m e) = unwrap e"
| "unwrap (SkipRetryE e) = unwrap e"
| "unwrap e = e"

definition errIs :: "goerr \<Rightarrow> goerr \<Rightarrow> bool" where "errIs e target = (unwrap e = target)"

fun asApp :: "goerr \<Rightarrow> app_error option" where
  "asApp (WrapE m e) = asApp e"
| "asApp (SkipRetryE e) = asApp e"
| "asApp (AppE a) = Some a"
| "asApp _ = None"

fun skips_retry :: "goerr \<Rightarrow> bool" where
  "skips_retry (WrapE m e) = skips_retry e"
| "skips_retry (SkipRetryE e) = True"
| "skips_retry _ = False"

lemma asApp_unwrap: "asApp e = (case unwrap e of AppE a \<Rightarrow> Some a | _ \<Rightarrow> None)"
  by (induction e rule: unwrap.induct) auto

text \<open>Package initialisation of \<open>errs/codes\<close> never panics: the codes the source registers,
  in file order, are all non-empty, at most 64 characters, UPPER\_SNAKE\_CASE and pairwise
  distinct, and the resulting table holds exactly them.\<close>

theorem code_registry_initialises: "register_all all_codes {} = Inr (set all_codes)"
proof -
  have "list_all code_ok all_codes" by code_simp
  moreover have "distinct all_codes" by code_simp
  ultimately show ?thesis by (subst register_all_Inr_iff) simp
qed

end
