(* ===== verification/World_State.thy ===== *)
theory World_State
  imports App_Errors
begin

section \<open>Entities, tables, request context and the world\<close>

text \<open>
  The data of the program: the domain entities (\<open>internal/users/entity.go\<close>,
  \<open>internal/auth/entity.go\<close>, \<open>internal/suspension/entity.go\<close>,
  \<open>internal/settings/entity.go\<close>, \<open>internal/notifications/entity.go\<close>), the events of
  \<open>internal/event\<close>, the rows of the tables the queries read and write, the request context of
  \<open>internal/reqctx\<close>, and the world a handler acts on: clock, database, Redis, task queue and
  the in-memory state of the event bus. The type variable \<open>'r\<close> is the state of the Redis
  service, which is not part of the repository.
\<close>

subsection \<open>Users, settings, suspensions\<close>

datatype user_status = StActive | StInactive | StSuspended
datatype user_role = RoUser | RoAdmin

record user =
  uID :: int
  uEmail :: string
  uPasswordHash :: string
  uFirstName :: string
  uLastName :: string
  uAvatar :: string
  uBio :: string
  uStatus :: user_status
  uRole :: user_role
  uEmailVerifiedAt :: "time option"
  uLastLoginAt :: "time option"
  uCreatedAt :: time
  uUpdatedAt :: time
  uDeletedAt :: "time option"

definition user_IsActive :: "user \<Rightarrow> bool" where "user_IsActive u = (uStatus u = StActive)"
definition user_IsSuspended :: "user \<Rightarrow> bool" where "user_IsSuspended u = (uStatus u = StSuspended)"
definition user_IsAdmin :: "user \<Rightarrow> bool" where "user_IsAdmin u = (uRole u = RoAdmin)"
definition user_IsEmailVerified :: "user \<Rightarrow> bool" where
  "user_IsEmailVerified u = (uEmailVerifiedAt u \<noteq> None)"

record settings =
  sLocale :: string
  sTimezone :: string
  sTheme :: string
  sEmailNotifications :: bool
  sPushNotifications :: bool
  sMarketingEmails :: bool

definition DefaultSettings :: settings where
  "DefaultSettings = \<lparr>sLocale = ''en'', sTimezone = ''UTC'', sTheme = ''system'',
     sEmailNotifications = True, sPushNotifications = True, sMarketingEmails = False\<rparr>"

record suspension =
  susID :: int
  susUserID :: int
  susReason :: string
  susDetails :: "string option"
  susSuspendedAt :: time
  susSuspendedUntil :: "time option"
  susIsPermanent :: bool
  susCreatedAt :: time
  susUpdatedAt :: time

definition suspension_IsActive :: "time \<Rightarrow> suspension \<Rightarrow> bool" where
  "suspension_IsActive t s =
     (if susIsPermanent s then True
      else (case susSuspendedUntil s of None \<Rightarrow> False | Some u \<Rightarrow> t < u))"

subsection \<open>Sessions and refresh tokens\<close>

record session_row =
  srID :: int
  srUserID :: int
  srPlatform :: string
  srManufacturer :: "string option"
  srModel :: "string option"
  srVersion :: "string option"
  srSDK :: "string option"
  srBrand :: "string option"
  srHardware :: "string option"
  srBoard :: "string option"
  srDevice :: "string option"
  srProduct :: "string option"
  srIsPhysicalDevice :: "bool option"
  srName :: "string option"
  srIdentifier :: "string option"
  srDeviceID :: string
  srLastActivity :: time
  srIPAddress :: "string option"
  srUserAgent :: "string option"
  srLocation :: "string option"
  srRevokedAt :: "time option"
  srRevokedReason :: "string option"
  srCreatedAt :: time

record device_session =
  dsID :: int
  dsUserID :: int
  dsPlatform :: string
  dsManufacturer :: string
  dsModel :: string
  dsVersion :: string
  dsSDK :: string
  dsBrand :: string
  dsHardware :: string
  dsBoard :: string
  dsDevice :: string
  dsProduct :: string
  dsIsPhysicalDevice :: bool
  dsName :: string
  dsIdentifier :: string
  dsDeviceID :: string
  dsLastActivity :: time
  dsIPAddress :: string
  dsUserAgent :: string
  dsLocation :: string
  dsRevokedAt :: "time option"
  dsRevokedReason :: string
  dsCreatedAt :: time
  dsUser :: "user option"  \<comment> \<open>\<open>None\<close>: the zero \<open>users.User\<close>, not loaded\<close>

definition ds_IsRevoked :: "device_session \<Rightarrow> bool" where
  "ds_IsRevoked ds = (case dsRevokedAt ds of None \<Rightarrow> False | Some t \<Rightarrow> t \<noteq> 0)"

definition ds_IsInactive :: "time \<Rightarrow> device_session \<Rightarrow> duration \<Rightarrow> bool" where
  "ds_IsInactive t ds timeout = (t - dsLastActivity ds > timeout)"

definition ds_IsValid :: "time \<Rightarrow> device_session \<Rightarrow> duration \<Rightarrow> bool" where
  "ds_IsValid t ds timeout = (\<not> ds_IsRevoked ds \<and> \<not> ds_IsInactive t ds timeout)"

text \<open>The id of a refresh token is a UUID the database draws; the model keeps the number of the draw.\<close>

record refresh_row =
  rrID :: int
  rrSessionID :: int
  rrTokenHash :: string
  rrTokenPrefix :: string
  rrTokenFamily :: string
  rrExpiresAt :: time
  rrRevokedAt :: "time option"
  rrRevokedReason :: "string option"
  rrCreatedAt :: time

record refresh_token =
  rtID :: int
  rtSessionID :: int
  rtTokenHash :: string
  rtTokenPrefix :: string
  rtTokenFamily :: string
  rtExpiresAt :: time
  rtRevokedAt :: "time option"
  rtRevokedReason :: string
  rtCreatedAt :: time
  rtSession :: "device_session option"

definition rt_IsRevoked :: "refresh_token \<Rightarrow> bool" where
  "rt_IsRevoked rt = (case rtRevokedAt rt of None \<Rightarrow> False | Some t \<Rightarrow> t \<noteq> 0)"

definition rt_IsExpired :: "time \<Rightarrow> refresh_token \<Rightarrow> bool" where
  "rt_IsExpired t rt = (rtExpiresAt rt < t)"

subsection \<open>Notifications\<close>

record fcm_token =
  ftID :: int
  ftUserID :: int
  ftDeviceID :: string
  ftToken :: string
  ftPlatform :: string
  ftAppVersion :: "string option"
  ftIsActive :: bool
  ftLastUsedAt :: "time option"
  ftCreatedAt :: time
  ftUpdatedAt :: time

text \<open>Quiet hours are SQL \<open>time\<close> columns: microseconds after midnight.\<close>

record prefs_row =
  prUserID :: int
  prPush :: bool
  prEmail :: bool
  prMarketing :: bool
  prQuietEnabled :: bool
  prQuietStart :: "int option"
  prQuietEnd :: "int option"
  prTimezone :: string
  prCreatedAt :: time
  prUpdatedAt :: time

record notif_prefs =
  npUserID :: int
  npPush :: bool
  npEmail :: bool
  npMarketing :: bool
  npQuietHoursEnabled :: bool
  npQuietHoursStart :: "string option"
  npQuietHoursEnd :: "string option"
  npTimezone :: string
  npCreatedAt :: time
  npUpdatedAt :: time

record notif_log =
  nlID :: int
  nlUserID :: "int option"
  nlEventType :: string
  nlEventID :: "string option"
  nlFCMTokenID :: "int option"
  nlStatus :: string
  nlErrorCode :: "string option"
  nlErrorMessage :: "string option"
  nlPayload :: "((string \<times> string) list \<times> string) option"  \<comment> \<open>the keys data and priority\<close>
  nlSentAt :: time
  nlClickedAt :: "time option"
  nlDismissedAt :: "time option"

record notif_template =
  tmID :: int
  tmEventType :: string
  tmIcon :: "string option"
  tmSound :: string
  tmPriority :: string
  tmAndroidChannelID :: "string option"
  tmAction :: "string option"
  tmCreatedAt :: time
  tmUpdatedAt :: time

record template_translation =
  ttID :: int
  ttTemplateID :: int
  ttLanguage :: string
  ttTitle :: string
  ttBody :: string
  ttCreatedAt :: time
  ttUpdatedAt :: time

subsection \<open>Events\<close>

record audit_log_written =
  alAdminID :: int
  alAction :: string
  alResource :: string
  alResourceID :: string
  alDetails :: "any_map option"
  alStatus :: string
  alIPAddress :: string
  alUserAgent :: string
  alRequestID :: string
  alOccurredAt :: time

record auth_attempt_recorded =
  aaEmail :: string
  aaUserID :: int
  aaChannel :: string
  aaOutcome :: string
  aaRemaining :: int
  aaIPAddress :: string
  aaUserAgent :: string
  aaDeviceID :: string
  aaRequestID :: string
  aaOccurredAt :: time

record user_account_deleted =
  udUserID :: int
  udAccountID :: int
  udRequestID :: string
  udOccurredAt :: time

datatype event = AuditLogWritten audit_log_written
  | AuthAttemptRecorded auth_attempt_recorded
  | UserAccountDeleted user_account_deleted

fun eventType :: "event \<Rightarrow> string" where
  "eventType (AuditLogWritten _) = ''admin.audit_log.written''"
| "eventType (AuthAttemptRecorded _) = ''auth.attempt.recorded''"
| "eventType (UserAccountDeleted _) = ''user.account.deleted''"

text \<open>\<open>None\<close>: the type does not implement \<open>Dedupable\<close>.\<close>

fun outboxDedupeKey :: "event \<Rightarrow> string option" where
  "outboxDedupeKey (AuditLogWritten e) = Some
     (if alRequestID e = [] then []
      else alRequestID e @ '':'' @ alAction e @ '':'' @ alResourceID e)"
| "outboxDedupeKey (AuthAttemptRecorded e) = Some
     (if aaRequestID e = [] then []
      else aaRequestID e @ '':'' @ aaChannel e @ '':'' @ aaOutcome e)"
| "outboxDedupeKey (UserAccountDeleted e) = None"

text \<open>The JSON of a payload column: the encoding of an event, or text that is no such encoding.\<close>

datatype payload = JEvent event | JText string

definition unmarshal_event :: "string \<Rightarrow> payload \<Rightarrow> goerr + event" where
  "unmarshal_event ty p =
     (case p of JEvent e \<Rightarrow> if eventType e = ty then Inr e else Inl (MsgE ''json: cannot unmarshal'')
      | JText _ \<Rightarrow> Inl (MsgE ''json: invalid character''))"

record outbox_row =
  obID :: int
  obEventType :: string
  obPayload :: payload
  obDedupeKey :: "string option"
  obCreatedAt :: time
  obProcessedAt :: "time option"
  obRetryCount :: nat
  obLastError :: "string option"
  obLastAttemptedAt :: "time option"

record dead_letter =
  dlSourceID :: int
  dlEventType :: string
  dlPayload :: payload
  dlReason :: string
  dlLastError :: "string option"

record audit_row =
  arAdminID :: int
  arAction :: string
  arResource :: string
  arResourceID :: "string option"
  arDetails :: "any_map option"
  arStatus :: string
  arRequestID :: "string option"

record attempt_row =
  atEmail :: string
  atUserID :: "int option"
  atChannel :: string
  atOutcome :: string
  atRemaining :: int
  atRequestID :: "string option"
  atCreatedAt :: time

subsection \<open>The database\<close>

record database =
  users :: "user list"
  userSettings :: "(int \<times> settings) list"
  suspensions :: "suspension list"
  sessions :: "session_row list"
  refreshTokens :: "refresh_row list"
  loginAttempts :: "attempt_row list"
  fcmTokens :: "fcm_token list"
  preferences :: "prefs_row list"
  notifLogs :: "notif_log list"
  notifTemplates :: "notif_template list"
  templateTranslations :: "template_translation list"
  outbox :: "outbox_row list"
  deadLetters :: "dead_letter list"
  auditLogs :: "audit_row list"

definition empty_db :: database where
  "empty_db = \<lparr>users = [], userSettings = [], suspensions = [], sessions = [], refreshTokens = [],
     loginAttempts = [], fcmTokens = [], preferences = [], notifLogs = [], notifTemplates = [],
     templateTranslations = [], outbox = [],
     deadLetters = [], auditLogs = []\<rparr>"

text \<open>The PostgreSQL role a process connects with: the gRPC server as \<open>app_api\<close>, the workers
  as \<open>app_worker\<close>. The row-level-security policies of the migrations depend on it.\<close>

datatype db_role = AppApi | AppWorker

subsection \<open>Request context\<close>

datatype role = RoleAnonymous | RoleUser | RoleAdmin

record subject =
  sbUserID :: int
  sbRole :: "role option"  \<comment> \<open>\<open>None\<close>: the empty string\<close>
  sbSessionID :: int
  sbDeviceID :: string
  sbIsAdmin :: bool

definition zero_subject :: subject where
  "zero_subject = \<lparr>sbUserID = 0, sbRole = None, sbSessionID = 0, sbDeviceID = [], sbIsAdmin = False\<rparr>"

definition subject_IsAnonymous :: "subject \<Rightarrow> bool" where
  "subject_IsAnonymous s = (sbUserID s = 0 \<and> \<not> sbIsAdmin s)"

definition subject_HasRole :: "subject \<Rightarrow> role \<Rightarrow> bool" where
  "subject_HasRole s r = (if sbIsAdmin s then True else sbRole s = Some r)"

text \<open>Incoming metadata is \<open>None\<close> when the context carries none.\<close>

record ctx =
  cxRequestID :: string
  cxLanguage :: string
  cxSubject :: subject
  cxInTx :: bool
  cxFromDrain :: bool
  cxMetadata :: "(string \<rightharpoonup> string list) option"
  cxPeer :: "string option"

definition background :: ctx where
  "background = \<lparr>cxRequestID = [], cxLanguage = [], cxSubject = zero_subject, cxInTx = False,
     cxFromDrain = False, cxMetadata = None, cxPeer = None\<rparr>"

subsection \<open>Tasks\<close>

record email =
  emType :: string
  emTo :: "string list"
  emSubject :: string
  emTemplateID :: string
  emTemplateData :: "(string \<times> string) list"
  emHTMLBody :: string
  emTextBody :: string
  emLanguage :: string
  emPriority :: string
  emScheduledAt :: "time option"
  emIdempotencyKey :: string
  emTags :: "(string \<times> string) list"
  emReplyTo :: string
  emCC :: "string list"
  emBCC :: "string list"
  emAttachments :: "(string \<times> string \<times> string) list"
  emHeaders :: "(string \<times> string) list"

record notif_event =
  neType :: string
  neUserID :: int
  neData :: "(string \<times> string) list"  \<comment> \<open>in the order a range over the map takes\<close>
  nePriority :: string
  neScheduledAt :: "time option"
  neIdempotencyKey :: string

datatype task_payload = TEnvelope string payload string \<comment> \<open>type, payload, request id\<close>
  | TEmail email | TEmails "email list" | TNotification notif_event | TText string

record asynq_task =
  tkType :: string
  tkQueue :: string
  tkID :: "string option"
  tkMaxRetry :: nat
  tkTimeout :: duration
  tkUnique :: "duration option"
  tkProcessAt :: "time option"
  tkBody :: task_payload

datatype enqueue_reply = EnqOK | EnqDuplicate | EnqFails

subsection \<open>The world\<close>

text \<open>
  \<open>dbFaults\<close>, \<open>redisFaults\<close> and \<open>mqReplies\<close> schedule the failures of the services: the head
  decides the next call, and an exhausted schedule means no more failures. A theorem that puts
  no assumption on them holds for every pattern of failures. \<open>draws\<close> numbers the calls to the
  random source. \<open>busKick\<close>, \<open>busFailures\<close> and \<open>busOpenedAt\<close> are the fields
  \<open>drainKick\<close> (a channel of capacity one), \<open>drainBreakerFailures\<close> and
  \<open>drainBreakerOpenedAt\<close> of \<open>event.Bus\<close>. \<open>rpcInFlight\<close>, \<open>rpcTotals\<close> and \<open>rpcLogs\<close> are what
  the interceptors record: the in-flight gauge, the counted calls with their codes, and the log
  lines with their severity. \<open>gauges\<close> holds the other Prometheus gauges by name and label values;
  one that counts seconds is kept as a duration.
\<close>

record 'r world =
  now :: time
  db :: database
  nextID :: int
  txAborted :: bool
  gucs :: "string \<times> string"
  dbRole :: db_role
  dbFaults :: "bool list"
  redis :: 'r
  redisFaults :: "bool list"
  draws :: nat
  mq :: "asynq_task list"
  mqReplies :: "enqueue_reply list"
  busKick :: bool
  busFailures :: nat
  busOpenedAt :: time
  rpcInFlight :: int
  rpcTotals :: "(string \<times> gcode) list"
  rpcLogs :: "(string \<times> gcode \<times> bool) list"
  gauges :: "string \<times> string list \<Rightarrow> int"

type_synonym ('r, 'a) proc = "('r world, 'a) state"
type_synonym ('r, 'a) call = "('r world, goerr + 'a) state"

lemma unmarshal_marshal [simp]: "unmarshal_event (eventType e) (JEvent e) = Inr e"
  by (simp add: unmarshal_event_def)

lemma ds_valid_not_revoked: "ds_IsValid t ds d \<Longrightarrow> \<not> ds_IsRevoked ds"
  by (simp add: ds_IsValid_def)

end
