(* ===== verification/Sql_Queries.thy ===== *)
theory Sql_Queries
  imports World_State
begin

section \<open>The SQL queries\<close>

text \<open>
  The statements of \<open>internal/store/query/*.sql\<close>, each as a function on the tables, with the
  constraints, triggers and policies of \<open>migrations/*.up.sql\<close> that can make it fail or that
  hide rows from the connecting role: unique indexes, CHECK constraints, VARCHAR lengths, the
  append-only trigger of \<open>auth.login_attempts\<close> and row-level security. A query gets the role,
  the transaction's time \<open>now()\<close> and the next value of the BIGSERIAL sequences (one sequence
  serves every table), and returns its result and the new tables, or an error. \<open>NoRows\<close> is
  pgx's \<open>ErrNoRows\<close> of a \<open>:one\<close> statement. Rows are kept in insertion order.
\<close>

type_synonym 'a query = "db_role \<Rightarrow> time \<Rightarrow> int \<Rightarrow> database \<Rightarrow> goerr + ('a \<times> database)"

definition upd_where :: "('a \<Rightarrow> bool) \<Rightarrow> ('a \<Rightarrow> 'a) \<Rightarrow> 'a list \<Rightarrow> 'a list" where
  "upd_where P f xs = map (\<lambda>x. if P x then f x else x) xs"

definition first_row :: "'a list \<Rightarrow> database \<Rightarrow> goerr + ('a \<times> database)" where
  "first_row xs d = (case xs of [] \<Rightarrow> Inl NoRows | x # _ \<Rightarrow> Inr (x, d))"

definition too_long :: "nat \<Rightarrow> string \<Rightarrow> bool" where
  "too_long n s = (length s > n)"

text \<open>\<open>citext\<close> columns compare without regard to case.\<close>

definition citext_eq :: "string \<Rightarrow> string \<Rightarrow> bool" where
  "citext_eq a b = (to_lower a = to_lower b)"

text \<open>A stable sort by a key, newest (largest) first: \<open>ORDER BY key DESC\<close>.\<close>

definition order_desc :: "('a \<Rightarrow> int) \<Rightarrow> 'a list \<Rightarrow> 'a list" where
  "order_desc key xs = sort_key (\<lambda>x. - key x) xs"

subsection \<open>Users\<close>

definition live_user :: "user \<Rightarrow> bool" where "live_user u = (uDeletedAt u = None)"

text \<open>The foreign keys to \<open>auth.users\<close>; a soft-deleted row still exists.\<close>

definition has_user :: "int \<Rightarrow> database \<Rightarrow> bool" where
  "has_user i d = list_ex (\<lambda>u. uID u = i) (users d)"

definition GetUserByID :: "int \<Rightarrow> user query" where
  "GetUserByID i rl t n d = first_row (filter (\<lambda>u. uID u = i \<and> live_user u) (users d)) d"

definition GetUserByEmail :: "string \<Rightarrow> user query" where
  "GetUserByEmail e rl t n d =
     first_row (filter (\<lambda>u. citext_eq (uEmail u) e \<and> live_user u) (users d)) d"

definition ExistsUserByEmail :: "string \<Rightarrow> bool query" where
  "ExistsUserByEmail e rl t n d =
     Inr (list_ex (\<lambda>u. citext_eq (uEmail u) e \<and> live_user u) (users d), d)"

definition CreateUser :: "string \<Rightarrow> string \<Rightarrow> string \<Rightarrow> string \<Rightarrow> user query" where
  "CreateUser e h fn ln rl t n d =
     (if too_long 80 fn \<or> too_long 80 ln then Inl (PgE (CheckViolation ''varchar''))
      else if list_ex (\<lambda>u. citext_eq (uEmail u) e \<and> live_user u) (users d)
        then Inl (PgE (UniqueViolation ''idx_users_email_active''))
      else let u = \<lparr>uID = n, uEmail = e, uPasswordHash = h, uFirstName = fn, uLastName = ln,
             uAvatar = [], uBio = [], uStatus = StActive, uRole = RoUser, uEmailVerifiedAt = None,
             uLastLoginAt = None, uCreatedAt = t, uUpdatedAt = t, uDeletedAt = None\<rparr>
           in Inr (u, d\<lparr>users := users d @ [u]\<rparr>))"

definition UpdateUserLastLogin :: "int \<Rightarrow> unit query" where
  "UpdateUserLastLogin i rl t n d =
     Inr ((), d\<lparr>users := upd_where (\<lambda>u. uID u = i) (\<lambda>u. u\<lparr>uLastLoginAt := Some t, uUpdatedAt := t\<rparr>) (users d)\<rparr>)"

definition UpdateUserPasswordHash :: "int \<Rightarrow> string \<Rightarrow> unit query" where
  "UpdateUserPasswordHash i h rl t n d =
     Inr ((), d\<lparr>users := upd_where (\<lambda>u. uID u = i) (\<lambda>u. u\<lparr>uPasswordHash := h, uUpdatedAt := t\<rparr>) (users d)\<rparr>)"

definition MarkUserEmailVerified :: "int \<Rightarrow> unit query" where
  "MarkUserEmailVerified i rl t n d =
     Inr ((), d\<lparr>users := upd_where (\<lambda>u. uID u = i) (\<lambda>u. u\<lparr>uEmailVerifiedAt := Some t, uUpdatedAt := t\<rparr>) (users d)\<rparr>)"

record profile_update =
  puFirstName :: "string option"
  puLastName :: "string option"
  puBio :: "string option"
  puAvatar :: "string option"

definition coalesce :: "'a option \<Rightarrow> 'a \<Rightarrow> 'a" where
  "coalesce a b = (case a of None \<Rightarrow> b | Some x \<Rightarrow> x)"

definition apply_profile :: "profile_update \<Rightarrow> time \<Rightarrow> user \<Rightarrow> user" where
  "apply_profile p t u =
     u\<lparr>uFirstName := coalesce (puFirstName p) (uFirstName u), uLastName := coalesce (puLastName p) (uLastName u),
       uAvatar := coalesce (puAvatar p) (uAvatar u), uBio := coalesce (puBio p) (uBio u), uUpdatedAt := t\<rparr>"

definition profile_fits :: "user \<Rightarrow> bool" where
  "profile_fits u = (\<not> too_long 80 (uFirstName u) \<and> \<not> too_long 80 (uLastName u)
     \<and> \<not> too_long 255 (uAvatar u) \<and> \<not> too_long 500 (uBio u))"

definition UpdateUserProfile :: "int \<Rightarrow> profile_update \<Rightarrow> user query" where
  "UpdateUserProfile i p rl t n d =
     (case filter (\<lambda>u. uID u = i \<and> live_user u) (users d) of
        [] \<Rightarrow> Inl NoRows
      | u # _ \<Rightarrow>
          if \<not> profile_fits (apply_profile p t u) then Inl (PgE (CheckViolation ''varchar''))
          else Inr (apply_profile p t u,
                 d\<lparr>users := upd_where (\<lambda>u. uID u = i \<and> live_user u) (apply_profile p t) (users d)\<rparr>))"

definition UpdateUserStatus :: "int \<Rightarrow> user_status \<Rightarrow> unit query" where
  "UpdateUserStatus i st rl t n d =
     Inr ((), d\<lparr>users := upd_where (\<lambda>u. uID u = i) (\<lambda>u. u\<lparr>uStatus := st, uUpdatedAt := t\<rparr>) (users d)\<rparr>)"

definition UpdateUserRole :: "int \<Rightarrow> user_role \<Rightarrow> unit query" where
  "UpdateUserRole i ro rl t n d =
     Inr ((), d\<lparr>users := upd_where (\<lambda>u. uID u = i) (\<lambda>u. u\<lparr>uRole := ro, uUpdatedAt := t\<rparr>) (users d)\<rparr>)"

definition SoftDeleteUser :: "int \<Rightarrow> unit query" where
  "SoftDeleteUser i rl t n d =
     Inr ((), d\<lparr>users := upd_where (\<lambda>u. uID u = i \<and> live_user u)
       (\<lambda>u. u\<lparr>uDeletedAt := Some t, uUpdatedAt := t\<rparr>) (users d)\<rparr>)"

definition CountUsers :: "nat query" where
  "CountUsers rl t n d = Inr (length (filter live_user (users d)), d)"

definition ListUsers :: "nat \<Rightarrow> nat \<Rightarrow> user list query" where
  "ListUsers lim off rl t n d =
     Inr (take lim (drop off (order_desc uCreatedAt (filter live_user (users d)))), d)"

subsection \<open>User settings\<close>

definition GetUserSettings :: "int \<Rightarrow> settings query" where
  "GetUserSettings i rl t n d = first_row (map snd (filter (\<lambda>r. fst r = i) (userSettings d))) d"

definition CreateUserSettings :: "int \<Rightarrow> settings \<Rightarrow> unit query" where
  "CreateUserSettings i s rl t n d =
     (if list_ex (\<lambda>r. fst r = i) (userSettings d) then Inl (PgE (UniqueViolation ''user_settings_pkey''))
      else if \<not> has_user i d then Inl (PgE (ForeignKeyViolation ''user_settings''))
      else Inr ((), d\<lparr>userSettings := userSettings d @ [(i, s)]\<rparr>))"

definition UpdateUserSettings :: "int \<Rightarrow> settings \<Rightarrow> unit query" where
  "UpdateUserSettings i s rl t n d =
     Inr ((), d\<lparr>userSettings := upd_where (\<lambda>r. fst r = i) (\<lambda>r. (i, s)) (userSettings d)\<rparr>)"

subsection \<open>Suspensions\<close>

text \<open>
  \<open>auth.account_suspensions\<close> has a SELECT policy for \<open>app_api\<close> and full access for
  \<open>app_worker\<close> only: an INSERT as \<open>app_api\<close> is refused and an UPDATE sees no row.
\<close>

definition suspension_active :: "time \<Rightarrow> suspension \<Rightarrow> bool" where
  "suspension_active t s = (susIsPermanent s \<or> (\<exists>u. susSuspendedUntil s = Some u \<and> t < u))"

lemma suspension_active_code [code]:
  "suspension_active t s = (susIsPermanent s \<or>
     (case susSuspendedUntil s of None \<Rightarrow> False | Some u \<Rightarrow> t < u))"
  by (auto simp: suspension_active_def split: option.split)

definition GetActiveSuspensionByUserID :: "int \<Rightarrow> suspension query" where
  "GetActiveSuspensionByUserID i rl t n d =
     first_row (order_desc susCreatedAt
       (filter (\<lambda>s. susUserID s = i \<and> suspension_active t s) (suspensions d))) d"

definition suspension_reasons :: "string list" where
  "suspension_reasons = [''terms_violation'', ''fraudulent_activity'', ''harassment'', ''spam'',
     ''security_breach'', ''legal_request'', ''other'']"

definition CreateSuspension ::
  "int \<Rightarrow> string \<Rightarrow> string option \<Rightarrow> time option \<Rightarrow> bool \<Rightarrow> suspension query" where
  "CreateSuspension i reason details until perm rl t n d =
     (if rl = AppApi then Inl (PgE (RlsDenied ''account_suspensions''))
      else if reason \<notin> set suspension_reasons then Inl (PgE (CheckViolation ''suspension_reason''))
      else if \<not> has_user i d then Inl (PgE (ForeignKeyViolation ''account_suspensions''))
      else let s = \<lparr>susID = n, susUserID = i, susReason = reason, susDetails = details,
             susSuspendedAt = t, susSuspendedUntil = until, susIsPermanent = perm, susCreatedAt = t,
             susUpdatedAt = t\<rparr>
           in Inr (s, d\<lparr>suspensions := suspensions d @ [s]\<rparr>))"

definition DeactivateActiveSuspensions :: "int \<Rightarrow> unit query" where
  "DeactivateActiveSuspensions i rl t n d =
     (if rl = AppApi then Inr ((), d)
      else Inr ((), d\<lparr>suspensions := upd_where (\<lambda>s. susUserID s = i \<and> suspension_active t s)
             (\<lambda>s. s\<lparr>susIsPermanent := False, susSuspendedUntil := Some t, susUpdatedAt := t\<rparr>) (suspensions d)\<rparr>))"

subsection \<open>Device sessions\<close>

definition active_row :: "session_row \<Rightarrow> bool" where "active_row r = (srRevokedAt r = None)"

definition opt_too_long :: "nat \<Rightarrow> string option \<Rightarrow> bool" where
  "opt_too_long n s = (case s of None \<Rightarrow> False | Some x \<Rightarrow> too_long n x)"

record new_session =
  nsUserID :: int
  nsPlatform :: string
  nsManufacturer :: "string option"
  nsModel :: "string option"
  nsDeviceID :: string
  nsName :: "string option"
  nsIPAddress :: "string option"
  nsUserAgent :: "string option"

definition session_fits :: "new_session \<Rightarrow> bool" where
  "session_fits p = (\<not> too_long 50 (nsPlatform p) \<and> \<not> opt_too_long 100 (nsManufacturer p)
     \<and> \<not> opt_too_long 100 (nsModel p) \<and> \<not> too_long 36 (nsDeviceID p) \<and> \<not> opt_too_long 100 (nsName p)
     \<and> \<not> opt_too_long 45 (nsIPAddress p) \<and> \<not> opt_too_long 255 (nsUserAgent p))"

definition session_of :: "new_session \<Rightarrow> time \<Rightarrow> int \<Rightarrow> session_row" where
  "session_of p t n = \<lparr>srID = n, srUserID = nsUserID p, srPlatform = nsPlatform p,
     srManufacturer = nsManufacturer p, srModel = nsModel p, srVersion = None, srSDK = None,
     srBrand = None, srHardware = None, srBoard = None, srDevice = None, srProduct = None,
     srIsPhysicalDevice = Some True, srName = nsName p, srIdentifier = None, srDeviceID = nsDeviceID p, srLastActivity = t, srIPAddress = nsIPAddress p,
     srUserAgent = nsUserAgent p, srLocation = None, srRevokedAt = None, srRevokedReason = None, srCreatedAt = t\<rparr>"

text \<open>\<open>idx_unique_active_device_id\<close>: one active row per device id.\<close>

definition CreateDeviceSession :: "new_session \<Rightarrow> session_row query" where
  "CreateDeviceSession p rl t n d =
     (if \<not> session_fits p then Inl (PgE (CheckViolation ''varchar''))
      else if list_ex (\<lambda>r. active_row r \<and> srDeviceID r = nsDeviceID p) (sessions d)
        then Inl (PgE (UniqueViolation ''idx_unique_active_device_id''))
      else if \<not> has_user (nsUserID p) d then Inl (PgE (ForeignKeyViolation ''device_sessions''))
      else Inr (session_of p t n, d\<lparr>sessions := sessions d @ [session_of p t n]\<rparr>))"

definition GetDeviceSessionByID :: "int \<Rightarrow> session_row query" where
  "GetDeviceSessionByID i rl t n d = first_row (filter (\<lambda>r. srID r = i) (sessions d)) d"

definition GetActiveDeviceSessionByUserAndDevice :: "int \<Rightarrow> string \<Rightarrow> session_row query" where
  "GetActiveDeviceSessionByUserAndDevice i dev rl t n d =
     first_row (filter (\<lambda>r. srUserID r = i \<and> srDeviceID r = dev \<and> active_row r) (sessions d)) d"

definition revoke_row :: "time \<Rightarrow> string \<Rightarrow> session_row \<Rightarrow> session_row" where
  "revoke_row t reason r = r\<lparr>srRevokedAt := Some t, srRevokedReason := Some reason\<rparr>"

definition RevokeDeviceSession :: "int \<Rightarrow> string \<Rightarrow> session_row query" where
  "RevokeDeviceSession i reason rl t n d =
     (case filter (\<lambda>r. srID r = i \<and> active_row r) (sessions d) of
        [] \<Rightarrow> Inl NoRows
      | r # _ \<Rightarrow> Inr (revoke_row t reason r,
          d\<lparr>sessions := upd_where (\<lambda>r. srID r = i \<and> active_row r) (revoke_row t reason) (sessions d)\<rparr>))"

definition UpdateDeviceSessionActivity :: "int \<Rightarrow> unit query" where
  "UpdateDeviceSessionActivity i rl t n d =
     Inr ((), d\<lparr>sessions := upd_where (\<lambda>r. srID r = i \<and> active_row r) (\<lambda>r. r\<lparr>srLastActivity := t\<rparr>) (sessions d)\<rparr>)"

definition active_devices :: "int \<Rightarrow> time \<Rightarrow> session_row list \<Rightarrow> session_row list" where
  "active_devices i thr rs =
     order_desc srLastActivity (filter (\<lambda>r. srUserID r = i \<and> active_row r \<and> srLastActivity r > thr) rs)"

definition ListActiveDevicesByUser :: "int \<Rightarrow> time \<Rightarrow> session_row list query" where
  "ListActiveDevicesByUser i thr rl t n d = Inr (active_devices i thr (sessions d), d)"

definition RevokeAllDeviceSessionsByUser :: "int \<Rightarrow> string \<Rightarrow> unit query" where
  "RevokeAllDeviceSessionsByUser i reason rl t n d =
     Inr ((), d\<lparr>sessions := upd_where (\<lambda>r. srUserID r = i \<and> active_row r) (revoke_row t reason) (sessions d)\<rparr>)"

definition RevokeActiveDeviceSessionsByDeviceID :: "string \<Rightarrow> string \<Rightarrow> unit query" where
  "RevokeActiveDeviceSessionsByDeviceID dev reason rl t n d =
     Inr ((), d\<lparr>sessions := upd_where (\<lambda>r. srDeviceID r = dev \<and> active_row r) (revoke_row t reason) (sessions d)\<rparr>)"

subsection \<open>Refresh tokens\<close>

definition live_token :: "refresh_row \<Rightarrow> bool" where "live_token r = (rrRevokedAt r = None)"

text \<open>A UUID column holds the canonical text of the UUID; \<open>None\<close> is the NULL that an unparsable
  text becomes, refused by NOT NULL on insert and equal to no row in a comparison.\<close>

definition CreateRefreshToken ::
  "int \<Rightarrow> string \<Rightarrow> string \<Rightarrow> string option \<Rightarrow> time \<Rightarrow> refresh_row query" where
  "CreateRefreshToken sid h prefix fam expires rl t n d =
     (case fam of None \<Rightarrow> Inl (PgE (CheckViolation ''token_family not null''))
      | Some family \<Rightarrow>
      if too_long 64 h \<or> too_long 8 prefix then Inl (PgE (CheckViolation ''varchar''))
      else if list_ex (\<lambda>r. rrTokenHash r = h) (refreshTokens d)
        then Inl (PgE (UniqueViolation ''refresh_tokens_token_hash_key''))
      else if \<not> list_ex (\<lambda>s. srID s = sid) (sessions d)
        then Inl (PgE (ForeignKeyViolation ''refresh_tokens''))
      else let r = \<lparr>rrID = n, rrSessionID = sid, rrTokenHash = h, rrTokenPrefix = prefix,
             rrTokenFamily = family, rrExpiresAt = expires, rrRevokedAt = None,
             rrRevokedReason = None, rrCreatedAt = t\<rparr>
           in Inr (r, d\<lparr>refreshTokens := refreshTokens d @ [r]\<rparr>))"

definition ListRefreshTokensByPrefix :: "string \<Rightarrow> refresh_row list query" where
  "ListRefreshTokensByPrefix p rl t n d = Inr (filter (\<lambda>r. rrTokenPrefix r = p) (refreshTokens d), d)"

definition revoke_token :: "time \<Rightarrow> string \<Rightarrow> refresh_row \<Rightarrow> refresh_row" where
  "revoke_token t reason r = r\<lparr>rrRevokedAt := Some t, rrRevokedReason := Some reason\<rparr>"

definition RevokeRefreshTokenByHash :: "string \<Rightarrow> string \<Rightarrow> unit query" where
  "RevokeRefreshTokenByHash h reason rl t n d =
     Inr ((), d\<lparr>refreshTokens := upd_where (\<lambda>r. rrTokenHash r = h \<and> live_token r) (revoke_token t reason) (refreshTokens d)\<rparr>)"

definition RevokeRefreshTokensBySession :: "int \<Rightarrow> string \<Rightarrow> unit query" where
  "RevokeRefreshTokensBySession i reason rl t n d =
     Inr ((), d\<lparr>refreshTokens := upd_where (\<lambda>r. rrSessionID r = i \<and> live_token r) (revoke_token t reason) (refreshTokens d)\<rparr>)"

definition RevokeRefreshTokensByFamily :: "string option \<Rightarrow> string \<Rightarrow> unit query" where
  "RevokeRefreshTokensByFamily fam reason rl t n d =
     Inr ((), d\<lparr>refreshTokens := upd_where (\<lambda>r. Some (rrTokenFamily r) = fam \<and> live_token r) (revoke_token t reason) (refreshTokens d)\<rparr>)"

definition DeleteExpiredRefreshTokens :: "nat query" where
  "DeleteExpiredRefreshTokens rl t n d =
     (let gone = (\<lambda>r. rrExpiresAt r < t \<and> live_token r)
      in Inr (length (filter gone (refreshTokens d)),
              d\<lparr>refreshTokens := filter (\<lambda>r. \<not> gone r) (refreshTokens d)\<rparr>))"

definition stale_token :: "time \<Rightarrow> refresh_row \<Rightarrow> bool" where
  "stale_token cutoff r = (rrExpiresAt r < cutoff \<or>
     (case rrRevokedAt r of None \<Rightarrow> False | Some t \<Rightarrow> t < cutoff))"

definition DeleteStaleRefreshTokens :: "time \<Rightarrow> nat query" where
  "DeleteStaleRefreshTokens cutoff rl t n d =
     Inr (length (filter (stale_token cutoff) (refreshTokens d)),
          d\<lparr>refreshTokens := filter (\<lambda>r. \<not> stale_token cutoff r) (refreshTokens d)\<rparr>)"

subsection \<open>Login attempts and audit log\<close>

definition attempt_outcomes :: "string list" where
  "attempt_outcomes = [''success'', ''wrong_password'', ''not_found'', ''rate_limited'', ''blocked'']"

definition attempt_channels :: "string list" where
  "attempt_channels = [''login'', ''refresh'', ''password_reset'']"

definition CreateLoginAttempt ::
  "string \<Rightarrow> int option \<Rightarrow> string \<Rightarrow> string \<Rightarrow> int \<Rightarrow> string option \<Rightarrow> unit query" where
  "CreateLoginAttempt e uid channel outcome remaining rid rl t n d =
     (if channel \<notin> set attempt_channels then Inl (PgE (CheckViolation ''login_attempts_channel_check''))
      else if outcome \<notin> set attempt_outcomes then Inl (PgE (CheckViolation ''login_attempts_outcome_check''))
      else if remaining < 0 then Inl (PgE (CheckViolation ''login_attempts_remaining_check''))
      else Inr ((), d\<lparr>loginAttempts := loginAttempts d @ [\<lparr>atEmail = e, atUserID = uid, atChannel = channel,
             atOutcome = outcome, atRemaining = remaining, atRequestID = rid, atCreatedAt = t\<rparr>]\<rparr>))"

text \<open>The trigger \<open>prevent_login_attempts_delete\<close> raises for every row a DELETE selects.\<close>

definition DeleteLoginAttemptsBefore :: "time \<Rightarrow> nat query" where
  "DeleteLoginAttemptsBefore cutoff rl t n d =
     (if list_ex (\<lambda>a. atCreatedAt a < cutoff) (loginAttempts d)
      then Inl (PgE (RaisedByTrigger ''auth.login_attempts is append-only''))
      else Inr (0, d))"

definition CreateAuditLog :: "audit_row \<Rightarrow> unit query" where
  "CreateAuditLog a rl t n d = Inr ((), d\<lparr>auditLogs := auditLogs d @ [a]\<rparr>)"

subsection \<open>The outbox\<close>

definition pending_row :: "outbox_row \<Rightarrow> bool" where "pending_row r = (obProcessedAt r = None)"

definition new_outbox_row :: "string \<Rightarrow> payload \<Rightarrow> string option \<Rightarrow> time \<Rightarrow> int \<Rightarrow> outbox_row" where
  "new_outbox_row ty p key t n = \<lparr>obID = n, obEventType = ty, obPayload = p, obDedupeKey = key,
     obCreatedAt = t, obProcessedAt = None, obRetryCount = 0, obLastError = None, obLastAttemptedAt = None\<rparr>"

text \<open>\<open>ux_outbox_pending_dedupe\<close>: no two pending rows with the same type and (non-NULL) key.\<close>

definition InsertOutbox :: "string \<Rightarrow> payload \<Rightarrow> string option \<Rightarrow> int query" where
  "InsertOutbox ty p key rl t n d =
     (if key \<noteq> None \<and> list_ex (\<lambda>r. pending_row r \<and> obEventType r = ty \<and> obDedupeKey r = key) (outbox d)
      then Inl (PgE (UniqueViolation ''ux_outbox_pending_dedupe''))
      else Inr (n, d\<lparr>outbox := outbox d @ [new_outbox_row ty p key t n]\<rparr>))"

definition mark_processed :: "time \<Rightarrow> outbox_row \<Rightarrow> outbox_row" where
  "mark_processed t r = r\<lparr>obProcessedAt := Some t\<rparr>"

definition MarkOutboxProcessed :: "int \<Rightarrow> unit query" where
  "MarkOutboxProcessed i rl t n d =
     Inr ((), d\<lparr>outbox := upd_where (\<lambda>r. obID r = i) (mark_processed t) (outbox d)\<rparr>)"

definition mark_failed :: "time \<Rightarrow> string \<Rightarrow> outbox_row \<Rightarrow> outbox_row" where
  "mark_failed t msg r = r\<lparr>obRetryCount := obRetryCount r + 1, obLastError := Some msg, obLastAttemptedAt := Some t\<rparr>"

definition MarkOutboxFailed :: "int \<Rightarrow> string \<Rightarrow> unit query" where
  "MarkOutboxFailed i msg rl t n d =
     Inr ((), d\<lparr>outbox := upd_where (\<lambda>r. obID r = i) (mark_failed t msg) (outbox d)\<rparr>)"

definition InsertOutboxDeadLetter :: "dead_letter \<Rightarrow> unit query" where
  "InsertOutboxDeadLetter l rl t n d =
     (if rl = AppApi then Inl (PgE (RlsDenied ''outbox_dead_letter''))
      else Inr ((), d\<lparr>deadLetters := deadLetters d @ [l]\<rparr>))"

definition backoff_elapsed :: "time \<Rightarrow> outbox_row \<Rightarrow> bool" where
  "backoff_elapsed t r =
     (case obLastAttemptedAt r of None \<Rightarrow> True
      | Some a \<Rightarrow>
          (obRetryCount r = 1 \<and> a < t - 30 * second) \<or>
          (obRetryCount r = 2 \<and> a < t - 2 * minute) \<or>
          (obRetryCount r = 3 \<and> a < t - 10 * minute) \<or>
          (obRetryCount r = 4 \<and> a < t - 30 * minute) \<or>
          (obRetryCount r \<ge> 5 \<and> a < t - hour))"

text \<open>\<open>NULLS FIRST\<close>: rows never attempted sort before every attempted one. Row locks taken by
  concurrent drains (\<open>SKIP LOCKED\<close>) are not part of a single drain's view.\<close>

definition attempt_key :: "outbox_row \<Rightarrow> int list" where
  "attempt_key r = (case obLastAttemptedAt r of None \<Rightarrow> [] | Some a \<Rightarrow> [a])"

definition pending_batch :: "nat \<Rightarrow> nat \<Rightarrow> time \<Rightarrow> outbox_row list \<Rightarrow> outbox_row list" where
  "pending_batch maxRetry lim t rs =
     take lim (sort_key attempt_key (sort_key obID
       (filter (\<lambda>r. pending_row r \<and> obRetryCount r < maxRetry \<and> backoff_elapsed t r) rs)))"

definition PendingOutboxBatch :: "nat \<Rightarrow> nat \<Rightarrow> outbox_row list query" where
  "PendingOutboxBatch maxRetry lim rl t n d = Inr (pending_batch maxRetry lim t (outbox d), d)"

definition DeleteProcessedOutboxBefore :: "time \<Rightarrow> nat query" where
  "DeleteProcessedOutboxBefore cutoff rl t n d =
     (let gone = (\<lambda>r. case obProcessedAt r of None \<Rightarrow> False | Some p \<Rightarrow> p < cutoff)
      in Inr (length (filter gone (outbox d)), d\<lparr>outbox := filter (\<lambda>r. \<not> gone r) (outbox d)\<rparr>))"

subsection \<open>Push tokens, preferences and logs\<close>

text \<open>The trigger \<open>update_fcm_token_last_used\<close> on every update of an active row.\<close>

definition bump_last_used :: "time \<Rightarrow> time option \<Rightarrow> time option" where
  "bump_last_used t l = (case l of None \<Rightarrow> Some t | Some x \<Rightarrow> if x < t - hour then Some t else l)"

definition UpsertFCMToken :: "int \<Rightarrow> string \<Rightarrow> string \<Rightarrow> string \<Rightarrow> string option \<Rightarrow> fcm_token query" where
  "UpsertFCMToken uid dev tok plat ver rl t n d =
     (if too_long 255 dev \<or> opt_too_long 50 ver then Inl (PgE (CheckViolation ''varchar''))
      else if plat \<notin> {''android'', ''ios'', ''web''} then Inl (PgE (CheckViolation ''notification_platform''))
      else if \<not> has_user uid d then Inl (PgE (ForeignKeyViolation ''fcm_tokens''))
      else let match = (\<lambda>f. ftUserID f = uid \<and> ftDeviceID f = dev);
          upd = (\<lambda>f. f\<lparr>ftToken := tok, ftPlatform := plat, ftAppVersion := ver, ftIsActive := True,
                  ftLastUsedAt := bump_last_used t (ftLastUsedAt f), ftUpdatedAt := t\<rparr>)
      in case filter match (fcmTokens d) of
           f # _ \<Rightarrow> Inr (upd f, d\<lparr>fcmTokens := upd_where match upd (fcmTokens d)\<rparr>)
         | [] \<Rightarrow> let f = \<lparr>ftID = n, ftUserID = uid, ftDeviceID = dev, ftToken = tok, ftPlatform = plat,
                   ftAppVersion = ver, ftIsActive = True, ftLastUsedAt = None, ftCreatedAt = t, ftUpdatedAt = t\<rparr>
                 in Inr (f, d\<lparr>fcmTokens := fcmTokens d @ [f]\<rparr>))"

text \<open>Rows are in insertion order, so the newest come first in the reversed list.\<close>

definition ListFCMTokensByUserID :: "int \<Rightarrow> fcm_token list query" where
  "ListFCMTokensByUserID uid rl t n d = Inr (rev (filter (\<lambda>f. ftUserID f = uid) (fcmTokens d)), d)"

definition GetFCMTokenByUserAndDevice :: "int \<Rightarrow> string \<Rightarrow> fcm_token query" where
  "GetFCMTokenByUserAndDevice uid dev rl t n d =
     first_row (filter (\<lambda>f. ftUserID f = uid \<and> ftDeviceID f = dev) (fcmTokens d)) d"

definition ListActiveFCMTokensByUserID :: "int \<Rightarrow> fcm_token list query" where
  "ListActiveFCMTokensByUserID uid rl t n d =
     Inr (filter (\<lambda>f. ftUserID f = uid \<and> ftIsActive f) (fcmTokens d), d)"

definition DeleteFCMTokenByDevice :: "int \<Rightarrow> string \<Rightarrow> unit query" where
  "DeleteFCMTokenByDevice uid dev rl t n d =
     Inr ((), d\<lparr>fcmTokens := filter (\<lambda>f. \<not> (ftUserID f = uid \<and> ftDeviceID f = dev)) (fcmTokens d)\<rparr>)"

definition DeactivateFCMToken :: "int \<Rightarrow> unit query" where
  "DeactivateFCMToken i rl t n d =
     Inr ((), d\<lparr>fcmTokens := upd_where (\<lambda>f. ftID f = i) (\<lambda>f. f\<lparr>ftIsActive := False, ftUpdatedAt := t\<rparr>) (fcmTokens d)\<rparr>)"

definition TouchFCMTokenLastUsed :: "int \<Rightarrow> unit query" where
  "TouchFCMTokenLastUsed i rl t n d =
     Inr ((), d\<lparr>fcmTokens := upd_where (\<lambda>f. ftID f = i) (\<lambda>f. f\<lparr>ftLastUsedAt := Some t, ftUpdatedAt := t\<rparr>) (fcmTokens d)\<rparr>)"

definition GetNotificationPreferences :: "int \<Rightarrow> prefs_row query" where
  "GetNotificationPreferences uid rl t n d = first_row (filter (\<lambda>p. prUserID p = uid) (preferences d)) d"

text \<open>A \<open>time\<close> value outside 00:00:00 to 24:00:00 is refused by the server.\<close>

definition time_col_ok :: "int option \<Rightarrow> bool" where
  "time_col_ok v = (case v of None \<Rightarrow> True | Some m \<Rightarrow> 0 \<le> m \<and> m \<le> 86400000000)"

text \<open>The column types and the trigger \<open>validate_quiet_hours\<close>.\<close>

definition prefs_refused :: "prefs_row \<Rightarrow> goerr option" where
  "prefs_refused p =
     (if \<not> (time_col_ok (prQuietStart p) \<and> time_col_ok (prQuietEnd p)) then Some (PgE (CheckViolation ''time''))
      else if too_long 50 (prTimezone p) then Some (PgE (CheckViolation ''varchar''))
      else if prQuietEnabled p \<and> (prQuietStart p = None \<or> prQuietEnd p = None)
        then Some (PgE (RaisedByTrigger ''quiet_hours_start and quiet_hours_end are required when quiet hours are enabled''))
      else None)"

definition CreateNotificationPreferences :: "prefs_row \<Rightarrow> prefs_row query" where
  "CreateNotificationPreferences p rl t n d =
     (case prefs_refused p of Some e \<Rightarrow> Inl e | None \<Rightarrow>
      if list_ex (\<lambda>q. prUserID q = prUserID p) (preferences d)
        then Inl (PgE (UniqueViolation ''notification_preferences_pkey''))
      else if \<not> has_user (prUserID p) d then Inl (PgE (ForeignKeyViolation ''notification_preferences''))
      else let r = p\<lparr>prCreatedAt := t, prUpdatedAt := t\<rparr>
           in Inr (r, d\<lparr>preferences := preferences d @ [r]\<rparr>))"

definition UpsertNotificationPreferences :: "prefs_row \<Rightarrow> prefs_row query" where
  "UpsertNotificationPreferences p rl t n d =
     (case prefs_refused p of Some e \<Rightarrow> Inl e | None \<Rightarrow>
      (case filter (\<lambda>q. prUserID q = prUserID p) (preferences d) of
         q # _ \<Rightarrow> (let r = p\<lparr>prCreatedAt := prCreatedAt q, prUpdatedAt := t\<rparr>
                   in Inr (r, d\<lparr>preferences := upd_where (\<lambda>q. prUserID q = prUserID p) (\<lambda>_. r) (preferences d)\<rparr>))
       | [] \<Rightarrow> if \<not> has_user (prUserID p) d then Inl (PgE (ForeignKeyViolation ''notification_preferences''))
           else (let r = p\<lparr>prCreatedAt := t, prUpdatedAt := t\<rparr>
                in Inr (r, d\<lparr>preferences := preferences d @ [r]\<rparr>))))"

text \<open>The statement names eight columns, the others get their defaults; the trigger
  \<open>validate_notification_log\<close> wants an error code on a failed row.\<close>

definition CreateNotificationLog :: "notif_log \<Rightarrow> unit query" where
  "CreateNotificationLog l rl t n d =
     (if rl = AppApi then Inl (PgE (RlsDenied ''notification_logs''))
      else if too_long 50 (nlEventType l) \<or> opt_too_long 100 (nlEventID l) \<or> opt_too_long 50 (nlErrorCode l)
        then Inl (PgE (CheckViolation ''varchar''))
      else if nlStatus l = ''failed'' \<and> nlErrorCode l = None
        then Inl (PgE (RaisedByTrigger ''error_code must be set when status is failed''))
      else if \<not> (case nlUserID l of None \<Rightarrow> True | Some i \<Rightarrow> has_user i d) \<or>
          \<not> (case nlFCMTokenID l of None \<Rightarrow> True | Some i \<Rightarrow> list_ex (\<lambda>f. ftID f = i) (fcmTokens d))
        then Inl (PgE (ForeignKeyViolation ''notification_logs''))
      else let row = l\<lparr>nlID := n, nlSentAt := t, nlClickedAt := None, nlDismissedAt := None\<rparr>
           in Inr ((), d\<lparr>notifLogs := notifLogs d @ [row]\<rparr>))"

definition GetNotificationTemplateByEventType :: "string \<Rightarrow> notif_template query" where
  "GetNotificationTemplateByEventType ty rl t n d =
     first_row (filter (\<lambda>x. tmEventType x = ty) (notifTemplates d)) d"

definition ListTemplateTranslations :: "int \<Rightarrow> template_translation list query" where
  "ListTemplateTranslations i rl t n d = Inr (filter (\<lambda>x. ttTemplateID x = i) (templateTranslations d), d)"

subsection \<open>Facts about the queries\<close>

lemma upd_where_Nil [simp]: "upd_where P f [] = []"
  by (simp add: upd_where_def)

lemma upd_where_Cons [simp]: "upd_where P f (x # xs) = (if P x then f x else x) # upd_where P f xs"
  by (simp add: upd_where_def)

lemma upd_where_append [simp]: "upd_where P f (xs @ ys) = upd_where P f xs @ upd_where P f ys"
  by (simp add: upd_where_def)

lemma set_upd_where: "y \<in> set (upd_where P f xs) \<longleftrightarrow> (\<exists>x\<in>set xs. y = (if P x then f x else x))"
  by (auto simp: upd_where_def)

lemma length_upd_where [simp]: "length (upd_where P f xs) = length xs"
  by (simp add: upd_where_def)

lemma upd_where_id: "(\<And>x. x \<in> set xs \<Longrightarrow> \<not> P x) \<Longrightarrow> upd_where P f xs = xs"
  by (induction xs) auto

lemma map_upd_where:
  "(\<And>x. P x \<Longrightarrow> g (f x) = g x) \<Longrightarrow> map g (upd_where P f xs) = map g xs"
  by (induction xs) auto

lemma filter_upd_where:
  "(\<And>x. P x \<Longrightarrow> \<not> Q (f x)) \<Longrightarrow> filter Q (upd_where P f xs) = filter (\<lambda>x. Q x \<and> \<not> P x) xs"
  by (induction xs) auto

lemma filter_upd_where_other:
  "(\<And>x. P x \<Longrightarrow> \<not> Q x) \<Longrightarrow> (\<And>x. P x \<Longrightarrow> \<not> Q (f x)) \<Longrightarrow> filter Q (upd_where P f xs) = filter Q xs"
  by (induction xs) auto

lemma set_order_desc [simp]: "set (order_desc k xs) = set xs"
  by (simp add: order_desc_def)

lemma length_order_desc [simp]: "length (order_desc k xs) = length xs"
  by (simp add: order_desc_def)

lemma first_row_Inr: "first_row xs d = Inr (x, d') \<longleftrightarrow> d' = d \<and> (\<exists>ys. xs = x # ys)"
  by (auto simp: first_row_def split: list.splits)

lemma pending_batch_retry: "r \<in> set (pending_batch m l t rs) \<Longrightarrow> obRetryCount r < m"
  by (auto simp: pending_batch_def dest: in_set_takeD)

lemma pending_batch_pending: "r \<in> set (pending_batch m l t rs) \<Longrightarrow> r \<in> set rs \<and> pending_row r"
  by (auto simp: pending_batch_def dest: in_set_takeD)

lemma length_pending_batch: "length (pending_batch m l t rs) \<le> l"
  by (simp add: pending_batch_def)

end
