(* ===== verification/Store_Layer.thy ===== *)
theory Store_Layer
  imports Sql_Queries
begin

section \<open>The store: transactions, row-level security and value conversion\<close>

text \<open>
  Models \<open>internal/store/store.go\<close> (\<open>InTx\<close>, \<open>Run\<close>, \<open>WithTx\<close>, \<open>applyRLS\<close>) and
  \<open>internal/store/convert.go\<close>. A query is executed by \<open>exec_query\<close>, which also models what
  PostgreSQL does with a failed statement: the transaction is aborted, every later statement
  fails, and COMMIT turns into a ROLLBACK that pgx reports as an error. The contract the services
  rely on (\<open>TxRunner\<close> in \<open>internal/auth/collaborators.go\<close>) is the locale \<open>tx_runner\<close>,
  interpreted by \<open>with_tx\<close>.
\<close>

subsection \<open>Conversions\<close>

text \<open>A nullable text column and the empty string: \<open>Str\<close> reads NULL as empty, \<open>NullStr\<close>
  writes empty as NULL, \<open>Ptr\<close> (here \<open>Some\<close>) writes it as it is.\<close>

definition StrOf :: "string option \<Rightarrow> string" where
  "StrOf s = (case s of None \<Rightarrow> [] | Some x \<Rightarrow> x)"

definition NullStr :: "string \<Rightarrow> string option" where
  "NullStr s = (if s = [] then None else Some s)"

lemma StrOf_NullStr [simp]: "StrOf (NullStr s) = s"
  by (simp add: StrOf_def NullStr_def)

subsection \<open>Statements\<close>

definition next_fault :: "bool list \<Rightarrow> bool" where
  "next_fault fs = (case fs of [] \<Rightarrow> False | f # _ \<Rightarrow> f)"

definition exec_query :: "'a query \<Rightarrow> ('r, 'a) call" where
  "exec_query q = State (\<lambda>w.
     if txAborted w then (Inl (PgE TxAborted), w)
     else if next_fault (dbFaults w)
       then (Inl (PgE ConnDown), w\<lparr>dbFaults := tl (dbFaults w), txAborted := True\<rparr>)
     else (case q (dbRole w) (now w) (nextID w) (db w) of
         Inl e \<Rightarrow> (Inl e, w\<lparr>dbFaults := tl (dbFaults w), txAborted := (e \<noteq> NoRows)\<rparr>)
       | Inr (x, d) \<Rightarrow> (Inr x, w\<lparr>dbFaults := tl (dbFaults w), db := d, nextID := nextID w + 1\<rparr>)))"

subsection \<open>Transactions\<close>

definition InTx :: "ctx \<Rightarrow> bool" where "InTx c = cxInTx c"

definition begin_tx :: "('r, unit) call" where
  "begin_tx = State (\<lambda>w.
     if next_fault (dbFaults w) then (Inl (PgE ConnDown), w\<lparr>dbFaults := tl (dbFaults w)\<rparr>)
     else (Inr (), w\<lparr>dbFaults := tl (dbFaults w), txAborted := False\<rparr>))"

definition rollback_tx :: "database \<Rightarrow> ('r, unit) proc" where
  "rollback_tx snap = modw (\<lambda>w. w\<lparr>db := snap, txAborted := False, gucs := ([], [])\<rparr>)"

definition commit_tx :: "('r, unit) call" where
  "commit_tx = State (\<lambda>w.
     if next_fault (dbFaults w) then (Inl (PgE ConnDown), w\<lparr>dbFaults := tl (dbFaults w)\<rparr>)
     else if txAborted w then (Inl (PgE TxCommitRollback), w\<lparr>dbFaults := tl (dbFaults w)\<rparr>)
     else (Inr (), w\<lparr>dbFaults := tl (dbFaults w), gucs := ([], [])\<rparr>))"

fun role_name :: "role \<Rightarrow> string" where
  "role_name RoleAnonymous = ''anonymous''"
| "role_name RoleUser = ''user''"
| "role_name RoleAdmin = ''admin''"

definition rls_gucs :: "subject \<Rightarrow> string \<times> string" where
  "rls_gucs s =
     (if sbIsAdmin s then (''0'', role_name RoleAdmin)
      else if sbUserID s > 0 then
        (show_int (sbUserID s), (case sbRole s of None \<Rightarrow> role_name RoleAnonymous | Some r \<Rightarrow> role_name r))
      else (''0'', role_name RoleAnonymous))"

definition applyRLS :: "ctx \<Rightarrow> ('r, unit) call" where
  "applyRLS c = State (\<lambda>w.
     if next_fault (dbFaults w)
     then (Inl (PgE ConnDown), w\<lparr>dbFaults := tl (dbFaults w), txAborted := True\<rparr>)
     else (Inr (), w\<lparr>dbFaults := tl (dbFaults w), gucs := rls_gucs (cxSubject c)\<rparr>))"

definition tx_body :: "ctx \<Rightarrow> (ctx \<Rightarrow> ('r, 'a) call) \<Rightarrow> ('r, 'a) call" where
  "tx_body c fn = do {
     r \<leftarrow> applyRLS c;
     case r of Inl e \<Rightarrow> fail e
     | Inr _ \<Rightarrow> do {
         r \<leftarrow> fn (c\<lparr>cxInTx := True\<rparr>);
         case r of Inl e \<Rightarrow> fail e
         | Inr x \<Rightarrow> do {
             r \<leftarrow> commit_tx;
             case r of Inl e \<Rightarrow> fail e | Inr _ \<Rightarrow> returnE x }}}"

definition with_tx :: "ctx \<Rightarrow> (ctx \<Rightarrow> ('r, 'a) call) \<Rightarrow> ('r, 'a) call" where
  "with_tx c fn =
     (if cxInTx c then fn c
      else do {
        r \<leftarrow> begin_tx;
        case r of Inl e \<Rightarrow> fail e
        | Inr _ \<Rightarrow> do {
            snap \<leftarrow> getw db;
            r \<leftarrow> tx_body c fn;
            case r of Inl e \<Rightarrow> do { rollback_tx snap; fail e } | Inr x \<Rightarrow> returnE x }})"

definition store_run :: "ctx \<Rightarrow> (ctx \<Rightarrow> ('r, 'a) call) \<Rightarrow> ('r, 'a) call" where
  "store_run c fn = (if cxInTx c then fn c else with_tx c fn)"

text \<open>The shape nearly every repository method has: one query inside \<open>Run\<close>.\<close>

definition run_query :: "ctx \<Rightarrow> 'a query \<Rightarrow> ('r, 'a) call" where
  "run_query c q = store_run c (\<lambda>_. exec_query q)"

text \<open>The same with the error of the query mapped inside the callback.\<close>

definition run_mapped :: "ctx \<Rightarrow> (goerr \<Rightarrow> goerr) \<Rightarrow> 'a query \<Rightarrow> ('r, 'a) call" where
  "run_mapped c f q = store_run c (\<lambda>_. do {
     r \<leftarrow> exec_query q;
     case r of Inl e \<Rightarrow> fail (f e) | Inr x \<Rightarrow> returnE x })"

definition no_rows_as :: "app_error \<Rightarrow> string \<Rightarrow> goerr \<Rightarrow> goerr" where
  "no_rows_as a msg e = (if errIs e NoRows then AppE a else WrapE msg e)"

subsection \<open>What a transaction guarantees\<close>

lemma begin_tx_db [simp]: "db (snd (run_state begin_tx w)) = db w"
  by (simp add: begin_tx_def)

lemma begin_tx_dbD: "run_state begin_tx w = (r, w') \<Longrightarrow> db w' = db w"
  by (metis begin_tx_db snd_conv)

lemma with_tx_nested: "cxInTx c \<Longrightarrow> with_tx c fn = fn c"
  by (simp add: with_tx_def)

lemma with_tx_atomic:
  assumes "\<not> cxInTx c" and "run_state (with_tx c fn) w = (Inl e, w')"
  shows "db w' = db w"
  using assms
  by (auto simp: with_tx_def rollback_tx_def split: sum.splits prod.splits dest: begin_tx_dbD)

text \<open>Success of a transaction is success of its body followed by COMMIT.\<close>

definition enter_tx :: "ctx \<Rightarrow> 'r world \<Rightarrow> 'r world" where
  "enter_tx c w = w\<lparr>txAborted := False, dbFaults := tl (tl (dbFaults w)), gucs := rls_gucs (cxSubject c)\<rparr>"

lemma with_tx_success:
  assumes "\<not> cxInTx c" and "run_state (with_tx c fn) w = (Inr x, w')"
  shows "\<exists>w1. run_state (fn (c\<lparr>cxInTx := True\<rparr>)) (enter_tx c w) = (Inr x, w1) \<and> \<not> txAborted w1
           \<and> w' = w1\<lparr>dbFaults := tl (dbFaults w1), gucs := ([], [])\<rparr>"
  using assms
  by (auto simp: with_tx_def tx_body_def begin_tx_def applyRLS_def commit_tx_def rollback_tx_def
      enter_tx_def split: sum.splits prod.splits if_splits)

lemma with_tx_run:
  assumes "\<not> cxInTx c" and "dbFaults w = []"
    and "run_state (fn (c\<lparr>cxInTx := True\<rparr>)) (enter_tx c w) = (Inr x, w1)"
    and "dbFaults w1 = []" and "\<not> txAborted w1"
  shows "run_state (with_tx c fn) w = (Inr x, w1\<lparr>gucs := ([], [])\<rparr>)"
proof -
  have "w1\<lparr>dbFaults := tl (dbFaults w1), gucs := ([], [])\<rparr> = w1\<lparr>gucs := ([], [])\<rparr>"
    using assms(4) by simp
  with assms show ?thesis
    by (simp add: with_tx_def tx_body_def begin_tx_def applyRLS_def commit_tx_def
        enter_tx_def next_fault_def)
qed

text \<open>A query that finds the database up behaves as its function on the tables.\<close>

lemma exec_query_Inr:
  assumes "run_state (exec_query q) w = (Inr x, w')"
  shows "\<exists>d. q (dbRole w) (now w) (nextID w) (db w) = Inr (x, d) \<and> \<not> txAborted w
     \<and> w' = w\<lparr>dbFaults := tl (dbFaults w), db := d, nextID := nextID w + 1\<rparr>"
  using assms by (auto simp: exec_query_def split: if_splits sum.splits prod.splits)

lemma run_query_Inr:
  assumes "run_state (run_query c q) w = (Inr x, w')"
  shows "\<exists>d. q (dbRole w) (now w) (nextID w) (db w) = Inr (x, d) \<and> db w' = d"
proof (cases "cxInTx c")
  case True
  with assms have "run_state (exec_query q) w = (Inr x, w')"
    by (simp add: run_query_def store_run_def)
  from exec_query_Inr [OF this] show ?thesis by auto
next
  case False
  with assms have "run_state (with_tx c (\<lambda>_. exec_query q)) w = (Inr x, w')"
    by (simp add: run_query_def store_run_def)
  from with_tx_success [OF False this] obtain w1 where
    w1: "run_state (exec_query q) (enter_tx c w) = (Inr x, w1)"
    and w': "w' = w1\<lparr>dbFaults := tl (dbFaults w1), gucs := ([], [])\<rparr>" by auto
  from exec_query_Inr [OF w1] w' show ?thesis by (auto simp: enter_tx_def)
qed

text \<open>Mapping the error changes neither the effect nor a success.\<close>

lemma run_mapped_run:
  fixes w :: "'r world"
  shows "snd (run_state (run_mapped c f q) w) = snd (run_state (run_query c q) w) \<and>
    (\<forall>x. fst (run_state (run_mapped c f q) w) = Inr x \<longleftrightarrow> fst (run_state (run_query c q) w) = Inr x)"
proof -
  have e: "run_state (do { r \<leftarrow> exec_query q; case r of Inl e \<Rightarrow> fail (f e) | Inr x \<Rightarrow> returnE x }) v =
    (case run_state (exec_query q) v of (Inl e, v') \<Rightarrow> (Inl (f e), v') | (Inr x, v') \<Rightarrow> (Inr x, v'))" for v :: "'r world"
    by (auto split: sum.split prod.split)
  show ?thesis
    by (simp add: run_mapped_def run_query_def store_run_def with_tx_def tx_body_def rollback_tx_def e
        split: sum.split prod.split)
qed

lemma run_mapped_Inr:
  "run_state (run_mapped c f q) w = (Inr x, w') \<longleftrightarrow> run_state (run_query c q) w = (Inr x, w')"
  using run_mapped_run [of c f q w] by (metis fst_conv prod.collapse snd_conv)

lemma run_mapped_snd [simp]:
  "snd (run_state (run_mapped c f q) w) = snd (run_state (run_query c q) w)"
  using run_mapped_run by blast

text \<open>Healthy database: what the success-path proofs run under.\<close>

definition db_up :: "'r world \<Rightarrow> bool" where
  "db_up w = (dbFaults w = [] \<and> \<not> txAborted w)"

lemma db_upI: "dbFaults w = [] \<Longrightarrow> \<not> txAborted w \<Longrightarrow> db_up w"
  by (simp add: db_up_def)

definition after_query :: "ctx \<Rightarrow> database \<Rightarrow> 'r world \<Rightarrow> 'r world" where
  "after_query c d w = w\<lparr>db := d, nextID := nextID w + 1, gucs := (if cxInTx c then gucs w else ([], []))\<rparr>"

lemma run_query_up:
  assumes "db_up w" and "q (dbRole w) (now w) (nextID w) (db w) = Inr (x, d)"
  shows "run_state (run_query c q) w = (Inr x, after_query c d w)"
  using assms
  by (auto simp: run_query_def store_run_def with_tx_def tx_body_def begin_tx_def applyRLS_def
      commit_tx_def rollback_tx_def exec_query_def next_fault_def db_up_def after_query_def)

lemma run_query_up_err:
  assumes "db_up w" and "q (dbRole w) (now w) (nextID w) (db w) = Inl e" and "\<not> cxInTx c"
  shows "run_state (run_query c q) w = (Inl e, w\<lparr>gucs := ([], [])\<rparr>)"
  using assms
  by (auto simp: run_query_def store_run_def with_tx_def tx_body_def begin_tx_def applyRLS_def
      commit_tx_def rollback_tx_def exec_query_def next_fault_def db_up_def)

lemma run_query_up_norows:
  assumes "db_up w" and "q (dbRole w) (now w) (nextID w) (db w) = Inl NoRows"
  shows "run_state (run_query c q) w = (Inl NoRows, w\<lparr>gucs := (if cxInTx c then gucs w else ([], []))\<rparr>)"
  using assms
  by (auto simp: run_query_def store_run_def with_tx_def tx_body_def begin_tx_def applyRLS_def
      commit_tx_def rollback_tx_def exec_query_def next_fault_def db_up_def)

lemma after_query_simps [simp]:
  "db (after_query c d w) = d" "now (after_query c d w) = now w"
  "redis (after_query c d w) = redis w" "redisFaults (after_query c d w) = redisFaults w"
  "draws (after_query c d w) = draws w" "mq (after_query c d w) = mq w"
  "mqReplies (after_query c d w) = mqReplies w" "dbRole (after_query c d w) = dbRole w"
  "dbFaults (after_query c d w) = dbFaults w" "txAborted (after_query c d w) = txAborted w"
  "nextID (after_query c d w) = nextID w + 1" "busKick (after_query c d w) = busKick w"
  "busFailures (after_query c d w) = busFailures w" "busOpenedAt (after_query c d w) = busOpenedAt w"
  "db_up (after_query c d w) = db_up w"
  by (simp_all add: after_query_def db_up_def)

subsection \<open>Repository calls that change no table\<close>

text \<open>
  \<open>same_db\<close> relates worlds with equal tables; \<open>readonly\<close> queries keep them whatever fails.
\<close>

definition readonly :: "'a query \<Rightarrow> bool" where
  "readonly q = (\<forall>rl t n d x d'. q rl t n d = Inr (x, d') \<longrightarrow> d' = d)"

lemma run_query_readonly:
  fixes w :: "'r world"
  assumes "readonly q"
  shows "db (snd (run_state (run_query c q) w)) = db w"
proof -
  have *: "db (snd (run_state (exec_query q) v)) = db v" for v :: "'r world"
    using assms by (auto simp: exec_query_def readonly_def split: sum.split prod.split)
  show ?thesis
  proof (cases "cxInTx c")
    case True
    then show ?thesis by (simp add: run_query_def store_run_def *)
  next
    case False
    obtain r w' where r: "run_state (run_query c q) w = (r, w')" by (cases "run_state (run_query c q) w")
    show ?thesis
    proof (cases r)
      case (Inl e)
      with r False have "run_state (with_tx c (\<lambda>_. exec_query q)) w = (Inl e, w')"
        by (simp add: run_query_def store_run_def)
      from with_tx_atomic [OF False this] r show ?thesis by simp
    next
      case (Inr x)
      with r run_query_Inr [of c q w x w'] assms show ?thesis
        by (auto simp: readonly_def)
    qed
  qed
qed

subsection \<open>The interface of the transaction runner\<close>

locale tx_runner =
  fixes run_tx :: "ctx \<Rightarrow> (ctx \<Rightarrow> ('r, 'a) call) \<Rightarrow> ('r, 'a) call"
  assumes joins: "cxInTx c \<Longrightarrow> run_tx c fn = fn c"
    and atomic: "\<not> cxInTx c \<Longrightarrow> run_state (run_tx c fn) w = (Inl e, w') \<Longrightarrow> db w' = db w"
    and commits: "\<not> cxInTx c \<Longrightarrow> run_state (run_tx c fn) w = (Inr x, w') \<Longrightarrow>
       \<exists>w0 w1. run_state (fn (c\<lparr>cxInTx := True\<rparr>)) w0 = (Inr x, w1) \<and> db w0 = db w \<and> db w' = db w1"
begin

text \<open>All or nothing: the tables after the call are those before it or those of the completed body.\<close>

lemma all_or_nothing:
  assumes "\<not> cxInTx c"
  shows "(\<exists>x w1 w0. fst (run_state (run_tx c fn) w) = Inr x \<and>
            run_state (fn (c\<lparr>cxInTx := True\<rparr>)) w0 = (Inr x, w1) \<and> db w0 = db w \<and>
            db (snd (run_state (run_tx c fn) w)) = db w1) \<or>
         (\<exists>e. fst (run_state (run_tx c fn) w) = Inl e \<and> db (snd (run_state (run_tx c fn) w)) = db w)"
proof (cases "run_state (run_tx c fn) w")
  case (Pair r w')
  show ?thesis
  proof (cases r)
    case (Inl e)
    with Pair atomic [OF assms, of fn w e w'] show ?thesis by simp
  next
    case (Inr x)
    with Pair commits [OF assms, of fn w x w'] show ?thesis by fastforce
  qed
qed

text \<open>An invariant of the tables that every successful body keeps survives the transaction.\<close>

lemma invariant:
  assumes "\<not> cxInTx c" and "P (db w)"
    and "\<And>w0 x w1. run_state (fn (c\<lparr>cxInTx := True\<rparr>)) w0 = (Inr x, w1) \<Longrightarrow> P (db w0) \<Longrightarrow> P (db w1)"
  shows "P (db (snd (run_state (run_tx c fn) w)))"
  using all_or_nothing [OF assms(1), of fn w] assms(2,3) by metis

end

interpretation store_tx: tx_runner with_tx
proof
  show "\<And>c fn. cxInTx c \<Longrightarrow> with_tx c fn = fn c" by (rule with_tx_nested)
  show "\<And>c fn w e w'. \<not> cxInTx c \<Longrightarrow> run_state (with_tx c fn) w = (Inl e, w') \<Longrightarrow> db w' = db w"
    by (rule with_tx_atomic)
  show "\<And>c fn w x w'. \<not> cxInTx c \<Longrightarrow> run_state (with_tx c fn) w = (Inr x, w') \<Longrightarrow>
     \<exists>w0 w1. run_state (fn (c\<lparr>cxInTx := True\<rparr>)) w0 = (Inr x, w1) \<and> db w0 = db w \<and> db w' = db w1"
    by (drule (1) with_tx_success) (force simp: enter_tx_def)
qed

text \<open>C11. A service transaction is all or nothing under every pattern of database failures
  (connection loss at BEGIN, at any statement or at COMMIT, constraint violations, statements
  issued after a failed one): if the call returns an error the tables are exactly those before
  it, otherwise they are those the completed body produced.\<close>

theorem transaction_all_or_nothing:
  assumes "\<not> cxInTx c"
  shows "(\<exists>x w1 w0. fst (run_state (with_tx c fn) w) = Inr x \<and>
            run_state (fn (c\<lparr>cxInTx := True\<rparr>)) w0 = (Inr x, w1) \<and> db w0 = db w \<and>
            db (snd (run_state (with_tx c fn) w)) = db w1) \<or>
         (\<exists>e. fst (run_state (with_tx c fn) w) = Inl e \<and> db (snd (run_state (with_tx c fn) w)) = db w)"
  by (rule store_tx.all_or_nothing [OF assms])

end
