(* ===== verification/Redis_Cache.thy ===== *)
theory Redis_Cache
  imports World_State
begin

section \<open>The Redis interface and the cache manager\<close>

text \<open>
  Models \<open>internal/platform/cache\<close>: key construction, \<open>Set\<close>, \<open>Get\<close>, \<open>GetDel\<close>,
  \<open>Delete\<close>, the expiring counters and tag invalidation. Redis itself is not part of the
  repository: its commands are the fields of a record that every definition takes as an argument,
  on an abstract state \<open>'r\<close>, and what the code relies on is the locale \<open>redis_service\<close>, the
  documented effect of each command on keys, values and expiry times. \<open>ref_redis\<close> is an instance
  that shows the laws can hold together.
  JSON values are kept typed; decoding into another type is an error, as \<open>json.Unmarshal\<close> is.
\<close>

subsection \<open>Values\<close>

record access_claims =
  acSessionID :: int
  acUserID :: int
  acDeviceID :: string
  acIssuedAt :: time

datatype cache_value = JTokenData int | JSession device_session | JClaims access_claims | JOther string

datatype redis_value = RData cache_value | RNum int | RSet "string list"

subsection \<open>The commands\<close>

record 'r redis_api =
  rdGet :: "'r \<Rightarrow> time \<Rightarrow> string \<Rightarrow> redis_value option"
  rdSet :: "'r \<Rightarrow> time \<Rightarrow> string \<Rightarrow> cache_value \<Rightarrow> duration \<Rightarrow> 'r"
  rdDel :: "'r \<Rightarrow> time \<Rightarrow> string \<Rightarrow> 'r"
  rdIncr :: "'r \<Rightarrow> time \<Rightarrow> string \<Rightarrow> int \<times> 'r"
  rdExpireNX :: "'r \<Rightarrow> time \<Rightarrow> string \<Rightarrow> duration \<Rightarrow> 'r"
  rdExpire :: "'r \<Rightarrow> time \<Rightarrow> string \<Rightarrow> duration \<Rightarrow> 'r"
  rdSAdd :: "'r \<Rightarrow> time \<Rightarrow> string \<Rightarrow> string \<Rightarrow> 'r"
  rdSMembers :: "'r \<Rightarrow> time \<Rightarrow> string \<Rightarrow> string list"
  rdKeys :: "'r \<Rightarrow> string \<Rightarrow> (redis_value \<times> time option) option"
    \<comment> \<open>the observable content: value and expiry of each stored key\<close>

definition not_expired :: "time option \<Rightarrow> time \<Rightarrow> bool" where
  "not_expired d t = (case d of None \<Rightarrow> True | Some x \<Rightarrow> t < x)"

text \<open>What a client sees at time \<open>t\<close> in a content map.\<close>

definition visible :: "(string \<Rightarrow> (redis_value \<times> time option) option) \<Rightarrow> time \<Rightarrow> string \<Rightarrow> redis_value option" where
  "visible m t k = (case m k of None \<Rightarrow> None | Some (v, d) \<Rightarrow> if not_expired d t then Some v else None)"

definition deadline :: "time \<Rightarrow> duration \<Rightarrow> time option" where
  "deadline t ttl = (if ttl > 0 then Some (t + ttl) else None)"

definition keep_deadline ::
  "(string \<Rightarrow> (redis_value \<times> time option) option) \<Rightarrow> string \<Rightarrow> time option" where
  "keep_deadline m k = (case m k of None \<Rightarrow> None | Some (v, d) \<Rightarrow> d)"

locale redis_service =
  fixes R :: "'r redis_api"
  assumes get_law: "rdGet R s t k = visible (rdKeys R s) t k"
    and set_law: "rdKeys R (rdSet R s t k v ttl) = (rdKeys R s)(k \<mapsto> (RData v, deadline t ttl))"
    and del_law: "rdKeys R (rdDel R s t k) = (rdKeys R s)(k := None)"
    and incr_new_law: "visible (rdKeys R s) t k = None \<Longrightarrow>
      fst (rdIncr R s t k) = 1 \<and>
      rdKeys R (snd (rdIncr R s t k)) = (rdKeys R s)(k \<mapsto> (RNum 1, None))"
    and incr_num_law: "visible (rdKeys R s) t k = Some (RNum n) \<Longrightarrow>
      fst (rdIncr R s t k) = n + 1 \<and>
      rdKeys R (snd (rdIncr R s t k)) = (rdKeys R s)(k \<mapsto> (RNum (n + 1), keep_deadline (rdKeys R s) k))"
    and expire_nx_law: "visible (rdKeys R s) t k = Some rv \<Longrightarrow>
      rdKeys R (rdExpireNX R s t k ttl) =
        (if keep_deadline (rdKeys R s) k = None then (rdKeys R s)(k \<mapsto> (rv, Some (t + ttl)))
         else rdKeys R s)"
    and expire_law: "visible (rdKeys R s) t k = Some rv \<Longrightarrow>
      rdKeys R (rdExpire R s t k ttl) = (rdKeys R s)(k \<mapsto> (rv, Some (t + ttl)))"
    and sadd_new_law: "visible (rdKeys R s) t k = None \<Longrightarrow>
      rdKeys R (rdSAdd R s t k x) = (rdKeys R s)(k \<mapsto> (RSet [x], None))"
    and sadd_law: "visible (rdKeys R s) t k = Some (RSet xs) \<Longrightarrow>
      rdKeys R (rdSAdd R s t k x) = (rdKeys R s)(k \<mapsto> (RSet (List.insert x xs), keep_deadline (rdKeys R s) k))"
    and smembers_law: "rdSMembers R s t k =
      (case visible (rdKeys R s) t k of Some (RSet xs) \<Rightarrow> xs | _ \<Rightarrow> [])"

subsection \<open>An instance\<close>

definition ref_redis :: "(string \<Rightarrow> (redis_value \<times> time option) option) redis_api" where
  "ref_redis = \<lparr>
     rdGet = (\<lambda>s t k. visible s t k),
     rdSet = (\<lambda>s t k v ttl. s(k \<mapsto> (RData v, deadline t ttl))),
     rdDel = (\<lambda>s t k. s(k := None)),
     rdIncr = (\<lambda>s t k. case visible s t k of
         Some (RNum n) \<Rightarrow> (n + 1, s(k \<mapsto> (RNum (n + 1), keep_deadline s k)))
       | Some _ \<Rightarrow> (0, s)
       | None \<Rightarrow> (1, s(k \<mapsto> (RNum 1, None)))),
     rdExpireNX = (\<lambda>s t k ttl. case visible s t k of None \<Rightarrow> s
       | Some v \<Rightarrow> if keep_deadline s k = None then s(k \<mapsto> (v, Some (t + ttl))) else s),
     rdExpire = (\<lambda>s t k ttl. case visible s t k of None \<Rightarrow> s | Some v \<Rightarrow> s(k \<mapsto> (v, Some (t + ttl)))),
     rdSAdd = (\<lambda>s t k x. case visible s t k of
         Some (RSet xs) \<Rightarrow> s(k \<mapsto> (RSet (List.insert x xs), keep_deadline s k))
       | Some _ \<Rightarrow> s | None \<Rightarrow> s(k \<mapsto> (RSet [x], None))),
     rdSMembers = (\<lambda>s t k. case visible s t k of Some (RSet xs) \<Rightarrow> xs | _ \<Rightarrow> []),
     rdKeys = (\<lambda>s. s)\<rparr>"

interpretation ref_redis: redis_service ref_redis
  by unfold_locales (auto simp: ref_redis_def)

subsection \<open>Calls\<close>

text \<open>A Redis call can fail; the schedule \<open>redisFaults\<close> decides.\<close>

definition redis_call :: "('r \<Rightarrow> time \<Rightarrow> 'a \<times> 'r) \<Rightarrow> ('r, 'a) call" where
  "redis_call f = State (\<lambda>w.
     case redisFaults w of
       True # fs \<Rightarrow> (Inl RedisE, w\<lparr>redisFaults := fs\<rparr>)
     | fs \<Rightarrow> (case f (redis w) (now w) of (x, s) \<Rightarrow>
         (Inr x, w\<lparr>redisFaults := tl fs, redis := s\<rparr>)))"

definition buildKey :: "string \<Rightarrow> string \<Rightarrow> string" where
  "buildKey prefix key = prefix @ '':cache:'' @ key"

definition buildTagKey :: "string \<Rightarrow> string \<Rightarrow> string" where
  "buildTagKey prefix tag = prefix @ '':tag:'' @ tag"

definition SessionDataKey :: "int \<Rightarrow> string" where "SessionDataKey i = ''session:'' @ show_int i"
definition VerificationTokenKey :: "string \<Rightarrow> string" where "VerificationTokenKey t = ''auth:verify:'' @ t"
definition PasswordResetKey :: "string \<Rightarrow> string" where "PasswordResetKey t = ''auth:reset:'' @ t"
definition RateLimitKey :: "string \<Rightarrow> string \<Rightarrow> string" where
  "RateLimitKey ty ident = ''rate:'' @ ty @ '':'' @ ident"
definition UserTag :: "int \<Rightarrow> string" where "UserTag i = ''user:'' @ show_int i"

subsection \<open>The cache manager\<close>

record cache_options =
  coTTL :: duration
  coTags :: "string list"

definition CacheLong :: cache_options where "CacheLong = \<lparr>coTTL = 24 * hour, coTags = []\<rparr>"

text \<open>One pipeline: the SET, then SADD and EXPIRE for each tag.\<close>

fun tag_key :: "'r redis_api \<Rightarrow> string \<Rightarrow> string \<Rightarrow> duration \<Rightarrow> time \<Rightarrow> string list \<Rightarrow> 'r \<Rightarrow> 'r" where
  "tag_key R prefix fullKey ttl t [] s = s"
| "tag_key R prefix fullKey ttl t (tag # tags) s =
     (let tk = buildTagKey prefix tag
      in tag_key R prefix fullKey ttl t tags (rdExpire R (rdSAdd R s t tk fullKey) t tk (ttl + hour)))"

definition cache_set ::
  "'r redis_api \<Rightarrow> string \<Rightarrow> string \<Rightarrow> cache_value \<Rightarrow> cache_options \<Rightarrow> ('r, unit) call" where
  "cache_set R prefix key v opts =
     (let fullKey = buildKey prefix key
      in redis_call (\<lambda>s t. ((), tag_key R prefix fullKey (coTTL opts) t (coTags opts)
           (rdSet R s t fullKey v (coTTL opts)))))"

text \<open>\<open>Get\<close> and \<open>GetDel\<close> take the decoder of the destination's type.\<close>

definition decode :: "(cache_value \<Rightarrow> 'a option) \<Rightarrow> redis_value option \<Rightarrow> goerr + 'a option" where
  "decode dest v =
     (case v of None \<Rightarrow> Inr None
      | Some (RData j) \<Rightarrow> (case dest j of None \<Rightarrow> Inl (WrapE ''cache unmarshal error'' (MsgE ''json''))
                                      | Some x \<Rightarrow> Inr (Some x))
      | Some _ \<Rightarrow> Inl (WrapE ''cache unmarshal error'' (MsgE ''json'')))"

definition cache_get :: "'r redis_api \<Rightarrow> string \<Rightarrow> (cache_value \<Rightarrow> 'a option) \<Rightarrow> string \<Rightarrow> ('r, 'a option) call" where
  "cache_get R prefix dest key = do {
     r \<leftarrow> redis_call (\<lambda>s t. (rdGet R s t (buildKey prefix key), s));
     case r of Inl e \<Rightarrow> fail e | Inr v \<Rightarrow> ret (decode dest v) }"

definition cache_getdel :: "'r redis_api \<Rightarrow> string \<Rightarrow> (cache_value \<Rightarrow> 'a option) \<Rightarrow> string \<Rightarrow> ('r, 'a option) call" where
  "cache_getdel R prefix dest key = do {
     r \<leftarrow> redis_call (\<lambda>s t. let k = buildKey prefix key in (rdGet R s t k, rdDel R s t k));
     case r of Inl e \<Rightarrow> fail e | Inr v \<Rightarrow> ret (decode dest v) }"

definition cache_delete :: "'r redis_api \<Rightarrow> string \<Rightarrow> string \<Rightarrow> ('r, unit) call" where
  "cache_delete R prefix key = redis_call (\<lambda>s t. ((), rdDel R s t (buildKey prefix key)))"

definition IncrementWithTTL :: "'r redis_api \<Rightarrow> string \<Rightarrow> string \<Rightarrow> duration \<Rightarrow> ('r, int) call" where
  "IncrementWithTTL R prefix key ttl =
     redis_call (\<lambda>s t. let k = buildKey prefix key; (n, s1) = rdIncr R s t k
                       in (n, rdExpireNX R s1 t k ttl))"

definition cache_counter :: "'r redis_api \<Rightarrow> string \<Rightarrow> string \<Rightarrow> ('r, int) call" where
  "cache_counter R prefix key = do {
     r \<leftarrow> redis_call (\<lambda>s t. (rdGet R s t (buildKey prefix key), s));
     case r of Inl e \<Rightarrow> fail e
     | Inr None \<Rightarrow> returnE 0
     | Inr (Some (RNum n)) \<Rightarrow> returnE n
     | Inr (Some _) \<Rightarrow> fail (MsgE ''strconv: invalid syntax'') }"

text \<open>\<open>InvalidateByTag\<close> returns early when the tag has no member; \<open>InvalidateByTags\<close> collects
  the members of all tags first and then deletes keys and tags in one pipeline.\<close>

definition del_all :: "'r redis_api \<Rightarrow> time \<Rightarrow> string list \<Rightarrow> 'r \<Rightarrow> 'r" where
  "del_all R t ks s = fold (\<lambda>k s. rdDel R s t k) ks s"

definition InvalidateByTag :: "'r redis_api \<Rightarrow> string \<Rightarrow> string \<Rightarrow> ('r, unit) call" where
  "InvalidateByTag R prefix tag = do {
     r \<leftarrow> redis_call (\<lambda>s t. (rdSMembers R s t (buildTagKey prefix tag), s));
     case r of Inl e \<Rightarrow> fail e
     | Inr keys \<Rightarrow> if keys = [] then returnE ()
         else redis_call (\<lambda>s t. ((), del_all R t (keys @ [buildTagKey prefix tag]) s)) }"

fun collect_members :: "'r redis_api \<Rightarrow> string list \<Rightarrow> string list \<Rightarrow> ('r, string list) call" where
  "collect_members R [] acc = returnE acc"
| "collect_members R (tk # tks) acc = do {
     r \<leftarrow> redis_call (\<lambda>s t. (rdSMembers R s t tk, s));
     case r of Inl e \<Rightarrow> fail (WrapE (''cache: read tag '' @ tk) e)
     | Inr ks \<Rightarrow> collect_members R tks (List.union acc ks) }"

definition InvalidateByTags :: "'r redis_api \<Rightarrow> string \<Rightarrow> string list \<Rightarrow> ('r, unit) call" where
  "InvalidateByTags R prefix tags =
     (if tags = [] then returnE ()
      else do {
        r \<leftarrow> collect_members R (map (buildTagKey prefix) tags) [];
        case r of Inl e \<Rightarrow> fail e
        | Inr keys \<Rightarrow> redis_call (\<lambda>s t. ((), del_all R t (keys @ map (buildTagKey prefix) tags) s)) })"

subsection \<open>Facts about calls\<close>

definition redis_up :: "'r world \<Rightarrow> bool" where "redis_up w = (redisFaults w = [])"

lemma redis_call_up:
  "redis_up w \<Longrightarrow> run_state (redis_call f) w =
     (Inr (fst (f (redis w) (now w))), w\<lparr>redis := snd (f (redis w) (now w))\<rparr>)"
  by (auto simp: redis_call_def redis_up_def split: prod.split)

text \<open>A Redis call leaves everything but Redis and its fault schedule alone.\<close>

lemma frames_redis_call:
  "(\<And>w s fs. f (w\<lparr>redisFaults := fs, redis := s\<rparr>) = f w) \<Longrightarrow> (\<And>w fs. f (w\<lparr>redisFaults := fs\<rparr>) = f w) \<Longrightarrow>
     frames f (redis_call g)"
  by (auto simp: frames_def redis_call_def split: list.splits bool.splits prod.splits)

lemma frames_collect:
  "(\<And>w s fs. f (w\<lparr>redisFaults := fs, redis := s\<rparr>) = f w) \<Longrightarrow> (\<And>w fs. f (w\<lparr>redisFaults := fs\<rparr>) = f w) \<Longrightarrow>
     frames f (collect_members R ks acc)"
  by (induction ks arbitrary: acc) (auto intro!: frames_intros frames_redis_call)

lemma redis_call_frame [op_frame]:
  "db (snd (run_state (redis_call f) w)) = db w"
  "now (snd (run_state (redis_call f) w)) = now w"
  "dbFaults (snd (run_state (redis_call f) w)) = dbFaults w"
  "txAborted (snd (run_state (redis_call f) w)) = txAborted w"
  "mq (snd (run_state (redis_call f) w)) = mq w"
  by (auto simp: redis_call_def split: list.splits bool.splits prod.splits)

lemma buildKey_inj [simp]: "buildKey p a = buildKey p b \<longleftrightarrow> a = b"
  by (simp add: buildKey_def)

lemma buildTagKey_inj [simp]: "buildTagKey p a = buildTagKey p b \<longleftrightarrow> a = b"
  by (simp add: buildTagKey_def)

lemma buildKey_not_tag [simp]: "buildKey p a \<noteq> buildTagKey p b" "buildTagKey p b \<noteq> buildKey p a"
  by (simp_all add: buildKey_def buildTagKey_def)

lemma cache_keys_distinct [simp]:
  "VerificationTokenKey a \<noteq> PasswordResetKey b" "PasswordResetKey b \<noteq> VerificationTokenKey a"
  "RateLimitKey x y \<noteq> VerificationTokenKey a" "RateLimitKey x y \<noteq> PasswordResetKey a"
  "RateLimitKey x y \<noteq> SessionDataKey i" "SessionDataKey i \<noteq> RateLimitKey x y"
  "SessionDataKey i \<noteq> VerificationTokenKey a" "SessionDataKey i \<noteq> PasswordResetKey a"
  by (simp_all add: VerificationTokenKey_def PasswordResetKey_def RateLimitKey_def SessionDataKey_def)

lemma cache_keys_inj [simp]:
  "VerificationTokenKey a = VerificationTokenKey b \<longleftrightarrow> a = b"
  "PasswordResetKey a = PasswordResetKey b \<longleftrightarrow> a = b"
  "SessionDataKey i = SessionDataKey j \<longleftrightarrow> i = j"
  by (simp_all add: VerificationTokenKey_def PasswordResetKey_def SessionDataKey_def)

subsection \<open>Laws of the cache, from those of Redis\<close>

context redis_service
begin

lemma del_all_keys: "rdKeys R (del_all R t ks s) = (\<lambda>k. if k \<in> set ks then None else rdKeys R s k)"
proof (induction ks arbitrary: s)
  case (Cons k ks)
  have "del_all R t (k # ks) s = del_all R t ks (rdDel R s t k)" by (simp add: del_all_def)
  with Cons [of "rdDel R s t k"] show ?case by (auto simp: del_law)
qed (simp add: del_all_def)

text \<open>A value set and read before its expiry comes back; after it, it is gone.\<close>

lemma set_then_get:
  assumes "redis_up w" and "coTags opts = []"
  shows "visible (rdKeys R (redis (snd (run_state (cache_set R p k v opts) w)))) u (buildKey p k)
       = (if coTTL opts > 0 \<and> now w + coTTL opts \<le> u then None else Some (RData v))"
  using assms
  by (simp add: cache_set_def redis_call_up set_law visible_def deadline_def not_expired_def)

lemma getdel_consumes:
  assumes "redis_up w"
  shows "visible (rdKeys R (redis (snd (run_state (cache_getdel R p dest k) w)))) u (buildKey p k) = None"
  using assms by (simp add: cache_getdel_def redis_call_up del_law visible_def Let_def)

lemma getdel_result:
  assumes "redis_up w"
  shows "fst (run_state (cache_getdel R p dest k) w) = decode dest (visible (rdKeys R (redis w)) (now w) (buildKey p k))"
  using assms by (simp add: cache_getdel_def redis_call_up get_law Let_def)

text \<open>The rate-limit counter: it counts within its window, and the window is not extended.\<close>

definition counter_at :: "'r \<Rightarrow> time \<Rightarrow> string \<Rightarrow> int option" where
  "counter_at s t k = (case visible (rdKeys R s) t k of None \<Rightarrow> Some 0 | Some (RNum n) \<Rightarrow> Some n | _ \<Rightarrow> None)"

lemma increment_counts:
  assumes "redis_up w" and "counter_at (redis w) (now w) (buildKey p k) = Some n" and "ttl > 0"
  shows "\<exists>s. run_state (IncrementWithTTL R p k ttl) w = (Inr (n + 1), w\<lparr>redis := s\<rparr>)
     \<and> visible (rdKeys R s) (now w) (buildKey p k) = Some (RNum (n + 1))
     \<and> (\<exists>d. rdKeys R s (buildKey p k) = Some (RNum (n + 1), Some d) \<and>
            (rdKeys R (redis w) (buildKey p k) = Some (RNum n, Some d) \<or> d = now w + ttl))"
proof -
  let ?k = "buildKey p k" and ?m = "rdKeys R (redis w)"
  let ?i = "rdIncr R (redis w) (now w) ?k"
  let ?s = "rdExpireNX R (snd ?i) (now w) ?k ttl"
  have run: "run_state (IncrementWithTTL R p k ttl) w = (Inr (fst ?i), w\<lparr>redis := ?s\<rparr>)"
    using assms(1) by (simp add: IncrementWithTTL_def redis_call_up Let_def split: prod.split)
  have "fst ?i = n + 1 \<and> (\<exists>d0. (d0 = None \<or> ?m ?k = Some (RNum n, d0)) \<and> not_expired d0 (now w) \<and>
          rdKeys R (snd ?i) = ?m(?k \<mapsto> (RNum (n + 1), d0)))"
  proof (cases "visible ?m (now w) ?k")
    case None
    with assms(2) have "n = 0" by (simp add: counter_at_def)
    with incr_new_law [OF None] show ?thesis
      by (auto simp: not_expired_def intro!: exI [of _ None])
  next
    case (Some v)
    with assms(2) have v: "v = RNum n" by (auto simp: counter_at_def split: redis_value.splits)
    from Some v obtain d0 where "?m ?k = Some (RNum n, d0)" "not_expired d0 (now w)"
      by (auto simp: visible_def split: option.splits if_splits)
    with incr_num_law [OF Some [unfolded v]] show ?thesis
      by (auto simp: keep_deadline_def)
  qed
  then obtain d0 where i: "fst ?i = n + 1" "d0 = None \<or> ?m ?k = Some (RNum n, d0)"
      "not_expired d0 (now w)" "rdKeys R (snd ?i) = ?m(?k \<mapsto> (RNum (n + 1), d0))" by blast
  then have "visible (rdKeys R (snd ?i)) (now w) ?k = Some (RNum (n + 1))"
    by (simp add: visible_def)
  from expire_nx_law [OF this, of ttl] i(4)
  have "rdKeys R ?s ?k = Some (RNum (n + 1), case d0 of None \<Rightarrow> Some (now w + ttl) | Some x \<Rightarrow> Some x)"
    by (auto simp: keep_deadline_def split: option.splits)
  with run i assms(3) show ?thesis
    by (intro exI [of _ ?s]) (auto simp: visible_def not_expired_def split: option.splits)
qed

lemma counter_reads:
  assumes "redis_up w" and "counter_at (redis w) (now w) (buildKey p k) = Some n"
  shows "run_state (cache_counter R p k) w = (Inr n, w)"
  using assms
  by (auto simp: cache_counter_def redis_call_up get_law counter_at_def
      split: option.splits redis_value.splits)

text \<open>Invalidation by tag removes every key the tag still lists, and the tag.\<close>

lemma invalidate_removes:
  assumes "redis_up w" and "keys = rdSMembers R (redis w) (now w) (buildTagKey p tag)" and "keys \<noteq> []"
  shows "run_state (InvalidateByTag R p tag) w = (Inr (), w\<lparr>redis := del_all R (now w) (keys @ [buildTagKey p tag]) (redis w)\<rparr>)"
  using assms by (simp add: InvalidateByTag_def redis_call_up redis_up_def)

end

end
