(* ===== verification/Crypto_Tokens.thy ===== *)
theory Crypto_Tokens
  imports Go_Scan Store_Layer Redis_Cache "HOL-Library.Word"
begin

section \<open>External services, password hashes and opaque tokens\<close>

text \<open>
  Models \<open>internal/auth/password.go\<close>, \<open>pkg/token/access_token.go\<close>, \<open>pkg/id\<close> and the
  \<open>hashToken\<close> of \<open>internal/auth/tokens.go\<close>. What is not in the repository is a field of
  \<open>ext\<close>: the Redis commands, SHA-256 (in hexadecimal), argon2id, the system's random source
  and the UUID package. The \<open>n\<close>-th draw from the random source is \<open>xRand E n\<close> (bytes, or a
  failure) or \<open>xUUID E n\<close>. The facts relied on are the locale \<open>services\<close>: documented
  behaviour, with \<open>ref_ext\<close> as an instance.
\<close>

record 'r ext =
  xRedis :: "'r redis_api"
  xPrefix :: string  \<comment> \<open>the cache key prefix of the configuration\<close>
  xSha256Hex :: "string \<Rightarrow> string"
  xArgon2 :: "string \<Rightarrow> string \<Rightarrow> 32 word \<Rightarrow> 32 word \<Rightarrow> 8 word \<Rightarrow> 32 word \<Rightarrow> string"
  xArgon2Version :: nat
  xRand :: "nat \<Rightarrow> nat \<Rightarrow> string option"
  xUUID :: "nat \<Rightarrow> string"
  xParseUUID :: "string \<Rightarrow> string option"  \<comment> \<open>the canonical text of a parsable UUID\<close>

subsection \<open>The random source\<close>

definition rand_read :: "'r ext \<Rightarrow> nat \<Rightarrow> ('r, string) call" where
  "rand_read E n = State (\<lambda>w.
     (case xRand E (draws w) n of None \<Rightarrow> Inl EntropyE | Some b \<Rightarrow> Inr b,
      w\<lparr>draws := draws w + 1\<rparr>))"

definition NewUUIDNoDash :: "'r ext \<Rightarrow> ('r, string) proc" where
  "NewUUIDNoDash E = State (\<lambda>w.
     (replace_all ''-'' [] (xUUID E (draws w)), w\<lparr>draws := draws w + 1\<rparr>))"

subsection \<open>Password hashing\<close>

record passwordHasher =
  phMemory :: "32 word"
  phIterations :: "32 word"
  phParallelism :: "8 word"
  phSaltLength :: "32 word"
  phKeyLength :: "32 word"

definition newPasswordHasher ::
  "32 word \<Rightarrow> 32 word \<Rightarrow> 8 word \<Rightarrow> 32 word \<Rightarrow> 32 word \<Rightarrow> passwordHasher" where
  "newPasswordHasher memory iterations parallelism saltLength keyLength = \<lparr>
     phMemory = if memory = 0 then 64 * 1024 else memory,
     phIterations = if iterations = 0 then 3 else iterations,
     phParallelism = if parallelism = 0 then 2 else parallelism,
     phSaltLength = if saltLength = 0 then 16 else saltLength,
     phKeyLength = if keyLength = 0 then 32 else keyLength\<rparr>"

definition encode_hash :: "nat \<Rightarrow> 32 word \<Rightarrow> 32 word \<Rightarrow> 8 word \<Rightarrow> string \<Rightarrow> string \<Rightarrow> string" where
  "encode_hash version m t p salt key =
     ''$argon2id$v='' @ show_nat version @ ''$m='' @ show_nat (unat m) @ '',t='' @ show_nat (unat t)
     @ '',p='' @ show_nat (unat p) @ ''$'' @ b64_encode False salt @ ''$'' @ b64_encode False key"

definition hasher_hash :: "'r ext \<Rightarrow> passwordHasher \<Rightarrow> string \<Rightarrow> ('r, string) call" where
  "hasher_hash E h plain = do {
     r \<leftarrow> rand_read E (unat (phSaltLength h));
     case r of Inl e \<Rightarrow> fail (WrapE ''argon2: read salt'' e)
     | Inr salt \<Rightarrow>
         let key = xArgon2 E plain salt (phIterations h) (phMemory h) (phParallelism h) (phKeyLength h)
         in returnE (encode_hash (xArgon2Version E) (phMemory h) (phIterations h) (phParallelism h) salt key) }"

definition scan_version :: "string \<Rightarrow> int option" where
  "scan_version s = do {
     r \<leftarrow> scan_lit ''v='' s;
     (v, _) \<leftarrow> scan_int r;
     Some v }"

definition scan_params :: "string \<Rightarrow> (32 word \<times> 32 word \<times> 8 word) option" where
  "scan_params s = do {
     r \<leftarrow> scan_lit ''m='' s;
     (m, r) \<leftarrow> scan_uint 32 r;
     r \<leftarrow> scan_lit '',t='' r;
     (t, r) \<leftarrow> scan_uint 32 r;
     r \<leftarrow> scan_lit '',p='' r;
     (p, r) \<leftarrow> scan_uint 8 r;
     Some (of_nat m, of_nat t, of_nat p) }"

definition verifyPassword :: "'r ext \<Rightarrow> string \<Rightarrow> string \<Rightarrow> bool" where
  "verifyPassword E encoded plain =
     (let parts = split_on (CHR ''$'') encoded
      in if length parts \<noteq> 6 \<or> parts ! 1 \<noteq> ''argon2id'' then False
      else case scan_version (parts ! 2) of None \<Rightarrow> False
      | Some version \<Rightarrow>
        if version \<noteq> int (xArgon2Version E) then False
        else case scan_params (parts ! 3) of None \<Rightarrow> False
        | Some (memory, iterations, parallelism) \<Rightarrow>
          (case b64_decode False (parts ! 4) of None \<Rightarrow> False
           | Some salt \<Rightarrow>
             (case b64_decode False (parts ! 5) of None \<Rightarrow> False
              | Some want \<Rightarrow>
                  xArgon2 E plain salt iterations memory parallelism (of_nat (length want)) = want)))"

definition minPasswordLen :: nat where "minPasswordLen = 8"

definition ErrWeakPassword :: app_error where
  "ErrWeakPassword = errBadRequest ''WEAK_PASSWORD'' ''auth.weak_password''"

definition validatePassword :: "string \<Rightarrow> goerr + unit" where
  "validatePassword plain = (if length plain < minPasswordLen then Inl (AppE ErrWeakPassword) else Inr ())"

subsection \<open>Opaque tokens\<close>

definition tokenByteLen :: nat where "tokenByteLen = 32"

definition redisKey :: "'r ext \<Rightarrow> string \<Rightarrow> string" where
  "redisKey E rawToken = ''at:'' @ xSha256Hex E rawToken"

definition at_Generate :: "'r ext \<Rightarrow> duration \<Rightarrow> int \<Rightarrow> int \<Rightarrow> string \<Rightarrow> ('r, string) call" where
  "at_Generate E ttl sessionID userID deviceID = do {
     r \<leftarrow> rand_read E tokenByteLen;
     case r of Inl e \<Rightarrow> fail (WrapE ''token entropy failure'' e)
     | Inr b \<Rightarrow> do {
         t \<leftarrow> getw now;
         let rawToken = ''at_'' @ b64_encode True b;
         let claims = \<lparr>acSessionID = sessionID, acUserID = userID, acDeviceID = deviceID, acIssuedAt = t\<rparr>;
         r \<leftarrow> redis_call (\<lambda>s t. ((), rdSet (xRedis E) s t (redisKey E rawToken) (JClaims claims) ttl));
         case r of Inl e \<Rightarrow> fail (WrapE ''failed to store access token'' e)
         | Inr _ \<Rightarrow> returnE rawToken }}"

definition at_Validate :: "'r ext \<Rightarrow> string \<Rightarrow> ('r, access_claims) call" where
  "at_Validate E rawToken = do {
     r \<leftarrow> redis_call (\<lambda>s t. (rdGet (xRedis E) s t (redisKey E rawToken), s));
     case r of Inl e \<Rightarrow> fail (WrapE ''failed to retrieve access token'' e)
     | Inr v \<Rightarrow>
         (case v of None \<Rightarrow> fail TokenNotFoundE
          | Some (RData (JClaims claims)) \<Rightarrow> returnE claims
          | Some _ \<Rightarrow> fail (WrapE ''malformed token payload'' (MsgE ''json''))) }"

definition at_Revoke :: "'r ext \<Rightarrow> string \<Rightarrow> ('r, unit) call" where
  "at_Revoke E rawToken = redis_call (\<lambda>s t. ((), rdDel (xRedis E) s t (redisKey E rawToken)))"

definition GenerateRefreshToken :: "'r ext \<Rightarrow> ('r, string \<times> string) call" where
  "GenerateRefreshToken E = do {
     r \<leftarrow> rand_read E tokenByteLen;
     case r of Inl e \<Rightarrow> fail (WrapE ''token entropy failure'' e)
     | Inr b \<Rightarrow>
         let rawToken = ''rt_'' @ b64_encode True b
         in returnE (rawToken, xSha256Hex E rawToken) }"

definition hashToken :: "'r ext \<Rightarrow> string \<Rightarrow> string" where "hashToken E tok = xSha256Hex E tok"

subsection \<open>What the services promise\<close>

locale services = redis_service "xRedis E" for E :: "'r ext" +
  assumes sha_length: "length (xSha256Hex E s) = 64"
    and sha_hex: "c \<in> set (xSha256Hex E s) \<Longrightarrow> c \<noteq> CHR '':''"
    and argon2_length: "length (xArgon2 E p salt t m l k) = unat k"
    and argon2_version: "xArgon2Version E < 2 ^ 63"
    and rand_length: "xRand E i n = Some b \<Longrightarrow> length b = n"
    and uuid_parses: "xParseUUID E (replace_all ''-'' [] (xUUID E i)) = Some (xUUID E i)"
    and uuid_canonical: "xParseUUID E s = Some u \<Longrightarrow> xParseUUID E u = Some u"

text \<open>A reference instance: bytes folded into letters for the digests, counters for the draws.\<close>

definition ref_sha :: "string \<Rightarrow> string" where
  "ref_sha s = take 64 (map (\<lambda>c. char_of (97 + (of_char c :: nat) mod 16)) s @ replicate 64 (CHR ''0''))"

definition ref_ext :: "(string \<Rightarrow> (redis_value \<times> time option) option) ext" where
  "ref_ext = \<lparr>xRedis = ref_redis, xPrefix = ''app'', xSha256Hex = ref_sha,
     xArgon2 = (\<lambda>p salt t m l k. take (unat k) (salt @ p @ replicate (unat k) (CHR 0x00))),
     xArgon2Version = 19,
     xRand = (\<lambda>i n. Some (replicate n (char_of i))),
     xUUID = (\<lambda>i. show_nat i),
     xParseUUID = Some\<rparr>"

lemma replace_all_absent: "c \<notin> set s \<Longrightarrow> replace_all [c] r s = s"
  by (induction s) (auto simp: has_prefix_def)

lemma ref_sha_no_colon: "c \<in> set (ref_sha s) \<Longrightarrow> c \<noteq> CHR '':''"
proof -
  have ne: "char_of (97 + n mod 16) \<noteq> CHR '':''" for n :: nat
  proof
    assume "char_of (97 + n mod 16) = CHR '':''"
    then have "(of_char (char_of (97 + n mod 16)) :: nat) = of_char (CHR '':'')" by simp
    moreover have "n mod 16 < 16" by simp
    ultimately show False by simp
  qed
  show "c \<in> set (ref_sha s) \<Longrightarrow> c \<noteq> CHR '':''"
    using ne ne [symmetric] by (force simp: ref_sha_def dest!: in_set_takeD)
qed

interpretation ref_services: services ref_ext
proof
  have dash: "CHR ''-'' \<notin> set (show_nat i)" for i
    using show_nat_digits [of "CHR ''-''" i] by (auto simp: is_digit_def)
  show "xParseUUID ref_ext (replace_all ''-'' [] (xUUID ref_ext i)) = Some (xUUID ref_ext i)" for i
    using replace_all_absent [OF dash] by (simp add: ref_ext_def)
  show "c \<in> set (xSha256Hex ref_ext s) \<Longrightarrow> c \<noteq> CHR '':''" for c s
    using ref_sha_no_colon by (simp add: ref_ext_def)
qed (auto simp: ref_ext_def ref_redis_def ref_sha_def)

text \<open>A world to evaluate in: nothing has failed, nothing is scheduled to.\<close>

definition ref_world :: "db_role \<Rightarrow> time \<Rightarrow> database \<Rightarrow> (string \<Rightarrow> (redis_value \<times> time option) option) world" where
  "ref_world rl t d = \<lparr>now = t, db = d, nextID = 1000, txAborted = False, gucs = ([], []), dbRole = rl,
     dbFaults = [], redis = Map.empty, redisFaults = [], draws = 0, mq = [], mqReplies = [],
     busKick = False, busFailures = 0, busOpenedAt = 0, rpcInFlight = 0, rpcTotals = [], rpcLogs = [],
     gauges = (\<lambda>_. 0)\<rparr>"

lemma ref_world_simps [simp]:
  "now (ref_world rl t d) = t" "db (ref_world rl t d) = d" "nextID (ref_world rl t d) = 1000"
  "dbFaults (ref_world rl t d) = []" "redisFaults (ref_world rl t d) = []" "mqReplies (ref_world rl t d) = []"
  "txAborted (ref_world rl t d) = False" "dbRole (ref_world rl t d) = rl" "draws (ref_world rl t d) = 0"
  "mq (ref_world rl t d) = []" "busFailures (ref_world rl t d) = 0" "redis (ref_world rl t d) = Map.empty"
  "db_up (ref_world rl t d)" "redis_up (ref_world rl t d)"
  by (simp_all add: ref_world_def db_up_def redis_up_def)

subsection \<open>A stored hash verifies the password it was made from\<close>

lemma split_on_absent: "c \<notin> set s \<Longrightarrow> split_on c s = [s]"
  by (induction s) auto

lemma split_on_append: "c \<notin> set s \<Longrightarrow> split_on c (s @ c # r) = s # split_on c r"
  by (induction s) auto

lemma show_nat_plain: "\<not> is_digit c \<Longrightarrow> c \<notin> set (show_nat n)"
  using show_nat_digits by blast

lemma encode_hash_parts:
  "split_on (CHR ''$'') (encode_hash v m t p salt key) =
     [[], ''argon2id'', ''v='' @ show_nat v,
      ''m='' @ show_nat (unat m) @ '',t='' @ show_nat (unat t) @ '',p='' @ show_nat (unat p),
      b64_encode False salt, b64_encode False key]"
proof -
  let ?v = "''v='' @ show_nat v"
  let ?m = "''m='' @ show_nat (unat m) @ '',t='' @ show_nat (unat t) @ '',p='' @ show_nat (unat p)"
  have nd: "CHR ''$'' \<notin> set (show_nat n)" for n by (rule show_nat_plain) (simp add: is_digit_def)
  have e: "encode_hash v m t p salt key = [] @ CHR ''$'' # (''argon2id'' @ CHR ''$'' # (?v @ CHR ''$'' #
      (?m @ CHR ''$'' # (b64_encode False salt @ CHR ''$'' # b64_encode False key))))"
    by (simp add: encode_hash_def)
  have "CHR ''$'' \<notin> set ?v" "CHR ''$'' \<notin> set ?m" using nd by auto
  moreover have "CHR ''$'' \<notin> set ''argon2id''" "CHR ''$'' \<notin> set []" by simp_all
  ultimately show ?thesis unfolding e
    by (simp only: split_on_append split_on_absent [OF b64_no_dollar] b64_no_dollar not_False_eq_True)
qed

lemma stops_simps [simp]: "stops (c # r) \<longleftrightarrow> \<not> is_digit c"
  by (simp add: stops_def)

lemma scan_version_encoded: "v < 2 ^ 63 \<Longrightarrow> scan_version (''v='' @ show_nat v) = Some (int v)"
  using scan_int_digits [of "show_nat v" "[]"] by (simp add: scan_version_def)

lemma scan_params_encoded:
  "scan_params (''m='' @ show_nat (unat m) @ '',t='' @ show_nat (unat t) @ '',p='' @ show_nat (unat p))
     = Some (m, t, p)"
proof -
  have b: "unat m < 2 ^ 32" "unat t < 2 ^ 32" "unat p < 2 ^ 8"
    using unsigned_less [of m] unsigned_less [of t] unsigned_less [of p] by simp_all
  have nd: "\<not> is_digit (CHR '','')" by (simp add: is_digit_def)
  from b scan_uint_show [of "unat p" 8 "[]"]
  show ?thesis by (simp add: scan_params_def scan_uint_show nd)
qed

lemma encoded_hash_verifies:
  assumes "services E"
  shows "verifyPassword E (encode_hash (xArgon2Version E) m t p salt (xArgon2 E plain salt t m p k)) q =
    (xArgon2 E q salt t m p k = xArgon2 E plain salt t m p k)"
proof -
  have k: "of_nat (length (xArgon2 E plain salt t m p k)) = k"
    by (simp add: services.argon2_length [OF assms])
  show ?thesis
    unfolding verifyPassword_def encode_hash_parts
    using scan_version_encoded [OF services.argon2_version [OF assms]] scan_params_encoded [of m t p]
    by (simp add: Let_def b64_roundtrip k)
qed

text \<open>What the hasher answers, when the random source works.\<close>

lemma hasher_hash_Inr:
  assumes "run_state (hasher_hash E h plain) w = (Inr enc, w')"
  shows "\<exists>salt. xRand E (draws w) (unat (phSaltLength h)) = Some salt \<and>
    enc = encode_hash (xArgon2Version E) (phMemory h) (phIterations h) (phParallelism h) salt
      (xArgon2 E plain salt (phIterations h) (phMemory h) (phParallelism h) (phKeyLength h)) \<and>
    db w' = db w \<and> redis w' = redis w \<and> now w' = now w"
  using assms by (auto simp: hasher_hash_def rand_read_def Let_def split: option.splits)

text \<open>C22. A hash made by \<open>passwordHasher.hash\<close> is accepted by \<open>verifyPassword\<close> for the password
  it was made from, and for another password exactly when argon2id, with the salt drawn and the
  parameters of the hasher, derives the same key: the encoded form loses neither salt, parameters
  nor key, whatever the cost parameters are.\<close>

theorem password_hash_verifies:
  assumes "services E" and "run_state (hasher_hash E h plain) w = (Inr enc, w')"
  shows "verifyPassword E enc plain \<and>
    (\<exists>salt. xRand E (draws w) (unat (phSaltLength h)) = Some salt \<and>
       (\<forall>p. verifyPassword E enc p =
          (xArgon2 E p salt (phIterations h) (phMemory h) (phParallelism h) (phKeyLength h)
           = xArgon2 E plain salt (phIterations h) (phMemory h) (phParallelism h) (phKeyLength h))))"
proof -
  from hasher_hash_Inr [OF assms(2)] obtain salt where
    "xRand E (draws w) (unat (phSaltLength h)) = Some salt"
    "enc = encode_hash (xArgon2Version E) (phMemory h) (phIterations h) (phParallelism h) salt
      (xArgon2 E plain salt (phIterations h) (phMemory h) (phParallelism h) (phKeyLength h))" by blast
  then show ?thesis by (auto simp: encoded_hash_verifies [OF assms(1)])
qed

end
