(* ===== verification/Repositories.thy ===== *)
theory Repositories
  imports Crypto_Tokens
begin

section \<open>The repositories\<close>

text \<open>
  The data access of the domain packages, each method one callback of \<open>store.Run\<close>: users
  (\<open>internal/users/repository.go\<close>), device sessions and refresh tokens (\<open>internal/auth\<close>),
  settings, suspensions, push tokens and notification preferences. A missing row becomes the
  domain error the source returns for it, every other database error is wrapped.
\<close>

subsection \<open>Users\<close>

definition users_Create :: "ctx \<Rightarrow> string \<Rightarrow> string \<Rightarrow> string \<Rightarrow> string \<Rightarrow> ('r, user) call" where
  "users_Create c em hash fn ln = run_mapped c (WrapE ''create user'') (CreateUser em hash fn ln)"

definition users_FindByID :: "ctx \<Rightarrow> int \<Rightarrow> ('r, user) call" where
  "users_FindByID c i = run_mapped c (no_rows_as ErrUserNotFound (''find user '' @ show_int i)) (GetUserByID i)"

definition users_FindByEmail :: "ctx \<Rightarrow> string \<Rightarrow> ('r, user) call" where
  "users_FindByEmail c em = run_mapped c (no_rows_as ErrUserNotFound ''find user by email'') (GetUserByEmail em)"

text \<open>The error is dropped: an unreachable database looks like an unused address.\<close>

definition users_ExistsByEmail :: "ctx \<Rightarrow> string \<Rightarrow> ('r, bool) proc" where
  "users_ExistsByEmail c em = do {
     r \<leftarrow> run_query c (ExistsUserByEmail em);
     case r of Inl e \<Rightarrow> ret False | Inr x \<Rightarrow> ret x }"

definition users_UpdateLastLogin :: "ctx \<Rightarrow> int \<Rightarrow> ('r, unit) call" where
  "users_UpdateLastLogin c i = run_query c (UpdateUserLastLogin i)"

definition users_UpdatePasswordHash :: "ctx \<Rightarrow> int \<Rightarrow> string \<Rightarrow> ('r, unit) call" where
  "users_UpdatePasswordHash c i hash = run_query c (UpdateUserPasswordHash i hash)"

definition users_MarkEmailVerified :: "ctx \<Rightarrow> int \<Rightarrow> ('r, unit) call" where
  "users_MarkEmailVerified c i = run_query c (MarkUserEmailVerified i)"

definition users_UpdateProfile :: "ctx \<Rightarrow> int \<Rightarrow> profile_update \<Rightarrow> ('r, user) call" where
  "users_UpdateProfile c i upd =
     run_mapped c (no_rows_as ErrUserNotFound ''update profile'') (UpdateUserProfile i upd)"

definition users_UpdateStatus :: "ctx \<Rightarrow> int \<Rightarrow> user_status \<Rightarrow> ('r, unit) call" where
  "users_UpdateStatus c i st = run_query c (UpdateUserStatus i st)"

definition users_UpdateRole :: "ctx \<Rightarrow> int \<Rightarrow> user_role \<Rightarrow> ('r, unit) call" where
  "users_UpdateRole c i ro = run_query c (UpdateUserRole i ro)"

definition users_SoftDeleteByID :: "ctx \<Rightarrow> int \<Rightarrow> ('r, unit) call" where
  "users_SoftDeleteByID c i = run_query c (SoftDeleteUser i)"

text \<open>The query takes 32-bit limits; a negative LIMIT or OFFSET is refused by the server.\<close>

definition list_users_query :: "int \<Rightarrow> int \<Rightarrow> user list query" where
  "list_users_query off lim rl t n d =
     (let l = sint (word_of_int lim :: 32 word); k = sint (word_of_int off :: 32 word)
      in if l < 0 \<or> k < 0 then Inl (PgE (CheckViolation ''must not be negative''))
         else ListUsers (nat l) (nat k) rl t n d)"

definition users_List :: "ctx \<Rightarrow> int \<Rightarrow> int \<Rightarrow> ('r, user list \<times> nat) call" where
  "users_List c off lim = store_run c (\<lambda>_. do {
     r \<leftarrow> exec_query CountUsers;
     case r of Inl e \<Rightarrow> fail (WrapE ''count users'' e)
     | Inr cnt \<Rightarrow> do {
         r \<leftarrow> exec_query (list_users_query off lim);
         case r of Inl e \<Rightarrow> fail (WrapE ''list users'' e)
         | Inr us \<Rightarrow> returnE (us, cnt) }})"

subsection \<open>Device sessions\<close>

definition toDeviceSession :: "session_row \<Rightarrow> device_session" where
  "toDeviceSession r = \<lparr>dsID = srID r, dsUserID = srUserID r, dsPlatform = srPlatform r,
     dsManufacturer = StrOf (srManufacturer r), dsModel = StrOf (srModel r),
     dsVersion = StrOf (srVersion r), dsSDK = StrOf (srSDK r), dsBrand = StrOf (srBrand r),
     dsHardware = StrOf (srHardware r), dsBoard = StrOf (srBoard r), dsDevice = StrOf (srDevice r),
     dsProduct = StrOf (srProduct r), dsIsPhysicalDevice = (srIsPhysicalDevice r = Some True),
     dsName = StrOf (srName r), dsIdentifier = StrOf (srIdentifier r), dsDeviceID = srDeviceID r, dsLastActivity = srLastActivity r,
     dsIPAddress = StrOf (srIPAddress r), dsUserAgent = StrOf (srUserAgent r), dsLocation = StrOf (srLocation r),
     dsRevokedAt = srRevokedAt r, dsRevokedReason = StrOf (srRevokedReason r),
     dsCreatedAt = srCreatedAt r, dsUser = None\<rparr>"

definition session_params :: "device_session \<Rightarrow> new_session" where
  "session_params s = \<lparr>nsUserID = dsUserID s, nsPlatform = dsPlatform s,
     nsManufacturer = NullStr (dsManufacturer s), nsModel = NullStr (dsModel s),
     nsDeviceID = dsDeviceID s, nsName = NullStr (dsName s), nsIPAddress = NullStr (dsIPAddress s),
     nsUserAgent = NullStr (dsUserAgent s)\<rparr>"

definition sessions_Create :: "ctx \<Rightarrow> device_session \<Rightarrow> ('r, device_session) call" where
  "sessions_Create c s = do {
     r \<leftarrow> run_query c (CreateDeviceSession (session_params s));
     case r of Inl e \<Rightarrow> fail (WrapE ''create device session'' e)
     | Inr row \<Rightarrow> returnE (toDeviceSession row) }"

definition sessions_FindByID :: "ctx \<Rightarrow> int \<Rightarrow> ('r, device_session) call" where
  "sessions_FindByID c i = store_run c (\<lambda>_. do {
     r \<leftarrow> exec_query (GetDeviceSessionByID i);
     case r of Inl e \<Rightarrow> fail (no_rows_as ErrSessionNotFound (''get session '' @ show_int i) e)
     | Inr row \<Rightarrow> do {
         let session = toDeviceSession row;
         r \<leftarrow> exec_query (GetUserByID (dsUserID session));
         case r of Inl e \<Rightarrow> fail (WrapE (''load session user '' @ show_int (dsUserID session)) e)
         | Inr u \<Rightarrow> returnE (session\<lparr>dsUser := Some u\<rparr>) }})"

definition sessions_FindByUserAndDeviceID :: "ctx \<Rightarrow> int \<Rightarrow> string \<Rightarrow> ('r, device_session) call" where
  "sessions_FindByUserAndDeviceID c i dev = do {
     r \<leftarrow> run_mapped c (no_rows_as ErrSessionNotFound ''get user device session'')
            (GetActiveDeviceSessionByUserAndDevice i dev);
     case r of Inl e \<Rightarrow> fail e | Inr row \<Rightarrow> returnE (toDeviceSession row) }"

definition sessions_Revoke :: "ctx \<Rightarrow> string \<Rightarrow> int \<Rightarrow> ('r, device_session) call" where
  "sessions_Revoke c reason i = do {
     r \<leftarrow> run_mapped c (no_rows_as ErrSessionNotFound (''revoke session '' @ show_int i))
            (RevokeDeviceSession i reason);
     case r of Inl e \<Rightarrow> fail e | Inr row \<Rightarrow> returnE (toDeviceSession row) }"

definition sessions_FindActiveDevicesByUser :: "ctx \<Rightarrow> int \<Rightarrow> duration \<Rightarrow> ('r, device_session list) call" where
  "sessions_FindActiveDevicesByUser c i inactivityTimeout = do {
     t \<leftarrow> getw now;
     r \<leftarrow> run_mapped c (WrapE ''find active devices'') (ListActiveDevicesByUser i (t - inactivityTimeout));
     case r of Inl e \<Rightarrow> fail e | Inr rows \<Rightarrow> returnE (map toDeviceSession rows) }"

definition sessions_RevokeAllByUserID :: "ctx \<Rightarrow> int \<Rightarrow> string \<Rightarrow> ('r, unit) call" where
  "sessions_RevokeAllByUserID c i reason = run_query c (RevokeAllDeviceSessionsByUser i reason)"

definition sessions_RevokeActiveByDeviceID :: "ctx \<Rightarrow> string \<Rightarrow> string \<Rightarrow> ('r, unit) call" where
  "sessions_RevokeActiveByDeviceID c dev reason = run_query c (RevokeActiveDeviceSessionsByDeviceID dev reason)"

subsection \<open>Refresh tokens\<close>

definition toRefreshToken :: "refresh_row \<Rightarrow> refresh_token" where
  "toRefreshToken r = \<lparr>rtID = rrID r, rtSessionID = rrSessionID r, rtTokenHash = rrTokenHash r,
     rtTokenPrefix = rrTokenPrefix r, rtTokenFamily = rrTokenFamily r, rtExpiresAt = rrExpiresAt r,
     rtRevokedAt = rrRevokedAt r, rtRevokedReason = StrOf (rrRevokedReason r),
     rtCreatedAt = rrCreatedAt r, rtSession = None\<rparr>"

definition ErrInvalidToken :: app_error where
  "ErrInvalidToken = errUnauthorized ''INVALID_AUTH_TOKEN'' ''auth.invalid_token''"

definition refresh_Create :: "'r ext \<Rightarrow> ctx \<Rightarrow> int \<Rightarrow> string \<Rightarrow> string \<Rightarrow> time \<Rightarrow> ('r, refresh_token) call" where
  "refresh_Create E c sid tokenHash family expires = do {
     let prefix = (if length tokenHash \<ge> 8 then take 8 tokenHash else []);
     r \<leftarrow> run_query c (CreateRefreshToken sid tokenHash prefix (xParseUUID E family) expires);
     case r of Inl e \<Rightarrow> fail (WrapE ''create refresh token'' e)
     | Inr row \<Rightarrow> returnE (toRefreshToken row) }"

text \<open>The rows with the prefix are compared in constant time, the first equal one is loaded with
  its session and user.\<close>

fun find_row :: "string \<Rightarrow> refresh_row list \<Rightarrow> refresh_row option" where
  "find_row h [] = None"
| "find_row h (r # rs) = (if rrTokenHash r \<noteq> h then find_row h rs else Some r)"

definition load_token :: "refresh_row \<Rightarrow> ('r, refresh_token) call" where
  "load_token row = do {
     let record = toRefreshToken row;
     r \<leftarrow> exec_query (GetDeviceSessionByID (rtSessionID record));
     case r of Inl e \<Rightarrow> fail (WrapE ''load token session'' e)
     | Inr srow \<Rightarrow> do {
         let session = toDeviceSession srow;
         r \<leftarrow> exec_query (GetUserByID (dsUserID session));
         case r of Inl e \<Rightarrow> fail (WrapE ''load token user'' e)
         | Inr u \<Rightarrow> returnE (record\<lparr>rtSession := Some (session\<lparr>dsUser := Some u\<rparr>)\<rparr>) }}"

definition refresh_FindByTokenHash :: "ctx \<Rightarrow> string \<Rightarrow> ('r, refresh_token) call" where
  "refresh_FindByTokenHash c tokenHash =
     (if length tokenHash < 8 then fail (AppE ErrInvalidToken)
      else store_run c (\<lambda>_. do {
        r \<leftarrow> exec_query (ListRefreshTokensByPrefix (take 8 tokenHash));
        case r of Inl e \<Rightarrow> fail (WrapE ''find refresh token'' e)
        | Inr rows \<Rightarrow>
            (case find_row tokenHash rows of None \<Rightarrow> fail (AppE ErrInvalidToken)
             | Some row \<Rightarrow> load_token row) }))"

definition refresh_RevokeByTokenHash :: "ctx \<Rightarrow> string \<Rightarrow> string \<Rightarrow> ('r, unit) call" where
  "refresh_RevokeByTokenHash c h reason = run_query c (RevokeRefreshTokenByHash h reason)"

definition refresh_RevokeBySessionID :: "ctx \<Rightarrow> int \<Rightarrow> string \<Rightarrow> ('r, unit) call" where
  "refresh_RevokeBySessionID c i reason = run_query c (RevokeRefreshTokensBySession i reason)"

definition refresh_RevokeByTokenFamily :: "'r ext \<Rightarrow> ctx \<Rightarrow> string \<Rightarrow> string \<Rightarrow> ('r, unit) call" where
  "refresh_RevokeByTokenFamily E c fam reason = run_query c (RevokeRefreshTokensByFamily (xParseUUID E fam) reason)"

definition refresh_CleanupExpired :: "ctx \<Rightarrow> ('r, nat) call" where
  "refresh_CleanupExpired c = run_query c DeleteExpiredRefreshTokens"

subsection \<open>Settings and suspensions\<close>

definition ErrSettingsNotFound :: app_error where
  "ErrSettingsNotFound = errNotFound ''SETTINGS_NOT_FOUND'' ''settings.not_found''"

definition settings_GetByUserID :: "ctx \<Rightarrow> int \<Rightarrow> ('r, settings) call" where
  "settings_GetByUserID c i = run_mapped c (no_rows_as ErrSettingsNotFound ''get settings'') (GetUserSettings i)"

definition settings_Create :: "ctx \<Rightarrow> int \<Rightarrow> settings \<Rightarrow> ('r, unit) call" where
  "settings_Create c i s = run_mapped c (WrapE ''create settings'') (CreateUserSettings i s)"

definition settings_Update :: "ctx \<Rightarrow> int \<Rightarrow> settings \<Rightarrow> ('r, unit) call" where
  "settings_Update c i s = run_mapped c (WrapE ''update settings'') (UpdateUserSettings i s)"

definition ErrNotSuspended :: app_error where
  "ErrNotSuspended = errNotFound ''SUSPENSION_NOT_FOUND'' ''user.suspension.not_suspended''"

definition suspension_GetActiveByUserID :: "ctx \<Rightarrow> int \<Rightarrow> ('r, suspension) call" where
  "suspension_GetActiveByUserID c i =
     run_mapped c (no_rows_as ErrNotSuspended ''get active suspension'') (GetActiveSuspensionByUserID i)"

definition suspension_Create ::
  "ctx \<Rightarrow> int \<Rightarrow> string \<Rightarrow> string \<Rightarrow> time option \<Rightarrow> bool \<Rightarrow> ('r, suspension) call" where
  "suspension_Create c i reason details until perm =
     run_mapped c (WrapE ''create suspension'') (CreateSuspension i reason (NullStr details) until perm)"

definition suspension_DeactivateByUserID :: "ctx \<Rightarrow> int \<Rightarrow> ('r, unit) call" where
  "suspension_DeactivateByUserID c i = run_mapped c (WrapE ''deactivate suspension'') (DeactivateActiveSuspensions i)"

subsection \<open>Push tokens and preferences\<close>

definition ErrPushTokenNotFound :: app_error where
  "ErrPushTokenNotFound = errNotFound ''PUSH_TOKEN_NOT_FOUND'' ''notification.token_not_found''"

definition ErrPrefNotFound :: app_error where
  "ErrPrefNotFound = errNotFound ''NOTIFICATION_PREFS_NOT_FOUND'' ''notification.prefs_not_found''"

definition tokens_Upsert :: "ctx \<Rightarrow> int \<Rightarrow> string \<Rightarrow> string \<Rightarrow> string \<Rightarrow> string \<Rightarrow> ('r, fcm_token) call" where
  "tokens_Upsert c uid dev tok plat ver =
     run_mapped c (WrapE ''upsert FCM token'') (UpsertFCMToken uid dev tok plat (NullStr ver))"

definition tokens_ListByUserID :: "ctx \<Rightarrow> int \<Rightarrow> ('r, fcm_token list) call" where
  "tokens_ListByUserID c uid =
     run_mapped c (WrapE (''list FCM tokens for user '' @ show_int uid)) (ListFCMTokensByUserID uid)"

definition tokens_FindByUserIDAndDeviceID :: "ctx \<Rightarrow> int \<Rightarrow> string \<Rightarrow> ('r, fcm_token) call" where
  "tokens_FindByUserIDAndDeviceID c uid dev =
     run_mapped c (no_rows_as ErrPushTokenNotFound ''find FCM token'') (GetFCMTokenByUserAndDevice uid dev)"

definition tokens_DeleteByDeviceID :: "ctx \<Rightarrow> int \<Rightarrow> string \<Rightarrow> ('r, unit) call" where
  "tokens_DeleteByDeviceID c uid dev = run_query c (DeleteFCMTokenByDevice uid dev)"

definition toPreferences :: "prefs_row \<Rightarrow> notif_prefs" where
  "toPreferences r = \<lparr>npUserID = prUserID r, npPush = prPush r, npEmail = prEmail r,
     npMarketing = prMarketing r, npQuietHoursEnabled = prQuietEnabled r,
     npQuietHoursStart = TimeOfDayStr (prQuietStart r), npQuietHoursEnd = TimeOfDayStr (prQuietEnd r),
     npTimezone = prTimezone r, npCreatedAt = prCreatedAt r, npUpdatedAt = prUpdatedAt r\<rparr>"

definition prefs_params :: "notif_prefs \<Rightarrow> prefs_row" where
  "prefs_params p = \<lparr>prUserID = npUserID p, prPush = npPush p, prEmail = npEmail p,
     prMarketing = npMarketing p, prQuietEnabled = npQuietHoursEnabled p,
     prQuietStart = TimeOfDay (npQuietHoursStart p), prQuietEnd = TimeOfDay (npQuietHoursEnd p),
     prTimezone = npTimezone p, prCreatedAt = npCreatedAt p, prUpdatedAt = npUpdatedAt p\<rparr>"

definition prefs_FindByUserID :: "ctx \<Rightarrow> int \<Rightarrow> ('r, notif_prefs) call" where
  "prefs_FindByUserID c uid = do {
     r \<leftarrow> run_mapped c (no_rows_as ErrPrefNotFound ''find notification preferences'') (GetNotificationPreferences uid);
     case r of Inl e \<Rightarrow> fail e | Inr row \<Rightarrow> returnE (toPreferences row) }"

definition prefs_Create :: "ctx \<Rightarrow> notif_prefs \<Rightarrow> ('r, notif_prefs) call" where
  "prefs_Create c p = do {
     r \<leftarrow> run_mapped c (WrapE ''create notification preferences'') (CreateNotificationPreferences (prefs_params p));
     case r of Inl e \<Rightarrow> fail e | Inr row \<Rightarrow> returnE (toPreferences row) }"

definition prefs_Upsert :: "ctx \<Rightarrow> notif_prefs \<Rightarrow> ('r, notif_prefs) call" where
  "prefs_Upsert c p = do {
     r \<leftarrow> run_mapped c (WrapE ''upsert notification preferences'') (UpsertNotificationPreferences (prefs_params p));
     case r of Inl e \<Rightarrow> fail e | Inr row \<Rightarrow> returnE (toPreferences row) }"

end
