(* ===== verification/Event_Bus.thy ===== *)
theory Event_Bus
  imports Crypto_Tokens
begin

section \<open>The event bus, its outbox and the task processor\<close>

text \<open>
  Models \<open>internal/event\<close>: subscription options, the factory registry, the Asynq dispatcher,
  the outbox repository, \<open>Bus.Publish\<close>, \<open>dispatch\<close>, the draining of the outbox with its
  circuit breaker, \<open>InvokeAsync\<close>, the task processor, the handlers of \<open>event/handlers\<close> and
  their wiring in \<open>internal/app/wire_events.go\<close>. Asynq is the schedule \<open>mqReplies\<close> of the
  world: each enqueue succeeds, is refused as a duplicate or fails. The bus's immutable fields
  are the record \<open>bus\<close>; the mutable ones are in the world.
\<close>

subsection \<open>Options and the dispatcher\<close>

datatype asynq_option = OptQueue string | OptUnique duration | OptTaskID string
  | OptMaxRetry nat | OptTimeout duration | OptProcessAt time

definition QueueHigh :: string where "QueueHigh = ''events:high''"
definition QueueNormal :: string where "QueueNormal = ''events:normal''"
definition QueueLow :: string where "QueueLow = ''events:low''"
definition TaskTypeDispatch :: string where "TaskTypeDispatch = ''events:dispatch''"
definition defaultTaskMaxRetry :: nat where "defaultTaskMaxRetry = 10"
definition defaultTaskTimeout :: duration where "defaultTaskTimeout = 30 * second"

text \<open>Later options override earlier ones.\<close>

fun apply_option :: "asynq_option \<Rightarrow> asynq_task \<Rightarrow> asynq_task" where
  "apply_option (OptQueue q) t = t\<lparr>tkQueue := q\<rparr>"
| "apply_option (OptUnique d) t = t\<lparr>tkUnique := Some d\<rparr>"
| "apply_option (OptTaskID i) t = t\<lparr>tkID := Some i\<rparr>"
| "apply_option (OptMaxRetry n) t = t\<lparr>tkMaxRetry := n\<rparr>"
| "apply_option (OptTimeout d) t = t\<lparr>tkTimeout := d\<rparr>"
| "apply_option (OptProcessAt a) t = t\<lparr>tkProcessAt := Some a\<rparr>"

definition new_task :: "string \<Rightarrow> task_payload \<Rightarrow> asynq_option list \<Rightarrow> asynq_task" where
  "new_task ty body opts = fold apply_option opts
     \<lparr>tkType = ty, tkQueue = ''default'', tkID = None, tkMaxRetry = 25, tkTimeout = 0,
      tkUnique = None, tkProcessAt = None, tkBody = body\<rparr>"

definition asynq_enqueue :: "asynq_task \<Rightarrow> ('r, unit) call" where
  "asynq_enqueue t = State (\<lambda>w.
     case mqReplies w of
       EnqDuplicate # rs \<Rightarrow> (Inl DuplicateTaskE, w\<lparr>mqReplies := rs\<rparr>)
     | EnqFails # rs \<Rightarrow> (Inl (MsgE ''asynq: enqueue failed''), w\<lparr>mqReplies := rs\<rparr>)
     | rs \<Rightarrow> (Inr (), w\<lparr>mqReplies := tl rs, mq := mq w @ [t]\<rparr>))"

definition dispatch_task :: "ctx \<Rightarrow> event \<Rightarrow> asynq_option list \<Rightarrow> asynq_task" where
  "dispatch_task c evt opts =
     new_task TaskTypeDispatch (TEnvelope (eventType evt) (JEvent evt) (cxRequestID c))
       ([OptQueue QueueNormal, OptMaxRetry defaultTaskMaxRetry, OptTimeout defaultTaskTimeout] @ opts)"

definition dispatcher_Enqueue :: "ctx \<Rightarrow> event \<Rightarrow> asynq_option list \<Rightarrow> ('r, unit) call" where
  "dispatcher_Enqueue c evt opts = do {
     r \<leftarrow> asynq_enqueue (dispatch_task c evt opts);
     case r of Inl e \<Rightarrow> fail (WrapE (''events: enqueue '' @ eventType evt) e) | Inr _ \<Rightarrow> returnE () }"

definition isDuplicateEnqueue :: "goerr \<Rightarrow> bool" where
  "isDuplicateEnqueue e = errIs e DuplicateTaskE"

record subConfig =
  scCritical :: bool
  scOpts :: "asynq_option list"
  scTaskIDFn :: "(event \<Rightarrow> string) option"

type_synonym SubscribeOption = "subConfig \<Rightarrow> subConfig"

definition WithCritical :: SubscribeOption where "WithCritical c = c\<lparr>scCritical := True\<rparr>"
definition WithQueue :: "string \<Rightarrow> SubscribeOption" where
  "WithQueue q c = c\<lparr>scOpts := scOpts c @ [OptQueue q]\<rparr>"
definition WithUniqueWindow :: "duration \<Rightarrow> SubscribeOption" where
  "WithUniqueWindow d c = c\<lparr>scOpts := scOpts c @ [OptUnique d]\<rparr>"
definition WithTaskIDFn :: "(event \<Rightarrow> string) \<Rightarrow> SubscribeOption" where
  "WithTaskIDFn f c = c\<lparr>scTaskIDFn := Some f\<rparr>"
definition WithMaxRetry :: "nat \<Rightarrow> SubscribeOption" where
  "WithMaxRetry n c = c\<lparr>scOpts := scOpts c @ [OptMaxRetry n]\<rparr>"
definition WithTimeout :: "duration \<Rightarrow> SubscribeOption" where
  "WithTimeout d c = c\<lparr>scOpts := scOpts c @ [OptTimeout d]\<rparr>"

definition newSubConfig :: "SubscribeOption list \<Rightarrow> subConfig" where
  "newSubConfig opts = fold (\<lambda>f c. f c) opts \<lparr>scCritical = False, scOpts = [], scTaskIDFn = None\<rparr>"

subsection \<open>The registry\<close>

text \<open>\<open>init\<close> registers the three event types; \<open>FactoryFor\<close> finds a factory by type name.\<close>

definition registered_types :: "string list" where
  "registered_types = [''user.account.deleted'', ''admin.audit_log.written'', ''auth.attempt.recorded'']"

definition FactoryFor :: "string \<Rightarrow> bool" where "FactoryFor ty = (ty \<in> set registered_types)"

lemma event_types_registered [simp]: "FactoryFor (eventType e)"
  by (cases e) (simp_all add: FactoryFor_def registered_types_def)

subsection \<open>The outbox repository\<close>

definition outboxMaxRetry :: nat where "outboxMaxRetry = 10"
definition defaultDrainBatchSize :: nat where "defaultDrainBatchSize = 100"
definition drainBreakerThreshold :: nat where "drainBreakerThreshold = 3"
definition drainBreakerCooldown :: duration where "drainBreakerCooldown = 60 * second"

text \<open>The text \<open>err.Error()\<close> of an error.\<close>

fun pg_text :: "pg_error \<Rightarrow> string" where
  "pg_text ConnDown = ''connection refused''"
| "pg_text TxAborted = ''current transaction is aborted''"
| "pg_text TxCommitRollback = ''commit unexpectedly resulted in rollback''"
| "pg_text (UniqueViolation c) = ''duplicate key value violates unique constraint '' @ c"
| "pg_text (CheckViolation c) = ''new row violates check constraint '' @ c"
| "pg_text (RaisedByTrigger m) = m"
| "pg_text (RlsDenied t) = ''new row violates row-level security policy for table '' @ t"
| "pg_text (ForeignKeyViolation t) = ''insert or update violates foreign key constraint on table '' @ t"

fun error_text :: "goerr \<Rightarrow> string" where
  "error_text (AppE a) = messageKey a"
| "error_text (StatusE g m) = ''rpc error: '' @ m"
| "error_text (StatusD g m rs l fs) = ''rpc error: '' @ m"
| "error_text NoRows = ''no rows in result set''"
| "error_text (PgE p) = pg_text p"
| "error_text RedisE = ''redis: connection failed''"
| "error_text EntropyE = ''entropy failure''"
| "error_text EnqueueFailedE = ''one or more async event enqueues failed''"
| "error_text OutboxDuplicateE = ''outbox: duplicate pending row with same (event_type, dedupe_key)''"
| "error_text DuplicateTaskE = ''task already exists''"
| "error_text TokenNotFoundE = ''access token not found or expired''"
| "error_text (MsgE m) = m"
| "error_text (WrapE m e) = m @ '': '' @ error_text e"
| "error_text (SkipRetryE e) = error_text e @ '': skip retry for the task''"
| "error_text (PanicE m) = m"

definition isOutboxDedupeViolation :: "goerr \<Rightarrow> bool" where
  "isOutboxDedupeViolation e =
     (case unwrap e of PgE (UniqueViolation c) \<Rightarrow> contains c ''outbox_pending_dedupe'' | _ \<Rightarrow> False)"

definition dedupe_key :: "event \<Rightarrow> string option" where
  "dedupe_key evt =
     (case outboxDedupeKey evt of None \<Rightarrow> None
      | Some k \<Rightarrow> let k = trim_space k in if k = [] then None else Some k)"

definition outbox_Write :: "ctx \<Rightarrow> event \<Rightarrow> ('r, int) call" where
  "outbox_Write c evt = do {
     r \<leftarrow> run_query c (InsertOutbox (eventType evt) (JEvent evt) (dedupe_key evt));
     case r of
       Inl e \<Rightarrow> if isOutboxDedupeViolation e then fail OutboxDuplicateE else fail (WrapE ''outbox: insert'' e)
     | Inr i \<Rightarrow> returnE i }"

definition outbox_Publish :: "ctx \<Rightarrow> event \<Rightarrow> ('r, unit) call" where
  "outbox_Publish c evt = do {
     r \<leftarrow> outbox_Write c evt;
     case r of Inl e \<Rightarrow> if errIs e OutboxDuplicateE then returnE () else fail e
     | Inr _ \<Rightarrow> returnE () }"

definition outbox_MarkProcessed :: "ctx \<Rightarrow> int \<Rightarrow> ('r, unit) call" where
  "outbox_MarkProcessed c i = do {
     r \<leftarrow> run_query c (MarkOutboxProcessed i);
     case r of Inl e \<Rightarrow> fail (WrapE (''outbox: mark processed '' @ show_int i) e) | Inr _ \<Rightarrow> returnE () }"

definition outbox_MarkFailed :: "ctx \<Rightarrow> int \<Rightarrow> string \<Rightarrow> ('r, unit) call" where
  "outbox_MarkFailed c i msg = do {
     r \<leftarrow> run_query c (MarkOutboxFailed i msg);
     case r of Inl e \<Rightarrow> fail (WrapE (''outbox: mark failed '' @ show_int i) e) | Inr _ \<Rightarrow> returnE () }"

definition outbox_DeadLetter :: "ctx \<Rightarrow> outbox_row \<Rightarrow> string \<Rightarrow> string \<Rightarrow> ('r, unit) call" where
  "outbox_DeadLetter c row reason lastErr = do {
     r \<leftarrow> run_query c (InsertOutboxDeadLetter \<lparr>dlSourceID = obID row, dlEventType = obEventType row,
            dlPayload = obPayload row, dlReason = reason, dlLastError = NullStr lastErr\<rparr>);
     case r of Inl e \<Rightarrow> fail (WrapE (''outbox: dead-letter '' @ show_int (obID row)) e) | Inr _ \<Rightarrow> returnE () }"

definition outbox_PendingBatch :: "ctx \<Rightarrow> nat \<Rightarrow> ('r, outbox_row list) call" where
  "outbox_PendingBatch c lim = do {
     r \<leftarrow> run_query c (PendingOutboxBatch outboxMaxRetry lim);
     case r of Inl e \<Rightarrow> fail (WrapE ''outbox: pending batch'' e) | Inr rows \<Rightarrow> returnE rows }"

subsection \<open>The bus\<close>

record 'r subscription =
  suName :: string
  suInvoke :: "ctx \<Rightarrow> event \<Rightarrow> ('r, unit) call"
  suIsAsync :: bool
  suOpts :: "asynq_option list"
  suTaskIDFn :: "(event \<Rightarrow> string) option"
  suCritical :: bool

record 'r bus =
  busSubs :: "string \<Rightarrow> 'r subscription list"
  busDispatcher :: bool  \<comment> \<open>\<open>b.asynq != nil\<close>\<close>
  busOutbox :: bool      \<comment> \<open>\<open>b.outbox != nil\<close>\<close>
  busBatchSize :: nat

definition newBus :: "bool \<Rightarrow> bool \<Rightarrow> 'r bus" where
  "newBus disp ob = \<lparr>busSubs = (\<lambda>_. []), busDispatcher = disp, busOutbox = ob, busBatchSize = 0\<rparr>"

definition bus_add :: "string \<Rightarrow> 'r subscription \<Rightarrow> 'r bus \<Rightarrow> 'r bus" where
  "bus_add ty s b = b\<lparr>busSubs := (busSubs b)(ty := busSubs b ty @ [s])\<rparr>"

text \<open>The generic handlers check the dynamic type of the event.\<close>

definition typed_invoke ::
  "string \<Rightarrow> (ctx \<Rightarrow> event \<Rightarrow> ('r, unit) call) \<Rightarrow> ctx \<Rightarrow> event \<Rightarrow> ('r, unit) call" where
  "typed_invoke ty h c e =
     (if eventType e \<noteq> ty then fail (MsgE (''events: type mismatch for '' @ ty)) else h c e)"

definition Subscribe ::
  "string \<Rightarrow> string \<Rightarrow> (ctx \<Rightarrow> event \<Rightarrow> ('r, unit) call) \<Rightarrow> SubscribeOption list \<Rightarrow> 'r bus \<Rightarrow> 'r bus" where
  "Subscribe ty nm h opts b =
     bus_add ty \<lparr>suName = nm, suInvoke = typed_invoke ty h, suIsAsync = False, suOpts = [],
       suTaskIDFn = None, suCritical = scCritical (newSubConfig opts)\<rparr> b"

text \<open>\<open>None\<close>: the panic on a missing task-id function.\<close>

definition SubscribeAsync ::
  "string \<Rightarrow> string \<Rightarrow> (ctx \<Rightarrow> event \<Rightarrow> ('r, unit) call) \<Rightarrow> SubscribeOption list \<Rightarrow> 'r bus \<Rightarrow> 'r bus option" where
  "SubscribeAsync ty nm h opts b =
     (let cfg = newSubConfig opts
      in if scTaskIDFn cfg = None then None
      else Some (bus_add ty \<lparr>suName = nm, suInvoke = typed_invoke ty h, suIsAsync = True,
             suOpts = scOpts cfg, suTaskIDFn = scTaskIDFn cfg, suCritical = False\<rparr> b))"

definition HasSubscribers :: "'r bus \<Rightarrow> string \<Rightarrow> bool" where
  "HasSubscribers b ty = (busSubs b ty \<noteq> [])"

definition kickDrain :: "('r, unit) proc" where "kickDrain = modw (\<lambda>w. w\<lparr>busKick := True\<rparr>)"

text \<open>A panic in a handler is recovered into an error.\<close>

definition runSync :: "ctx \<Rightarrow> event \<Rightarrow> 'r subscription \<Rightarrow> ('r, unit) call" where
  "runSync c evt s = do {
     r \<leftarrow> suInvoke s c evt;
     case r of Inl (PanicE m) \<Rightarrow> fail (MsgE (''events: handler panic: '' @ m))
     | Inl e \<Rightarrow> fail e
     | Inr _ \<Rightarrow> returnE () }"

definition enqueue_opts :: "event \<Rightarrow> 'r subscription \<Rightarrow> asynq_option list" where
  "enqueue_opts evt s =
     (case suTaskIDFn s of None \<Rightarrow> suOpts s | Some f \<Rightarrow> suOpts s @ [OptTaskID (f evt)])"

text \<open>The loop of \<open>dispatch\<close>, with its variables \<open>allEnqueued\<close> and \<open>firstCritErr\<close>.\<close>

fun dispatch_loop ::
  "'r bus \<Rightarrow> ctx \<Rightarrow> event \<Rightarrow> 'r subscription list \<Rightarrow> bool \<Rightarrow> goerr option \<Rightarrow> ('r, bool \<times> goerr option) proc" where
  "dispatch_loop b c evt [] allEnq crit = ret (allEnq, crit)"
| "dispatch_loop b c evt (s # ss) allEnq crit =
     (if suIsAsync s then
        (if \<not> busDispatcher b then dispatch_loop b c evt ss False crit
         else do {
           r \<leftarrow> dispatcher_Enqueue c evt (enqueue_opts evt s);
           case r of
             Inl e \<Rightarrow> if isDuplicateEnqueue e then dispatch_loop b c evt ss allEnq crit
                      else dispatch_loop b c evt ss False crit
           | Inr _ \<Rightarrow> dispatch_loop b c evt ss allEnq crit })
      else do {
        r \<leftarrow> runSync c evt s;
        case r of
          Inl e \<Rightarrow> dispatch_loop b c evt ss allEnq (if suCritical s \<and> crit = None then Some e else crit)
        | Inr _ \<Rightarrow> dispatch_loop b c evt ss allEnq crit })"

definition dispatch :: "'r bus \<Rightarrow> ctx \<Rightarrow> event \<Rightarrow> 'r subscription list \<Rightarrow> ('r, unit) call" where
  "dispatch b c evt subs = do {
     (allEnqueued, firstCritErr) \<leftarrow> dispatch_loop b c evt subs True None;
     if \<not> allEnqueued then fail EnqueueFailedE
     else (case firstCritErr of None \<Rightarrow> returnE () | Some e \<Rightarrow> fail e) }"

definition bus_Publish :: "'r bus \<Rightarrow> ctx \<Rightarrow> event \<Rightarrow> ('r, unit) call" where
  "bus_Publish b c evt =
     (let subs = busSubs b (eventType evt); hasAsync = list_ex suIsAsync subs
      in if subs = [] then returnE ()
      else if cxFromDrain c then dispatch b c evt subs
      else if InTx c \<and> busOutbox b then do {
        r \<leftarrow> outbox_Write c evt;
        case r of Inl e \<Rightarrow> fail (WrapE ''events: outbox write in tx failed'' e)
        | Inr _ \<Rightarrow> do { kickDrain; returnE () }}
      else do {
        outboxID \<leftarrow> (if hasAsync \<and> busOutbox b then do {
             r \<leftarrow> outbox_Write c evt;
             case r of Inl e \<Rightarrow> ret 0 | Inr i \<Rightarrow> ret i }
           else ret 0);
        dispatchErr \<leftarrow> dispatch b c evt subs;
        (if outboxID > 0 then
           (case dispatchErr of
              Inl e \<Rightarrow> if errIs e EnqueueFailedE
                then do { outbox_MarkFailed c outboxID ''one or more enqueues failed''; kickDrain }
                else do { outbox_MarkProcessed c outboxID; ret () }
            | Inr _ \<Rightarrow> do { outbox_MarkProcessed c outboxID; ret () })
         else ret ());
        ret dispatchErr })"

definition InvokeAsync_step :: "ctx \<Rightarrow> event \<Rightarrow> goerr option \<Rightarrow> 'r subscription \<Rightarrow> ('r, goerr option) proc" where
  "InvokeAsync_step c evt firstErr s =
     (if \<not> suIsAsync s then ret firstErr
      else do {
        r \<leftarrow> runSync c evt s;
        case r of Inl e \<Rightarrow> ret (if firstErr = None then Some e else firstErr) | Inr _ \<Rightarrow> ret firstErr })"

fun invoke_loop :: "ctx \<Rightarrow> event \<Rightarrow> 'r subscription list \<Rightarrow> goerr option \<Rightarrow> ('r, goerr option) proc" where
  "invoke_loop c evt [] firstErr = ret firstErr"
| "invoke_loop c evt (s # ss) firstErr = do {
     firstErr \<leftarrow> InvokeAsync_step c evt firstErr s;
     invoke_loop c evt ss firstErr }"

definition InvokeAsync :: "'r bus \<Rightarrow> ctx \<Rightarrow> event \<Rightarrow> ('r, unit) call" where
  "InvokeAsync b c evt = do {
     firstErr \<leftarrow> invoke_loop c evt (busSubs b (eventType evt)) None;
     (case firstErr of None \<Rightarrow> returnE () | Some e \<Rightarrow> fail e) }"

subsection \<open>Draining\<close>

definition breakerAllows :: "'r world \<Rightarrow> bool" where
  "breakerAllows w =
     (if busFailures w < drainBreakerThreshold then True
      else if now w - busOpenedAt w < drainBreakerCooldown then False
      else True)"

definition recordBreaker :: "nat \<Rightarrow> nat \<Rightarrow> ('r, unit) proc" where
  "recordBreaker attempts failures = modw (\<lambda>w.
     if attempts = 0 then w
     else if failures = attempts then
       (let w1 = w\<lparr>busFailures := busFailures w + 1\<rparr>
        in if busFailures w1 = drainBreakerThreshold then w1\<lparr>busOpenedAt := now w1\<rparr> else w1)
     else w\<lparr>busFailures := 0\<rparr>)"

text \<open>A row that cannot be published leaves the queue through the dead-letter table.\<close>

definition bury :: "ctx \<Rightarrow> outbox_row \<Rightarrow> string \<Rightarrow> string \<Rightarrow> ('r, unit) call" where
  "bury c row reason lastErr = do {
     r \<leftarrow> outbox_DeadLetter c row reason lastErr;
     case r of Inl e \<Rightarrow> fail e | Inr _ \<Rightarrow> outbox_MarkProcessed c (obID row) }"

text \<open>One round of the loop over the batch; it returns the numbers of publish attempts and of
  publish failures it adds.\<close>

definition drain_row :: "'r bus \<Rightarrow> ctx \<Rightarrow> outbox_row \<Rightarrow> ('r, nat \<times> nat) call" where
  "drain_row b c row =
     (if obRetryCount row \<ge> outboxMaxRetry then do {
        r \<leftarrow> bury c row ''retry_exhausted'' (case obLastError row of None \<Rightarrow> [] | Some m \<Rightarrow> m);
        case r of Inl e \<Rightarrow> fail e | Inr _ \<Rightarrow> returnE (0, 0) }
      else if \<not> FactoryFor (obEventType row) then do {
        r \<leftarrow> bury c row ''unknown_event_type'' [];
        case r of Inl e \<Rightarrow> fail e | Inr _ \<Rightarrow> returnE (0, 0) }
      else case unmarshal_event (obEventType row) (obPayload row) of
        Inl err \<Rightarrow> do {
          r \<leftarrow> bury c row ''unmarshal_failed'' (error_text err);
          case r of Inl e \<Rightarrow> fail e | Inr _ \<Rightarrow> returnE (0, 0) }
      | Inr evt \<Rightarrow> do {
          r \<leftarrow> bus_Publish b (c\<lparr>cxFromDrain := True\<rparr>) evt;
          case r of
            Inl err \<Rightarrow> do {
              r \<leftarrow> outbox_MarkFailed c (obID row) (error_text err);
              case r of Inl e \<Rightarrow> fail e | Inr _ \<Rightarrow> returnE (1, 1) }
          | Inr _ \<Rightarrow> do {
              r \<leftarrow> outbox_MarkProcessed c (obID row);
              case r of Inl e \<Rightarrow> fail e | Inr _ \<Rightarrow> returnE (1, 0) }})"

fun drain_rows :: "'r bus \<Rightarrow> ctx \<Rightarrow> outbox_row list \<Rightarrow> nat \<Rightarrow> nat \<Rightarrow> ('r, nat \<times> nat) call" where
  "drain_rows b c [] attempts failures = returnE (attempts, failures)"
| "drain_rows b c (row # rows) attempts failures = do {
     r \<leftarrow> drain_row b c row;
     case r of Inl e \<Rightarrow> fail e
     | Inr (a, f) \<Rightarrow> drain_rows b c rows (attempts + a) (failures + f) }"

definition drain_tx :: "'r bus \<Rightarrow> ctx \<Rightarrow> ('r, nat \<times> nat \<times> nat) call" where
  "drain_tx b c = do {
     r \<leftarrow> outbox_PendingBatch c (busBatchSize b);
     case r of Inl e \<Rightarrow> fail (WrapE ''fetch pending'' e)
     | Inr rows \<Rightarrow> do {
         r \<leftarrow> drain_rows b c rows 0 0;
         case r of Inl e \<Rightarrow> fail e | Inr (a, f) \<Rightarrow> returnE (length rows, a, f) }}"

text \<open>The number fetched is meaningless to the caller when the batch failed; it is 0 here.\<close>

definition drainBatch :: "'r bus \<Rightarrow> ctx \<Rightarrow> ('r, nat \<times> bool) proc" where
  "drainBatch b c = do {
     r \<leftarrow> with_tx c (drain_tx b);
     case r of Inl e \<Rightarrow> ret (0, False)
     | Inr (fetched, attempts, failures) \<Rightarrow> do {
         recordBreaker attempts failures;
         n \<leftarrow> getw busFailures;
         ret (fetched, n < drainBreakerThreshold) }}"

text \<open>\<open>drainOnce\<close> loops while full batches come; the fuel bounds the rounds and the result says
  whether the loop came to its end. \<open>stop\<close> is the context's cancellation.\<close>

fun drainOnce :: "nat \<Rightarrow> ('r world \<Rightarrow> bool) \<Rightarrow> 'r bus \<Rightarrow> ctx \<Rightarrow> ('r, bool) proc" where
  "drainOnce 0 stop b c = ret False"
| "drainOnce (Suc n) stop b c = do {
     allowed \<leftarrow> getw breakerAllows;
     if \<not> allowed then ret True
     else do {
       (fetched, ok) \<leftarrow> drainBatch b c;
       cancelled \<leftarrow> getw stop;
       if \<not> ok \<or> fetched < busBatchSize b \<or> cancelled then ret True
       else drainOnce n stop b c }}"

definition drain_batch_size :: "int \<Rightarrow> nat" where
  "drain_batch_size batchSize = (if batchSize \<le> 0 then defaultDrainBatchSize else nat batchSize)"

subsection \<open>The task processor\<close>

definition ProcessTask :: "'r bus \<Rightarrow> ctx \<Rightarrow> asynq_task \<Rightarrow> ('r, unit) call" where
  "ProcessTask b c t = do {
     r \<leftarrow> (case tkBody t of
        TEnvelope ty payload rid \<Rightarrow>
          let c = (if rid \<noteq> [] then c\<lparr>cxRequestID := rid\<rparr> else c)
          in if \<not> FactoryFor ty then returnE ()
          else (case unmarshal_event ty payload of
                  Inl e \<Rightarrow> fail (WrapE (''events: decode payload for '' @ ty) (SkipRetryE e))
                | Inr evt \<Rightarrow> InvokeAsync b c evt)
      | _ \<Rightarrow> fail (WrapE ''events: decode envelope'' (SkipRetryE (MsgE ''json''))));
     case r of Inl (PanicE m) \<Rightarrow> fail (MsgE (''events: processor panic for task '' @ tkType t @ '': '' @ m))
     | _ \<Rightarrow> ret r }"

subsection \<open>The handlers and their wiring\<close>

definition OnAuditLogWritten :: "ctx \<Rightarrow> event \<Rightarrow> ('r, unit) call" where
  "OnAuditLogWritten c evt =
     (case evt of AuditLogWritten e \<Rightarrow>
        let status = (if alStatus e = [] then ''success'' else alStatus e)
        in run_query c (CreateAuditLog \<lparr>arAdminID = alAdminID e, arAction = alAction e,
             arResource = alResource e, arResourceID = NullStr (alResourceID e),
             arDetails = alDetails e, arStatus = status, arRequestID = NullStr (alRequestID e)\<rparr>)
      | _ \<Rightarrow> fail (MsgE ''type''))"

definition wrap32 :: "int \<Rightarrow> int" where "wrap32 i = sint (word_of_int i :: 32 word)"

definition OnAuthAttemptRecorded :: "ctx \<Rightarrow> event \<Rightarrow> ('r, unit) call" where
  "OnAuthAttemptRecorded c evt =
     (case evt of AuthAttemptRecorded e \<Rightarrow>
        run_query c (CreateLoginAttempt (aaEmail e) (if aaUserID e \<noteq> 0 then Some (aaUserID e) else None)
          (aaChannel e) (aaOutcome e) (wrap32 (aaRemaining e)) (NullStr (aaRequestID e)))
      | _ \<Rightarrow> fail (MsgE ''type''))"

definition invalidate :: "'r ext \<Rightarrow> string list \<Rightarrow> ('r, unit) call" where
  "invalidate E tags = do {
     r \<leftarrow> InvalidateByTags (xRedis E) (xPrefix E) tags;
     case r of Inl e \<Rightarrow> fail e | Inr _ \<Rightarrow> returnE () }"

definition OnUserAccountDeleted :: "'r ext \<Rightarrow> ctx \<Rightarrow> event \<Rightarrow> ('r, unit) call" where
  "OnUserAccountDeleted E c evt =
     (case evt of UserAccountDeleted e \<Rightarrow> invalidate E [UserTag (udUserID e)]
      | _ \<Rightarrow> fail (MsgE ''type''))"

definition audit_task_id :: "event \<Rightarrow> string" where
  "audit_task_id evt = (case evt of AuditLogWritten e \<Rightarrow> ''audit:'' @ alRequestID e @ '':'' @ alAction e | _ \<Rightarrow> [])"

definition attempt_task_id :: "event \<Rightarrow> string" where
  "attempt_task_id evt = (case evt of AuthAttemptRecorded e \<Rightarrow> ''auth:'' @ aaRequestID e @ '':'' @ aaChannel e | _ \<Rightarrow> [])"

definition WireEventSubscriptions :: "'r ext \<Rightarrow> 'r bus \<Rightarrow> 'r bus option" where
  "WireEventSubscriptions E b = do {
     let b = Subscribe ''user.account.deleted'' ''OnUserAccountDeleted'' (OnUserAccountDeleted E) [] b;
     b \<leftarrow> SubscribeAsync ''admin.audit_log.written'' ''OnAuditLogWritten'' OnAuditLogWritten
            [WithQueue QueueHigh, WithUniqueWindow (5 * minute), WithTaskIDFn audit_task_id] b;
     SubscribeAsync ''auth.attempt.recorded'' ''OnAuthAttemptRecorded'' OnAuthAttemptRecorded
            [WithQueue QueueNormal, WithUniqueWindow (5 * minute), WithTaskIDFn attempt_task_id] b }"

end
