(* ===== verification/Event_Drain.thy ===== *)
theory Event_Drain
  imports Event_Bus
begin

section \<open>What the bus guarantees\<close>

text \<open>
  Properties of \<open>Event_Bus\<close>: publishing inside a transaction is transactional, a drained batch
  settles every row it fetched or nothing, the drain loop ends, the breaker counts consecutive
  failed batches, and a published audit event reaches the audit table. The lemmas about the drain
  need one thing of the bus, that its synchronous handlers leave the tables alone: the locale
  \<open>quiet_bus\<close>, interpreted by the bus the program wires.
\<close>

subsection \<open>What leaves the tables and the clock alone\<close>

definition quiet :: "('r, 'a) proc \<Rightarrow> bool" where
  "quiet m = frames (\<lambda>w. (db w, now w)) m"

lemma quietD: "quiet m \<Longrightarrow> run_state m w = (x, w') \<Longrightarrow> db w' = db w \<and> now w' = now w"
  unfolding quiet_def by (drule (1) framesD) simp

lemma quiet_ret [simp]: "quiet (ret x)" "quiet (getw f)" "quiet (fail e)" "quiet (returnE y)"
  by (simp_all add: quiet_def)

lemma quiet_bind: "quiet m \<Longrightarrow> (\<And>x. quiet (f x)) \<Longrightarrow> quiet (State_Monad.bind m f)"
  unfolding quiet_def by (rule frames_bind)

lemma quiet_sum: "(\<And>e. quiet (f e)) \<Longrightarrow> (\<And>x. quiet (g x)) \<Longrightarrow> quiet (case r of Inl e \<Rightarrow> f e | Inr x \<Rightarrow> g x)"
  by (auto split: sum.split)

lemmas quiet_intros = quiet_bind quiet_sum

lemma frames_enqueue:
  "(\<And>w rs t. f (w\<lparr>mqReplies := rs, mq := t\<rparr>) = f w) \<Longrightarrow> (\<And>w rs. f (w\<lparr>mqReplies := rs\<rparr>) = f w) \<Longrightarrow>
     frames f (asynq_enqueue t)"
  by (auto simp: frames_def asynq_enqueue_def split: list.splits enqueue_reply.splits)

lemma quiet_dispatcher [simp]: "quiet (dispatcher_Enqueue c e opts)"
  unfolding dispatcher_Enqueue_def quiet_def by (intro frames_intros frames_enqueue) simp_all

text \<open>The synchronous handler of the program only talks to Redis.\<close>

lemma frames_deleted:
  "(\<And>w s fs. f (w\<lparr>redisFaults := fs, redis := s\<rparr>) = f w) \<Longrightarrow> (\<And>w fs. f (w\<lparr>redisFaults := fs\<rparr>) = f w) \<Longrightarrow>
     frames f (OnUserAccountDeleted E c e)"
  unfolding OnUserAccountDeleted_def invalidate_def InvalidateByTags_def
  by (cases e) (auto intro!: frames_intros frames_collect frames_redis_call)

lemma quiet_deleted [simp]: "quiet (OnUserAccountDeleted E c e)"
  unfolding quiet_def by (rule frames_deleted) simp_all

subsection \<open>The wired bus\<close>

definition wired_bus :: "'r ext \<Rightarrow> nat \<Rightarrow> 'r bus" where
  "wired_bus E n =
     (case WireEventSubscriptions E (newBus True True) of
        None \<Rightarrow> newBus True True | Some b \<Rightarrow> b\<lparr>busBatchSize := n\<rparr>)"

definition audit_sub :: "'r subscription" where
  "audit_sub = \<lparr>suName = ''OnAuditLogWritten'', suInvoke = typed_invoke ''admin.audit_log.written'' OnAuditLogWritten,
     suIsAsync = True, suOpts = [OptQueue QueueHigh, OptUnique (5 * minute)],
     suTaskIDFn = Some audit_task_id, suCritical = False\<rparr>"

definition attempt_sub :: "'r subscription" where
  "attempt_sub = \<lparr>suName = ''OnAuthAttemptRecorded'', suInvoke = typed_invoke ''auth.attempt.recorded'' OnAuthAttemptRecorded,
     suIsAsync = True, suOpts = [OptQueue QueueNormal, OptUnique (5 * minute)],
     suTaskIDFn = Some attempt_task_id, suCritical = False\<rparr>"

definition deleted_sub :: "'r ext \<Rightarrow> 'r subscription" where
  "deleted_sub E = \<lparr>suName = ''OnUserAccountDeleted'',
     suInvoke = typed_invoke ''user.account.deleted'' (OnUserAccountDeleted E),
     suIsAsync = False, suOpts = [], suTaskIDFn = None, suCritical = False\<rparr>"

text \<open>The wiring never panics and gives each event type one subscription.\<close>

lemma wired_bus_simps:
  "busDispatcher (wired_bus E n)" "busOutbox (wired_bus E n)" "busBatchSize (wired_bus E n) = n"
  "busSubs (wired_bus E n) = (\<lambda>_. [])(''user.account.deleted'' := [deleted_sub E],
     ''admin.audit_log.written'' := [audit_sub], ''auth.attempt.recorded'' := [attempt_sub])"
  by (simp_all add: wired_bus_def WireEventSubscriptions_def newBus_def Subscribe_def
      SubscribeAsync_def bus_add_def newSubConfig_def WithQueue_def WithUniqueWindow_def
      WithTaskIDFn_def Let_def deleted_sub_def audit_sub_def attempt_sub_def)

lemma wired_bus_subs [simp]:
  "busSubs (wired_bus E n) ''admin.audit_log.written'' = [audit_sub]"
  "busSubs (wired_bus E n) ''auth.attempt.recorded'' = [attempt_sub]"
  "busSubs (wired_bus E n) ''user.account.deleted'' = [deleted_sub E]"
  by (simp_all add: wired_bus_simps)

locale quiet_bus =
  fixes b :: "'r bus"
  assumes sync_quiet: "s \<in> set (busSubs b ty) \<Longrightarrow> \<not> suIsAsync s \<Longrightarrow> quiet (suInvoke s c e)"
begin

lemma runSync_quiet: "s \<in> set (busSubs b ty) \<Longrightarrow> \<not> suIsAsync s \<Longrightarrow> quiet (runSync c e s)"
  unfolding runSync_def
  by (auto intro!: quiet_intros sync_quiet split: goerr.split)

lemma dispatch_loop_quiet: "set ss \<subseteq> set (busSubs b ty) \<Longrightarrow> quiet (dispatch_loop b c e ss a f)"
  by (induction ss arbitrary: a f) (auto intro!: quiet_intros runSync_quiet split: goerr.split sum.split)

lemma dispatch_quiet: "set ss \<subseteq> set (busSubs b ty) \<Longrightarrow> quiet (dispatch b c e ss)"
  unfolding dispatch_def
  by (auto intro!: quiet_intros dispatch_loop_quiet split: prod.split option.split)

text \<open>Publishing from the drain touches no table.\<close>

lemma drain_publish_quiet: "cxFromDrain c \<Longrightarrow> quiet (bus_Publish b c e)"
  by (auto simp: bus_Publish_def Let_def intro!: dispatch_quiet)

end

subsection \<open>Statements inside a transaction\<close>

text \<open>The world after a statement that left the tables \<open>d\<close>.\<close>

definition stepped :: "database \<Rightarrow> 'r world \<Rightarrow> 'r world" where
  "stepped d w = w\<lparr>dbFaults := tl (dbFaults w), db := d, nextID := nextID w + 1\<rparr>"

lemma stepped_simps [simp]:
  "db (stepped d w) = d" "now (stepped d w) = now w" "mq (stepped d w) = mq w"
  "mqReplies (stepped d w) = mqReplies w" "dbRole (stepped d w) = dbRole w"
  "dbFaults (stepped d w) = tl (dbFaults w)" "nextID (stepped d w) = nextID w + 1"
  "redis (stepped d w) = redis w" "txAborted (stepped d w) = txAborted w"
  "busKick (stepped d w) = busKick w" "busFailures (stepped d w) = busFailures w"
  "busOpenedAt (stepped d w) = busOpenedAt w"
  by (simp_all add: stepped_def)

lemma run_query_in_tx:
  "cxInTx c \<Longrightarrow> run_state (run_query c q) w = (Inr x, w') \<Longrightarrow>
     \<exists>d. q (dbRole w) (now w) (nextID w) (db w) = Inr (x, d) \<and> w' = stepped d w"
  using exec_query_Inr [of q w x w'] by (auto simp: run_query_def store_run_def stepped_def)

definition mark_where :: "int \<Rightarrow> (outbox_row \<Rightarrow> outbox_row) \<Rightarrow> database \<Rightarrow> database" where
  "mark_where i g d = d\<lparr>outbox := upd_where (\<lambda>r. obID r = i) g (outbox d)\<rparr>"

lemma mark_where_simps [simp]:
  "outbox (mark_where i g d) = upd_where (\<lambda>r. obID r = i) g (outbox d)"
  "deadLetters (mark_where i g d) = deadLetters d"
  by (simp_all add: mark_where_def)

lemma MarkProcessed_Inr:
  assumes "cxInTx c" and "run_state (outbox_MarkProcessed c i) w = (Inr x, w')"
  shows "w' = stepped (mark_where i (mark_processed (now w)) (db w)) w"
proof -
  from assms(2) have "run_state (run_query c (MarkOutboxProcessed i)) w = (Inr (), w')"
    by (auto simp: outbox_MarkProcessed_def split: sum.splits prod.splits)
  from run_query_in_tx [OF assms(1) this] show ?thesis
    by (auto simp: MarkOutboxProcessed_def mark_where_def)
qed

lemma MarkFailed_Inr:
  assumes "cxInTx c" and "run_state (outbox_MarkFailed c i m) w = (Inr x, w')"
  shows "w' = stepped (mark_where i (mark_failed (now w) m) (db w)) w"
proof -
  from assms(2) have "run_state (run_query c (MarkOutboxFailed i m)) w = (Inr (), w')"
    by (auto simp: outbox_MarkFailed_def split: sum.splits prod.splits)
  from run_query_in_tx [OF assms(1) this] show ?thesis
    by (auto simp: MarkOutboxFailed_def mark_where_def)
qed

lemma bury_Inr:
  assumes "cxInTx c" and "run_state (bury c row reason m) w = (Inr x, w')"
  shows "now w' = now w \<and> mq w' = mq w \<and> mqReplies w' = mqReplies w \<and>
    (\<exists>dl. dlSourceID dl = obID row \<and>
      db w' = (mark_where (obID row) (mark_processed (now w)) (db w))\<lparr>deadLetters := deadLetters (db w) @ [dl]\<rparr>)"
proof -
  let ?dl = "\<lparr>dlSourceID = obID row, dlEventType = obEventType row,
            dlPayload = obPayload row, dlReason = reason, dlLastError = NullStr m\<rparr>"
  from assms(2) obtain w1 where
    w1: "run_state (run_query c (InsertOutboxDeadLetter ?dl)) w = (Inr (), w1)"
    and mp: "run_state (outbox_MarkProcessed c (obID row)) w1 = (Inr x, w')"
    by (auto simp: bury_def outbox_DeadLetter_def split: sum.splits prod.splits)
  from run_query_in_tx [OF assms(1) w1]
  have "w1 = stepped ((db w)\<lparr>deadLetters := deadLetters (db w) @ [?dl]\<rparr>) w"
    by (auto simp: InsertOutboxDeadLetter_def split: if_splits)
  with MarkProcessed_Inr [OF assms(1) mp] show ?thesis
    by (auto simp: mark_where_def intro!: exI [of _ ?dl])
qed

lemma pending_batch_distinct:
  assumes "distinct (map obID rs)"
  shows "distinct (map obID (pending_batch m l t rs))"
proof -
  have "distinct (map obID (filter P rs))" for P
    using assms by (simp add: distinct_map_filter)
  then have "distinct (map obID (sort_key attempt_key (sort_key obID (filter P rs))))" for P
    by (simp add: distinct_map)
  then show ?thesis by (simp add: pending_batch_def take_map [symmetric] del: sort_key_simps)
qed

subsection \<open>One drained row\<close>

definition settled :: "time \<Rightarrow> outbox_row \<Rightarrow> outbox_row \<Rightarrow> bool" where
  "settled t r r' = (r' = mark_processed t r \<or> (\<exists>m. r' = mark_failed t m r))"

lemma settled_simps:
  "settled t r r' \<Longrightarrow> obID r' = obID r"
  "settled t r r' \<Longrightarrow> pending_row r' \<Longrightarrow>
     obRetryCount r' = obRetryCount r + 1 \<and> obLastAttemptedAt r' = Some t"
  by (auto simp: settled_def mark_processed_def mark_failed_def pending_row_def)

text \<open>How a row stands after a drain that fetched the rows \<open>ids\<close>.\<close>

definition row_after :: "time \<Rightarrow> int set \<Rightarrow> outbox_row \<Rightarrow> outbox_row \<Rightarrow> bool" where
  "row_after t ids r r' = (if obID r \<in> ids then settled t r r' else r' = r)"

text \<open>What a processed row leaves behind: a task carrying its event, a dead letter, or (for the
  event whose only handler is synchronous) the handler's run.\<close>

definition row_task :: "ctx \<Rightarrow> outbox_row \<Rightarrow> asynq_task \<Rightarrow> bool" where
  "row_task c r t = (tkType t = TaskTypeDispatch \<and>
     tkBody t = TEnvelope (obEventType r) (obPayload r) (cxRequestID c))"

definition accounted :: "ctx \<Rightarrow> asynq_task list \<Rightarrow> dead_letter list \<Rightarrow> outbox_row \<Rightarrow> bool" where
  "accounted c ts dls r =
     ((\<exists>t\<in>set ts. row_task c r t) \<or> (\<exists>l\<in>set dls. dlSourceID l = obID r)
      \<or> obEventType r = ''user.account.deleted'')"

lemma accounted_mono:
  "accounted c ts dls r \<Longrightarrow> set ts \<subseteq> set ts' \<Longrightarrow> set dls \<subseteq> set dls' \<Longrightarrow> accounted c ts' dls' r"
  by (auto simp: accounted_def)

subsection \<open>Eligible rows\<close>

definition eligible :: "time \<Rightarrow> outbox_row \<Rightarrow> bool" where
  "eligible t r = (pending_row r \<and> obRetryCount r < outboxMaxRetry \<and> backoff_elapsed t r)"

lemma pending_batch_eligible:
  "r \<in> set (pending_batch outboxMaxRetry n t rs) \<Longrightarrow> r \<in> set rs \<and> eligible t r"
  by (auto simp: pending_batch_def eligible_def dest!: in_set_takeD)

text \<open>A settled row is not eligible at the same instant: it is processed, or was just attempted.\<close>

lemma settled_not_eligible: "settled t r r' \<Longrightarrow> \<not> eligible t r'"
  by (auto simp: settled_def eligible_def mark_processed_def mark_failed_def pending_row_def
      backoff_elapsed_def second_def minute_def hour_def)

lemma count_after:
  "list_all2 (row_after t ids) xs ys \<Longrightarrow>
     filter (eligible t) ys = filter (\<lambda>r. obID r \<notin> ids) (filter (eligible t) xs)"
  by (induction rule: list_all2_induct) (auto simp: row_after_def dest: settled_not_eligible)

lemma ids_after: "list_all2 (row_after t ids) xs ys \<Longrightarrow> map obID ys = map obID xs"
  by (induction rule: list_all2_induct) (auto simp: row_after_def dest: settled_simps split: if_splits)

context quiet_bus
begin

text \<open>A drained row is settled; \<open>a\<close> and \<open>f\<close> count its publish attempt and failure.\<close>

lemma drain_row_effect:
  assumes "cxInTx c" and "run_state (drain_row b c row) w = (Inr (a, f), w')"
  shows "now w' = now w \<and> (\<exists>g dls.
      db w' = (mark_where (obID row) g (db w))\<lparr>deadLetters := deadLetters (db w) @ dls\<rparr> \<and>
      (g = mark_processed (now w) \<and> f = 0 \<and> a \<le> 1 \<or> (\<exists>m. g = mark_failed (now w) m \<and> a = 1 \<and> f = 1)))"
    (is ?goal)
proof -
  have dead: ?goal if "run_state (bury c row reason m) w = (Inr x, w')" "a = 0" "f = 0" for reason m x
    using bury_Inr [OF assms(1) that(1)] that(2,3) by auto
  have pub: "db w1 = db w \<and> now w1 = now w"
    if "run_state (bus_Publish b (c\<lparr>cxFromDrain := True\<rparr>) evt) w = (r, w1)" for evt r w1
    by (rule quietD [OF drain_publish_quiet that]) simp
  have ok: ?goal if "run_state (bus_Publish b (c\<lparr>cxFromDrain := True\<rparr>) evt) w = (r, w1)"
    "run_state (outbox_MarkProcessed c (obID row)) w1 = (Inr x, w')" "a = 1" "f = 0" for evt r w1 x
    using pub [OF that(1)] MarkProcessed_Inr [OF assms(1) that(2)] that(3,4)
    by (auto intro!: exI [of _ "mark_processed (now w)"] exI [of _ "[]"] simp: mark_where_def)
  have bad: ?goal if "run_state (bus_Publish b (c\<lparr>cxFromDrain := True\<rparr>) evt) w = (r, w1)"
    "run_state (outbox_MarkFailed c (obID row) m) w1 = (Inr x, w')" "a = 1" "f = 1" for evt r w1 x m
    using pub [OF that(1)] MarkFailed_Inr [OF assms(1) that(2)] that(3,4)
    by (auto intro!: exI [of _ "mark_failed (now w) m"] exI [of _ "[] :: dead_letter list"] simp: mark_where_def)
  have "(\<exists>reason m x. run_state (bury c row reason m) w = (Inr x, w') \<and> a = 0 \<and> f = 0) \<or>
    (\<exists>evt r w1. run_state (bus_Publish b (c\<lparr>cxFromDrain := True\<rparr>) evt) w = (r, w1) \<and>
       ((\<exists>x. run_state (outbox_MarkProcessed c (obID row)) w1 = (Inr x, w') \<and> a = 1 \<and> f = 0) \<or>
        (\<exists>m x. run_state (outbox_MarkFailed c (obID row) m) w1 = (Inr x, w') \<and> a = 1 \<and> f = 1)))"
    using assms(2) unfolding drain_row_def
    by (auto split: if_splits sum.splits prod.splits)
  then show ?goal by (elim disjE exE conjE) (erule (2) dead, erule (3) ok, erule (3) bad)
qed

lemma drain_rows_now:
  "cxInTx c \<Longrightarrow> run_state (drain_rows b c rows a0 f0) w = (Inr (a, f), w') \<Longrightarrow> now w' = now w"
proof (induction rows arbitrary: w a0 f0)
  case (Cons row rows)
  then show ?case
    by (auto split: sum.splits prod.splits dest!: drain_row_effect [OF Cons.prems(1)])
qed simp

text \<open>The rows of the table after a drain: those fetched are settled, the others are as they were.\<close>

lemma drain_rows_effect:
  assumes "cxInTx c" and "run_state (drain_rows b c rows a0 f0) w = (Inr (a, f), w')"
    and "distinct (map obID rows)"
  shows "now w' = now w \<and>
    list_all2 (row_after (now w) (obID ` set rows))
      (outbox (db w)) (outbox (db w')) \<and>
    (\<exists>dls. db w' = (db w)\<lparr>outbox := outbox (db w'), deadLetters := deadLetters (db w) @ dls\<rparr>)"
  using assms
proof (induction rows arbitrary: w a0 f0)
  case Nil
  then show ?case by (auto intro!: exI [of _ "[] :: dead_letter list"] list_all2_refl simp: row_after_def)
next
  case (Cons row rows)
  from Cons.prems(2) obtain a1 f1 w1 where
    r1: "run_state (drain_row b c row) w = (Inr (a1, f1), w1)"
    and r2: "run_state (drain_rows b c rows (a0 + a1) (f0 + f1)) w1 = (Inr (a, f), w')"
    by (auto split: sum.splits prod.splits)
  from drain_row_effect [OF assms(1) r1] obtain g dls where n1: "now w1 = now w"
    and d1: "db w1 = (mark_where (obID row) g (db w))\<lparr>deadLetters := deadLetters (db w) @ dls\<rparr>"
    and g: "g = mark_processed (now w) \<or> (\<exists>m. g = mark_failed (now w) m)" by auto
  from g have sg: "settled (now w) r (g r)" and ig: "obID (g r) = obID r" for r
    by (auto simp: settled_def mark_processed_def mark_failed_def)
  from Cons.IH [OF Cons.prems(1) r2] Cons.prems(3) obtain dls' where n2: "now w' = now w"
    and l: "list_all2 (row_after (now w) (obID ` set rows))
      (outbox (db w1)) (outbox (db w'))"
    and d2: "db w' = (db w1)\<lparr>outbox := outbox (db w'), deadLetters := deadLetters (db w1) @ dls'\<rparr>"
    using n1 by auto
  have o1: "outbox (db w1) = map (\<lambda>r. if obID r = obID row then g r else r) (outbox (db w))"
    by (simp add: d1 upd_where_def)
  have nin: "obID row \<notin> obID ` set rows" using Cons.prems(3) by auto
  have "list_all2 (row_after (now w) (obID ` set (row # rows)))
      (outbox (db w)) (outbox (db w'))"
    using l unfolding o1 list_all2_map1
    by (rule list_all2_mono) (use nin sg ig in \<open>auto simp: row_after_def split: if_splits\<close>)
  moreover have "db w' = (db w)\<lparr>outbox := outbox (db w'), deadLetters := deadLetters (db w) @ (dls @ dls')\<rparr>"
    by (subst d2) (simp add: d1 mark_where_def)
  ultimately show ?case using n2 by blast
qed

lemma drain_tx_now:
  assumes "\<not> cxInTx c" and "run_state (with_tx c (drain_tx b)) w = (Inr (fetched, a, f), w')"
  shows "now w' = now w"
proof -
  let ?c = "c\<lparr>cxInTx := True\<rparr>" and ?w0 = "enter_tx c w"
  from with_tx_success [OF assms] obtain w1 where
    w1: "run_state (drain_tx b ?c) ?w0 = (Inr (fetched, a, f), w1)" and n: "now w' = now w1"
    by fastforce
  from w1 obtain rows w2 where
    q: "run_state (run_query ?c (PendingOutboxBatch outboxMaxRetry (busBatchSize b))) ?w0 = (Inr rows, w2)"
    and d: "run_state (drain_rows b ?c rows 0 0) w2 = (Inr (a, f), w1)"
    by (auto simp: drain_tx_def outbox_PendingBatch_def split: sum.splits prod.splits)
  have "now w1 = now w2" using drain_rows_now [OF _ d] by simp
  with run_query_in_tx [OF _ q] n show ?thesis by (auto simp: enter_tx_def)
qed

text \<open>A whole batch: its transaction settles every fetched row, or changes no table.\<close>

lemma drain_batch_settles:
  assumes "\<not> cxInTx c" and "distinct (map obID (outbox (db w)))"
    and "run_state (with_tx c (drain_tx b)) w = (r, w')"
  shows "case r of
      Inl _ \<Rightarrow> db w' = db w
    | Inr (fetched, _, _) \<Rightarrow>
        let batch = pending_batch outboxMaxRetry (busBatchSize b) (now w) (outbox (db w))
        in fetched = length batch \<and>
           list_all2 (row_after (now w) (obID ` set batch))
             (outbox (db w)) (outbox (db w'))"
proof (cases r)
  case (Inl e)
  with assms(3) with_tx_atomic [OF assms(1)] show ?thesis by auto
next
  case (Inr x)
  obtain fetched a f where x: "x = (fetched, a, f)" by (cases x) auto
  let ?c = "c\<lparr>cxInTx := True\<rparr>" and ?w0 = "enter_tx c w"
  let ?batch = "pending_batch outboxMaxRetry (busBatchSize b) (now w) (outbox (db w))"
  from with_tx_success [OF assms(1)] assms(3) Inr x obtain w1 where
    w1: "run_state (drain_tx b ?c) ?w0 = (Inr (fetched, a, f), w1)" and dw: "db w' = db w1"
    by fastforce
  from w1 obtain rows w2 where
    q: "run_state (run_query ?c (PendingOutboxBatch outboxMaxRetry (busBatchSize b))) ?w0 = (Inr rows, w2)"
    and d: "run_state (drain_rows b ?c rows 0 0) w2 = (Inr (a, f), w1)" and fl: "fetched = length rows"
    by (auto simp: drain_tx_def outbox_PendingBatch_def split: sum.splits prod.splits)
  from run_query_in_tx [OF _ q] have rows: "rows = ?batch" and w2: "db w2 = db w" "now w2 = now w"
    by (auto simp: PendingOutboxBatch_def enter_tx_def)
  have "distinct (map obID rows)"
    unfolding rows by (rule pending_batch_distinct [OF assms(2)])
  from drain_rows_effect [OF _ d this] have
    "list_all2 (row_after (now w) (obID ` set rows)) (outbox (db w)) (outbox (db w1))"
    by (simp add: w2)
  with Inr x fl rows dw show ?thesis by (simp add: Let_def)
qed

lemma drainBatch_progress:
  assumes "\<not> cxInTx c" and "distinct (map obID (outbox (db w)))" and "busBatchSize b > 0"
    and "run_state (drainBatch b c) w = ((fetched, ok), w')" and "ok" and "\<not> fetched < busBatchSize b"
  shows "now w' = now w \<and> distinct (map obID (outbox (db w'))) \<and>
    length (filter (eligible (now w')) (outbox (db w'))) < length (filter (eligible (now w)) (outbox (db w)))"
proof -
  let ?batch = "pending_batch outboxMaxRetry (busBatchSize b) (now w) (outbox (db w))"
  from assms(4,5) obtain a f w1 where w1: "run_state (with_tx c (drain_tx b)) w = (Inr (fetched, a, f), w1)"
    and r: "w' = snd (run_state (recordBreaker a f) w1)"
    by (auto simp: drainBatch_def split: sum.splits prod.splits)
  have k: "db w' = db w1" "now w' = now w1"
    unfolding r by (auto simp: recordBreaker_def Let_def)
  from drain_batch_settles [OF assms(1,2) w1] have fl: "fetched = length ?batch"
    and l: "list_all2 (row_after (now w) (obID ` set ?batch)) (outbox (db w)) (outbox (db w1))"
    by (auto simp: Let_def)
  have n: "now w1 = now w" using drain_tx_now [OF assms(1) w1] .
  from fl assms(3,6) have "?batch \<noteq> []" by auto
  then obtain r0 where r0: "r0 \<in> set ?batch" by (cases ?batch) auto
  from pending_batch_eligible [OF r0] have "r0 \<in> set (filter (eligible (now w)) (outbox (db w)))" by simp
  from length_filter_less [OF this, of "\<lambda>r. obID r \<notin> obID ` set ?batch"] r0
  have "length (filter (eligible (now w)) (outbox (db w1))) < length (filter (eligible (now w)) (outbox (db w)))"
    by (simp add: count_after [OF l])
  with k n ids_after [OF l] assms(2) show ?thesis by simp
qed

lemma drainOnce_ends:
  assumes "\<not> cxInTx c" and "busBatchSize b > 0" and "distinct (map obID (outbox (db w)))"
    and "length (filter (eligible (now w)) (outbox (db w))) < n"
  shows "fst (run_state (drainOnce n stop b c) w)"
  using assms(3,4)
proof (induction n arbitrary: w)
  case (Suc n)
  obtain fetched ok w' where d: "run_state (drainBatch b c) w = ((fetched, ok), w')"
    by (cases "run_state (drainBatch b c) w") auto
  show ?case
  proof (cases "ok \<and> \<not> fetched < busBatchSize b")
    case True
    from drainBatch_progress [OF assms(1) Suc.prems(1) assms(2) d] True Suc.prems(2) Suc.IH [of w']
    show ?thesis by (auto simp: d split: prod.split)
  next
    case False
    then show ?thesis by (auto simp: d split: prod.split)
  qed
qed simp

end

interpretation wired: quiet_bus "wired_bus E n" for E n
proof
  show "s \<in> set (busSubs (wired_bus E n) ty) \<Longrightarrow> \<not> suIsAsync s \<Longrightarrow> quiet (suInvoke s c e)" for s ty c e
    by (auto simp: wired_bus_simps deleted_sub_def audit_sub_def attempt_sub_def typed_invoke_def
        split: if_splits)
qed

subsection \<open>Publishing\<close>

lemma apply_options_keep: "tkType (fold apply_option opts t) = tkType t" "tkBody (fold apply_option opts t) = tkBody t"
proof (induction opts arbitrary: t)
  case (Cons o' opts)
  case 1 show ?case using Cons.IH(1) by (cases o') simp_all
  case 2 show ?case using Cons.IH(2) by (cases o') simp_all
qed simp_all

lemma dispatch_task_body [simp]:
  "tkType (dispatch_task c e opts) = TaskTypeDispatch"
  "tkBody (dispatch_task c e opts) = TEnvelope (eventType e) (JEvent e) (cxRequestID c)"
  by (simp_all add: dispatch_task_def new_task_def apply_options_keep del: fold.simps fold_simps append_Cons)

text \<open>One asynchronous subscription: the outcome of the enqueue decides.\<close>

lemma dispatch_single_async:
  assumes "suIsAsync s" and "busDispatcher b"
  shows "run_state (dispatch b c e [s]) w =
    (case mqReplies w of
       EnqDuplicate # rs \<Rightarrow> (Inr (), w\<lparr>mqReplies := rs\<rparr>)
     | EnqFails # rs \<Rightarrow> (Inl EnqueueFailedE, w\<lparr>mqReplies := rs\<rparr>)
     | rs \<Rightarrow> (Inr (), w\<lparr>mqReplies := tl rs, mq := mq w @ [dispatch_task c e (enqueue_opts e s)]\<rparr>))"
  using assms
  by (auto simp: dispatch_def dispatcher_Enqueue_def asynq_enqueue_def isDuplicateEnqueue_def errIs_def
      split: list.split enqueue_reply.split)

lemma wired_async: "suIsAsync audit_sub" "suIsAsync attempt_sub" "\<not> suIsAsync (deleted_sub E)"
  by (simp_all add: audit_sub_def attempt_sub_def deleted_sub_def)

text \<open>What a successful publish from the drain did, when no enqueue is refused as a duplicate.\<close>

lemma wired_drain_publish:
  assumes "cxFromDrain c" and "run_state (bus_Publish (wired_bus E n) c evt) w = (r, w')"
    and "EnqDuplicate \<notin> set (mqReplies w)"
  shows "EnqDuplicate \<notin> set (mqReplies w') \<and> (\<exists>ts. mq w' = mq w @ ts \<and>
    (r = Inr () \<longrightarrow> eventType evt = ''user.account.deleted'' \<or>
       (\<exists>t\<in>set ts. tkType t = TaskTypeDispatch \<and> tkBody t = TEnvelope (eventType evt) (JEvent evt) (cxRequestID c))))"
proof -
  have async: ?thesis if "suIsAsync s" "busSubs (wired_bus E n) (eventType evt) = [s]" for s
  proof -
    have "run_state (dispatch (wired_bus E n) c evt [s]) w = (r, w')"
      using assms(1,2) that by (simp add: bus_Publish_def Let_def)
    then show ?thesis
      using assms(3) unfolding dispatch_single_async [OF that(1) wired_bus_simps(1)]
      by (auto split: list.splits enqueue_reply.splits)
  qed
  show ?thesis
  proof (cases evt)
    case (UserAccountDeleted u)
    have "frames (\<lambda>w. (mq w, mqReplies w)) (bus_Publish (wired_bus E n) c evt)"
      using assms(1) unfolding UserAccountDeleted
      by (auto simp: bus_Publish_def dispatch_def runSync_def deleted_sub_def typed_invoke_def
          intro!: frames_intros frames_deleted split: goerr.split)
    from framesD [OF this assms(2)] assms(3) UserAccountDeleted show ?thesis by simp
  next
    case (AuditLogWritten a)
    then show ?thesis by (intro async [of audit_sub]) (simp_all add: wired_async)
  next
    case (AuthAttemptRecorded a)
    then show ?thesis by (intro async [of attempt_sub]) (simp_all add: wired_async)
  qed
qed

lemma drain_row_accounts:
  assumes "cxInTx c" and "run_state (drain_row (wired_bus E n) c row) w = (Inr (a, f), w')"
    and "EnqDuplicate \<notin> set (mqReplies w)"
  shows "EnqDuplicate \<notin> set (mqReplies w') \<and>
    (\<exists>ts dls. mq w' = mq w @ ts \<and> deadLetters (db w') = deadLetters (db w) @ dls \<and>
       (f = 0 \<longrightarrow> accounted c ts dls row))"
    (is ?goal)
proof -
  have dead: ?goal if "run_state (bury c row reason m) w = (Inr x, w')" for reason m x
    using bury_Inr [OF assms(1) that] assms(3) by (auto simp: accounted_def)
  have pub: ?goal if u: "unmarshal_event (obEventType row) (obPayload row) = Inr evt"
    and p: "run_state (bus_Publish (wired_bus E n) (c\<lparr>cxFromDrain := True\<rparr>) evt) w = (r, w1)"
    and m: "(\<exists>x. r = Inr () \<and> run_state (outbox_MarkProcessed c (obID row)) w1 = (Inr x, w')) \<or>
       (\<exists>m x. run_state (outbox_MarkFailed c (obID row) m) w1 = (Inr x, w') \<and> f = 1)" for evt r w1
  proof -
    have e: "eventType evt = obEventType row" "obPayload row = JEvent evt"
      using u by (auto simp: unmarshal_event_def split: payload.splits if_splits)
    have "db w1 = db w" by (rule quietD [THEN conjunct1, OF wired.drain_publish_quiet p]) simp
    then have "mq w' = mq w1 \<and> mqReplies w' = mqReplies w1 \<and> deadLetters (db w') = deadLetters (db w)"
      using m MarkProcessed_Inr [OF assms(1)] MarkFailed_Inr [OF assms(1)] by fastforce
    with wired_drain_publish [OF _ p assms(3)] m e show ?thesis
      by (auto simp: accounted_def row_task_def)
  qed
  have "(\<exists>reason m x. run_state (bury c row reason m) w = (Inr x, w')) \<or>
    (\<exists>evt r w1. unmarshal_event (obEventType row) (obPayload row) = Inr evt \<and>
       run_state (bus_Publish (wired_bus E n) (c\<lparr>cxFromDrain := True\<rparr>) evt) w = (r, w1) \<and>
       ((\<exists>x. r = Inr () \<and> run_state (outbox_MarkProcessed c (obID row)) w1 = (Inr x, w')) \<or>
        (\<exists>m x. run_state (outbox_MarkFailed c (obID row) m) w1 = (Inr x, w') \<and> f = 1)))"
    using assms(2) unfolding drain_row_def
    by (auto split: if_splits sum.splits prod.splits)
  then show ?goal using dead pub by blast
qed

lemma row_after_keeps:
  "list_all2 (row_after t ids) xs ys \<Longrightarrow> r \<in> set xs \<Longrightarrow> obID r \<notin> ids \<Longrightarrow> r \<in> set ys"
  by (induction rule: list_all2_induct) (auto simp: row_after_def)

lemma drain_rows_account:
  assumes "cxInTx c" and "run_state (drain_rows (wired_bus E n) c rows a0 f0) w = (Inr (a, f), w')"
    and "EnqDuplicate \<notin> set (mqReplies w)" and "distinct (map obID rows)" and "set rows \<subseteq> set (outbox (db w))"
  shows "\<exists>ts dls. mq w' = mq w @ ts \<and> deadLetters (db w') = deadLetters (db w) @ dls \<and>
    (\<forall>r\<in>set rows. accounted c ts dls r \<or> (\<exists>m. mark_failed (now w) m r \<in> set (outbox (db w'))))"
  using assms(2-)
proof (induction rows arbitrary: w a0 f0)
  case (Cons row rows)
  from Cons.prems(1) obtain a1 f1 w1 where
    r1: "run_state (drain_row (wired_bus E n) c row) w = (Inr (a1, f1), w1)"
    and r2: "run_state (drain_rows (wired_bus E n) c rows (a0 + a1) (f0 + f1)) w1 = (Inr (a, f), w')"
    by (auto split: sum.splits prod.splits)
  have nin: "obID row \<notin> obID ` set rows" and d: "distinct (map obID rows)" using Cons.prems(3) by auto
  from wired.drain_row_effect [OF assms(1) r1] obtain g where n1: "now w1 = now w"
    and o1: "outbox (db w1) = upd_where (\<lambda>r. obID r = obID row) g (outbox (db w))"
    and g: "f1 = 0 \<or> (\<exists>m. g = mark_failed (now w) m)" by fastforce
  from drain_row_accounts [OF assms(1) r1 Cons.prems(2)] obtain ts dls where
    nd: "EnqDuplicate \<notin> set (mqReplies w1)" and q1: "mq w1 = mq w @ ts"
    and l1: "deadLetters (db w1) = deadLetters (db w) @ dls" and acc: "f1 = 0 \<longrightarrow> accounted c ts dls row" by auto
  have sub: "set rows \<subseteq> set (outbox (db w1))"
    unfolding o1
  proof
    fix r assume r: "r \<in> set rows"
    with nin have "obID r \<noteq> obID row" by (metis imageI)
    with r Cons.prems(4) show "r \<in> set (upd_where (\<lambda>r. obID r = obID row) g (outbox (db w)))"
      unfolding set_upd_where by (intro bexI [of _ r]) auto
  qed
  from Cons.IH [OF r2 nd d sub] obtain ts' dls' where q2: "mq w' = mq w1 @ ts'"
    and l2: "deadLetters (db w') = deadLetters (db w1) @ dls'"
    and rest: "\<forall>r\<in>set rows. accounted c ts' dls' r \<or> (\<exists>m. mark_failed (now w) m r \<in> set (outbox (db w')))"
    using n1 by auto
  have "accounted c (ts @ ts') (dls @ dls') row \<or> (\<exists>m. mark_failed (now w) m row \<in> set (outbox (db w')))"
  proof (cases "f1 = 0")
    case True
    with acc show ?thesis by (auto intro: accounted_mono)
  next
    case False
    with g obtain m where m: "g = mark_failed (now w) m" by auto
    then have "mark_failed (now w) m row \<in> set (outbox (db w1))"
      unfolding o1 set_upd_where using Cons.prems(4) by auto
    moreover have "obID (mark_failed (now w) m row) \<notin> obID ` set rows"
      using nin by (simp add: mark_failed_def)
    moreover have "list_all2 (row_after (now w1) (obID ` set rows)) (outbox (db w1)) (outbox (db w'))"
      using wired.drain_rows_effect [OF assms(1) r2 d] by blast
    ultimately show ?thesis using row_after_keeps by blast
  qed
  moreover have "accounted c (ts @ ts') (dls @ dls') r" if "accounted c ts' dls' r" for r
    using that by (rule accounted_mono) auto
  ultimately show ?case using q1 q2 l1 l2 rest
    by (intro exI [of _ "ts @ ts'"] exI [of _ "dls @ dls'"]) auto
qed auto

subsection \<open>Properties\<close>


text \<open>C14. The drain loop ends whatever fails: with the batch size positive, more rounds than
  there are eligible rows are never needed, because every full batch it settles removes its rows
  from the eligible ones (processed, or waiting for their backoff).\<close>

theorem drain_loop_ends:
  assumes "\<not> cxInTx c" and "n > 0" and "distinct (map obID (outbox (db w)))"
    and "length (filter (eligible (now w)) (outbox (db w))) < fuel"
  shows "fst (run_state (drainOnce fuel stop (wired_bus E n) c) w)"
  using wired.drainOnce_ends [of c] assms by (simp add: wired_bus_simps)

subsection \<open>The transactional outbox\<close>

definition outbox_key_free :: "event \<Rightarrow> database \<Rightarrow> bool" where
  "outbox_key_free evt d = (dedupe_key evt = None \<or>
     \<not> list_ex (\<lambda>r. pending_row r \<and> obEventType r = eventType evt \<and> obDedupeKey r = dedupe_key evt) (outbox d))"

text \<open>A service method that publishes at the end of its transaction.\<close>

definition tx_then_publish ::
  "'r bus \<Rightarrow> (ctx \<Rightarrow> ('r, 'a) call) \<Rightarrow> event \<Rightarrow> ctx \<Rightarrow> ('r, 'a) call" where
  "tx_then_publish b body evt c = do {
     r \<leftarrow> body c;
     case r of Inl e \<Rightarrow> fail e
     | Inr x \<Rightarrow> do {
         r \<leftarrow> bus_Publish b c evt;
         case r of Inl e \<Rightarrow> fail e | Inr _ \<Rightarrow> returnE x }}"

lemma publish_in_tx:
  assumes "cxInTx c" and "\<not> cxFromDrain c" and "busOutbox b" and "busSubs b (eventType evt) \<noteq> []"
    and "run_state (bus_Publish b c evt) w = (Inr (), w')"
  shows "w' = (stepped ((db w)\<lparr>outbox := outbox (db w) @
      [new_outbox_row (eventType evt) (JEvent evt) (dedupe_key evt) (now w) (nextID w)]\<rparr>) w)\<lparr>busKick := True\<rparr>"
proof -
  from assms obtain i w1 where w1: "run_state (outbox_Write c evt) w = (Inr i, w1)"
    and w': "w' = w1\<lparr>busKick := True\<rparr>"
    by (auto simp: bus_Publish_def InTx_def kickDrain_def split: sum.splits prod.splits)
  from w1 have "run_state (run_query c (InsertOutbox (eventType evt) (JEvent evt) (dedupe_key evt))) w = (Inr i, w1)"
    by (auto simp: outbox_Write_def split: sum.splits prod.splits if_splits)
  from run_query_in_tx [OF assms(1) this] w' show ?thesis
    by (auto simp: InsertOutbox_def Let_def split: if_splits)
qed

text \<open>C12. An event published inside a transaction is stored if and only if the transaction
  commits. If the call returns an error no table changes, so no outbox row stays behind; if it
  returns a value, the tables are those of the body with exactly one more, pending outbox row for
  the event, and nothing has been enqueued for it before the commit.\<close>

theorem outbox_is_transactional:
  assumes "\<not> cxInTx c" and "\<not> cxFromDrain c" and "busOutbox b" and "busSubs b (eventType evt) \<noteq> []"
    and "run_state (with_tx c (tx_then_publish b body evt)) w = (r, w')"
  shows "case r of
      Inl _ \<Rightarrow> db w' = db w
    | Inr x \<Rightarrow> \<exists>w1. run_state (body (c\<lparr>cxInTx := True\<rparr>)) (enter_tx c w) = (Inr x, w1) \<and> mq w' = mq w1 \<and>
        db w' = (db w1)\<lparr>outbox := outbox (db w1) @
          [new_outbox_row (eventType evt) (JEvent evt) (dedupe_key evt) (now w1) (nextID w1)]\<rparr>"
proof (cases r)
  case (Inl e)
  with assms(5) with_tx_atomic [OF assms(1)] show ?thesis by auto
next
  case (Inr x)
  let ?c = "c\<lparr>cxInTx := True\<rparr>"
  from with_tx_success [OF assms(1) assms(5) [unfolded Inr]] obtain w2 where
    t: "run_state (tx_then_publish b body evt ?c) (enter_tx c w) = (Inr x, w2)"
    and w': "db w' = db w2" "mq w' = mq w2" by fastforce
  from t obtain w1 where b1: "run_state (body ?c) (enter_tx c w) = (Inr x, w1)"
    and p: "run_state (bus_Publish b ?c evt) w1 = (Inr (), w2)"
    by (auto simp: tx_then_publish_def split: sum.splits prod.splits)
  have "w2 = (stepped ((db w1)\<lparr>outbox := outbox (db w1) @
      [new_outbox_row (eventType evt) (JEvent evt) (dedupe_key evt) (now w1) (nextID w1)]\<rparr>) w1)\<lparr>busKick := True\<rparr>"
    by (rule publish_in_tx [OF _ _ assms(3,4) p]) (simp_all add: assms(2))
  with Inr b1 w' show ?thesis by auto
qed

subsection \<open>The breaker\<close>

text \<open>The failed batches at the end of a history of batches, each (attempts, failures); batches
  that attempted nothing do not count.\<close>

definition failed_batch :: "nat \<times> nat \<Rightarrow> bool" where "failed_batch p = (snd p = fst p)"

definition trailing_failures :: "(nat \<times> nat) list \<Rightarrow> nat" where
  "trailing_failures h = length (takeWhile failed_batch (rev (filter (\<lambda>p. fst p \<noteq> 0) h)))"

definition record_batches :: "(nat \<times> nat) list \<Rightarrow> 'r world \<Rightarrow> 'r world" where
  "record_batches h w = fold (\<lambda>(a, f) w. snd (run_state (recordBreaker a f) w)) h w"

lemma record_batches_snoc:
  "record_batches (h @ [(a, f)]) w = snd (run_state (recordBreaker a f) (record_batches h w))"
  by (simp add: record_batches_def)

lemma record_batches_now [simp]: "now (record_batches h w) = now w"
  by (induction h rule: rev_induct)
     (auto simp: record_batches_def recordBreaker_def Let_def)

lemma breaker_count:
  "busFailures w = 0 \<Longrightarrow> busFailures (record_batches h w) = trailing_failures h"
proof (induction h rule: rev_induct)
  case (snoc p h)
  obtain a f where p: "p = (a, f)" by (cases p)
  show ?case using snoc unfolding p record_batches_snoc
    by (auto simp: recordBreaker_def Let_def trailing_failures_def failed_batch_def)
qed (simp add: record_batches_def trailing_failures_def)

lemma breaker_opened_now:
  assumes "busFailures w = 0" and "trailing_failures h \<ge> drainBreakerThreshold"
  shows "busOpenedAt (record_batches h w) = now w"
  using assms(2)
proof (induction h rule: rev_induct)
  case (snoc p h)
  obtain a f where p: "p = (a, f)" by (cases p)
  have n: "busFailures (record_batches h w) = trailing_failures h" by (rule breaker_count [OF assms(1)])
  show ?case
  proof (cases "trailing_failures h \<ge> drainBreakerThreshold")
    case True
    with snoc.IH n show ?thesis unfolding p record_batches_snoc
      by (auto simp: recordBreaker_def Let_def)
  next
    case False
    with snoc.prems n show ?thesis unfolding p record_batches_snoc
      by (auto simp: recordBreaker_def Let_def trailing_failures_def failed_batch_def split: if_splits)
  qed
qed (simp add: trailing_failures_def drainBreakerThreshold_def)

text \<open>The drain breaker is a counter of consecutive all-failed batches: after any history of
  batches it is open exactly when the last three or more batches that attempted anything failed
  entirely, it then refuses to drain for less than a minute, and one success in a batch closes it.\<close>

theorem breaker_counts_consecutive_failures:
  assumes "busFailures w = 0" and "0 \<le> d"
  shows "breakerAllows ((record_batches h w)\<lparr>now := now w + d\<rparr>)
     = (trailing_failures h < drainBreakerThreshold \<or> drainBreakerCooldown \<le> d)"
  using breaker_count [OF assms(1), of h] breaker_opened_now [OF assms(1), of h]
  by (auto simp: breakerAllows_def)

subsection \<open>From publish to handler\<close>

definition audit_row_of :: "audit_log_written \<Rightarrow> audit_row" where
  "audit_row_of e = \<lparr>arAdminID = alAdminID e, arAction = alAction e, arResource = alResource e,
     arResourceID = NullStr (alResourceID e), arDetails = alDetails e,
     arStatus = (if alStatus e = [] then ''success'' else alStatus e), arRequestID = NullStr (alRequestID e)\<rparr>"

lemma process_audit_task:
  assumes "db_up w"
  shows "\<exists>w'. run_state (ProcessTask (wired_bus E n) c (dispatch_task c' (AuditLogWritten e) opts)) w = (Inr (), w')
     \<and> auditLogs (db w') = auditLogs (db w) @ [audit_row_of e]"
proof -
  let ?q = "CreateAuditLog (audit_row_of e)"
  have h: "OnAuditLogWritten c (AuditLogWritten e) = run_query c ?q" for c
    by (simp add: OnAuditLogWritten_def audit_row_of_def Let_def)
  have q: "run_state (run_query c ?q) w = (Inr (), after_query c ((db w)\<lparr>auditLogs := auditLogs (db w) @ [audit_row_of e]\<rparr>) w)" for c
    by (rule run_query_up [OF assms]) (simp add: CreateAuditLog_def)
  show ?thesis
    using event_types_registered [of "AuditLogWritten e"] unmarshal_marshal [of "AuditLogWritten e"]
    by (simp add: ProcessTask_def Let_def InvokeAsync_def InvokeAsync_step_def runSync_def audit_sub_def
        typed_invoke_def h q)
qed


text \<open>A login refused by the lockout is never recorded: the handler of an attempt whose outcome
  is \<open>locked\<close> fails in every state, since the CHECK constraint of \<open>auth.login_attempts\<close> admits only
  success, wrong\_password, not\_found, rate\_limited and blocked, and it changes no table; the task is
  retried until its retries are spent.\<close>

theorem locked_attempt_never_recorded:
  assumes "\<not> cxInTx c" and "aaOutcome a = ''locked''"
  shows "(\<exists>e. fst (run_state (InvokeAsync (wired_bus E n) c (AuthAttemptRecorded a)) w) = Inl e) \<and>
    db (snd (run_state (InvokeAsync (wired_bus E n) c (AuthAttemptRecorded a)) w)) = db w"
proof -
  let ?q = "CreateLoginAttempt (aaEmail a) (if aaUserID a \<noteq> 0 then Some (aaUserID a) else None)
      (aaChannel a) (aaOutcome a) (wrap32 (aaRemaining a)) (NullStr (aaRequestID a))"
  have bad: "?q rl t i d \<noteq> Inr x" for rl t i d x
    using assms(2) by (simp add: CreateLoginAttempt_def attempt_outcomes_def)
  obtain r w' where r: "run_state (run_query c ?q) w = (r, w')" by fastforce
  with run_query_Inr [of c ?q w _ w'] bad obtain e where e: "r = Inl e" by (cases r) auto
  with r with_tx_atomic [OF assms(1), of "\<lambda>_. exec_query ?q" w e w'] assms(1)
  have "db w' = db w" by (simp add: run_query_def store_run_def)
  with r e show ?thesis
    by (auto simp: InvokeAsync_def InvokeAsync_step_def runSync_def attempt_sub_def typed_invoke_def
        OnAuthAttemptRecorded_def split: goerr.split)
qed

end
