(* ===== verification/Auth_Service.thy ===== *)
theory Auth_Service
  imports Repositories Event_Drain
begin

section \<open>The authentication service\<close>

text \<open>
  Models \<open>internal/auth\<close>: the login limiter (\<open>lockout.go\<close>), token issue and rotation
  (\<open>tokens.go\<close>), sessions and devices (\<open>session.go\<close>) and the service methods (\<open>service.go\<close>).
  Each method is a computation over the world that makes the calls of the Go method in its order;
  errors the source drops are dropped, calls that only log are left out. The \<open>EmailSender\<close>
  interface is a field of the service.
\<close>

subsection \<open>Configuration and the service\<close>

record auth_config =
  cfMaxInactivityTimeout :: duration
  cfMaxDevicesPerUser :: int
  cfAccessTokenExpiry :: duration
  cfRefreshTokenExpiry :: duration
  cfLockoutMaxAttempts :: int
  cfLockoutWindow :: duration
  cfHashMemory :: "32 word"
  cfHashIterations :: "32 word"
  cfHashParallelism :: "8 word"
  cfHashSaltLength :: "32 word"
  cfHashKeyLength :: "32 word"

record 'r email_sender =
  esVerification :: "ctx \<Rightarrow> string \<Rightarrow> string \<Rightarrow> ('r, unit) call"
  esPasswordReset :: "ctx \<Rightarrow> string \<Rightarrow> string \<Rightarrow> ('r, unit) call"

record loginLimiter =
  llMaxAttempts :: int
  llWindow :: duration

definition newLoginLimiter :: "int \<Rightarrow> duration \<Rightarrow> loginLimiter" where
  "newLoginLimiter maxAttempts window = \<lparr>
     llMaxAttempts = if maxAttempts \<le> 0 then 10 else maxAttempts,
     llWindow = if window \<le> 0 then 15 * minute else window\<rparr>"

record 'r auth_service =
  svExt :: "'r ext"
  svBus :: "'r bus"
  svCfg :: auth_config
  svEmail :: "'r email_sender"
  svHasher :: passwordHasher
  svLockout :: loginLimiter
  svDummyHash :: string

definition svR :: "'r auth_service \<Rightarrow> 'r redis_api" where "svR s = xRedis (svExt s)"
definition svP :: "'r auth_service \<Rightarrow> string" where "svP s = xPrefix (svExt s)"

definition newAuthService ::
  "'r ext \<Rightarrow> 'r bus \<Rightarrow> auth_config \<Rightarrow> 'r email_sender \<Rightarrow> ('r, 'r auth_service) proc" where
  "newAuthService E b cfg em = do {
     let hasher = newPasswordHasher (cfHashMemory cfg) (cfHashIterations cfg) (cfHashParallelism cfg)
                    (cfHashSaltLength cfg) (cfHashKeyLength cfg);
     u \<leftarrow> NewUUIDNoDash E;
     r \<leftarrow> hasher_hash E hasher u;
     let dummyHash = (case r of Inl e \<Rightarrow> [] | Inr h \<Rightarrow> h);
     ret \<lparr>svExt = E, svBus = b, svCfg = cfg, svEmail = em, svHasher = hasher,
       svLockout = newLoginLimiter (cfLockoutMaxAttempts cfg) (cfLockoutWindow cfg),
       svDummyHash = dummyHash\<rparr> }"

subsection \<open>Errors and values\<close>

definition ErrInvalidCredentials :: app_error where
  "ErrInvalidCredentials = errUnauthorized ''INVALID_CREDENTIALS'' ''auth.invalid_credentials''"
definition ErrEmailExists :: app_error where
  "ErrEmailExists = errConflict ''EMAIL_ALREADY_EXISTS'' ''auth.email_exists''"
definition ErrAccountInactive :: app_error where
  "ErrAccountInactive = errForbidden ''ACCOUNT_INACTIVE'' ''auth.account_inactive''"
definition ErrTokenRevoked :: app_error where
  "ErrTokenRevoked = errUnauthorized ''ACCESS_TOKEN_REVOKED'' ''auth.token_revoked''"
definition ErrCannotRemoveCurrentDevice :: app_error where
  "ErrCannotRemoveCurrentDevice = errBadRequest ''CANNOT_REMOVE_CURRENT_DEVICE'' ''auth.cannot_remove_current_device''"
definition ErrInvalidVerificationToken :: app_error where
  "ErrInvalidVerificationToken = errBadRequest ''INVALID_VERIFICATION_TOKEN'' ''auth.invalid_verification_token''"
definition ErrInvalidResetToken :: app_error where
  "ErrInvalidResetToken = errBadRequest ''INVALID_RESET_TOKEN'' ''auth.invalid_reset_token''"
definition ErrIncorrectPassword :: app_error where
  "ErrIncorrectPassword = errBadRequest ''INCORRECT_PASSWORD'' ''auth.incorrect_password''"
definition ErrTooManyAttempts :: app_error where
  "ErrTooManyAttempts = errTooManyRequests ''TOO_MANY_ATTEMPTS'' ''auth.too_many_attempts''"

record device_info =
  diDeviceID :: string
  diName :: string
  diPlatform :: string
  diModel :: string
  diManufacturer :: string
  diIPAddress :: string
  diUserAgent :: string

text \<open>The zero values of the structs.\<close>

definition zero_user :: user where
  "zero_user = \<lparr>uID = 0, uEmail = [], uPasswordHash = [], uFirstName = [], uLastName = [], uAvatar = [],
     uBio = [], uStatus = StInactive, uRole = RoUser, uEmailVerifiedAt = None, uLastLoginAt = None,
     uCreatedAt = 0, uUpdatedAt = 0, uDeletedAt = None\<rparr>"

definition zero_session :: device_session where
  "zero_session = \<lparr>dsID = 0, dsUserID = 0, dsPlatform = [], dsManufacturer = [], dsModel = [],
     dsVersion = [], dsSDK = [], dsBrand = [], dsHardware = [], dsBoard = [], dsDevice = [], dsProduct = [],
     dsIsPhysicalDevice = False, dsName = [], dsIdentifier = [], dsDeviceID = [], dsLastActivity = 0, dsIPAddress = [], dsUserAgent = [], dsLocation = [],
     dsRevokedAt = None, dsRevokedReason = [], dsCreatedAt = 0, dsUser = None\<rparr>"

definition ds_user :: "device_session \<Rightarrow> user" where
  "ds_user s = (case dsUser s of None \<Rightarrow> zero_user | Some u \<Rightarrow> u)"

definition rt_session :: "refresh_token \<Rightarrow> device_session" where
  "rt_session t = (case rtSession t of None \<Rightarrow> zero_session | Some s \<Rightarrow> s)"

definition toSession :: "device_info \<Rightarrow> int \<Rightarrow> device_session" where
  "toSession d userID = zero_session\<lparr>dsUserID := userID, dsDeviceID := diDeviceID d, dsName := diName d,
     dsPlatform := diPlatform d, dsModel := diModel d, dsManufacturer := diManufacturer d,
     dsIPAddress := diIPAddress d, dsUserAgent := diUserAgent d\<rparr>"

record token_pair =
  tpAccessToken :: string
  tpRefreshToken :: string
  tpExpiresIn :: int
  tpUser :: user
  tpSettings :: "settings option"

definition normalizeEmail :: "string \<Rightarrow> string" where
  "normalizeEmail em = to_lower (trim_space em)"

definition as_token_data :: "cache_value \<Rightarrow> int option" where
  "as_token_data v = (case v of JTokenData i \<Rightarrow> Some i | _ \<Rightarrow> None)"

subsection \<open>The login limiter\<close>

definition lockout_blocked :: "'r auth_service \<Rightarrow> string \<Rightarrow> ('r, bool) proc" where
  "lockout_blocked s em = do {
     r \<leftarrow> cache_counter (svR s) (svP s) (RateLimitKey ''login'' em);
     case r of Inl e \<Rightarrow> ret False | Inr n \<Rightarrow> ret (n \<ge> llMaxAttempts (svLockout s)) }"

definition lockout_recordFailure :: "'r auth_service \<Rightarrow> string \<Rightarrow> ('r, unit) proc" where
  "lockout_recordFailure s em = do {
     IncrementWithTTL (svR s) (svP s) (RateLimitKey ''login'' em) (llWindow (svLockout s));
     ret () }"

definition lockout_reset :: "'r auth_service \<Rightarrow> string \<Rightarrow> ('r, unit) proc" where
  "lockout_reset s em = do {
     cache_delete (svR s) (svP s) (RateLimitKey ''login'' em);
     ret () }"

subsection \<open>Tokens\<close>

definition recordAttempt ::
  "'r auth_service \<Rightarrow> ctx \<Rightarrow> string \<Rightarrow> int \<Rightarrow> string \<Rightarrow> string \<Rightarrow> ('r, unit) proc" where
  "recordAttempt s c em userID channel outcome = do {
     t \<leftarrow> getw now;
     bus_Publish (svBus s) c (AuthAttemptRecorded \<lparr>aaEmail = em, aaUserID = userID, aaChannel = channel,
       aaOutcome = outcome, aaRemaining = 0, aaIPAddress = [], aaUserAgent = [], aaDeviceID = [],
       aaRequestID = cxRequestID c, aaOccurredAt = t\<rparr>);
     ret () }"

definition issueTokenPair :: "'r auth_service \<Rightarrow> device_session \<Rightarrow> ('r, string \<times> string \<times> string) call" where
  "issueTokenPair s session = do {
     r \<leftarrow> at_Generate (svExt s) (cfAccessTokenExpiry (svCfg s)) (dsID session) (dsUserID session) (dsDeviceID session);
     case r of Inl e \<Rightarrow> fail (WrapE ''generate access token'' e)
     | Inr accessToken \<Rightarrow> do {
         r \<leftarrow> GenerateRefreshToken (svExt s);
         case r of Inl e \<Rightarrow> fail (WrapE ''generate refresh token'' e)
         | Inr (rawRefresh, tokenHash) \<Rightarrow> returnE (accessToken, rawRefresh, tokenHash) }}"

definition generateTokenPair ::
  "'r auth_service \<Rightarrow> ctx \<Rightarrow> user \<Rightarrow> device_session \<Rightarrow> settings option \<Rightarrow> ('r, token_pair) call" where
  "generateTokenPair s c u session stt = do {
     r \<leftarrow> issueTokenPair s session;
     case r of Inl e \<Rightarrow> fail e
     | Inr (access, rawRefresh, tokenHash) \<Rightarrow> do {
         family \<leftarrow> NewUUIDNoDash (svExt s);
         t \<leftarrow> getw now;
         r \<leftarrow> refresh_Create (svExt s) c (dsID session) tokenHash family (t + cfRefreshTokenExpiry (svCfg s));
         case r of Inl e \<Rightarrow> fail e
         | Inr _ \<Rightarrow> returnE \<lparr>tpAccessToken = access, tpRefreshToken = rawRefresh,
             tpExpiresIn = go_div (cfAccessTokenExpiry (svCfg s)) second, tpUser = u, tpSettings = stt\<rparr> }}"

definition drop_error :: "goerr + 'a \<Rightarrow> 'a option" where
  "drop_error r = (case r of Inl e \<Rightarrow> None | Inr x \<Rightarrow> Some x)"

definition rotate_token :: "'r auth_service \<Rightarrow> string \<Rightarrow> device_session \<Rightarrow> string \<Rightarrow> string \<Rightarrow> ctx \<Rightarrow> ('r, unit) call" where
  "rotate_token s tokenHash session newHash family c = do {
     r \<leftarrow> refresh_RevokeByTokenHash c tokenHash ''rotated'';
     case r of Inl e \<Rightarrow> fail e
     | Inr _ \<Rightarrow> do {
         t \<leftarrow> getw now;
         r \<leftarrow> refresh_Create (svExt s) c (dsID session) newHash family (t + cfRefreshTokenExpiry (svCfg s));
         case r of Inl e \<Rightarrow> fail e | Inr _ \<Rightarrow> returnE () }}"

definition reuse_detected :: "'r auth_service \<Rightarrow> ctx \<Rightarrow> refresh_token \<Rightarrow> ('r, token_pair) call" where
  "reuse_detected s c record = do {
     refresh_RevokeByTokenFamily (svExt s) c (rtTokenFamily record) ''token_reuse'';
     sessions_Revoke c ''token_reuse'' (dsID (rt_session record));
     recordAttempt s c (uEmail (ds_user (rt_session record))) (dsUserID (rt_session record)) ''refresh'' ''blocked'';
     fail (AppE ErrTokenRevoked) }"

definition RefreshTokens :: "'r auth_service \<Rightarrow> ctx \<Rightarrow> string \<Rightarrow> ('r, token_pair) call" where
  "RefreshTokens s c refreshToken = do {
     let tokenHash = hashToken (svExt s) refreshToken;
     r \<leftarrow> refresh_FindByTokenHash c tokenHash;
     t \<leftarrow> getw now;
     case r of
       Inl e \<Rightarrow> do { recordAttempt s c [] 0 ''refresh'' ''not_found''; fail (AppE ErrInvalidToken) }
     | Inr record \<Rightarrow>
         if rt_IsRevoked record then reuse_detected s c record
         else if rt_IsExpired t record then do {
           recordAttempt s c (uEmail (ds_user (rt_session record))) (dsUserID (rt_session record)) ''refresh'' ''not_found'';
           fail (AppE ErrInvalidToken) }
         else let session = rt_session record
         in if \<not> ds_IsValid t session (cfMaxInactivityTimeout (svCfg s)) then fail (AppE ErrSessionNotFound)
         else do {
           r \<leftarrow> issueTokenPair s session;
           case r of Inl e \<Rightarrow> fail e
           | Inr (access, rawRefresh, newHash) \<Rightarrow> do {
               r \<leftarrow> with_tx c (rotate_token s tokenHash session newHash (rtTokenFamily record));
               case r of Inl e \<Rightarrow> fail e
               | Inr _ \<Rightarrow> do {
                   stt \<leftarrow> settings_GetByUserID c (dsUserID session);
                   recordAttempt s c (uEmail (ds_user session)) (dsUserID session) ''refresh'' ''success'';
                   returnE \<lparr>tpAccessToken = access, tpRefreshToken = rawRefresh,
                     tpExpiresIn = go_div (cfAccessTokenExpiry (svCfg s)) second,
                     tpUser = ds_user session, tpSettings = drop_error stt\<rparr> }}}}"

subsection \<open>Sessions\<close>

definition revokeSessionAndTokens ::
  "'r auth_service \<Rightarrow> ctx \<Rightarrow> device_session \<Rightarrow> string \<Rightarrow> ('r, unit) call" where
  "revokeSessionAndTokens s c session reason = do {
     r \<leftarrow> sessions_Revoke c reason (dsID session);
     case r of Inl e \<Rightarrow> fail (WrapE (''revoke session '' @ show_int (dsID session)) e)
     | Inr _ \<Rightarrow> do {
         refresh_RevokeBySessionID c (dsID session) reason;
         cache_delete (svR s) (svP s) (SessionDataKey (dsID session));
         returnE () }}"

text \<open>The loop of \<open>evictOldestIfOverLimit\<close>, on the sessions from the oldest to the newest.\<close>

fun evict_loop :: "'r auth_service \<Rightarrow> ctx \<Rightarrow> device_session list \<Rightarrow> ('r, unit) proc" where
  "evict_loop s c [] = ret ()"
| "evict_loop s c (oldest # newer) =
     (if int (length (oldest # newer)) \<ge> cfMaxDevicesPerUser (svCfg s) then do {
        r \<leftarrow> revokeSessionAndTokens s c oldest ''device_limit'';
        case r of Inl e \<Rightarrow> ret () | Inr _ \<Rightarrow> evict_loop s c newer }
      else ret ())"

definition evictOldestIfOverLimit :: "'r auth_service \<Rightarrow> ctx \<Rightarrow> int \<Rightarrow> ('r, unit) proc" where
  "evictOldestIfOverLimit s c userID =
     (if cfMaxDevicesPerUser (svCfg s) \<le> 0 then ret ()
      else do {
        r \<leftarrow> sessions_FindActiveDevicesByUser c userID (cfMaxInactivityTimeout (svCfg s));
        case r of Inl e \<Rightarrow> ret () | Inr ss \<Rightarrow> evict_loop s c (rev ss) })"

definition session_tx ::
  "'r auth_service \<Rightarrow> user \<Rightarrow> device_session \<Rightarrow> settings option \<Rightarrow> ctx \<Rightarrow> ('r, token_pair \<times> device_session) call" where
  "session_tx s u session stt c = do {
     r \<leftarrow> (if dsDeviceID session \<noteq> [] then sessions_RevokeActiveByDeviceID c (dsDeviceID session) ''relogin''
           else returnE ());
     case r of Inl e \<Rightarrow> fail e
     | Inr _ \<Rightarrow> do {
         r \<leftarrow> sessions_Create c session;
         case r of Inl e \<Rightarrow> fail e
         | Inr session \<Rightarrow> do {
             let session = session\<lparr>dsUser := Some u\<rparr>;
             r \<leftarrow> generateTokenPair s c u session stt;
             case r of Inl e \<Rightarrow> fail e | Inr tokens \<Rightarrow> returnE (tokens, session) }}}"

definition createSessionAndTokens ::
  "'r auth_service \<Rightarrow> ctx \<Rightarrow> user \<Rightarrow> device_info \<Rightarrow> settings option \<Rightarrow> ('r, token_pair) call" where
  "createSessionAndTokens s c u device stt = do {
     evictOldestIfOverLimit s c (uID u);
     r \<leftarrow> with_tx c (session_tx s u (toSession device (uID u)) stt);
     case r of Inl e \<Rightarrow> fail e
     | Inr (tokens, session) \<Rightarrow> do {
         cache_set (svR s) (svP s) (SessionDataKey (dsID session)) (JSession session) CacheLong;
         returnE tokens }}"

definition Logout :: "'r auth_service \<Rightarrow> ctx \<Rightarrow> int \<Rightarrow> string \<Rightarrow> ('r, unit) proc" where
  "Logout s c sessionID accessToken = do {
     sessions_Revoke c ''logout'' sessionID;
     (if accessToken \<noteq> [] then do { at_Revoke (svExt s) accessToken; ret () } else ret ());
     refresh_RevokeBySessionID c sessionID ''logout'';
     cache_delete (svR s) (svP s) (SessionDataKey sessionID);
     ret () }"

record device_session_info =
  siID :: int
  siDeviceID :: string
  siDeviceName :: string
  siPlatform :: string
  siManufacturer :: string
  siModel :: string
  siLastUsedAt :: time
  siCurrent :: bool

definition session_info :: "int \<Rightarrow> device_session \<Rightarrow> device_session_info" where
  "session_info currentSessionID d = \<lparr>siID = dsID d, siDeviceID = dsDeviceID d, siDeviceName = dsName d,
     siPlatform = dsPlatform d, siManufacturer = dsManufacturer d, siModel = dsModel d,
     siLastUsedAt = dsLastActivity d, siCurrent = (dsID d = currentSessionID)\<rparr>"

definition ListDevices :: "'r auth_service \<Rightarrow> ctx \<Rightarrow> int \<Rightarrow> int \<Rightarrow> ('r, device_session_info list) call" where
  "ListDevices s c userID currentSessionID = do {
     r \<leftarrow> sessions_FindActiveDevicesByUser c userID (cfMaxInactivityTimeout (svCfg s));
     case r of Inl e \<Rightarrow> fail e | Inr ss \<Rightarrow> returnE (map (session_info currentSessionID) ss) }"

definition RemoveDevice :: "'r auth_service \<Rightarrow> ctx \<Rightarrow> int \<Rightarrow> string \<Rightarrow> int \<Rightarrow> ('r, unit) call" where
  "RemoveDevice s c userID deviceID currentSessionID = do {
     r \<leftarrow> sessions_FindByUserAndDeviceID c userID deviceID;
     case r of Inl e \<Rightarrow> fail e
     | Inr session \<Rightarrow>
         if dsID session = currentSessionID then fail (AppE ErrCannotRemoveCurrentDevice)
         else revokeSessionAndTokens s c session ''user_revoked_device'' }"

definition revoke_logged :: "'r auth_service \<Rightarrow> ctx \<Rightarrow> string \<Rightarrow> device_session \<Rightarrow> ('r, unit) proc" where
  "revoke_logged s c reason session = do { revokeSessionAndTokens s c session reason; ret () }"

definition RevokeAllSessions :: "'r auth_service \<Rightarrow> ctx \<Rightarrow> int \<Rightarrow> string \<Rightarrow> ('r, unit) call" where
  "RevokeAllSessions s c userID reason = do {
     r \<leftarrow> sessions_FindActiveDevicesByUser c userID (cfMaxInactivityTimeout (svCfg s));
     case r of Inl e \<Rightarrow> fail e
     | Inr ss \<Rightarrow> do { for_each (revoke_logged s c reason) ss; returnE () }}"

definition RevokeOtherSessions :: "'r auth_service \<Rightarrow> ctx \<Rightarrow> int \<Rightarrow> int \<Rightarrow> string \<Rightarrow> ('r, unit) call" where
  "RevokeOtherSessions s c userID keepSessionID reason = do {
     r \<leftarrow> sessions_FindActiveDevicesByUser c userID (cfMaxInactivityTimeout (svCfg s));
     case r of Inl e \<Rightarrow> fail e
     | Inr ss \<Rightarrow> do {
         for_each (\<lambda>d. if dsID d = keepSessionID then ret () else revoke_logged s c reason d) ss;
         returnE () }}"

subsection \<open>The service methods\<close>

definition verifyTokenTTL :: cache_options where "verifyTokenTTL = \<lparr>coTTL = 24 * hour, coTags = []\<rparr>"
definition resetTokenTTL :: cache_options where "resetTokenTTL = \<lparr>coTTL = hour, coTags = []\<rparr>"

definition sendVerification :: "'r auth_service \<Rightarrow> ctx \<Rightarrow> user \<Rightarrow> ('r, unit) proc" where
  "sendVerification s c u = do {
     tok \<leftarrow> NewUUIDNoDash (svExt s);
     r \<leftarrow> cache_set (svR s) (svP s) (VerificationTokenKey tok) (JTokenData (uID u)) verifyTokenTTL;
     case r of Inl e \<Rightarrow> ret ()
     | Inr _ \<Rightarrow> do { esVerification (svEmail s) c (uEmail u) tok; ret () }}"

record register_input =
  riEmail :: string
  riPassword :: string
  riFirstName :: string
  riLastName :: string
  riDevice :: device_info

definition register_tx ::
  "'r auth_service \<Rightarrow> string \<Rightarrow> string \<Rightarrow> register_input \<Rightarrow> ctx \<Rightarrow> ('r, token_pair \<times> user) call" where
  "register_tx s em hash inp c = do {
     r \<leftarrow> users_Create c em hash (riFirstName inp) (riLastName inp);
     case r of Inl e \<Rightarrow> fail e
     | Inr u \<Rightarrow> do {
         r \<leftarrow> settings_Create c (uID u) DefaultSettings;
         case r of Inl e \<Rightarrow> fail e
         | Inr _ \<Rightarrow> do {
             r \<leftarrow> createSessionAndTokens s c u (riDevice inp) (Some DefaultSettings);
             case r of Inl e \<Rightarrow> fail e | Inr tokens \<Rightarrow> returnE (tokens, u) }}}"

definition Register :: "'r auth_service \<Rightarrow> ctx \<Rightarrow> register_input \<Rightarrow> ('r, token_pair) call" where
  "Register s c inp =
     (case validatePassword (riPassword inp) of Inl e \<Rightarrow> fail e
      | Inr _ \<Rightarrow> do {
          let em = normalizeEmail (riEmail inp);
          taken \<leftarrow> users_ExistsByEmail c em;
          if taken then fail (AppE ErrEmailExists)
          else do {
            r \<leftarrow> hasher_hash (svExt s) (svHasher s) (riPassword inp);
            case r of Inl e \<Rightarrow> fail e
            | Inr hash \<Rightarrow> do {
                r \<leftarrow> with_tx c (register_tx s em hash inp);
                case r of Inl e \<Rightarrow> fail e
                | Inr (tokens, u) \<Rightarrow> do { sendVerification s c u; returnE tokens }}}})"

record login_input =
  liEmail :: string
  liPassword :: string
  liDevice :: device_info

definition Login :: "'r auth_service \<Rightarrow> ctx \<Rightarrow> login_input \<Rightarrow> ('r, token_pair) call" where
  "Login s c inp = do {
     let em = normalizeEmail (liEmail inp);
     blocked \<leftarrow> lockout_blocked s em;
     if blocked then do { recordAttempt s c em 0 ''login'' ''locked''; fail (AppE ErrTooManyAttempts) }
     else do {
       r \<leftarrow> users_FindByEmail c em;
       case r of
         Inl e \<Rightarrow> do {
           lockout_recordFailure s em;
           recordAttempt s c em 0 ''login'' ''not_found'';
           fail (AppE ErrInvalidCredentials) }
       | Inr u \<Rightarrow>
           if \<not> verifyPassword (svExt s) (uPasswordHash u) (liPassword inp) then do {
             lockout_recordFailure s em;
             recordAttempt s c em (uID u) ''login'' ''wrong_password'';
             fail (AppE ErrInvalidCredentials) }
           else if \<not> user_IsActive u then do {
             recordAttempt s c em (uID u) ''login'' ''blocked'';
             fail (AppE ErrAccountInactive) }
           else do {
             lockout_reset s em;
             stt \<leftarrow> settings_GetByUserID c (uID u);
             r \<leftarrow> createSessionAndTokens s c u (liDevice inp) (drop_error stt);
             case r of Inl e \<Rightarrow> fail e
             | Inr tokens \<Rightarrow> do {
                 users_UpdateLastLogin c (uID u);
                 recordAttempt s c em (uID u) ''login'' ''success'';
                 returnE tokens }}}}"

definition VerifyEmail :: "'r auth_service \<Rightarrow> ctx \<Rightarrow> string \<Rightarrow> ('r, unit) call" where
  "VerifyEmail s c tok = do {
     r \<leftarrow> cache_getdel (svR s) (svP s) as_token_data (VerificationTokenKey tok);
     case r of Inr (Some userID) \<Rightarrow> users_MarkEmailVerified c userID
     | _ \<Rightarrow> fail (AppE ErrInvalidVerificationToken) }"

definition ResendVerification :: "'r auth_service \<Rightarrow> ctx \<Rightarrow> int \<Rightarrow> ('r, unit) call" where
  "ResendVerification s c userID = do {
     r \<leftarrow> users_FindByID c userID;
     case r of Inl e \<Rightarrow> fail e
     | Inr u \<Rightarrow> if user_IsEmailVerified u then returnE ()
         else do { sendVerification s c u; returnE () }}"

definition RequestPasswordReset :: "'r auth_service \<Rightarrow> ctx \<Rightarrow> string \<Rightarrow> ('r, unit) call" where
  "RequestPasswordReset s c em = do {
     r \<leftarrow> users_FindByEmail c (normalizeEmail em);
     case r of Inl e \<Rightarrow> returnE ()
     | Inr u \<Rightarrow> do {
         tok \<leftarrow> NewUUIDNoDash (svExt s);
         r \<leftarrow> cache_set (svR s) (svP s) (PasswordResetKey tok) (JTokenData (uID u)) resetTokenTTL;
         case r of Inl e \<Rightarrow> fail e
         | Inr _ \<Rightarrow> do { esPasswordReset (svEmail s) c (uEmail u) tok; returnE () }}}"

definition ResetPassword :: "'r auth_service \<Rightarrow> ctx \<Rightarrow> string \<Rightarrow> string \<Rightarrow> ('r, unit) call" where
  "ResetPassword s c tok newPassword =
     (case validatePassword newPassword of Inl e \<Rightarrow> fail e
      | Inr _ \<Rightarrow> do {
          r \<leftarrow> cache_getdel (svR s) (svP s) as_token_data (PasswordResetKey tok);
          case r of Inr (Some userID) \<Rightarrow> do {
              r \<leftarrow> hasher_hash (svExt s) (svHasher s) newPassword;
              case r of Inl e \<Rightarrow> fail e
              | Inr hash \<Rightarrow> do {
                  r \<leftarrow> users_UpdatePasswordHash c userID hash;
                  case r of Inl e \<Rightarrow> fail e
                  | Inr _ \<Rightarrow> do {
                      sessions_RevokeAllByUserID c userID ''password_reset'';
                      returnE () }}}
          | _ \<Rightarrow> fail (AppE ErrInvalidResetToken) })"

definition ChangePassword :: "'r auth_service \<Rightarrow> ctx \<Rightarrow> int \<Rightarrow> int \<Rightarrow> string \<Rightarrow> string \<Rightarrow> ('r, unit) call" where
  "ChangePassword s c userID currentSessionID current new = do {
     r \<leftarrow> users_FindByID c userID;
     case r of Inl e \<Rightarrow> fail e
     | Inr u \<Rightarrow>
         if \<not> verifyPassword (svExt s) (uPasswordHash u) current then fail (AppE ErrIncorrectPassword)
         else (case validatePassword new of Inl e \<Rightarrow> fail e
           | Inr _ \<Rightarrow> do {
               r \<leftarrow> hasher_hash (svExt s) (svHasher s) new;
               case r of Inl e \<Rightarrow> fail e
               | Inr hash \<Rightarrow> do {
                   r \<leftarrow> users_UpdatePasswordHash c userID hash;
                   case r of Inl e \<Rightarrow> fail e
                   | Inr _ \<Rightarrow> do {
                       RevokeOtherSessions s c userID currentSessionID ''password_change'';
                       returnE () }}})}"

end
