(* ===== verification/Db_Integrity.thy ===== *)
theory Db_Integrity
  imports Auth_Service
begin

section \<open>Invariants of the tables\<close>

text \<open>
  How an invariant of the tables passes through the store and the services. The locale
  \<open>db_invariant\<close> is the contract between an invariant and the store: the invariant may grow with
  the sequences but must not depend on their exact position, since a rollback restores the tables
  and not the sequences. Its lemmas lift a fact about one query to statements, transactions and
  repository calls, whatever fails. Two invariants are interpreted: \<open>wf_db\<close>, the constraints
  the schema declares, and \<open>revoked_in\<close>, that given sessions stay revoked.
\<close>

subsection \<open>Computations that keep an invariant\<close>

definition keeps_db :: "(int \<Rightarrow> database \<Rightarrow> bool) \<Rightarrow> ('r, 'a) proc \<Rightarrow> bool" where
  "keeps_db J m = (\<forall>w x w'. run_state m w = (x, w') \<longrightarrow> J (nextID w) (db w) \<longrightarrow>
     J (nextID w') (db w') \<and> nextID w \<le> nextID w')"

definition query_keeps :: "(int \<Rightarrow> database \<Rightarrow> bool) \<Rightarrow> 'a query \<Rightarrow> bool" where
  "query_keeps J q = (\<forall>rl t n d x d'. q rl t n d = Inr (x, d') \<longrightarrow> J n d \<longrightarrow> J (n + 1) d')"

lemma keeps_dbD:
  "keeps_db J m \<Longrightarrow> run_state m w = (x, w') \<Longrightarrow> J (nextID w) (db w) \<Longrightarrow>
     J (nextID w') (db w') \<and> nextID w \<le> nextID w'"
  unfolding keeps_db_def by blast

lemma keeps_db_simps [simp]:
  "keeps_db J (ret x)" "keeps_db J (getw f)" "keeps_db J (fail e)" "keeps_db J (returnE y)"
  by (simp_all add: keeps_db_def)

lemma keeps_db_bind:
  "keeps_db J m \<Longrightarrow> (\<And>x. keeps_db J (f x)) \<Longrightarrow> keeps_db J (State_Monad.bind m f)"
  unfolding keeps_db_def by (fastforce split: prod.splits)

lemma keeps_db_sum:
  "(\<And>e. keeps_db J (g e)) \<Longrightarrow> (\<And>x. keeps_db J (h x)) \<Longrightarrow>
     keeps_db J (case r of Inl e \<Rightarrow> g e | Inr x \<Rightarrow> h x)"
  by (auto split: sum.split)

lemma keeps_db_option:
  "keeps_db J g \<Longrightarrow> (\<And>x. keeps_db J (h x)) \<Longrightarrow> keeps_db J (case r of None \<Rightarrow> g | Some x \<Rightarrow> h x)"
  by (auto split: option.split)

lemma keeps_db_if: "keeps_db J g \<Longrightarrow> keeps_db J h \<Longrightarrow> keeps_db J (if p then g else h)"
  by simp

lemma keeps_db_prod: "(\<And>a b. keeps_db J (g a b)) \<Longrightarrow> keeps_db J (case p of (a, b) \<Rightarrow> g a b)"
  by (auto split: prod.split)

lemma keeps_db_for_each: "(\<And>x. keeps_db J (g x)) \<Longrightarrow> keeps_db J (for_each g xs)"
  by (induction xs) (auto intro: keeps_db_bind)

lemma keeps_db_frame: "frames (\<lambda>w. (db w, nextID w)) m \<Longrightarrow> keeps_db J m"
  unfolding keeps_db_def by (auto dest: framesD)

lemmas keeps_db_intros = keeps_db_bind keeps_db_sum keeps_db_option keeps_db_if keeps_db_prod keeps_db_for_each

text \<open>Calls that reach only Redis, the random source or the queue.\<close>

lemma keeps_db_redis [simp]: "keeps_db J (redis_call f)"
  by (intro keeps_db_frame frames_redis_call) simp_all

lemma keeps_db_rand [simp]: "keeps_db J (rand_read E k)"
  by (simp add: keeps_db_def rand_read_def)

lemma keeps_db_uuid [simp]: "keeps_db J (NewUUIDNoDash E)"
  by (simp add: keeps_db_def NewUUIDNoDash_def)

lemma keeps_db_kick [simp]: "keeps_db J kickDrain"
  by (simp add: keeps_db_def kickDrain_def)

lemma keeps_db_enqueue [simp]: "keeps_db J (dispatcher_Enqueue c e opts)"
  unfolding dispatcher_Enqueue_def by (intro keeps_db_frame frames_intros frames_enqueue) simp_all

lemma keeps_db_cache [simp]:
  "keeps_db J (cache_set R p k v opts)" "keeps_db J (cache_get R p dest k)"
  "keeps_db J (cache_getdel R p dest k)" "keeps_db J (cache_delete R p k)"
  "keeps_db J (IncrementWithTTL R p k ttl)" "keeps_db J (cache_counter R p k)"
  by (auto simp: cache_set_def cache_get_def cache_getdel_def cache_delete_def IncrementWithTTL_def
      cache_counter_def Let_def intro!: keeps_db_intros split: option.split redis_value.split)

lemma keeps_db_tokens [simp]:
  "keeps_db J (at_Generate E ttl i u d)" "keeps_db J (at_Validate E tok)" "keeps_db J (at_Revoke E tok)"
  "keeps_db J (GenerateRefreshToken E)" "keeps_db J (hasher_hash E h plain)"
  by (auto simp: at_Generate_def at_Validate_def at_Revoke_def GenerateRefreshToken_def hasher_hash_def Let_def
      intro!: keeps_db_intros split: option.split redis_value.split cache_value.split)

subsection \<open>The contract of an invariant with the store\<close>

locale db_invariant =
  fixes J :: "int \<Rightarrow> database \<Rightarrow> bool"
  assumes later: "J n d \<Longrightarrow> n \<le> m \<Longrightarrow> J m d"
begin

lemma keeps_exec: "query_keeps J q \<Longrightarrow> keeps_db J (exec_query q)"
  unfolding keeps_db_def query_keeps_def exec_query_def
  by (auto split: if_splits sum.splits prod.splits)

lemma keeps_tx_body:
  assumes "\<And>c. keeps_db J (fn c)"
  shows "keeps_db J (tx_body c fn)"
proof -
  have "keeps_db J (applyRLS c)" by (simp add: keeps_db_def applyRLS_def)
  moreover have "keeps_db J commit_tx" by (simp add: keeps_db_def commit_tx_def)
  ultimately show ?thesis unfolding tx_body_def by (intro keeps_db_intros assms) simp_all
qed

text \<open>A rollback keeps it too: the tables are those of BEGIN, the sequences are ahead of them.\<close>

lemma keeps_tx:
  assumes "\<And>c. keeps_db J (fn c)"
  shows "keeps_db J (with_tx c fn)"
  unfolding keeps_db_def
proof (intro allI impI)
  fix w x w'
  assume run: "run_state (with_tx c fn) w = (x, w')" and J: "J (nextID w) (db w)"
  show "J (nextID w') (db w') \<and> nextID w \<le> nextID w'"
  proof (cases "cxInTx c")
    case True
    with run have "run_state (fn c) w = (x, w')" by (simp add: with_tx_def)
    from keeps_dbD [OF assms this J] show ?thesis .
  next
    case False
    obtain r1 w1 where b: "run_state begin_tx w = (r1, w1)" by fastforce
    then have w1: "db w1 = db w" "nextID w1 = nextID w"
      by (auto simp: begin_tx_def split: if_splits)
    obtain r2 w2 where t: "run_state (tx_body c fn) w1 = (r2, w2)" by fastforce
    have k: "J (nextID w2) (db w2) \<and> nextID w1 \<le> nextID w2"
      by (rule keeps_dbD [OF keeps_tx_body [OF assms] t]) (simp add: w1 J)
    with run False b t w1 J show ?thesis
      by (auto simp: with_tx_def rollback_tx_def dest: later split: sum.splits)
  qed
qed

lemma keeps_run: "(\<And>c. keeps_db J (fn c)) \<Longrightarrow> keeps_db J (store_run c fn)"
  by (simp add: store_run_def keeps_tx)

lemma keeps_query: "query_keeps J q \<Longrightarrow> keeps_db J (run_query c q)"
  unfolding run_query_def by (intro keeps_run keeps_exec)

lemma keeps_mapped: "query_keeps J q \<Longrightarrow> keeps_db J (run_mapped c f q)"
  unfolding run_mapped_def by (intro keeps_run keeps_db_intros keeps_exec) simp_all

lemma keeps_readonly: "readonly q \<Longrightarrow> query_keeps J q"
  unfolding readonly_def query_keeps_def using later by (metis less_add_one order_less_imp_le)

lemmas keeps_intros = keeps_db_intros keeps_run keeps_query keeps_mapped keeps_exec keeps_tx

end

subsection \<open>Queries that change no table\<close>

lemma readonly_simps [simp]:
  "readonly (GetUserByID i)" "readonly (GetUserByEmail e)" "readonly (ExistsUserByEmail e)"
  "readonly (GetUserSettings i)" "readonly (GetDeviceSessionByID i)"
  "readonly (GetActiveDeviceSessionByUserAndDevice i dv)" "readonly (ListActiveDevicesByUser i thr)"
  "readonly (ListRefreshTokensByPrefix p)" "readonly (PendingOutboxBatch k l)"
  by (auto simp: PendingOutboxBatch_def readonly_def GetUserByID_def GetUserByEmail_def ExistsUserByEmail_def GetUserSettings_def
      GetDeviceSessionByID_def GetActiveDeviceSessionByUserAndDevice_def ListActiveDevicesByUser_def
      ListRefreshTokensByPrefix_def first_row_Inr)

subsection \<open>What the schema declares\<close>

text \<open>Primary keys below the sequence, the partial unique indexes on live e-mail addresses and
  active device ids, unique token hashes, and the foreign keys from sessions and tokens.\<close>

definition wf_db :: "int \<Rightarrow> database \<Rightarrow> bool" where
  "wf_db n d = (distinct (map uID (users d)) \<and> (\<forall>u\<in>set (users d). uID u < n) \<and>
     distinct (map (to_lower \<circ> uEmail) (filter live_user (users d))) \<and>
     distinct (map srID (sessions d)) \<and> (\<forall>r\<in>set (sessions d). srID r < n) \<and>
     distinct (map srDeviceID (filter active_row (sessions d))) \<and>
     (\<forall>r\<in>set (sessions d). srUserID r \<in> uID ` set (users d)) \<and>
     distinct (map rrTokenHash (refreshTokens d)) \<and>
     (\<forall>t\<in>set (refreshTokens d). rrSessionID t \<in> srID ` set (sessions d)))"

interpretation wf: db_invariant wf_db
proof
  show "wf_db n d \<Longrightarrow> n \<le> m \<Longrightarrow> wf_db m d" for n d m
    unfolding wf_db_def by (meson order_less_le_trans)
qed

text \<open>Only three tables matter.\<close>

lemma wf_db_same:
  "wf_db n d \<Longrightarrow> users d' = users d \<Longrightarrow> sessions d' = sessions d \<Longrightarrow> refreshTokens d' = refreshTokens d \<Longrightarrow>
     wf_db (n + 1) d'"
  using wf.later [of n d "n + 1"] by (simp add: wf_db_def)

lemma map_filter_upd:
  "(\<And>x. P x \<Longrightarrow> Q (f x) \<Longrightarrow> Q x) \<Longrightarrow> (\<And>x. g (f x) = g x) \<Longrightarrow> distinct (map g (filter Q xs)) \<Longrightarrow>
     distinct (map g (filter Q (upd_where P f xs)))"
proof (induction xs)
  case (Cons x xs)
  have sub: "set (map g (filter Q (upd_where P f xs))) \<subseteq> set (map g (filter Q xs))"
    using Cons.prems(1,2) by (force simp: set_upd_where split: if_splits)
  show ?case
    using Cons sub by (auto split: if_splits)
qed simp

lemma upd_users_wf:
  assumes "wf_db n d" and "\<And>u. uID (f u) = uID u" and "\<And>u. uEmail (f u) = uEmail u"
    and "\<And>u. live_user (f u) \<Longrightarrow> live_user u"
  shows "wf_db (n + 1) (d\<lparr>users := upd_where P f (users d)\<rparr>)"
proof -
  have ids: "map uID (upd_where P f (users d)) = map uID (users d)"
    by (rule map_upd_where) (simp add: assms(2))
  have im: "uID ` set (upd_where P f (users d)) = uID ` set (users d)"
    using ids by (metis list.set_map)
  have "distinct (map (to_lower \<circ> uEmail) (filter live_user (upd_where P f (users d))))"
    by (rule map_filter_upd) (use assms in \<open>simp_all add: wf_db_def\<close>)
  moreover have "\<forall>u\<in>set (upd_where P f (users d)). uID u < n"
    using assms(1,2) by (auto simp: set_upd_where wf_db_def)
  ultimately have "wf_db n (d\<lparr>users := upd_where P f (users d)\<rparr>)"
    using assms(1) ids im unfolding wf_db_def by simp
  then show ?thesis using wf.later by simp
qed

lemma upd_sessions_wf:
  assumes "wf_db n d" and "\<And>r. srID (f r) = srID r" and "\<And>r. srDeviceID (f r) = srDeviceID r"
    and "\<And>r. srUserID (f r) = srUserID r" and "\<And>r. active_row (f r) \<Longrightarrow> active_row r"
  shows "wf_db (n + 1) (d\<lparr>sessions := upd_where P f (sessions d)\<rparr>)"
proof -
  have ids: "map srID (upd_where P f (sessions d)) = map srID (sessions d)"
    by (rule map_upd_where) (simp add: assms(2))
  have im: "srID ` set (upd_where P f (sessions d)) = srID ` set (sessions d)"
    using ids by (metis list.set_map)
  have "distinct (map srDeviceID (filter active_row (upd_where P f (sessions d))))"
    by (rule map_filter_upd) (use assms in \<open>simp_all add: wf_db_def\<close>)
  moreover have "\<forall>r\<in>set (upd_where P f (sessions d)). srID r < n \<and> srUserID r \<in> uID ` set (users d)"
    using assms(1,2,4) by (auto simp: set_upd_where wf_db_def)
  ultimately have "wf_db n (d\<lparr>sessions := upd_where P f (sessions d)\<rparr>)"
    using assms(1) ids im unfolding wf_db_def by simp
  then show ?thesis using wf.later by simp
qed

lemma upd_tokens_wf:
  assumes "wf_db n d" and "\<And>r. rrTokenHash (f r) = rrTokenHash r" and "\<And>r. rrSessionID (f r) = rrSessionID r"
  shows "wf_db (n + 1) (d\<lparr>refreshTokens := upd_where P f (refreshTokens d)\<rparr>)"
proof -
  have "map rrTokenHash (upd_where P f (refreshTokens d)) = map rrTokenHash (refreshTokens d)"
    by (rule map_upd_where) (simp add: assms(2))
  moreover have "\<forall>t\<in>set (upd_where P f (refreshTokens d)). rrSessionID t \<in> srID ` set (sessions d)"
    using assms(1,3) by (auto simp: set_upd_where wf_db_def)
  ultimately have "wf_db n (d\<lparr>refreshTokens := upd_where P f (refreshTokens d)\<rparr>)"
    using assms(1) unfolding wf_db_def by simp
  then show ?thesis using wf.later by simp
qed


subsection \<open>Every query keeps the declared constraints\<close>

lemma query_keepsI:
  "(\<And>rl t n d x d'. q rl t n d = Inr (x, d') \<Longrightarrow> J n d \<Longrightarrow> J (n + 1) d') \<Longrightarrow> query_keeps J q"
  unfolding query_keeps_def by blast

lemma wf_user_queries [simp]:
  "query_keeps wf_db (UpdateUserLastLogin i)" "query_keeps wf_db (UpdateUserPasswordHash i h)"
  "query_keeps wf_db (MarkUserEmailVerified i)" "query_keeps wf_db (UpdateUserStatus i st)"
  "query_keeps wf_db (UpdateUserRole i ro)" "query_keeps wf_db (SoftDeleteUser i)"
  "query_keeps wf_db (UpdateUserProfile i pu)"
  by (rule query_keepsI, auto simp: UpdateUserLastLogin_def UpdateUserPasswordHash_def MarkUserEmailVerified_def
      UpdateUserStatus_def UpdateUserRole_def SoftDeleteUser_def UpdateUserProfile_def apply_profile_def
      live_user_def intro!: upd_users_wf split: list.splits if_splits)+

lemma wf_session_queries [simp]:
  "query_keeps wf_db (RevokeDeviceSession i reason)" "query_keeps wf_db (UpdateDeviceSessionActivity i)"
  "query_keeps wf_db (RevokeAllDeviceSessionsByUser i reason)"
  "query_keeps wf_db (RevokeActiveDeviceSessionsByDeviceID dv reason)"
  by (rule query_keepsI, auto simp: RevokeDeviceSession_def UpdateDeviceSessionActivity_def
      RevokeAllDeviceSessionsByUser_def RevokeActiveDeviceSessionsByDeviceID_def revoke_row_def active_row_def
      intro!: upd_sessions_wf split: list.splits)+

lemma wf_token_queries [simp]:
  "query_keeps wf_db (RevokeRefreshTokenByHash h reason)" "query_keeps wf_db (RevokeRefreshTokensBySession i reason)"
  "query_keeps wf_db (RevokeRefreshTokensByFamily fam reason)"
  by (rule query_keepsI, auto simp: RevokeRefreshTokenByHash_def RevokeRefreshTokensBySession_def
      RevokeRefreshTokensByFamily_def revoke_token_def intro!: upd_tokens_wf)+

lemma wf_other_queries [simp]:
  "query_keeps wf_db (CreateUserSettings i st)" "query_keeps wf_db (UpdateUserSettings i st)"
  "query_keeps wf_db (CreateSuspension i reason details until perm)" "query_keeps wf_db (DeactivateActiveSuspensions i)"
  "query_keeps wf_db (InsertOutbox ty p k)" "query_keeps wf_db (MarkOutboxProcessed j)"
  "query_keeps wf_db (MarkOutboxFailed j msg)" "query_keeps wf_db (InsertOutboxDeadLetter dl)"
  "query_keeps wf_db (CreateLoginAttempt em uid ch oc rem rid)" "query_keeps wf_db (CreateAuditLog ar)"
  by (rule query_keepsI, auto simp: InsertOutboxDeadLetter_def CreateLoginAttempt_def CreateAuditLog_def CreateUserSettings_def UpdateUserSettings_def CreateSuspension_def
      DeactivateActiveSuspensions_def InsertOutbox_def MarkOutboxProcessed_def MarkOutboxFailed_def Let_def
      elim: wf_db_same split: if_splits)+

lemma wf_CreateUser [simp]: "query_keeps wf_db (CreateUser e h fn ln)"
proof (rule query_keepsI)
  fix rl t n d x d'
  assume q: "CreateUser e h fn ln rl t n d = Inr (x, d')" and wf: "wf_db n d"
  from q have d': "d' = d\<lparr>users := users d @ [x]\<rparr>" and x: "uID x = n" "uEmail x = e" "live_user x"
    and new: "\<forall>u\<in>set (users d). live_user u \<longrightarrow> to_lower (uEmail u) \<noteq> to_lower e"
    by (auto simp: CreateUser_def Let_def citext_eq_def list_ex_iff live_user_def split: if_splits)
  have "n \<notin> uID ` set (users d)" using wf by (auto simp: wf_db_def)
  with wf new x show "wf_db (n + 1) d'"
    unfolding d' by (force simp: wf_db_def)
qed

lemma wf_CreateDeviceSession [simp]: "query_keeps wf_db (CreateDeviceSession p)"
proof (rule query_keepsI)
  fix rl t n d x d'
  assume q: "CreateDeviceSession p rl t n d = Inr (x, d')" and wf: "wf_db n d"
  from q have d': "d' = d\<lparr>sessions := sessions d @ [x]\<rparr>" and x: "srID x = n" "srDeviceID x = nsDeviceID p"
      "srUserID x = nsUserID p"
    and new: "\<forall>r\<in>set (sessions d). active_row r \<longrightarrow> srDeviceID r \<noteq> nsDeviceID p"
    and u: "nsUserID p \<in> uID ` set (users d)"
    by (auto simp: CreateDeviceSession_def session_of_def list_ex_iff has_user_def image_iff split: if_splits) metis
  have "n \<notin> srID ` set (sessions d)" using wf by (auto simp: wf_db_def)
  with wf new x u show "wf_db (n + 1) d'"
    unfolding d' by (force simp: wf_db_def)
qed

lemma wf_CreateRefreshToken [simp]: "query_keeps wf_db (CreateRefreshToken i h p fam ex)"
proof (rule query_keepsI)
  fix rl t n d x d'
  assume q: "CreateRefreshToken i h p fam ex rl t n d = Inr (x, d')" and wf: "wf_db n d"
  from q have d': "d' = d\<lparr>refreshTokens := refreshTokens d @ [x]\<rparr>" and x: "rrTokenHash x = h" "rrSessionID x = i"
    and new: "h \<notin> rrTokenHash ` set (refreshTokens d)" and s: "i \<in> srID ` set (sessions d)"
    by (auto simp: CreateRefreshToken_def Let_def list_ex_iff split: if_splits option.splits)
  from wf new x s have "wf_db n d'" unfolding d' by (force simp: wf_db_def)
  then show "wf_db (n + 1) d'" by (rule wf.later) simp
qed

subsection \<open>Revocation is permanent\<close>

text \<open>The sessions \<open>S\<close> carry a revocation stamp, and their ids are spent.\<close>

definition stamped :: "session_row \<Rightarrow> bool" where
  "stamped r = (case srRevokedAt r of None \<Rightarrow> False | Some t \<Rightarrow> t \<noteq> 0)"

definition revoked_in :: "int set \<Rightarrow> int \<Rightarrow> database \<Rightarrow> bool" where
  "revoked_in S n d = ((\<forall>i\<in>S. i < n) \<and> (\<forall>r\<in>set (sessions d). srID r \<in> S \<longrightarrow> stamped r))"

interpretation rev: db_invariant "revoked_in S" for S
  by unfold_locales (force simp: revoked_in_def)

lemma revoked_in_same: "revoked_in S n d \<Longrightarrow> sessions d' = sessions d \<Longrightarrow> revoked_in S (n + 1) d'"
  by (force simp: revoked_in_def)

text \<open>No statement updates a stamped row.\<close>

lemma revoked_in_upd:
  assumes "revoked_in S n d" and "\<And>r. srID (f r) = srID r" and "\<And>r. P r \<Longrightarrow> \<not> stamped r"
  shows "revoked_in S (n + 1) (d\<lparr>sessions := upd_where P f (sessions d)\<rparr>)"
proof -
  have "stamped r'" if m: "r' \<in> set (upd_where P f (sessions d))" and s: "srID r' \<in> S" for r'
  proof -
    from m obtain r0 where r0: "r0 \<in> set (sessions d)" "r' = (if P r0 then f r0 else r0)"
      by (auto simp: set_upd_where)
    with s assms(2) have "srID r0 \<in> S" by metis
    with assms(1) r0(1) have "stamped r0" by (auto simp: revoked_in_def)
    with assms(3) r0(2) show ?thesis by auto
  qed
  with assms(1) show ?thesis by (auto simp: revoked_in_def intro: order_less_trans)
qed

lemma stamped_not_active: "active_row r \<Longrightarrow> \<not> stamped r"
  by (simp add: active_row_def stamped_def)

lemma rev_session_queries [simp]:
  "query_keeps (revoked_in S) (RevokeDeviceSession i reason)" "query_keeps (revoked_in S) (UpdateDeviceSessionActivity i)"
  "query_keeps (revoked_in S) (RevokeAllDeviceSessionsByUser i reason)"
  "query_keeps (revoked_in S) (RevokeActiveDeviceSessionsByDeviceID dv reason)"
  by (rule query_keepsI, auto simp: RevokeDeviceSession_def UpdateDeviceSessionActivity_def
      RevokeAllDeviceSessionsByUser_def RevokeActiveDeviceSessionsByDeviceID_def revoke_row_def
      intro!: revoked_in_upd dest: stamped_not_active split: list.splits)+

lemma rev_CreateDeviceSession [simp]: "query_keeps (revoked_in S) (CreateDeviceSession p)"
proof (rule query_keepsI)
  fix rl t n d x d'
  assume q: "CreateDeviceSession p rl t n d = Inr (x, d')" and rv: "revoked_in S n d"
  from q have d': "d' = d\<lparr>sessions := sessions d @ [x]\<rparr>" and x: "srID x = n"
    by (auto simp: CreateDeviceSession_def session_of_def split: if_splits)
  from rv have "n \<notin> S" by (auto simp: revoked_in_def)
  with rv x show "revoked_in S (n + 1) d'"
    unfolding d' by (force simp: revoked_in_def)
qed

lemma rev_other_queries [simp]:
  "query_keeps (revoked_in S) (UpdateUserLastLogin i)" "query_keeps (revoked_in S) (UpdateUserPasswordHash i h)"
  "query_keeps (revoked_in S) (MarkUserEmailVerified i)" "query_keeps (revoked_in S) (UpdateUserStatus i us)"
  "query_keeps (revoked_in S) (UpdateUserRole i ro)" "query_keeps (revoked_in S) (SoftDeleteUser i)"
  "query_keeps (revoked_in S) (UpdateUserProfile i pu)" "query_keeps (revoked_in S) (CreateUser e h fn ln)"
  "query_keeps (revoked_in S) (CreateUserSettings i st)" "query_keeps (revoked_in S) (UpdateUserSettings i st)"
  "query_keeps (revoked_in S) (CreateSuspension i reason details until perm)"
  "query_keeps (revoked_in S) (DeactivateActiveSuspensions i)"
  "query_keeps (revoked_in S) (CreateRefreshToken i h p fam ex)"
  "query_keeps (revoked_in S) (RevokeRefreshTokenByHash h reason)"
  "query_keeps (revoked_in S) (RevokeRefreshTokensBySession i reason)"
  "query_keeps (revoked_in S) (RevokeRefreshTokensByFamily fam reason)"
  "query_keeps (revoked_in S) (InsertOutbox ty p2 k)" "query_keeps (revoked_in S) (MarkOutboxProcessed j)"
  "query_keeps (revoked_in S) (MarkOutboxFailed j msg)" "query_keeps (revoked_in S) (InsertOutboxDeadLetter dl)"
  "query_keeps (revoked_in S) (CreateLoginAttempt em uid ch oc rem rid)" "query_keeps (revoked_in S) (CreateAuditLog ar)"
  by (rule query_keepsI, auto simp: InsertOutboxDeadLetter_def CreateLoginAttempt_def CreateAuditLog_def UpdateUserLastLogin_def UpdateUserPasswordHash_def MarkUserEmailVerified_def
      UpdateUserStatus_def UpdateUserRole_def SoftDeleteUser_def UpdateUserProfile_def CreateUser_def
      CreateUserSettings_def UpdateUserSettings_def CreateSuspension_def DeactivateActiveSuspensions_def
      CreateRefreshToken_def RevokeRefreshTokenByHash_def RevokeRefreshTokensBySession_def
      RevokeRefreshTokensByFamily_def InsertOutbox_def MarkOutboxProcessed_def MarkOutboxFailed_def Let_def
      elim!: revoked_in_same split: if_splits option.splits list.splits)+


subsection \<open>What the services keep\<close>

text \<open>
  The contract between an invariant and the services: every query they issue keeps it, but for the one
  that changes a role, which \<open>service_invariant\<close> adds. Under it
  every repository method, every publication on the wired bus and every method of the
  authentication service keeps it, for every pattern of failures. The mail interface is assumed to
  leave the tables alone (\<open>mail_only\<close>).
\<close>

definition mail_view :: "'r world \<Rightarrow> database \<times> int \<times> time \<times> 'r \<times> bool list \<times> bool list \<times> bool" where
  "mail_view w = (db w, nextID w, now w, redis w, redisFaults w, dbFaults w, txAborted w)"

definition mail_only :: "'r email_sender \<Rightarrow> bool" where
  "mail_only em = ((\<forall>c a t. frames mail_view (esVerification em c a t)) \<and>
     (\<forall>c a t. frames mail_view (esPasswordReset em c a t)))"

definition wired_service :: "'r auth_service \<Rightarrow> nat \<Rightarrow> bool" where
  "wired_service s n = (svBus s = wired_bus (svExt s) n \<and> mail_only (svEmail s))"

lemma keeps_db_view: "frames mail_view m \<Longrightarrow> keeps_db J m"
  by (auto simp: keeps_db_def mail_view_def dest: framesD)

lemma keeps_db_mail:
  "mail_only em \<Longrightarrow> keeps_db J (esVerification em c a t)"
  "mail_only em \<Longrightarrow> keeps_db J (esPasswordReset em c a t)"
  by (auto simp: mail_only_def intro: keeps_db_view)

locale plain_service = db_invariant J for J +
  assumes login_kept: "query_keeps J (UpdateUserLastLogin i)"
    and password_kept: "query_keeps J (UpdateUserPasswordHash i h)"
    and verified_kept: "query_keeps J (MarkUserEmailVerified i)"
    and user_kept: "query_keeps J (CreateUser e h fn ln)"
    and settings_kept: "query_keeps J (CreateUserSettings i st)"
    and session_kept: "query_keeps J (CreateDeviceSession p)"
    and revoke_kept: "query_keeps J (RevokeDeviceSession i reason)"
    and revoke_all_kept: "query_keeps J (RevokeAllDeviceSessionsByUser i reason)"
    and revoke_device_kept: "query_keeps J (RevokeActiveDeviceSessionsByDeviceID dv reason)"
    and token_kept: "query_keeps J (CreateRefreshToken i h pre fam ex)"
    and token_hash_kept: "query_keeps J (RevokeRefreshTokenByHash h reason)"
    and token_session_kept: "query_keeps J (RevokeRefreshTokensBySession i reason)"
    and token_family_kept: "query_keeps J (RevokeRefreshTokensByFamily fam2 reason)"
    and outbox_kept: "query_keeps J (InsertOutbox ty pl k)"
    and processed_kept: "query_keeps J (MarkOutboxProcessed j)"
    and failed_kept: "query_keeps J (MarkOutboxFailed j msg)"
    and status_kept: "query_keeps J (UpdateUserStatus i us)"
    and deleted_kept: "query_keeps J (SoftDeleteUser i)"
    and buried_kept: "query_keeps J (InsertOutboxDeadLetter dl)"
    and attempt_kept: "query_keeps J (CreateLoginAttempt em uid ch oc rem rid)"
    and audit_kept: "query_keeps J (CreateAuditLog ar)"
begin

lemmas kept = login_kept password_kept verified_kept user_kept settings_kept session_kept revoke_kept
  revoke_all_kept revoke_device_kept token_kept token_hash_kept token_session_kept token_family_kept
  outbox_kept processed_kept failed_kept status_kept deleted_kept
  buried_kept attempt_kept audit_kept keeps_readonly

lemma repo_kept [simp]:
  "keeps_db J (users_Create c em h fn ln)" "keeps_db J (users_FindByID c i)" "keeps_db J (users_FindByEmail c em)"
  "keeps_db J (users_ExistsByEmail c em)" "keeps_db J (users_UpdateLastLogin c i)"
  "keeps_db J (users_UpdatePasswordHash c i h)" "keeps_db J (users_MarkEmailVerified c i)"
  "keeps_db J (users_UpdateStatus c i us)" "keeps_db J (users_SoftDeleteByID c i)"
  "keeps_db J (settings_GetByUserID c i)" "keeps_db J (settings_Create c i st)"
  by (auto simp: users_Create_def users_FindByID_def users_FindByEmail_def users_ExistsByEmail_def
      users_UpdateLastLogin_def users_UpdatePasswordHash_def users_MarkEmailVerified_def users_UpdateStatus_def
      users_SoftDeleteByID_def settings_GetByUserID_def settings_Create_def
      intro!: keeps_intros kept)

lemma session_repo_kept [simp]:
  "keeps_db J (sessions_Create c ds)" "keeps_db J (sessions_FindByID c i)"
  "keeps_db J (sessions_FindByUserAndDeviceID c i dv)" "keeps_db J (sessions_Revoke c reason i)"
  "keeps_db J (sessions_FindActiveDevicesByUser c i timeout)" "keeps_db J (sessions_RevokeAllByUserID c i reason)"
  "keeps_db J (sessions_RevokeActiveByDeviceID c dv reason)"
  by (auto simp: sessions_Create_def sessions_FindByID_def sessions_FindByUserAndDeviceID_def sessions_Revoke_def
      sessions_FindActiveDevicesByUser_def sessions_RevokeAllByUserID_def sessions_RevokeActiveByDeviceID_def Let_def
      intro!: keeps_intros kept)

lemma refresh_repo_kept [simp]:
  "keeps_db J (refresh_Create E c i h fam ex)" "keeps_db J (refresh_FindByTokenHash c h)"
  "keeps_db J (refresh_RevokeByTokenHash c h reason)" "keeps_db J (refresh_RevokeBySessionID c i reason)"
  "keeps_db J (refresh_RevokeByTokenFamily E c fam reason)"
  by (auto simp: refresh_Create_def refresh_FindByTokenHash_def refresh_RevokeByTokenHash_def load_token_def
      refresh_RevokeBySessionID_def refresh_RevokeByTokenFamily_def Let_def intro!: keeps_intros kept)

text \<open>The bus: the outbox queries, the queue, and handlers that only talk to Redis.\<close>

lemma outbox_repo_kept [simp]:
  "keeps_db J (outbox_Write c evt)" "keeps_db J (outbox_MarkProcessed c j)" "keeps_db J (outbox_MarkFailed c j msg)"
  "keeps_db J (outbox_DeadLetter c row reason msg)" "keeps_db J (outbox_PendingBatch c k)"
  by (auto simp: outbox_DeadLetter_def outbox_PendingBatch_def outbox_Write_def outbox_MarkProcessed_def outbox_MarkFailed_def intro!: keeps_intros kept)

lemma runSync_kept: "keeps_db J (suInvoke su c evt) \<Longrightarrow> keeps_db J (runSync c evt su)"
  unfolding runSync_def by (auto intro!: keeps_intros split: goerr.split)

lemma handler_kept:
  assumes "su \<in> set (busSubs (wired_bus E n) (eventType evt))"
  shows "keeps_db J (runSync c evt su)"
proof (rule runSync_kept)
  have "keeps_db J (OnUserAccountDeleted E c evt)"
    by (rule keeps_db_frame, rule frames_deleted) simp_all
  with assms show "keeps_db J (suInvoke su c evt)"
    by (cases evt) (auto simp: deleted_sub_def audit_sub_def attempt_sub_def typed_invoke_def OnAuditLogWritten_def
        OnAuthAttemptRecorded_def Let_def intro!: keeps_query kept)
qed

lemma dispatch_loop_kept:
  "set ss \<subseteq> set (busSubs (wired_bus E n) (eventType evt)) \<Longrightarrow> keeps_db J (dispatch_loop b c evt ss a f)"
  by (induction ss arbitrary: a f) (auto intro!: keeps_intros handler_kept)

lemma dispatch_kept: "keeps_db J (dispatch b c evt (busSubs (wired_bus E n) (eventType evt)))"
  unfolding dispatch_def by (intro keeps_intros dispatch_loop_kept [OF order_refl]) simp_all

lemma publish_kept [simp]: "keeps_db J (bus_Publish (wired_bus E n) c evt)"
  unfolding bus_Publish_def Let_def by (intro keeps_intros dispatch_kept) simp_all

lemma bury_kept [simp]: "keeps_db J (bury c row reason msg)"
  unfolding bury_def by (intro keeps_intros) simp_all

lemma drain_row_kept [simp]: "keeps_db J (drain_row (wired_bus E n) c row)"
  unfolding drain_row_def by (auto intro!: keeps_intros)

lemma drain_rows_kept [simp]: "keeps_db J (drain_rows (wired_bus E n) c rows a f)"
  by (induction rows arbitrary: a f) (auto intro!: keeps_intros)

lemma drainBatch_kept: "keeps_db J (drainBatch (wired_bus E n) c)"
proof -
  have "keeps_db J (recordBreaker a f)" for a f
    by (simp add: keeps_db_def recordBreaker_def Let_def)
  moreover have "keeps_db J (drain_tx (wired_bus E n) c)" for c
    unfolding drain_tx_def by (intro keeps_intros) simp_all
  ultimately show ?thesis unfolding drainBatch_def by (intro keeps_intros) simp_all
qed

lemma invoke_loop_kept:
  "set ss \<subseteq> set (busSubs (wired_bus E n) (eventType evt)) \<Longrightarrow> keeps_db J (invoke_loop c evt ss f)"
  by (induction ss arbitrary: f) (auto simp: InvokeAsync_step_def intro!: keeps_intros handler_kept)

lemma ProcessTask_kept: "keeps_db J (ProcessTask (wired_bus E n) c t)"
  unfolding ProcessTask_def InvokeAsync_def
  by (auto intro!: keeps_intros invoke_loop_kept simp: Let_def split: task_payload.split goerr.split sum.split)

text \<open>The methods of the authentication service.\<close>


lemma auth_kept [simp]:
  assumes "wired_service s n"
  shows "keeps_db J (lockout_blocked s em)" "keeps_db J (lockout_recordFailure s em)" "keeps_db J (lockout_reset s em)"
    "keeps_db J (recordAttempt s c em i channel outcome)" "keeps_db J (issueTokenPair s ds)"
    "keeps_db J (revokeSessionAndTokens s c ds reason)"
  using assms
  by (auto simp: lockout_blocked_def lockout_recordFailure_def lockout_reset_def recordAttempt_def issueTokenPair_def
      revokeSessionAndTokens_def wired_service_def intro!: keeps_intros)

lemma evict_loop_kept: "wired_service s n \<Longrightarrow> keeps_db J (evict_loop s c ss)"
  by (induction ss) (auto intro!: keeps_intros)

lemma sessions_kept [simp]:
  assumes "wired_service s n"
  shows "keeps_db J (generateTokenPair s c u ds stt)" "keeps_db J (rotate_token s h ds h2 fam c)"
    "keeps_db J (reuse_detected s c rec)" "keeps_db J (evictOldestIfOverLimit s c i)"
    "keeps_db J (session_tx s u ds stt c)" "keeps_db J (revoke_logged s c reason ds)"
    "keeps_db J (sendVerification s c u)"
  using assms
  by (auto simp: generateTokenPair_def rotate_token_def reuse_detected_def evictOldestIfOverLimit_def session_tx_def
      revoke_logged_def sendVerification_def Let_def wired_service_def intro!: keeps_intros evict_loop_kept keeps_db_mail)

lemma createSession_kept [simp]: "wired_service s n \<Longrightarrow> keeps_db J (createSessionAndTokens s c u dv stt)"
  by (auto simp: createSessionAndTokens_def intro!: keeps_intros)

lemma register_kept [simp]: "wired_service s n \<Longrightarrow> keeps_db J (register_tx s em h inp c)"
  by (auto simp: register_tx_def intro!: keeps_intros)

lemma service_kept:
  assumes "wired_service s n"
  shows "keeps_db J (Register s c inp)" "keeps_db J (Login s c linp)" "keeps_db J (RefreshTokens s c tok)"
    "keeps_db J (Logout s c i tok)" "keeps_db J (RemoveDevice s c i dv j)" "keeps_db J (RevokeAllSessions s c i reason)"
    "keeps_db J (RevokeOtherSessions s c i j reason)" "keeps_db J (VerifyEmail s c tok)"
    "keeps_db J (ResendVerification s c i)" "keeps_db J (RequestPasswordReset s c em)"
    "keeps_db J (ResetPassword s c tok pw)" "keeps_db J (ChangePassword s c i j pw pw2)"
    "keeps_db J (ListDevices s c i j)"
  using assms
  by (auto simp: Register_def Login_def RefreshTokens_def Logout_def RemoveDevice_def RevokeAllSessions_def
      RevokeOtherSessions_def VerifyEmail_def ResendVerification_def RequestPasswordReset_def ResetPassword_def
      ChangePassword_def ListDevices_def Let_def wired_service_def
      intro!: keeps_intros keeps_db_mail split: sum.split option.split)

end

text \<open>The statement no service but the administration of users issues.\<close>

locale service_invariant = plain_service J for J +
  assumes role_kept: "query_keeps J (UpdateUserRole i ro)"
begin

lemma role_repo_kept [simp]: "keeps_db J (users_UpdateRole c i ro)"
  by (auto simp: users_UpdateRole_def intro!: keeps_intros role_kept)

end

interpretation wf: service_invariant wf_db
  by unfold_locales simp_all

interpretation rev: service_invariant "revoked_in S" for S
  by unfold_locales simp_all

end
