(* ===== verification/Domain_Services.thy ===== *)
theory Domain_Services
  imports Auth_Service
begin

section \<open>Users, suspensions, settings and notification preferences\<close>

text \<open>
  Models the services of \<open>internal/users\<close>, \<open>internal/suspension\<close>, \<open>internal/settings\<close> and
  \<open>internal/notifications\<close>, and \<open>PublicURL\<close> of \<open>internal/platform/storage\<close>. Object storage
  is the interface \<open>storage\<close>; \<open>None\<close> is the nil interface of a server without one.
\<close>

subsection \<open>Storage\<close>

record 'r storage =
  stPut :: "ctx \<Rightarrow> string \<Rightarrow> string \<Rightarrow> string \<Rightarrow> ('r, unit) call" \<comment> \<open>key, data, content type\<close>
  stPublicURL :: "string \<Rightarrow> string"

definition minio_PublicURL :: "string \<Rightarrow> string \<Rightarrow> string" where
  "minio_PublicURL publicBaseURL key =
     (if publicBaseURL = [] then key
      else trim_right_p (\<lambda>c. c = CHR ''/'') publicBaseURL @ ''/'' @ trim_left_p (\<lambda>c. c = CHR ''/'') key)"

subsection \<open>Users\<close>

definition MaxAvatarBytes :: nat where "MaxAvatarBytes = 5 * 2 ^ 20"

definition avatarContentTypes :: "string \<Rightarrow> string option" where
  "avatarContentTypes ct =
     (if ct = ''image/jpeg'' then Some ''jpg'' else if ct = ''image/png'' then Some ''png''
      else if ct = ''image/webp'' then Some ''webp'' else None)"

definition ErrStorageUnavailable :: app_error where
  "ErrStorageUnavailable = errInternal ''STORAGE_UNAVAILABLE'' ''storage.unavailable''"
definition ErrAvatarInvalidType :: app_error where
  "ErrAvatarInvalidType = errBadRequest ''AVATAR_INVALID_TYPE'' ''user.avatar_invalid_type''"
definition ErrAvatarTooLarge :: app_error where
  "ErrAvatarTooLarge = errBadRequest ''AVATAR_TOO_LARGE'' ''user.avatar_too_large''"
definition ErrUploadFailed :: app_error where
  "ErrUploadFailed = errInternal ''UPLOAD_FAILED'' ''storage.upload_failed''"

definition avatar_key :: "int \<Rightarrow> string \<Rightarrow> string \<Rightarrow> string" where
  "avatar_key userID uuid extn = ''avatars/'' @ show_int userID @ ''/'' @ uuid @ ''.'' @ extn"

definition avatar_update :: "string \<Rightarrow> profile_update" where
  "avatar_update url = \<lparr>puFirstName = None, puLastName = None, puBio = None, puAvatar = Some url\<rparr>"

definition users_UploadAvatar ::
  "'r ext \<Rightarrow> 'r storage option \<Rightarrow> ctx \<Rightarrow> int \<Rightarrow> string \<Rightarrow> string \<Rightarrow> ('r, string) call" where
  "users_UploadAvatar E st c userID contentType data =
     (case st of None \<Rightarrow> fail (AppE ErrStorageUnavailable)
      | Some st \<Rightarrow>
      case avatarContentTypes contentType of None \<Rightarrow> fail (AppE ErrAvatarInvalidType)
      | Some extn \<Rightarrow>
      if length data = 0 \<or> length data > MaxAvatarBytes then fail (AppE ErrAvatarTooLarge)
      else do {
        u \<leftarrow> NewUUIDNoDash E;
        let key = avatar_key userID u extn;
        r \<leftarrow> stPut st c key data contentType;
        case r of Inl e \<Rightarrow> fail (AppE ErrUploadFailed)
        | Inr _ \<Rightarrow> do {
            let url = stPublicURL st key;
            r \<leftarrow> users_UpdateProfile c userID (avatar_update url);
            case r of Inl e \<Rightarrow> fail e | Inr _ \<Rightarrow> returnE url }})"

definition users_Get :: "ctx \<Rightarrow> int \<Rightarrow> ('r, user) call" where
  "users_Get c i = users_FindByID c i"

definition DeleteAccount :: "'r auth_service \<Rightarrow> ctx \<Rightarrow> int \<Rightarrow> ('r, unit) call" where
  "DeleteAccount s c i = do {
     r \<leftarrow> users_SoftDeleteByID c i;
     case r of Inl e \<Rightarrow> fail e
     | Inr _ \<Rightarrow> do {
         RevokeAllSessions s c i ''account_deleted'';
         t \<leftarrow> getw now;
         bus_Publish (svBus s) c (UserAccountDeleted \<lparr>udUserID = i, udAccountID = 0, udRequestID = [], udOccurredAt = t\<rparr>);
         returnE () }}"

definition user_status_of :: "string \<Rightarrow> user_status option" where
  "user_status_of s = (if s = ''active'' then Some StActive else if s = ''inactive'' then Some StInactive
     else if s = ''suspended'' then Some StSuspended else None)"

definition user_role_of :: "string \<Rightarrow> user_role option" where
  "user_role_of s = (if s = ''user'' then Some RoUser else if s = ''admin'' then Some RoAdmin else None)"

fun status_text :: "user_status \<Rightarrow> string" where
  "status_text StActive = ''active''"
| "status_text StInactive = ''inactive''"
| "status_text StSuspended = ''suspended''"

fun role_text :: "user_role \<Rightarrow> string" where
  "role_text RoUser = ''user''"
| "role_text RoAdmin = ''admin''"

lemma status_text_roundtrip [simp]: "user_status_of (status_text s) = Some s"
  by (cases s) (simp_all add: user_status_of_def)

lemma role_text_roundtrip [simp]: "user_role_of (role_text r) = Some r"
  by (cases r) (simp_all add: user_role_of_def)

definition users_SetStatus :: "ctx \<Rightarrow> int \<Rightarrow> user_status \<Rightarrow> ('r, unit) call" where
  "users_SetStatus c i st = users_UpdateStatus c i st"

text \<open>The role is the text of the request; the enum of the column refuses any other value.\<close>

definition users_SetRole :: "ctx \<Rightarrow> int \<Rightarrow> string \<Rightarrow> ('r, unit) call" where
  "users_SetRole c i ro =
     (case user_role_of ro of
        Some r \<Rightarrow> users_UpdateRole c i r
      | None \<Rightarrow> run_query c (\<lambda>rl t n d. Inl (PgE (CheckViolation ''user_role''))))"

subsection \<open>Suspensions\<close>

definition ErrUntilRequired :: app_error where
  "ErrUntilRequired = errBadRequest ''INVALID_PARAM'' ''suspension.until_required''"

definition suspension_GetActive :: "ctx \<Rightarrow> int \<Rightarrow> ('r, suspension option) call" where
  "suspension_GetActive c i = do {
     r \<leftarrow> suspension_GetActiveByUserID c i;
     case r of Inl e \<Rightarrow> if errIs e (AppE ErrNotSuspended) then returnE None else fail e
     | Inr s \<Rightarrow> returnE (Some s) }"

record suspend_input =
  siUserID :: int
  siReason :: string
  siDetails :: string
  siUntil :: "time option"
  siPermanent :: bool

definition Suspend :: "ctx \<Rightarrow> suspend_input \<Rightarrow> ('r, suspension) call" where
  "Suspend c inp =
     (if \<not> siPermanent inp \<and> siUntil inp = None then fail (AppE ErrUntilRequired)
      else suspension_Create c (siUserID inp) (siReason inp) (siDetails inp) (siUntil inp) (siPermanent inp))"

definition Unsuspend :: "ctx \<Rightarrow> int \<Rightarrow> ('r, unit) call" where
  "Unsuspend c i = suspension_DeactivateByUserID c i"

subsection \<open>Settings\<close>

definition settings_Get :: "ctx \<Rightarrow> int \<Rightarrow> ('r, settings) call" where
  "settings_Get c i = settings_GetByUserID c i"

definition settings_UpdateFor :: "ctx \<Rightarrow> int \<Rightarrow> settings \<Rightarrow> ('r, unit) call" where
  "settings_UpdateFor c i s = settings_Update c i s"

subsection \<open>Push tokens and preferences\<close>

record register_token_input =
  rtiDeviceID :: string
  rtiToken :: string
  rtiPlatform :: string
  rtiAppVersion :: string

definition RegisterToken :: "ctx \<Rightarrow> int \<Rightarrow> register_token_input \<Rightarrow> ('r, unit) call" where
  "RegisterToken c userID inp = do {
     r \<leftarrow> tokens_Upsert c userID (rtiDeviceID inp) (rtiToken inp) (rtiPlatform inp) (rtiAppVersion inp);
     case r of Inl e \<Rightarrow> fail e | Inr _ \<Rightarrow> returnE () }"

definition ListTokens :: "ctx \<Rightarrow> int \<Rightarrow> ('r, fcm_token list) call" where
  "ListTokens c userID = tokens_ListByUserID c userID"

definition DeleteToken :: "ctx \<Rightarrow> int \<Rightarrow> string \<Rightarrow> ('r, unit) call" where
  "DeleteToken c userID deviceID = tokens_DeleteByDeviceID c userID deviceID"

definition default_prefs :: "int \<Rightarrow> notif_prefs" where
  "default_prefs userID = \<lparr>npUserID = userID, npPush = True, npEmail = True, npMarketing = False,
     npQuietHoursEnabled = False, npQuietHoursStart = None, npQuietHoursEnd = None, npTimezone = ''UTC'',
     npCreatedAt = 0, npUpdatedAt = 0\<rparr>"

definition GetPreferences :: "ctx \<Rightarrow> int \<Rightarrow> ('r, notif_prefs) call" where
  "GetPreferences c userID = do {
     r \<leftarrow> prefs_FindByUserID c userID;
     case r of Inr prefs \<Rightarrow> returnE prefs
     | Inl e \<Rightarrow>
         if \<not> errIs e (AppE ErrPrefNotFound) then fail e
         else prefs_Create c (default_prefs userID) }"

record preferences_update =
  upPush :: "bool option"
  upEmail :: "bool option"
  upMarketing :: "bool option"
  upQuietHoursEnabled :: "bool option"
  upQuietHoursStart :: "string option"
  upQuietHoursEnd :: "string option"
  upTimezone :: "string option"

definition set_opt :: "'a option \<Rightarrow> 'a \<Rightarrow> 'a" where
  "set_opt u v = (case u of None \<Rightarrow> v | Some x \<Rightarrow> x)"

definition apply_preferences :: "preferences_update \<Rightarrow> notif_prefs \<Rightarrow> notif_prefs" where
  "apply_preferences u p = p\<lparr>npPush := set_opt (upPush u) (npPush p), npEmail := set_opt (upEmail u) (npEmail p),
     npMarketing := set_opt (upMarketing u) (npMarketing p),
     npQuietHoursEnabled := set_opt (upQuietHoursEnabled u) (npQuietHoursEnabled p),
     npQuietHoursStart := (case upQuietHoursStart u of None \<Rightarrow> npQuietHoursStart p | Some s \<Rightarrow> Some s),
     npQuietHoursEnd := (case upQuietHoursEnd u of None \<Rightarrow> npQuietHoursEnd p | Some s \<Rightarrow> Some s),
     npTimezone := set_opt (upTimezone u) (npTimezone p)\<rparr>"

definition UpdatePreferences :: "ctx \<Rightarrow> int \<Rightarrow> preferences_update \<Rightarrow> ('r, notif_prefs) call" where
  "UpdatePreferences c userID upd = do {
     r \<leftarrow> GetPreferences c userID;
     case r of Inl e \<Rightarrow> fail e
     | Inr prefs \<Rightarrow> prefs_Upsert c (apply_preferences upd prefs) }"

end
