(* ===== verification/Interceptors.thy ===== *)
theory Interceptors
  imports Auth_Service
begin

section \<open>The interceptor chain\<close>

text \<open>
  Models \<open>internal/interceptor\<close>: the unary chain (recovery, metrics, request id, logging, locale,
  error mapping, authentication, validation) and its streaming mirror, \<open>authenticate\<close>,
  \<open>BearerToken\<close> and \<open>mapError\<close>. A handler is a function of the request context and the
  request; a panic is the result \<open>Inl (PanicE m)\<close>, which unwinds through every frame that does
  not recover it. The translator and the protovalidate validator are third-party code and are
  fields of the interceptor set.
\<close>

subsection \<open>The set\<close>

record translator =
  trT :: "string \<Rightarrow> string \<Rightarrow> any_map \<Rightarrow> string"
  trDefaultLanguage :: string

datatype validation = Valid | Violations "(string \<times> string) list" | RuleFailure

record ('r, 'q) icset =
  icExt :: "'r ext"
  icMaxInactivity :: duration
  icLocale :: "translator option"
  icLocaleDefLang :: string
  icValidator :: "('q \<Rightarrow> validation) option"

definition newSet ::
  "'r ext \<Rightarrow> duration \<Rightarrow> translator option \<Rightarrow> ('q \<Rightarrow> validation) \<Rightarrow> ('r, 'q) icset" where
  "newSet E maxInactivity loc v = \<lparr>icExt = E, icMaxInactivity = maxInactivity, icLocale = loc,
     icLocaleDefLang = (case loc of None \<Rightarrow> ''en'' | Some tr \<Rightarrow> trDefaultLanguage tr),
     icValidator = Some v\<rparr>"

type_synonym ('r, 'q, 'p) handler = "ctx \<Rightarrow> 'q \<Rightarrow> ('r, 'p) call"

definition publicMethods :: "string list" where
  "publicMethods = [
     ''/health.v1.HealthService/Check'', ''/health.v1.HealthService/Ready'',
     ''/grpc.health.v1.Health/Check'', ''/grpc.health.v1.Health/Watch'',
     ''/grpc.reflection.v1.ServerReflection/ServerReflectionInfo'',
     ''/grpc.reflection.v1alpha.ServerReflection/ServerReflectionInfo'',
     ''/auth.v1.AuthService/Register'', ''/auth.v1.AuthService/Login'',
     ''/auth.v1.AuthService/RefreshToken'', ''/auth.v1.AuthService/VerifyEmail'',
     ''/auth.v1.AuthService/RequestPasswordReset'', ''/auth.v1.AuthService/ResetPassword'']"

definition adminServicePrefix :: string where "adminServicePrefix = ''/admin.v1.AdminService/''"

subsection \<open>Metadata\<close>

definition md_get :: "ctx \<Rightarrow> string \<Rightarrow> string list" where
  "md_get c key = (case cxMetadata c of None \<Rightarrow> []
     | Some md \<Rightarrow> (case md key of None \<Rightarrow> [] | Some vs \<Rightarrow> vs))"

definition BearerToken :: "ctx \<Rightarrow> goerr + string" where
  "BearerToken c =
     (if cxMetadata c = None then Inl (StatusE Unauthenticated ''auth.missing_metadata'')
      else case md_get c ''authorization'' of
        [] \<Rightarrow> Inl (StatusE Unauthenticated ''auth.missing_token'')
      | v # _ \<Rightarrow>
          (case cut (CHR '' '') v of
             (scheme, Some tok) \<Rightarrow>
               if to_lower scheme \<noteq> ''bearer'' then Inl (StatusE Unauthenticated ''auth.invalid_token_format'')
               else Inr tok
           | (_, None) \<Rightarrow> Inl (StatusE Unauthenticated ''auth.invalid_token_format'')))"

definition incomingRequestID :: "ctx \<Rightarrow> string" where
  "incomingRequestID c = (case md_get c ''x-request-id'' of [] \<Rightarrow> [] | v # _ \<Rightarrow> v)"

definition parseAcceptLanguage :: "string \<Rightarrow> string" where
  "parseAcceptLanguage v =
     (let first = fst (cut (CHR '','') v);
          first = fst (cut (CHR '';'') first);
          first = fst (cut (CHR ''-'') (trim_space first))
      in to_lower first)"

fun first_language :: "ctx \<Rightarrow> string list \<Rightarrow> string option" where
  "first_language c [] = None"
| "first_language c (key # keys) =
     (case md_get c key of
        v # _ \<Rightarrow> if v \<noteq> [] then Some (parseAcceptLanguage v) else first_language c keys
      | [] \<Rightarrow> first_language c keys)"

definition resolveLanguage :: "('r, 'q) icset \<Rightarrow> ctx \<Rightarrow> string" where
  "resolveLanguage i c =
     (case first_language c [''accept-language'', ''lang''] of
        Some l \<Rightarrow> l | None \<Rightarrow> icLocaleDefLang i)"

subsection \<open>Statuses\<close>

fun status_code :: "goerr + 'a \<Rightarrow> gcode" where
  "status_code (Inr _) = OK"
| "status_code (Inl e) =
     (case unwrap e of StatusE g _ \<Rightarrow> g | StatusD g _ _ _ _ \<Rightarrow> g | _ \<Rightarrow> Unknown)"

definition is_status :: "goerr \<Rightarrow> bool" where
  "is_status e = (case unwrap e of StatusE _ _ \<Rightarrow> True | StatusD _ _ _ _ _ \<Rightarrow> True | _ \<Rightarrow> False)"

definition mapError :: "ctx \<Rightarrow> goerr \<Rightarrow> translator option \<Rightarrow> goerr" where
  "mapError c err tr =
     (case asApp err of
        None \<Rightarrow> if is_status err then err else StatusE Internal ''internal error''
      | Some e \<Rightarrow>
          let lang = (case tr of Some t \<Rightarrow> if cxLanguage c = [] then trDefaultLanguage t else cxLanguage c
                               | None \<Rightarrow> cxLanguage c);
              message = (case tr of Some t \<Rightarrow> trT t lang (messageKey e) (errData e) | None \<Rightarrow> messageKey e)
          in StatusD (grpcCode e) message (appCode e) lang (fieldViolations e))"

definition isServerFailure :: "gcode \<Rightarrow> bool" where
  "isServerFailure g = (g \<in> {Internal, Unknown, DataLoss, Unavailable})"

definition isHealthMethod :: "string \<Rightarrow> bool" where
  "isHealthMethod m = (has_prefix m ''/grpc.health.v1.Health/'' \<or> has_prefix m ''/health.v1.HealthService/'')"

definition panicked :: "goerr + 'a \<Rightarrow> bool" where
  "panicked r = (case r of Inl (PanicE _) \<Rightarrow> True | _ \<Rightarrow> False)"

subsection \<open>The unary interceptors\<close>

definition recoveryUnary :: "string \<Rightarrow> ('r, 'q, 'p) handler \<Rightarrow> ('r, 'q, 'p) handler" where
  "recoveryUnary m h c req = do {
     r \<leftarrow> h c req;
     if panicked r then fail (StatusE Internal ''internal error'') else ret r }"

definition metricsUnary :: "string \<Rightarrow> ('r, 'q, 'p) handler \<Rightarrow> ('r, 'q, 'p) handler" where
  "metricsUnary m h c req = do {
     modw (\<lambda>w. w\<lparr>rpcInFlight := rpcInFlight w + 1\<rparr>);
     r \<leftarrow> h c req;
     if panicked r then ret r
     else do {
       modw (\<lambda>w. w\<lparr>rpcInFlight := rpcInFlight w - 1\<rparr>);
       modw (\<lambda>w. w\<lparr>rpcTotals := rpcTotals w @ [(m, status_code r)]\<rparr>);
       ret r }}"

definition requestIDUnary :: "('r, 'q) icset \<Rightarrow> string \<Rightarrow> ('r, 'q, 'p) handler \<Rightarrow> ('r, 'q, 'p) handler" where
  "requestIDUnary i m h c req = do {
     let inc = incomingRequestID c;
     rid \<leftarrow> (if inc = [] then NewUUIDNoDash (icExt i) else ret inc);
     h (c\<lparr>cxRequestID := rid\<rparr>) req }"

definition loggingUnary :: "string \<Rightarrow> ('r, 'q, 'p) handler \<Rightarrow> ('r, 'q, 'p) handler" where
  "loggingUnary m h c req = do {
     r \<leftarrow> h c req;
     if panicked r \<or> isHealthMethod m then ret r
     else do {
       modw (\<lambda>w. w\<lparr>rpcLogs := rpcLogs w @ [(m, status_code r, isServerFailure (status_code r))]\<rparr>);
       ret r }}"

definition localeUnary :: "('r, 'q) icset \<Rightarrow> string \<Rightarrow> ('r, 'q, 'p) handler \<Rightarrow> ('r, 'q, 'p) handler" where
  "localeUnary i m h c req = h (c\<lparr>cxLanguage := resolveLanguage i c\<rparr>) req"

definition errorUnary :: "('r, 'q) icset \<Rightarrow> string \<Rightarrow> ('r, 'q, 'p) handler \<Rightarrow> ('r, 'q, 'p) handler" where
  "errorUnary i m h c req = do {
     r \<leftarrow> h c req;
     if panicked r then ret r
     else (case r of Inl e \<Rightarrow> fail (mapError c e (icLocale i)) | Inr x \<Rightarrow> returnE x) }"

definition authenticate :: "('r, 'q) icset \<Rightarrow> ctx \<Rightarrow> ('r, user \<times> device_session) call" where
  "authenticate i c =
     (case BearerToken c of Inl e \<Rightarrow> fail e
      | Inr tok \<Rightarrow> do {
          r \<leftarrow> at_Validate (icExt i) tok;
          case r of Inl e \<Rightarrow> fail (StatusE Unauthenticated ''auth.invalid_token'')
          | Inr claims \<Rightarrow> do {
              r \<leftarrow> sessions_FindByID c (acSessionID claims);
              t \<leftarrow> getw now;
              case r of Inl e \<Rightarrow> fail (StatusE Unauthenticated ''auth.session_invalid'')
              | Inr session \<Rightarrow>
                  if ds_IsRevoked session then fail (StatusE Unauthenticated ''auth.session_invalid'')
                  else if ds_IsInactive t session (icMaxInactivity i)
                    then fail (StatusE Unauthenticated ''auth.session_expired'')
                  else if \<not> user_IsActive (ds_user session)
                    then fail (StatusE PermissionDenied ''auth.account_inactive'')
                  else returnE (ds_user session, session) }})"

definition role_of_user :: "user \<Rightarrow> role" where
  "role_of_user u = (case uRole u of RoUser \<Rightarrow> RoleUser | RoAdmin \<Rightarrow> RoleAdmin)"

definition subject_of :: "user \<Rightarrow> device_session \<Rightarrow> subject" where
  "subject_of u s = \<lparr>sbUserID = uID u, sbRole = Some (role_of_user u), sbSessionID = dsID s,
     sbDeviceID = dsDeviceID s, sbIsAdmin = user_IsAdmin u\<rparr>"

definition authUnary :: "('r, 'q) icset \<Rightarrow> string \<Rightarrow> ('r, 'q, 'p) handler \<Rightarrow> ('r, 'q, 'p) handler" where
  "authUnary i m h c req =
     (if m \<in> set publicMethods then h c req
      else do {
        r \<leftarrow> authenticate i c;
        case r of Inl e \<Rightarrow> fail e
        | Inr (u, session) \<Rightarrow>
            if has_prefix m adminServicePrefix \<and> \<not> user_IsAdmin u
            then fail (StatusE PermissionDenied ''auth.admin_required'')
            else h (c\<lparr>cxSubject := subject_of u session\<rparr>) req })"

definition ErrValidation :: "(string \<times> string) list \<Rightarrow> app_error" where
  "ErrValidation fs = errValidation ''VALIDATION_ERROR'' ''common.validation_error'' fs"

definition validateMessage :: "('r, 'q) icset \<Rightarrow> 'q \<Rightarrow> goerr + unit" where
  "validateMessage i req =
     (case icValidator i of None \<Rightarrow> Inr ()
      | Some v \<Rightarrow>
          (case v req of Valid \<Rightarrow> Inr ()
           | Violations fs \<Rightarrow> Inl (AppE (ErrValidation fs))
           | RuleFailure \<Rightarrow> Inl (AppE (errInternal ''INTERNAL_ERROR'' ''common.internal_error''))))"

definition validationUnary :: "('r, 'q) icset \<Rightarrow> string \<Rightarrow> ('r, 'q, 'p) handler \<Rightarrow> ('r, 'q, 'p) handler" where
  "validationUnary i m h c req =
     (case validateMessage i req of Inl e \<Rightarrow> fail e | Inr _ \<Rightarrow> h c req)"

text \<open>The chain, outermost first; \<open>ChainUnaryInterceptor\<close> nests them in this order.\<close>

definition Unary :: "('r, 'q) icset \<Rightarrow> (string \<Rightarrow> ('r, 'q, 'p) handler \<Rightarrow> ('r, 'q, 'p) handler) list" where
  "Unary i = [recoveryUnary, metricsUnary, requestIDUnary i, loggingUnary, localeUnary i,
     errorUnary i, authUnary i, validationUnary i]"

definition chain ::
  "(string \<Rightarrow> ('r, 'q, 'p) handler \<Rightarrow> ('r, 'q, 'p) handler) list \<Rightarrow> string \<Rightarrow> ('r, 'q, 'p) handler \<Rightarrow> ('r, 'q, 'p) handler" where
  "chain is m h = foldr (\<lambda>i h. i m h) is h"

definition serve :: "('r, 'q) icset \<Rightarrow> string \<Rightarrow> ('r, 'q, 'p) handler \<Rightarrow> ('r, 'q, 'p) handler" where
  "serve i m h = chain (Unary i) m h"

subsection \<open>The streaming interceptors\<close>

text \<open>A client stream is the list of what \<open>Recv\<close> returns: messages, then possibly an error;
  the end of the list is \<open>io.EOF\<close>.\<close>

type_synonym 'q stream = "(goerr + 'q) list"

definition recoveryStream :: "string \<Rightarrow> ('r, 'q stream, 'p) handler \<Rightarrow> ('r, 'q stream, 'p) handler" where
  "recoveryStream m h c ss = do {
     r \<leftarrow> h c ss;
     if panicked r then fail (StatusE Internal ''internal error'') else ret r }"

definition metricsStream :: "string \<Rightarrow> ('r, 'q stream, 'p) handler \<Rightarrow> ('r, 'q stream, 'p) handler" where
  "metricsStream m h c ss = do {
     modw (\<lambda>w. w\<lparr>rpcInFlight := rpcInFlight w + 1\<rparr>);
     r \<leftarrow> h c ss;
     if panicked r then ret r
     else do {
       modw (\<lambda>w. w\<lparr>rpcInFlight := rpcInFlight w - 1\<rparr>);
       modw (\<lambda>w. w\<lparr>rpcTotals := rpcTotals w @ [(m, status_code r)]\<rparr>);
       ret r }}"

definition requestIDStream :: "('r, 'q) icset \<Rightarrow> string \<Rightarrow> ('r, 'q stream, 'p) handler \<Rightarrow> ('r, 'q stream, 'p) handler" where
  "requestIDStream i m h c ss = do {
     let inc = incomingRequestID c;
     rid \<leftarrow> (if inc = [] then NewUUIDNoDash (icExt i) else ret inc);
     h (c\<lparr>cxRequestID := rid\<rparr>) ss }"

definition loggingStream :: "string \<Rightarrow> ('r, 'q stream, 'p) handler \<Rightarrow> ('r, 'q stream, 'p) handler" where
  "loggingStream m h c ss = do {
     r \<leftarrow> h c ss;
     if panicked r then ret r
     else do {
       modw (\<lambda>w. w\<lparr>rpcLogs := rpcLogs w @ [(m, status_code r, isServerFailure (status_code r))]\<rparr>);
       ret r }}"

definition localeStream :: "('r, 'q) icset \<Rightarrow> string \<Rightarrow> ('r, 'q stream, 'p) handler \<Rightarrow> ('r, 'q stream, 'p) handler" where
  "localeStream i m h c ss = h (c\<lparr>cxLanguage := resolveLanguage i c\<rparr>) ss"

definition errorStream :: "('r, 'q) icset \<Rightarrow> string \<Rightarrow> ('r, 'q stream, 'p) handler \<Rightarrow> ('r, 'q stream, 'p) handler" where
  "errorStream i m h c ss = do {
     r \<leftarrow> h c ss;
     if panicked r then ret r
     else (case r of Inl e \<Rightarrow> fail (mapError c e (icLocale i)) | Inr x \<Rightarrow> returnE x) }"

definition authStream :: "('r, 'q) icset \<Rightarrow> string \<Rightarrow> ('r, 'q stream, 'p) handler \<Rightarrow> ('r, 'q stream, 'p) handler" where
  "authStream i m h c ss =
     (if m \<in> set publicMethods then h c ss
      else do {
        r \<leftarrow> authenticate i c;
        case r of Inl e \<Rightarrow> fail e
        | Inr (u, session) \<Rightarrow>
            if has_prefix m adminServicePrefix \<and> \<not> user_IsAdmin u
            then fail (StatusE PermissionDenied ''auth.admin_required'')
            else h (c\<lparr>cxSubject := subject_of u session\<rparr>) ss })"

definition validating_recv :: "('r, 'q) icset \<Rightarrow> goerr + 'q \<Rightarrow> goerr + 'q" where
  "validating_recv i r = (case r of Inl e \<Rightarrow> Inl e
     | Inr msg \<Rightarrow> (case validateMessage i msg of Inl e \<Rightarrow> Inl e | Inr _ \<Rightarrow> Inr msg))"

definition validationStream :: "('r, 'q) icset \<Rightarrow> string \<Rightarrow> ('r, 'q stream, 'p) handler \<Rightarrow> ('r, 'q stream, 'p) handler" where
  "validationStream i m h c ss = h c (map (validating_recv i) ss)"

definition Stream :: "('r, 'q) icset \<Rightarrow> (string \<Rightarrow> ('r, 'q stream, 'p) handler \<Rightarrow> ('r, 'q stream, 'p) handler) list" where
  "Stream i = [recoveryStream, metricsStream, requestIDStream i, loggingStream, localeStream i,
     errorStream i, authStream i, validationStream i]"

definition serve_stream :: "('r, 'q) icset \<Rightarrow> string \<Rightarrow> ('r, 'q stream, 'p) handler \<Rightarrow> ('r, 'q stream, 'p) handler" where
  "serve_stream i m h = chain (Stream i) m h"

end
