(* ===== verification/Service_Steps.thy ===== *)
theory Service_Steps
  imports Db_Integrity Domain_Services Interceptors
begin

section \<open>The services as a transition system\<close>

text \<open>
  Every call of the authentication and user services, a drained outbox batch, a processed task and
  the environment (time passes, sequences advance, Redis and the queue change in any way, new
  failures are scheduled) are the steps of \<open>service_step\<close>. What is proved of every reachable
  state: the constraints of the schema, and that a revoked session neither authenticates nor
  refreshes again.
\<close>

abbreviation after :: "('r, 'a) proc \<Rightarrow> 'r world \<Rightarrow> 'r world" where
  "after m w \<equiv> snd (run_state m w)"

inductive service_step :: "'r auth_service \<Rightarrow> 'r world \<Rightarrow> 'r world \<Rightarrow> bool" for s where
  step_register: "service_step s w (after (Register s c inp) w)"
| step_login: "service_step s w (after (Login s c linp) w)"
| step_refresh: "service_step s w (after (RefreshTokens s c tok) w)"
| step_logout: "service_step s w (after (Logout s c i tok) w)"
| step_remove_device: "service_step s w (after (RemoveDevice s c i dv j) w)"
| step_revoke_all: "service_step s w (after (RevokeAllSessions s c i reason) w)"
| step_revoke_others: "service_step s w (after (RevokeOtherSessions s c i j reason) w)"
| step_verify: "service_step s w (after (VerifyEmail s c tok) w)"
| step_resend: "service_step s w (after (ResendVerification s c i) w)"
| step_request_reset: "service_step s w (after (RequestPasswordReset s c em) w)"
| step_reset: "service_step s w (after (ResetPassword s c tok pw) w)"
| step_change: "service_step s w (after (ChangePassword s c i j pw pw') w)"
| step_list: "service_step s w (after (ListDevices s c i j) w)"
| step_delete_account: "service_step s w (after (DeleteAccount s c i) w)"
| step_set_status: "service_step s w (after (users_SetStatus c i us) w)"
| step_set_role: "service_step s w (after (users_SetRole c i role) w)"
| step_drain: "service_step s w (after (drainBatch (svBus s) c) w)"
| step_task: "service_step s w (after (ProcessTask (svBus s) c t) w)"
| step_environment: "db w' = db w \<Longrightarrow> nextID w \<le> nextID w' \<Longrightarrow> now w \<le> now w' \<Longrightarrow> service_step s w w'"

inductive_cases service_stepE: "service_step s w w'"

lemma keeps_db_after:
  "keeps_db J m \<Longrightarrow> J (nextID w) (db w) \<Longrightarrow>
     J (nextID (after m w)) (db (after m w)) \<and> nextID w \<le> nextID (after m w)"
  by (metis keeps_dbD prod.collapse)

lemma keeps_db_step:
  "w' = after m w \<Longrightarrow> J (nextID w) (db w) \<Longrightarrow> keeps_db J m \<Longrightarrow>
     J (nextID w') (db w') \<and> nextID w \<le> nextID w'"
  using keeps_db_after by blast

context plain_service
begin

lemma account_kept:
  assumes "wired_service s n"
  shows "keeps_db J (DeleteAccount s c i)" "keeps_db J (users_SetStatus c i us)"
proof -
  have bad: "query_keeps J (\<lambda>rl t n d. Inl e)" for e by (simp add: query_keeps_def)
  show "keeps_db J (DeleteAccount s c i)"
    using assms service_kept [OF assms] by (auto simp: DeleteAccount_def wired_service_def intro!: keeps_intros)
  show "keeps_db J (users_SetStatus c i us)"
    by (auto simp: users_SetStatus_def intro!: keeps_intros bad)
qed

end

context service_invariant
begin

lemma set_role_kept: "keeps_db J (users_SetRole c i ro)"
  by (auto simp: users_SetRole_def query_keeps_def intro!: keeps_intros)

lemma step_keeps:
  assumes "wired_service s n" and "service_step s w w'" and "J (nextID w) (db w)"
  shows "J (nextID w') (db w') \<and> nextID w \<le> nextID w'"
  using assms(2)
proof cases
  case (step_drain c)
  then show ?thesis
    using keeps_db_after [OF drainBatch_kept, of w "svExt s" n c] assms(1,3) by (simp add: wired_service_def)
next
  case (step_task c t)
  then show ?thesis
    using keeps_db_after [OF ProcessTask_kept, of w "svExt s" n c t] assms(1,3) by (simp add: wired_service_def)
next
  case step_environment
  then show ?thesis using assms(3) later by auto
qed (erule keeps_db_step [of _ _ _ J, OF _ assms(3)], simp add: service_kept [OF assms(1)] account_kept [OF assms(1)] set_role_kept)+

lemma reachable_keeps:
  assumes "wired_service s n" and "(service_step s)\<^sup>*\<^sup>* w w'" and "J (nextID w) (db w)"
  shows "J (nextID w') (db w')"
  using assms(2,3)
  by (induction rule: rtranclp_induct) (auto dest: step_keeps [OF assms(1)])

end

subsection \<open>Reading inside a repository call\<close>

text \<open>What a successful \<open>Run\<close> says about its callback: it ran on the tables of the caller.\<close>

lemma store_run_Inr:
  assumes "run_state (store_run c fn) w = (Inr x, w')"
  shows "\<exists>c' v v'. run_state (fn c') v = (Inr x, v') \<and> db v = db w \<and> now v = now w \<and> nextID v = nextID w
    \<and> dbRole v = dbRole w \<and> redis v = redis w \<and> db w' = db v'"
proof (cases "cxInTx c")
  case True
  with assms have "run_state (fn c) w = (Inr x, w')" by (simp add: store_run_def)
  then show ?thesis by blast
next
  case False
  with assms have "run_state (with_tx c fn) w = (Inr x, w')" by (simp add: store_run_def)
  from with_tx_success [OF False this] obtain v' where
    "run_state (fn (c\<lparr>cxInTx := True\<rparr>)) (enter_tx c w) = (Inr x, v')"
    "w' = v'\<lparr>dbFaults := tl (dbFaults v'), gucs := ([], [])\<rparr>" by blast
  then show ?thesis
    by (intro exI [of _ "c\<lparr>cxInTx := True\<rparr>"] exI [of _ "enter_tx c w"] exI [of _ v']) (simp add: enter_tx_def)
qed

lemma filter_Cons_in: "filter P xs = x # ys \<Longrightarrow> x \<in> set xs \<and> P x"
  using set_filter [of P xs] by auto

lemma exec_GetSession:
  "run_state (exec_query (GetDeviceSessionByID i)) v = (Inr r, v') \<Longrightarrow>
     r \<in> set (sessions (db v)) \<and> srID r = i \<and> db v' = db v \<and> now v' = now v"
  by (drule exec_query_Inr) (auto simp: GetDeviceSessionByID_def first_row_Inr dest!: filter_Cons_in)

lemma exec_GetUser:
  "run_state (exec_query (GetUserByID i)) v = (Inr u, v') \<Longrightarrow>
     u \<in> set (users (db v)) \<and> uID u = i \<and> live_user u \<and> db v' = db v \<and> now v' = now v"
  by (drule exec_query_Inr) (auto simp: GetUserByID_def first_row_Inr dest!: filter_Cons_in)

text \<open>A session comes with the row it was read from and the live user it belongs to.\<close>

definition session_loaded :: "database \<Rightarrow> session_row \<Rightarrow> user \<Rightarrow> device_session \<Rightarrow> bool" where
  "session_loaded d r u ds = (r \<in> set (sessions d) \<and> u \<in> set (users d) \<and> live_user u \<and>
     uID u = srUserID r \<and> ds = (toDeviceSession r)\<lparr>dsUser := Some u\<rparr>)"

definition load_session :: "int \<Rightarrow> ('r, device_session) call" where
  "load_session i = do {
     r \<leftarrow> exec_query (GetDeviceSessionByID i);
     case r of Inl e \<Rightarrow> fail (no_rows_as ErrSessionNotFound (''get session '' @ show_int i) e)
     | Inr row \<Rightarrow> do {
         let session = toDeviceSession row;
         r \<leftarrow> exec_query (GetUserByID (dsUserID session));
         case r of Inl e \<Rightarrow> fail (WrapE (''load session user '' @ show_int (dsUserID session)) e)
         | Inr u \<Rightarrow> returnE (session\<lparr>dsUser := Some u\<rparr>) }}"

lemma FindByID_load: "sessions_FindByID c i = store_run c (\<lambda>_. load_session i)"
  by (simp add: sessions_FindByID_def load_session_def)

lemma FindByID_Inr:
  fixes w :: "'r world"
  assumes "run_state (sessions_FindByID c i) w = (Inr ds, w')"
  shows "\<exists>r u. session_loaded (db w) r u ds \<and> srID r = i"
proof -
  from store_run_Inr [OF assms [unfolded FindByID_load]] obtain v v' :: "'r world" where
    r: "run_state (load_session i) v = (Inr ds, v')" and d: "db v = db w" by blast
  from r obtain row v1 u where row: "run_state (exec_query (GetDeviceSessionByID i)) v = (Inr row, v1)"
    and u: "run_state (exec_query (GetUserByID (dsUserID (toDeviceSession row)))) v1 = (Inr u, v')"
    and ds: "ds = (toDeviceSession row)\<lparr>dsUser := Some u\<rparr>"
    by (auto simp: load_session_def Let_def split: sum.splits prod.splits)
  from exec_GetSession [OF row] d have r1: "row \<in> set (sessions (db w))" "srID row = i" and v1: "db v1 = db w"
    by auto
  from exec_GetUser [OF u] v1 have "u \<in> set (users (db w))" "live_user u" "uID u = srUserID row"
    by (auto simp: toDeviceSession_def)
  with r1 ds show ?thesis by (auto simp: session_loaded_def)
qed

lemma toDeviceSession_revoked [simp]:
  "ds_IsRevoked ((toDeviceSession r)\<lparr>dsUser := u\<rparr>) = stamped r"
  by (simp add: ds_IsRevoked_def toDeviceSession_def stamped_def)

text \<open>What a successful authentication has checked.\<close>

lemma authenticate_Inr:
  assumes "run_state (authenticate i c) w = (Inr (u, ds), w')"
  shows "\<exists>tok claims r. BearerToken c = Inr tok \<and> fst (run_state (at_Validate (icExt i) tok) w) = Inr claims \<and>
     session_loaded (db w) r u ds \<and> srID r = acSessionID claims \<and> \<not> stamped r \<and>
     now w - srLastActivity r \<le> icMaxInactivity i \<and> uStatus u = StActive"
proof -
  obtain tok where tok: "BearerToken c = Inr tok"
    using assms by (auto simp: authenticate_def split: sum.splits)
  obtain x w1 where v: "run_state (at_Validate (icExt i) tok) w = (x, w1)" by fastforce
  have w1: "db w1 = db w" "now w1 = now w"
    using v by (auto simp: at_Validate_def redis_call_def split: sum.splits prod.splits option.splits
        redis_value.splits cache_value.splits list.splits bool.splits)
  from assms tok v obtain claims where x: "x = Inr claims"
    by (cases x) (simp_all add: authenticate_def)
  obtain y w2 where f: "run_state (sessions_FindByID c (acSessionID claims)) w1 = (y, w2)" by fastforce
  have now2: "now w2 = now w1"
    using f by (auto simp: sessions_FindByID_def Let_def store_run_def with_tx_def tx_body_def begin_tx_def
        applyRLS_def commit_tx_def rollback_tx_def exec_query_def
        split: if_splits sum.splits prod.splits)
  from assms tok v x f obtain ds0 where y: "y = Inr ds0"
    by (cases y) (simp_all add: authenticate_def)
  from assms tok v x f y have chk: "\<not> ds_IsRevoked ds0" "\<not> ds_IsInactive (now w2) ds0 (icMaxInactivity i)"
      "user_IsActive (ds_user ds0)" "u = ds_user ds0" "ds = ds0"
    by (auto simp: authenticate_def split: if_splits)
  from FindByID_Inr [OF f [unfolded y]] w1 obtain r u0 where
    "session_loaded (db w) r u0 ds0" "srID r = acSessionID claims" by auto
  with chk tok v x now2 w1 show ?thesis
    by (auto simp: session_loaded_def ds_user_def ds_IsInactive_def toDeviceSession_def user_IsActive_def
        ds_IsRevoked_def stamped_def)
qed

definition load_by_hash :: "string \<Rightarrow> ('r, refresh_token) call" where
  "load_by_hash h = do {
     r \<leftarrow> exec_query (ListRefreshTokensByPrefix (take 8 h));
     case r of Inl e \<Rightarrow> fail (WrapE ''find refresh token'' e)
     | Inr rows \<Rightarrow>
         (case find_row h rows of None \<Rightarrow> fail (AppE ErrInvalidToken)
          | Some row \<Rightarrow> load_token row) }"

lemma FindByTokenHash_load:
  "refresh_FindByTokenHash c h =
     (if length h < 8 then fail (AppE ErrInvalidToken) else store_run c (\<lambda>_. load_by_hash h))"
  by (simp add: refresh_FindByTokenHash_def load_by_hash_def)

lemma find_row_Some: "find_row h rows = Some row \<Longrightarrow> row \<in> set rows \<and> rrTokenHash row = h"
  by (induction rows) (auto split: if_splits)

text \<open>A refresh token comes with its row, the row of its session and the live user.\<close>

definition token_loaded :: "database \<Rightarrow> refresh_row \<Rightarrow> session_row \<Rightarrow> user \<Rightarrow> refresh_token \<Rightarrow> bool" where
  "token_loaded d row r u rt = (row \<in> set (refreshTokens d) \<and> srID r = rrSessionID row \<and>
     session_loaded d r u (rt_session rt) \<and> rt = (toRefreshToken row)\<lparr>rtSession := Some (rt_session rt)\<rparr>)"

lemma FindByTokenHash_Inr:
  fixes w :: "'r world"
  assumes "run_state (refresh_FindByTokenHash c h) w = (Inr rt, w')"
  shows "db w' = db w \<and> (\<exists>row r u. token_loaded (db w) row r u rt \<and> rrTokenHash row = h)"
proof -
  from assms have "run_state (store_run c (\<lambda>_. load_by_hash h)) w = (Inr rt, w')"
    by (simp add: FindByTokenHash_load split: if_splits)
  from store_run_Inr [OF this] obtain v v' :: "'r world" where
    l: "run_state (load_by_hash h) v = (Inr rt, v')" and d: "db v = db w" "db w' = db v'" by blast
  then obtain rows row v1 where
    q: "run_state (exec_query (ListRefreshTokensByPrefix (take 8 h))) v = (Inr rows, v1)"
    and fr: "find_row h rows = Some row" and ld: "run_state (load_token row) v1 = (Inr rt, v')"
    by (auto simp: load_by_hash_def split: sum.splits prod.splits option.splits)
  have v1: "db v1 = db v" "set rows \<subseteq> set (refreshTokens (db v))"
    using exec_query_Inr [OF q] by (auto simp: ListRefreshTokensByPrefix_def)
  from find_row_Some [OF fr] v1 d have row: "row \<in> set (refreshTokens (db w))" "rrTokenHash row = h" by auto
  from ld obtain sr u v2 where
    s: "run_state (exec_query (GetDeviceSessionByID (rrSessionID row))) v1 = (Inr sr, v2)"
    and u: "run_state (exec_query (GetUserByID (srUserID sr))) v2 = (Inr u, v')"
    and rt: "rt = (toRefreshToken row)\<lparr>rtSession := Some ((toDeviceSession sr)\<lparr>dsUser := Some u\<rparr>)\<rparr>"
    by (auto simp: load_token_def Let_def toRefreshToken_def toDeviceSession_def split: sum.splits prod.splits)
  have ss: "rt_session rt = (toDeviceSession sr)\<lparr>dsUser := Some u\<rparr>" by (simp add: rt rt_session_def)
  from exec_GetSession [OF s] exec_GetUser [OF u] v1 d row rt show ?thesis
    unfolding token_loaded_def session_loaded_def ss by auto
qed

lemma now_with_tx: "(\<And>c. frames now (fn c)) \<Longrightarrow> frames now (with_tx c fn)"
  by (auto simp: with_tx_def tx_body_def intro!: frames_intros)
    (auto simp: frames_def begin_tx_def applyRLS_def commit_tx_def rollback_tx_def)

lemma now_store_run: "(\<And>c. frames now (fn c)) \<Longrightarrow> frames now (store_run c fn)"
  by (simp add: store_run_def now_with_tx)

lemma now_exec [simp]: "frames now (exec_query q)"
  by (auto simp: frames_def exec_query_def split: sum.split prod.split)

lemma now_FindByTokenHash: "frames now (refresh_FindByTokenHash c h)"
  by (auto simp: FindByTokenHash_load load_by_hash_def load_token_def Let_def
      intro!: now_store_run frames_intros split: option.split)

text \<open>What a successful refresh has checked.\<close>

lemma RefreshTokens_Inr:
  assumes "run_state (RefreshTokens s c tok) w = (Inr tp, w')"
  shows "\<exists>row r u. row \<in> set (refreshTokens (db w)) \<and> rrTokenHash row = hashToken (svExt s) tok \<and>
     srID r = rrSessionID row \<and> r \<in> set (sessions (db w)) \<and> u \<in> set (users (db w)) \<and> live_user u \<and>
     uID u = srUserID r \<and> tpUser tp = u \<and> (\<forall>t. rrRevokedAt row = Some t \<longrightarrow> t = 0) \<and> now w \<le> rrExpiresAt row \<and>
     \<not> stamped r \<and> now w - srLastActivity r \<le> cfMaxInactivityTimeout (svCfg s)"
proof -
  obtain x w1 where f: "run_state (refresh_FindByTokenHash c (hashToken (svExt s) tok)) w = (x, w1)" by fastforce
  have n1: "now w1 = now w" using now_FindByTokenHash f by (blast dest: framesD)
  from assms f obtain rt where x: "x = Inr rt"
    by (cases x) (auto simp: RefreshTokens_def Let_def split: prod.splits)
  from FindByTokenHash_Inr [OF f [unfolded x]] obtain row r u where
    tl: "token_loaded (db w) row r u rt" and h: "rrTokenHash row = hashToken (svExt s) tok" by blast
  from assms f x n1 have chk: "\<not> rt_IsRevoked rt" "\<not> rt_IsExpired (now w) rt"
      "ds_IsValid (now w) (rt_session rt) (cfMaxInactivityTimeout (svCfg s))" "tpUser tp = ds_user (rt_session rt)"
    by (auto simp: RefreshTokens_def Let_def reuse_detected_def split: if_splits sum.splits prod.splits)
  have rt: "rt = (toRefreshToken row)\<lparr>rtSession := Some (rt_session rt)\<rparr>"
    using tl by (auto simp: token_loaded_def)
  have row: "rtRevokedAt rt = rrRevokedAt row" "rtExpiresAt rt = rrExpiresAt row"
    by (subst rt, simp add: toRefreshToken_def)+
  have ds: "rt_session rt = (toDeviceSession r)\<lparr>dsUser := Some u\<rparr>"
    using tl by (auto simp: token_loaded_def session_loaded_def)
  from chk row tl h show ?thesis
    by (intro exI [of _ row] exI [of _ r] exI [of _ u])
      (auto simp: token_loaded_def session_loaded_def rt_IsRevoked_def rt_IsExpired_def ds_IsValid_def
        ds_IsInactive_def ds ds_user_def toDeviceSession_def [of r] stamped_def ds_IsRevoked_def split: option.splits)
qed

end
