(* ===== verification/Reference_Instance.thy ===== *)
theory Reference_Instance
  imports Service_Steps
begin

section \<open>A concrete instance\<close>

text \<open>
  Data for the evaluations: the services of \<open>ref_ext\<close>, a mail interface that accepts everything,
  two users with sessions and refresh tokens, and worlds built from them. The definitions here model
  no code; they instantiate the parameters of the model.
\<close>

type_synonym ref_store = "string \<Rightarrow> (redis_value \<times> time option) option"

definition ref_mail :: "'r email_sender" where
  "ref_mail = \<lparr>esVerification = (\<lambda>c a t. returnE ()), esPasswordReset = (\<lambda>c a t. returnE ())\<rparr>"

definition ref_cfg :: auth_config where
  "ref_cfg = \<lparr>cfMaxInactivityTimeout = 24 * hour, cfMaxDevicesPerUser = 2, cfAccessTokenExpiry = hour,
     cfRefreshTokenExpiry = 24 * hour, cfLockoutMaxAttempts = 2, cfLockoutWindow = 15 * minute,
     cfHashMemory = 64, cfHashIterations = 1, cfHashParallelism = 1, cfHashSaltLength = 8, cfHashKeyLength = 16\<rparr>"

definition ref_service :: "ref_store auth_service" where
  "ref_service = \<lparr>svExt = ref_ext, svBus = wired_bus ref_ext 100, svCfg = ref_cfg, svEmail = ref_mail,
     svHasher = newPasswordHasher 64 1 1 8 16, svLockout = newLoginLimiter 2 (15 * minute), svDummyHash = []\<rparr>"

lemma ref_service_wired [simp]: "wired_service ref_service 100"
  by (simp add: wired_service_def ref_service_def mail_only_def ref_mail_def)

lemma ref_service_simps [simp]:
  "svExt ref_service = ref_ext" "svCfg ref_service = ref_cfg" "svBus ref_service = wired_bus ref_ext 100"
  by (simp_all add: ref_service_def)

text \<open>The stored hash of a password, as the hasher of the service makes it with salt \<open>salt\<close>.\<close>

definition ref_hash :: "string \<Rightarrow> string \<Rightarrow> string" where
  "ref_hash salt plain = encode_hash (xArgon2Version ref_ext) 64 1 1 salt (xArgon2 ref_ext plain salt 1 64 1 16)"

definition ref_user :: "int \<Rightarrow> string \<Rightarrow> string \<Rightarrow> user" where
  "ref_user i em hash = zero_user\<lparr>uID := i, uEmail := em, uPasswordHash := hash, uStatus := StActive\<rparr>"

definition ref_session :: "int \<Rightarrow> int \<Rightarrow> string \<Rightarrow> time \<Rightarrow> time option \<Rightarrow> session_row" where
  "ref_session i uid dev t revoked =
     (session_of \<lparr>nsUserID = uid, nsPlatform = ''ios'', nsManufacturer = None, nsModel = None, nsDeviceID = dev,
        nsName = None, nsIPAddress = None, nsUserAgent = None\<rparr> t i)\<lparr>srRevokedAt := revoked\<rparr>"

definition ref_token :: "int \<Rightarrow> int \<Rightarrow> string \<Rightarrow> time \<Rightarrow> refresh_row" where
  "ref_token i sid raw ex = \<lparr>rrID = i, rrSessionID = sid, rrTokenHash = ref_sha raw, rrTokenPrefix = take 8 (ref_sha raw),
     rrTokenFamily = ''fam'', rrExpiresAt = ex, rrRevokedAt = None, rrRevokedReason = None, rrCreatedAt = 1\<rparr>"

definition ref_db :: database where
  "ref_db = empty_db\<lparr>
     users := [ref_user 1 ''ann@x.org'' ''hash1'', ref_user 2 ''bob@x.org'' ''hash2''],
     sessions := [ref_session 10 1 ''old'' 1000 (Some 2000), ref_session 11 1 ''phone'' 3000 None,
       ref_session 12 2 ''tablet'' 3000 None],
     refreshTokens := [ref_token 20 11 ''rt_ann'' (100 * hour), ref_token 21 12 ''rt_bob'' (100 * hour)]\<rparr>"

definition ref_state :: "ref_store world" where
  "ref_state = (ref_world AppApi 5000 ref_db)\<lparr>
     redis := [redisKey ref_ext ''at_ann'' \<mapsto> (RData (JClaims \<lparr>acSessionID = 11, acUserID = 1, acDeviceID = ''phone'',
       acIssuedAt = 3000\<rparr>), None)]\<rparr>"

definition ref_ctx :: "string \<Rightarrow> ctx" where
  "ref_ctx auth = background\<lparr>cxMetadata := Some [''authorization'' \<mapsto> [auth]]\<rparr>"

definition ref_icset :: "(ref_store, 'q) icset" where
  "ref_icset = newSet ref_ext (24 * hour) None (\<lambda>_. Valid)"

lemma ref_user_simps [simp]:
  "uID (ref_user i em h) = i" "uEmail (ref_user i em h) = em" "uPasswordHash (ref_user i em h) = h"
  "uStatus (ref_user i em h) = StActive" "uRole (ref_user i em h) = RoUser" "live_user (ref_user i em h)"
  by (simp_all add: ref_user_def zero_user_def live_user_def)

lemma ref_session_simps [simp]:
  "srID (ref_session i u dv t rv) = i" "srUserID (ref_session i u dv t rv) = u" "srDeviceID (ref_session i u dv t rv) = dv"
  "srLastActivity (ref_session i u dv t rv) = t" "srRevokedAt (ref_session i u dv t rv) = rv"
  "active_row (ref_session i u dv t rv) = (rv = None)"
  by (simp_all add: ref_session_def session_of_def active_row_def)

lemma ref_token_simps [simp]:
  "rrID (ref_token i sid raw ex) = i" "rrSessionID (ref_token i sid raw ex) = sid"
  "rrTokenHash (ref_token i sid raw ex) = ref_sha raw" "rrTokenPrefix (ref_token i sid raw ex) = take 8 (ref_sha raw)"
  "rrTokenFamily (ref_token i sid raw ex) = ''fam''" "rrExpiresAt (ref_token i sid raw ex) = ex"
  "rrRevokedAt (ref_token i sid raw ex) = None"
  by (simp_all add: ref_token_def)

lemma ref_db_simps [simp]:
  "users ref_db = [ref_user 1 ''ann@x.org'' ''hash1'', ref_user 2 ''bob@x.org'' ''hash2'']"
  "sessions ref_db = [ref_session 10 1 ''old'' 1000 (Some 2000), ref_session 11 1 ''phone'' 3000 None,
     ref_session 12 2 ''tablet'' 3000 None]"
  "refreshTokens ref_db = [ref_token 20 11 ''rt_ann'' (100 * hour), ref_token 21 12 ''rt_bob'' (100 * hour)]"
  by (simp_all add: ref_db_def empty_db_def)

lemma ref_ext_simps [simp]:
  "xRedis ref_ext = ref_redis" "xPrefix ref_ext = ''app''" "xSha256Hex ref_ext = ref_sha" "xParseUUID ref_ext = Some"
  by (simp_all add: ref_ext_def)

lemma ref_state_simps [simp]:
  "nextID ref_state = 1000" "db ref_state = ref_db" "now ref_state = 5000" "dbFaults ref_state = []"
  "redisFaults ref_state = []" "txAborted ref_state = False" "db_up ref_state" "redis_up ref_state"
  "redis ref_state = [redisKey ref_ext ''at_ann'' \<mapsto> (RData (JClaims \<lparr>acSessionID = 11, acUserID = 1,
     acDeviceID = ''phone'', acIssuedAt = 3000\<rparr>), None)]"
  by (simp_all add: ref_state_def db_up_def redis_up_def ref_world_def)

lemma ref_ctx_simps [simp]: "cxInTx (ref_ctx a) = False" "cxFromDrain (ref_ctx a) = False"
  "cxInTx background = False" "cxFromDrain background = False" "cxRequestID background = []"
  by (simp_all add: ref_ctx_def background_def)

lemma ref_icset_simps [simp]: "icExt ref_icset = ref_ext" "icMaxInactivity ref_icset = 24 * hour"
  by (simp_all add: ref_icset_def newSet_def)

lemma ref_sha_length [simp]: "length (ref_sha s) = 64"
  by (simp add: ref_sha_def)

lemma ref_db_wf: "wf_db 1000 ref_db"
  by (simp add: wf_db_def to_lower_def to_lower_char_def ref_sha_def)

lemma ref_db_revoked: "revoked_in {10} 1000 ref_db"
  by (simp add: revoked_in_def stamped_def)

lemma ref_authenticates:
  "\<exists>ds w''. run_state (authenticate (ref_icset :: (ref_store, unit) icset) (ref_ctx ''Bearer at_ann'')) ref_state =
     (Inr (ref_user 1 ''ann@x.org'' ''hash1'', ds), w'')"
proof -
  have low: "to_lower ''Bearer'' = ''bearer''" by code_simp
  have tok: "BearerToken (ref_ctx ''Bearer at_ann'') = Inr ''at_ann''"
    by (simp add: BearerToken_def ref_ctx_def background_def md_get_def cut_def low)
  have val: "run_state (at_Validate ref_ext ''at_ann'') ref_state =
      (Inr \<lparr>acSessionID = 11, acUserID = 1, acDeviceID = ''phone'', acIssuedAt = 3000\<rparr>, ref_state)"
    by (simp add: at_Validate_def redis_call_up ref_redis_def visible_def not_expired_def)
  show ?thesis
    by (simp add: authenticate_def tok val sessions_FindByID_def store_run_def with_tx_def
        tx_body_def begin_tx_def applyRLS_def commit_tx_def exec_query_def next_fault_def
        GetDeviceSessionByID_def GetUserByID_def first_row_def toDeviceSession_def ds_IsRevoked_def ds_IsInactive_def
        ds_user_def user_IsActive_def hour_def minute_def second_def Let_def)
qed

end
