(* ===== verification/Auth_Guarantees.thy ===== *)
theory Auth_Guarantees
  imports Reference_Instance
begin

section \<open>What the authentication service guarantees\<close>

text \<open>
  Properties of single calls of \<open>internal/auth\<close>: rotation and reuse of refresh tokens, login,
  logout, the one-time tokens, password reset, the login limiter and the device limit. Properties
  of success hold for every pattern of failures; properties that a call succeeds assume the
  database and Redis up, the entropy source working and no collision of the token drawn.
\<close>

subsection \<open>What a publication leaves alone\<close>

definition core :: "database \<Rightarrow> user list \<times> (int \<times> settings) list \<times> session_row list \<times> refresh_row list" where
  "core d = (users d, userSettings d, sessions d, refreshTokens d)"

definition core_view :: "'r world \<Rightarrow> (user list \<times> (int \<times> settings) list \<times> session_row list \<times> refresh_row list) \<times>
    time \<times> 'r \<times> bool list \<times> nat \<times> db_role" where
  "core_view w = (core (db w), now w, redis w, redisFaults w, draws w, dbRole w)"

lemma core_view_same:
  "core_view w' = core_view w \<longleftrightarrow> users (db w') = users (db w) \<and> userSettings (db w') = userSettings (db w) \<and>
     sessions (db w') = sessions (db w) \<and> refreshTokens (db w') = refreshTokens (db w) \<and>
     now w' = now w \<and> redis w' = redis w \<and> redisFaults w' = redisFaults w \<and> draws w' = draws w \<and> dbRole w' = dbRole w"
  by (auto simp: core_view_def core_def)

text \<open>
  A view of the world made of a part \<open>g\<close> of the tables and a part \<open>h\<close> that no statement and no
  transaction touches. Statements that keep \<open>g\<close> keep the view, and so do transactions of them: a
  rollback restores the tables of BEGIN, whose \<open>g\<close> is the same.
\<close>

locale tx_view =
  fixes g :: "database \<Rightarrow> 'v" and h :: "'r world \<Rightarrow> 'u"
  assumes h_fixed: "h (w\<lparr>db := d\<rparr>) = h w" "h (w\<lparr>nextID := k\<rparr>) = h w" "h (w\<lparr>dbFaults := fs\<rparr>) = h w"
    "h (w\<lparr>txAborted := ab\<rparr>) = h w" "h (w\<lparr>gucs := gs\<rparr>) = h w"
begin

lemma h_updates:
  "h (w\<lparr>dbFaults := fs, txAborted := ab\<rparr>) = h w" "h (w\<lparr>dbFaults := fs, gucs := gs\<rparr>) = h w"
  "h (w\<lparr>dbFaults := fs, db := d, nextID := k\<rparr>) = h w" "h (w\<lparr>db := d, txAborted := ab, gucs := gs\<rparr>) = h w"
  by (simp_all only: h_fixed)

lemma exec_view:
  "(\<And>rl t n d x d'. q rl t n d = Inr (x, d') \<Longrightarrow> g d' = g d) \<Longrightarrow> frames (\<lambda>w. (g (db w), h w)) (exec_query q)"
  by (auto simp: frames_def exec_query_def h_fixed h_updates split: sum.split prod.split)

lemma tx_parts_view:
  "frames (\<lambda>w. (g (db w), h w)) begin_tx" "frames (\<lambda>w. (g (db w), h w)) (applyRLS c)" "frames (\<lambda>w. (g (db w), h w)) commit_tx"
  by (auto simp: frames_def begin_tx_def applyRLS_def commit_tx_def h_fixed h_updates)

lemma with_tx_view:
  assumes f: "\<And>c. frames (\<lambda>w. (g (db w), h w)) (fn c)"
  shows "frames (\<lambda>w. (g (db w), h w)) (with_tx c fn)"
proof -
  have body: "frames (\<lambda>w. (g (db w), h w)) (tx_body c fn)" for c
    unfolding tx_body_def by (intro frames_intros tx_parts_view f) simp_all
  show ?thesis
  proof (cases "cxInTx c")
    case True
    then show ?thesis using f by (simp add: with_tx_def)
  next
    case False
    show ?thesis
      unfolding frames_def
    proof
      fix w :: "'r world"
      obtain r1 w1 where r1: "run_state begin_tx w = (r1, w1)" by fastforce
      obtain r2 w2 where r2: "run_state (tx_body c fn) w1 = (r2, w2)" by fastforce
      from framesD [OF tx_parts_view(1) r1] framesD [OF body r2] r1 r2 False
      show "(g (db (snd (run_state (with_tx c fn) w))), h (snd (run_state (with_tx c fn) w))) = (g (db w), h w)"
        by (auto simp: with_tx_def rollback_tx_def h_updates split: sum.split)
    qed
  qed
qed

lemma run_view: "(\<And>c. frames (\<lambda>w. (g (db w), h w)) (fn c)) \<Longrightarrow> frames (\<lambda>w. (g (db w), h w)) (store_run c fn)"
  by (simp add: store_run_def with_tx_view)

lemma query_view:
  "(\<And>rl t n d x d'. q rl t n d = Inr (x, d') \<Longrightarrow> g d' = g d) \<Longrightarrow> frames (\<lambda>w. (g (db w), h w)) (run_query c q)"
  unfolding run_query_def by (intro run_view exec_view)

lemma mapped_view:
  "(\<And>rl t n d x d'. q rl t n d = Inr (x, d') \<Longrightarrow> g d' = g d) \<Longrightarrow> frames (\<lambda>w. (g (db w), h w)) (run_mapped c f q)"
  unfolding run_mapped_def by (intro run_view frames_intros exec_view) simp_all

end

definition calm_part :: "'r world \<Rightarrow> time \<times> 'r \<times> bool list \<times> nat \<times> db_role" where
  "calm_part w = (now w, redis w, redisFaults w, draws w, dbRole w)"

lemma core_view_parts: "core_view = (\<lambda>w. (core (db w), calm_part w))"
  by (auto simp: core_view_def calm_part_def)

interpretation core: tx_view core calm_part
  by unfold_locales (simp_all add: calm_part_def)

lemmas frames_query_core = core.query_view [folded core_view_parts]
lemmas frames_mapped_core = core.mapped_view [folded core_view_parts]

text \<open>The users and the clock, for the part of login that works on sessions.\<close>

definition user_view :: "'r world \<Rightarrow> user list \<times> time" where
  "user_view w = (users (db w), now w)"

lemma user_view_parts: "user_view = (\<lambda>w. (users (db w), now w))"
  by (auto simp: user_view_def)

interpretation uv: tx_view users now
  by unfold_locales simp_all

lemmas frames_query_user = uv.query_view [folded user_view_parts]
lemmas frames_mapped_user = uv.mapped_view [folded user_view_parts]
lemmas frames_tx_user = uv.with_tx_view [folded user_view_parts]
lemmas frames_run_user = uv.run_view [folded user_view_parts]
lemmas frames_exec_user = uv.exec_view [folded user_view_parts]

lemma publish_attempt_core: "frames core_view (bus_Publish (wired_bus E n) c (AuthAttemptRecorded a))"
proof -
  have ob: "frames core_view (outbox_Write c evt)" "frames core_view (outbox_MarkProcessed c i)"
      "frames core_view (outbox_MarkFailed c i m)" for c evt i m
    by (auto simp: outbox_Write_def outbox_MarkProcessed_def outbox_MarkFailed_def InsertOutbox_def
        MarkOutboxProcessed_def MarkOutboxFailed_def core_def Let_def
        intro!: frames_intros frames_query_core split: if_splits)
  have enq: "frames core_view (dispatcher_Enqueue c evt opts)" for c evt opts
    unfolding dispatcher_Enqueue_def by (intro frames_intros frames_enqueue) (simp_all add: core_view_def)
  have kick: "frames core_view kickDrain"
    by (simp add: frames_def kickDrain_def core_view_def)
  have d: "frames core_view (dispatch (wired_bus E n) c (AuthAttemptRecorded a) [attempt_sub])"
    by (auto simp: dispatch_def wired_bus_simps(1) attempt_sub_def intro!: frames_intros enq)
  show ?thesis
    unfolding bus_Publish_def Let_def eventType.simps wired_bus_subs
    by (intro frames_intros ob d kick) simp_all
qed

lemma recordAttempt_core: "wired_service s n \<Longrightarrow> frames core_view (recordAttempt s c em i ch oc)"
  by (auto simp: recordAttempt_def wired_service_def intro!: frames_intros publish_attempt_core)

lemma recordAttempt_run:
  assumes "wired_service s n"
  shows "\<exists>w'. run_state (recordAttempt s c em i ch oc) w = ((), w') \<and> core_view w' = core_view w"
  using framesD [OF recordAttempt_core [OF assms]] by (metis old.unit.exhaust prod.collapse)

subsection \<open>Reads on a healthy database\<close>

lemma exec_query_up:
  "db_up v \<Longrightarrow> q (dbRole v) (now v) (nextID v) (db v) = Inr (x, d) \<Longrightarrow>
     run_state (exec_query q) v = (Inr x, v\<lparr>db := d, nextID := nextID v + 1\<rparr>)"
  by (simp add: exec_query_def db_up_def next_fault_def)

lemma filter_key:
  "distinct (map f xs) \<Longrightarrow> x \<in> set xs \<Longrightarrow> P x \<Longrightarrow> filter (\<lambda>y. f y = f x \<and> P y) xs = [x]"
proof (induction xs)
  case (Cons a xs)
  show ?case
  proof (cases "a = x")
    case True
    with Cons.prems have "filter (\<lambda>y. f y = f x \<and> P y) xs = []"
      by (auto simp: filter_empty_conv) (metis image_eqI)
    with True Cons.prems show ?thesis by simp
  next
    case False
    with Cons.prems have "f a \<noteq> f x" by (auto simp: image_iff)
    with Cons False show ?thesis by auto
  qed
qed simp

text \<open>Rows that exist: a token, its session, the live user.\<close>

definition present :: "database \<Rightarrow> session_row \<Rightarrow> user \<Rightarrow> bool" where
  "present d r u = (r \<in> set (sessions d) \<and> u \<in> set (users d) \<and> uID u = srUserID r \<and> live_user u)"

definition present_token :: "database \<Rightarrow> refresh_row \<Rightarrow> session_row \<Rightarrow> user \<Rightarrow> bool" where
  "present_token d row r u = (row \<in> set (refreshTokens d) \<and> rrTokenPrefix row = take 8 (rrTokenHash row) \<and>
     rrSessionID row = srID r \<and> present d r u)"

lemma GetSession_up:
  assumes "wf_db n d" and "present d r u"
  shows "GetDeviceSessionByID (srID r) rl t k d = Inr (r, d)" "GetUserByID (srUserID r) rl t k d = Inr (u, d)"
  using assms filter_key [of srID "sessions d" r "\<lambda>_. True"] filter_key [of uID "users d" u live_user]
  by (simp_all add: GetDeviceSessionByID_def GetUserByID_def first_row_def wf_db_def present_def)

definition loaded_session :: "session_row \<Rightarrow> user \<Rightarrow> device_session" where
  "loaded_session r u = (toDeviceSession r)\<lparr>dsUser := Some u\<rparr>"

lemma loaded_session_simps [simp]:
  "dsID (loaded_session r u) = srID r" "dsUserID (loaded_session r u) = srUserID r"
  "dsDeviceID (loaded_session r u) = srDeviceID r" "ds_user (loaded_session r u) = u"
  "ds_IsRevoked (loaded_session r u) = stamped r"
  "ds_IsInactive t (loaded_session r u) d = (t - srLastActivity r > d)"
  by (simp_all add: loaded_session_def toDeviceSession_def ds_user_def ds_IsRevoked_def stamped_def ds_IsInactive_def)

lemma db_up_next [simp]: "db_up (v\<lparr>nextID := k\<rparr>) = db_up v" "db_up (v\<lparr>db := d, nextID := k\<rparr>) = db_up v"
  by (simp_all add: db_up_def)

lemma load_session_up:
  assumes "db_up v" and "wf_db n (db v)" and "present (db v) r u"
  shows "run_state (load_session (srID r)) v = (Inr (loaded_session r u), v\<lparr>nextID := nextID v + 2\<rparr>)"
  using assms
  by (simp add: load_session_def exec_query_up GetSession_up [OF assms(2,3)] Let_def toDeviceSession_def
      loaded_session_def)

lemma load_token_up:
  assumes "db_up v" and "wf_db n (db v)" and "present_token (db v) row r u"
  shows "run_state (load_token row) v =
    (Inr ((toRefreshToken row)\<lparr>rtSession := Some (loaded_session r u)\<rparr>), v\<lparr>nextID := nextID v + 2\<rparr>)"
  using assms(1,3) GetSession_up [OF assms(2), of r u]
  by (simp add: load_token_def exec_query_up Let_def toDeviceSession_def toRefreshToken_def loaded_session_def
      present_token_def)

lemma find_row_hash:
  "distinct (map rrTokenHash rows) \<Longrightarrow> row \<in> set rows \<Longrightarrow> find_row (rrTokenHash row) rows = Some row"
  by (induction rows) (auto simp: image_iff)

lemma load_by_hash_up:
  assumes "db_up v" and wf: "wf_db n (db v)" and pt: "present_token (db v) row r u"
  shows "run_state (load_by_hash (rrTokenHash row)) v =
    (Inr ((toRefreshToken row)\<lparr>rtSession := Some (loaded_session r u)\<rparr>), v\<lparr>nextID := nextID v + 3\<rparr>)"
proof -
  let ?p = "take 8 (rrTokenHash row)" and ?v = "v\<lparr>nextID := nextID v + 1\<rparr>"
  let ?rows = "filter (\<lambda>r. rrTokenPrefix r = ?p) (refreshTokens (db v))"
  have "find_row (rrTokenHash row) ?rows = Some row"
    using wf pt by (intro find_row_hash) (auto simp: wf_db_def present_token_def distinct_map_filter)
  moreover have "run_state (exec_query (ListRefreshTokensByPrefix ?p)) v = (Inr ?rows, ?v)"
    by (subst exec_query_up [OF assms(1)]) (auto simp: ListRefreshTokensByPrefix_def)
  moreover have "run_state (load_token row) ?v =
      (Inr ((toRefreshToken row)\<lparr>rtSession := Some (loaded_session r u)\<rparr>), ?v\<lparr>nextID := nextID ?v + 2\<rparr>)"
    by (rule load_token_up) (use assms in simp_all)
  ultimately show ?thesis by (simp add: load_by_hash_def)
qed

text \<open>A read in its own transaction.\<close>

lemma store_run_read:
  assumes "db_up w" and "\<And>c v. db_up v \<Longrightarrow> db v = db w \<Longrightarrow> run_state (fn c) v = (Inr x, v\<lparr>nextID := nextID v + k\<rparr>)"
  shows "run_state (store_run c fn) w = (Inr x, w\<lparr>nextID := nextID w + k, gucs := (if cxInTx c then gucs w else ([], []))\<rparr>)"
proof (cases "cxInTx c")
  case True
  then show ?thesis using assms by (simp add: store_run_def)
next
  case False
  let ?w = "enter_tx c w"
  have up: "db_up ?w" and d: "db ?w = db w" using assms(1) by (simp_all add: db_up_def enter_tx_def)
  from with_tx_run [of c w fn x "?w\<lparr>nextID := nextID ?w + k\<rparr>"] assms(2) [OF up d] False assms(1)
  have "run_state (with_tx c fn) w = (Inr x, ?w\<lparr>nextID := nextID ?w + k, gucs := ([], [])\<rparr>)"
    by (simp add: db_up_def enter_tx_def)
  with False assms(1) show ?thesis
    by (simp add: store_run_def enter_tx_def db_up_def)
qed

subsection \<open>Issuing and rotating tokens\<close>

definition access_of :: "string \<Rightarrow> string" where "access_of b = ''at_'' @ b64_encode True b"
definition refresh_of :: "string \<Rightarrow> string" where "refresh_of b = ''rt_'' @ b64_encode True b"

definition claims_for :: "device_session \<Rightarrow> time \<Rightarrow> access_claims" where
  "claims_for ds t = \<lparr>acSessionID = dsID ds, acUserID = dsUserID ds, acDeviceID = dsDeviceID ds, acIssuedAt = t\<rparr>"

definition store_access :: "'r auth_service \<Rightarrow> device_session \<Rightarrow> string \<Rightarrow> 'r world \<Rightarrow> 'r" where
  "store_access s ds tok w = rdSet (svR s) (redis w) (now w) (redisKey (svExt s) tok) (JClaims (claims_for ds (now w)))
     (cfAccessTokenExpiry (svCfg s))"

lemma issueTokenPair_up:
  assumes "redis_up w" and "xRand (svExt s) (draws w) tokenByteLen = Some b1"
    and "xRand (svExt s) (draws w + 1) tokenByteLen = Some b2"
  shows "run_state (issueTokenPair s ds) w = (Inr (access_of b1, refresh_of b2, xSha256Hex (svExt s) (refresh_of b2)),
     w\<lparr>draws := draws w + 2, redis := store_access s ds (access_of b1) w\<rparr>)"
  using assms
  by (simp add: issueTokenPair_def at_Generate_def GenerateRefreshToken_def rand_read_def redis_call_up redis_up_def
      Let_def access_of_def refresh_of_def store_access_def claims_for_def svR_def)

definition rotated_tokens :: "time \<Rightarrow> string \<Rightarrow> refresh_row list \<Rightarrow> refresh_row list" where
  "rotated_tokens t h = upd_where (\<lambda>r. rrTokenHash r = h \<and> live_token r) (revoke_token t ''rotated'')"

definition new_token :: "int \<Rightarrow> int \<Rightarrow> string \<Rightarrow> string \<Rightarrow> time \<Rightarrow> time \<Rightarrow> refresh_row" where
  "new_token i sid h fam ex t = \<lparr>rrID = i, rrSessionID = sid, rrTokenHash = h, rrTokenPrefix = take 8 h,
     rrTokenFamily = fam, rrExpiresAt = ex, rrRevokedAt = None, rrRevokedReason = None, rrCreatedAt = t\<rparr>"

lemma rotated_tokens_hashes [simp]: "rrTokenHash ` set (rotated_tokens t h rs) = rrTokenHash ` set rs"
proof -
  have "map rrTokenHash (rotated_tokens t h rs) = map rrTokenHash rs"
    unfolding rotated_tokens_def by (rule map_upd_where) (simp add: revoke_token_def)
  then show ?thesis by (metis list.set_map)
qed

lemma refresh_Create_up:
  assumes "services E" and "db_up v" and "xParseUUID E fam = Some f"
    and "hash = xSha256Hex E raw" and "hash \<notin> rrTokenHash ` set (refreshTokens (db v))"
    and "sid \<in> srID ` set (sessions (db v))"
  shows "run_state (refresh_Create E c sid hash fam ex) v =
    (Inr (toRefreshToken (new_token (nextID v) sid hash f ex (now v))),
     after_query c ((db v)\<lparr>refreshTokens := refreshTokens (db v) @ [new_token (nextID v) sid hash f ex (now v)]\<rparr>) v)"
proof -
  have len: "length hash = 64" using assms(4) services.sha_length [OF assms(1)] by simp
  have q: "CreateRefreshToken sid hash (take 8 hash) (Some f) ex (dbRole v) (now v) (nextID v) (db v) =
      Inr (new_token (nextID v) sid hash f ex (now v),
        (db v)\<lparr>refreshTokens := refreshTokens (db v) @ [new_token (nextID v) sid hash f ex (now v)]\<rparr>)"
    using assms(5,6) len
    by (auto simp: CreateRefreshToken_def too_long_def list_ex_iff new_token_def Let_def)
  from run_query_up [of v "CreateRefreshToken sid hash (take 8 hash) (Some f) ex", OF assms(2) q, of c] assms(3) len show ?thesis
    by (simp add: refresh_Create_def Let_def)
qed

lemma rotate_up:
  assumes "services (svExt s)" and "db_up v" and "xParseUUID (svExt s) fam = Some f"
    and "h2 = xSha256Hex (svExt s) raw" and "h2 \<notin> rrTokenHash ` set (refreshTokens (db v))"
    and "dsID ds \<in> srID ` set (sessions (db v))"
  shows "\<exists>v' i. run_state (rotate_token s h ds h2 fam c) v = (Inr (), v') \<and> db_up v' \<and> now v' = now v \<and>
     db v' = (db v)\<lparr>refreshTokens := rotated_tokens (now v) h (refreshTokens (db v)) @
       [new_token i (dsID ds) h2 f (now v + cfRefreshTokenExpiry (svCfg s)) (now v)]\<rparr> \<and>
     redis v' = redis v \<and> redisFaults v' = redisFaults v \<and> draws v' = draws v"
proof -
  let ?d1 = "(db v)\<lparr>refreshTokens := rotated_tokens (now v) h (refreshTokens (db v))\<rparr>"
  let ?v1 = "after_query c ?d1 v"
  have 1: "run_state (refresh_RevokeByTokenHash c h ''rotated'') v = (Inr (), ?v1)"
    unfolding refresh_RevokeByTokenHash_def
    by (rule run_query_up [OF assms(2)]) (simp add: RevokeRefreshTokenByHash_def rotated_tokens_def)
  have "run_state (refresh_Create (svExt s) c (dsID ds) h2 fam (now v + cfRefreshTokenExpiry (svCfg s))) ?v1 =
    (Inr (toRefreshToken (new_token (nextID ?v1) (dsID ds) h2 f (now v + cfRefreshTokenExpiry (svCfg s)) (now ?v1))),
     after_query c ((db ?v1)\<lparr>refreshTokens := refreshTokens (db ?v1) @
       [new_token (nextID ?v1) (dsID ds) h2 f (now v + cfRefreshTokenExpiry (svCfg s)) (now ?v1)]\<rparr>) ?v1)"
    by (rule refresh_Create_up [OF assms(1) _ assms(3,4)]) (use assms in simp_all)
  with 1 show ?thesis
    using assms(2) by (auto simp: rotate_token_def)
qed

subsection \<open>Refresh: rotation and reuse\<close>

definition refreshable :: "'r auth_service \<Rightarrow> 'r world \<Rightarrow> refresh_row \<Rightarrow> session_row \<Rightarrow> user \<Rightarrow> bool" where
  "refreshable s w row r u = (present_token (db w) row r u \<and> live_token row \<and> now w \<le> rrExpiresAt row \<and>
     \<not> stamped r \<and> now w - srLastActivity r \<le> cfMaxInactivityTimeout (svCfg s))"

lemma FindByTokenHash_up:
  assumes "db_up w" and "wf_db n (db w)" and "present_token (db w) row r u" and "8 \<le> length (rrTokenHash row)"
  shows "run_state (refresh_FindByTokenHash c (rrTokenHash row)) w =
    (Inr ((toRefreshToken row)\<lparr>rtSession := Some (loaded_session r u)\<rparr>),
     w\<lparr>nextID := nextID w + 3, gucs := (if cxInTx c then gucs w else ([], []))\<rparr>)"
proof -
  have "run_state (store_run c (\<lambda>_. load_by_hash (rrTokenHash row))) w =
    (Inr ((toRefreshToken row)\<lparr>rtSession := Some (loaded_session r u)\<rparr>),
     w\<lparr>nextID := nextID w + 3, gucs := (if cxInTx c then gucs w else ([], []))\<rparr>)"
    by (rule store_run_read [OF assms(1)]) (rule load_by_hash_up, use assms in simp_all)
  with assms(4) show ?thesis by (simp add: FindByTokenHash_load)
qed

lemma settings_read_run:
  "\<exists>x w'. run_state (settings_GetByUserID c i) w = (x, w') \<and> core_view w' = core_view w"
proof -
  have "frames core_view (settings_GetByUserID c i)"
    unfolding settings_GetByUserID_def
    by (rule frames_mapped_core) (auto simp: GetUserSettings_def first_row_Inr)
  then show ?thesis by (metis framesD prod.collapse)
qed

lemma rt_session_loaded [simp]: "rt_session (t\<lparr>rtSession := Some ds\<rparr>) = ds"
  by (simp add: rt_session_def)

lemma toRefreshToken_checks [simp]:
  "rt_IsRevoked ((toRefreshToken row)\<lparr>rtSession := x\<rparr>) = (\<exists>t. rrRevokedAt row = Some t \<and> t \<noteq> 0)"
  "rt_IsExpired t ((toRefreshToken row)\<lparr>rtSession := x\<rparr>) = (rrExpiresAt row < t)"
  "rtTokenFamily ((toRefreshToken row)\<lparr>rtSession := x\<rparr>) = rrTokenFamily row"
  by (auto simp: rt_IsRevoked_def rt_IsExpired_def toRefreshToken_def split: option.split)

lemma refresh_up:
  assumes ext: "services (svExt s)" and wired: "wired_service s n" and up: "db_up w" "redis_up w"
    and top: "\<not> cxInTx c" and wf: "wf_db m (db w)"
    and row: "refreshable s w row r u" "rrTokenHash row = hashToken (svExt s) tok"
    and fam: "xParseUUID (svExt s) (rrTokenFamily row) = Some (rrTokenFamily row)"
    and rand: "xRand (svExt s) (draws w) tokenByteLen = Some b1" "xRand (svExt s) (draws w + 1) tokenByteLen = Some b2"
    and new: "xSha256Hex (svExt s) (refresh_of b2) \<notin> rrTokenHash ` set (refreshTokens (db w))"
  shows "\<exists>tp w' i. run_state (RefreshTokens s c tok) w = (Inr tp, w') \<and> tpUser tp = u \<and>
    tpAccessToken tp = access_of b1 \<and> tpRefreshToken tp = refresh_of b2 \<and>
    core (db w') = (users (db w), userSettings (db w), sessions (db w),
      rotated_tokens (now w) (rrTokenHash row) (refreshTokens (db w)) @
        [new_token i (srID r) (xSha256Hex (svExt s) (refresh_of b2)) (rrTokenFamily row)
           (now w + cfRefreshTokenExpiry (svCfg s)) (now w)]) \<and>
    now w' = now w \<and> redis w' = store_access s (loaded_session r u) (access_of b1) w"
proof -
  let ?h = "xSha256Hex (svExt s) (refresh_of b2)" and ?ds = "loaded_session r u"
  let ?w1 = "w\<lparr>nextID := nextID w + 3, gucs := ([], [])\<rparr>"
  let ?w2 = "?w1\<lparr>draws := draws w + 2, redis := store_access s ?ds (access_of b1) ?w1\<rparr>"
  have pt: "present_token (db w) row r u" using row(1) by (simp add: refreshable_def)
  have len: "8 \<le> length (rrTokenHash row)"
    using row(2) services.sha_length [OF ext] by (simp add: hashToken_def)
  have f: "run_state (refresh_FindByTokenHash c (hashToken (svExt s) tok)) w =
      (Inr ((toRefreshToken row)\<lparr>rtSession := Some ?ds\<rparr>), ?w1)"
    using FindByTokenHash_up [OF up(1) wf pt len, of c] top row(2) by simp
  have iss: "run_state (issueTokenPair s ?ds) ?w1 = (Inr (access_of b1, refresh_of b2, ?h), ?w2)"
    using issueTokenPair_up [of ?w1 s b1 b2 ?ds] up rand by (simp add: redis_up_def)
  let ?v = "enter_tx c ?w2"
  have v: "db_up ?v" "db ?v = db w" "now ?v = now w" "redis ?v = redis ?w2"
    using up(1) by (simp_all add: db_up_def enter_tx_def)
  have sid: "dsID ?ds \<in> srID ` set (sessions (db ?v))"
    using pt v by (auto simp: present_token_def present_def)
  have new': "?h \<notin> rrTokenHash ` set (refreshTokens (db ?v))" using new v by simp
  from rotate_up [OF ext v(1) fam refl new' sid, of "hashToken (svExt s) tok" "c\<lparr>cxInTx := True\<rparr>"] obtain v' i where
    rot: "run_state (rotate_token s (hashToken (svExt s) tok) ?ds ?h (rrTokenFamily row) (c\<lparr>cxInTx := True\<rparr>)) ?v = (Inr (), v')"
    and v': "db_up v'" "now v' = now w" "redis v' = redis ?w2" "db v' = (db w)\<lparr>refreshTokens :=
        rotated_tokens (now w) (rrTokenHash row) (refreshTokens (db w)) @
          [new_token i (srID r) ?h (rrTokenFamily row) (now w + cfRefreshTokenExpiry (svCfg s)) (now w)]\<rparr>"
    using v row(2) by auto
  let ?w3 = "v'\<lparr>gucs := ([], [])\<rparr>"
  have tx: "run_state (with_tx c (rotate_token s (hashToken (svExt s) tok) ?ds ?h (rrTokenFamily row))) ?w2 = (Inr (), ?w3)"
    by (rule with_tx_run [of c ?w2 "rotate_token s (hashToken (svExt s) tok) ?ds ?h (rrTokenFamily row)", OF top _ rot])
      (use up v' in \<open>simp_all add: db_up_def\<close>)
  obtain x w4 where st: "run_state (settings_GetByUserID c (dsUserID ?ds)) ?w3 = (x, w4)" "core_view w4 = core_view ?w3"
    using settings_read_run by blast
  obtain w5 where ra: "run_state (recordAttempt s c (uEmail (ds_user ?ds)) (dsUserID ?ds) ''refresh'' ''success'') w4 = ((), w5)"
      "core_view w5 = core_view w4"
    using recordAttempt_run [OF wired] by blast
  have live: "\<not> rt_IsRevoked ((toRefreshToken row)\<lparr>rtSession := Some ?ds\<rparr>)"
    using row(1) by (simp add: refreshable_def live_token_def)
  have chk: "\<not> rrExpiresAt row < now w" "ds_IsValid (now w) ?ds (cfMaxInactivityTimeout (svCfg s))"
    using row(1) by (auto simp: refreshable_def live_token_def ds_IsValid_def)
  have "run_state (RefreshTokens s c tok) w = (Inr \<lparr>tpAccessToken = access_of b1, tpRefreshToken = refresh_of b2,
      tpExpiresIn = go_div (cfAccessTokenExpiry (svCfg s)) second, tpUser = u, tpSettings = drop_error x\<rparr>, w5)"
    using f iss tx st(1) ra(1) live chk by (simp add: RefreshTokens_def Let_def del: toRefreshToken_checks(1))
  moreover have "core_view w5 = core_view ?w3" using ra(2) st(2) by simp
  then have "core (db w5) = core (db v')" "now w5 = now w" "redis w5 = redis ?w2"
    using v' by (auto simp: core_view_def)
  ultimately show ?thesis
    using v'(4) by (auto simp: core_def store_access_def)
qed

lemma run_query_total:
  assumes "db_up w" and "\<not> cxInTx c"
  shows "\<exists>x w'. run_state (run_query c q) w = (x, w') \<and> db_up w' \<and> now w' = now w \<and>
    (case q (dbRole w) (now w) (nextID w) (db w) of Inl e \<Rightarrow> x = Inl e \<and> db w' = db w | Inr (y, d) \<Rightarrow> x = Inr y \<and> db w' = d)"
proof (cases "q (dbRole w) (now w) (nextID w) (db w)")
  case (Inl e)
  from run_query_up_err [of w q e c, OF assms(1) Inl assms(2)] Inl show ?thesis
    using assms(1) by (simp add: db_up_def)
next
  case (Inr p)
  then obtain y d where p: "q (dbRole w) (now w) (nextID w) (db w) = Inr (y, d)" by (cases p) auto
  from run_query_up [of w q y d c, OF assms(1) p] p show ?thesis
    using assms(1) by (simp add: db_up_def)
qed

lemma upd_where_all:
  "(\<And>x. x \<in> set xs \<Longrightarrow> P x \<Longrightarrow> R (f x)) \<Longrightarrow> (\<And>x. x \<in> set xs \<Longrightarrow> \<not> P x \<Longrightarrow> R x) \<Longrightarrow> \<forall>y\<in>set (upd_where P f xs). R y"
  by (auto simp: upd_where_def)

lemma revoke_query_all:
  assumes "RevokeDeviceSession i reason rl t n d = Inr (y, d')"
  shows "refreshTokens d' = refreshTokens d \<and> (\<forall>x\<in>set (sessions d'). srID x = i \<longrightarrow> \<not> active_row x)"
proof -
  from assms have d': "d' = d\<lparr>sessions := upd_where (\<lambda>r. srID r = i \<and> active_row r) (revoke_row t reason) (sessions d)\<rparr>"
    by (auto simp: RevokeDeviceSession_def split: list.splits)
  have "\<forall>x\<in>set (upd_where (\<lambda>r. srID r = i \<and> active_row r) (revoke_row t reason) (sessions d)). srID x = i \<longrightarrow> \<not> active_row x"
    by (rule upd_where_all) (auto simp: revoke_row_def active_row_def)
  then show ?thesis by (simp add: d')
qed

lemma revoke_query_none:
  "RevokeDeviceSession i reason rl t n d = Inl e \<Longrightarrow> \<forall>x\<in>set (sessions d). srID x = i \<longrightarrow> \<not> active_row x"
  by (auto simp: RevokeDeviceSession_def filter_empty_conv split: list.splits)

lemma revoke_session_up:
  assumes "db_up w" and "\<not> cxInTx c"
  shows "\<exists>x w'. run_state (sessions_Revoke c reason i) w = (x, w') \<and> db_up w' \<and>
    refreshTokens (db w') = refreshTokens (db w) \<and> (\<forall>x\<in>set (sessions (db w')). srID x = i \<longrightarrow> \<not> active_row x)"
proof -
  let ?q = "RevokeDeviceSession i reason"
  from run_query_total [OF assms, of ?q] obtain x w' where
    r: "run_state (run_query c ?q) w = (x, w')" "db_up w'" and
    d: "case ?q (dbRole w) (now w) (nextID w) (db w) of Inl e \<Rightarrow> x = Inl e \<and> db w' = db w | Inr (y, d) \<Rightarrow> x = Inr y \<and> db w' = d"
    by blast
  have w'': "snd (run_state (sessions_Revoke c reason i) w) = w'"
  proof -
    obtain y w2 where y: "run_state (run_mapped c (no_rows_as ErrSessionNotFound (''revoke session '' @ show_int i)) ?q) w = (y, w2)"
      by fastforce
    then have "w2 = w'" using r run_mapped_snd [of c _ ?q w] by (metis snd_conv)
    with y show ?thesis by (simp add: sessions_Revoke_def split: sum.split)
  qed
  have "refreshTokens (db w') = refreshTokens (db w) \<and> (\<forall>x\<in>set (sessions (db w')). srID x = i \<longrightarrow> \<not> active_row x)"
    using d revoke_query_all [of i reason "dbRole w" "now w" "nextID w" "db w"]
      revoke_query_none [of i reason "dbRole w" "now w" "nextID w" "db w"]
    by (cases "?q (dbRole w) (now w) (nextID w) (db w)") auto
  with r(2) w'' show ?thesis by (metis prod.collapse)
qed

lemma reuse_up:
  assumes ext: "services (svExt s)" and wired: "wired_service s n" and up: "db_up w" and top: "\<not> cxInTx c"
    and wf: "wf_db m (db w)" and pt: "present_token (db w) row r u" and h: "rrTokenHash row = hashToken (svExt s) tok"
    and dead: "rrRevokedAt row = Some t" "t \<noteq> 0"
    and fam: "xParseUUID (svExt s) (rrTokenFamily row) = Some (rrTokenFamily row)"
  shows "\<exists>w'. run_state (RefreshTokens s c tok) w = (Inl (AppE ErrTokenRevoked), w') \<and>
    (\<forall>x\<in>set (refreshTokens (db w')). rrTokenFamily x = rrTokenFamily row \<longrightarrow> \<not> live_token x) \<and>
    (\<forall>x\<in>set (sessions (db w')). srID x = srID r \<longrightarrow> \<not> active_row x)"
proof -
  let ?ds = "loaded_session r u"
  let ?rt = "(toRefreshToken row)\<lparr>rtSession := Some ?ds\<rparr>" and ?w1 = "w\<lparr>nextID := nextID w + 3, gucs := ([], [])\<rparr>"
  have len: "8 \<le> length (rrTokenHash row)"
    using h services.sha_length [OF ext] by (simp add: hashToken_def)
  have f: "run_state (refresh_FindByTokenHash c (hashToken (svExt s) tok)) w = (Inr ?rt, ?w1)"
    using FindByTokenHash_up [OF up wf pt len, of c] top h by simp
  have up1: "db_up ?w1" using up by (simp add: db_up_def)
  let ?q = "RevokeRefreshTokensByFamily (Some (rrTokenFamily row)) ''token_reuse''"
  from run_query_total [OF up1 top, of ?q] obtain x w2 where
    w2: "run_state (run_query c ?q) ?w1 = (x, w2)" "db_up w2"
    and d2: "refreshTokens (db w2) = upd_where (\<lambda>r. Some (rrTokenFamily r) = Some (rrTokenFamily row) \<and> live_token r)
      (revoke_token (now w) ''token_reuse'') (refreshTokens (db w))"
    by (auto simp: RevokeRefreshTokensByFamily_def)
  have fq: "run_state (refresh_RevokeByTokenFamily (svExt s) c (rrTokenFamily row) ''token_reuse'') ?w1 = (x, w2)"
    using w2(1) by (simp add: refresh_RevokeByTokenFamily_def fam)
  from revoke_session_up [OF w2(2) top, of "''token_reuse''" "srID r"] obtain y w3 where
    w3: "run_state (sessions_Revoke c ''token_reuse'' (srID r)) w2 = (y, w3)"
      "refreshTokens (db w3) = refreshTokens (db w2)" "\<forall>x\<in>set (sessions (db w3)). srID x = srID r \<longrightarrow> \<not> active_row x"
    by blast
  obtain w4 where w4: "run_state (recordAttempt s c (uEmail u) (srUserID r) ''refresh'' ''blocked'') w3 = ((), w4)"
      "core_view w4 = core_view w3"
    using recordAttempt_run [OF wired] by blast
  have "run_state (RefreshTokens s c tok) w = (Inl (AppE ErrTokenRevoked), w4)"
    using f fq w3(1) w4(1) dead by (simp add: RefreshTokens_def reuse_detected_def Let_def)
  moreover have "\<forall>x\<in>set (refreshTokens (db w2)). rrTokenFamily x = rrTokenFamily row \<longrightarrow> \<not> live_token x"
    unfolding d2 by (rule upd_where_all) (auto simp: revoke_token_def live_token_def)
  ultimately show ?thesis
    using w3(2,3) w4(2) by (auto simp: core_view_same)
qed

text \<open>C7. Rotation: with the services up, refreshing with a token that is live, unexpired and bound to a
  valid session succeeds, answers with the session's user, revokes the presented token as rotated,
  and adds exactly one live token of the same family for the same session, whose hash is that of the
  token returned; no user or session row changes, and Redis holds the new access token.\<close>

theorem refresh_rotates_token:
  assumes "services (svExt s)" and "wired_service s n" and "db_up w" and "redis_up w" and "\<not> cxInTx c"
    and "wf_db m (db w)" and "refreshable s w row r u" and "rrTokenHash row = hashToken (svExt s) tok"
    and "xParseUUID (svExt s) (rrTokenFamily row) = Some (rrTokenFamily row)"
    and "xRand (svExt s) (draws w) tokenByteLen = Some b1" and "xRand (svExt s) (draws w + 1) tokenByteLen = Some b2"
    and "xSha256Hex (svExt s) (refresh_of b2) \<notin> rrTokenHash ` set (refreshTokens (db w))"
  shows "\<exists>tp w' i. run_state (RefreshTokens s c tok) w = (Inr tp, w') \<and> tpUser tp = u \<and>
    users (db w') = users (db w) \<and> sessions (db w') = sessions (db w) \<and>
    refreshTokens (db w') = rotated_tokens (now w) (rrTokenHash row) (refreshTokens (db w)) @
      [new_token i (srID r) (hashToken (svExt s) (tpRefreshToken tp)) (rrTokenFamily row)
         (now w + cfRefreshTokenExpiry (svCfg s)) (now w)] \<and>
    visible (rdKeys (svR s) (redis w')) (now w) (redisKey (svExt s) (tpAccessToken tp)) =
      Some (RData (JClaims (claims_for (loaded_session r u) (now w))))"
proof -
  from refresh_up [OF assms] obtain tp w' i where r: "run_state (RefreshTokens s c tok) w = (Inr tp, w')" "tpUser tp = u"
      "tpAccessToken tp = access_of b1" "tpRefreshToken tp = refresh_of b2"
      "core (db w') = (users (db w), userSettings (db w), sessions (db w),
        rotated_tokens (now w) (rrTokenHash row) (refreshTokens (db w)) @
          [new_token i (srID r) (xSha256Hex (svExt s) (refresh_of b2)) (rrTokenFamily row)
             (now w + cfRefreshTokenExpiry (svCfg s)) (now w)])"
      "redis w' = store_access s (loaded_session r u) (access_of b1) w"
    by blast
  have "redis_service (svR s)" using services.axioms(1) [OF assms(1)] by (simp add: svR_def)
  then have "visible (rdKeys (svR s) (redis w')) (now w) (redisKey (svExt s) (tpAccessToken tp)) =
      Some (RData (JClaims (claims_for (loaded_session r u) (now w))))"
    by (simp add: r store_access_def redis_service.set_law visible_def not_expired_def deadline_def)
  with r show ?thesis by (auto simp: core_def hashToken_def)
qed

lemma wf_db_core: "core d' = core d \<Longrightarrow> wf_db n d' = wf_db n d"
  by (simp add: wf_db_def core_def)


subsection \<open>Login\<close>

lemma frames_redis_user: "frames user_view (redis_call f)"
  by (intro frames_redis_call) (simp_all add: user_view_def)

lemma cache_user [simp]:
  "frames user_view (cache_set R p k v opts)" "frames user_view (cache_delete R p k)"
  "frames user_view (IncrementWithTTL R p k ttl)" "frames user_view (cache_counter R p k)"
  by (auto simp: cache_set_def cache_delete_def IncrementWithTTL_def cache_counter_def Let_def
      intro!: frames_intros frames_redis_user split: option.split redis_value.split)

lemma repo_user [simp]:
  "frames user_view (users_FindByEmail c em)" "frames user_view (settings_GetByUserID c i)"
  "frames user_view (sessions_FindActiveDevicesByUser c i d)" "frames user_view (sessions_Revoke c reason i)"
  "frames user_view (refresh_RevokeBySessionID c i reason)" "frames user_view (sessions_Create c ds)"
  "frames user_view (sessions_RevokeActiveByDeviceID c dv reason)" "frames user_view (refresh_Create E c i h fam ex)"
  by (auto simp: users_FindByEmail_def settings_GetByUserID_def sessions_FindActiveDevicesByUser_def sessions_Revoke_def
      refresh_RevokeBySessionID_def sessions_Create_def sessions_RevokeActiveByDeviceID_def refresh_Create_def
      GetUserByEmail_def GetUserSettings_def ListActiveDevicesByUser_def RevokeDeviceSession_def
      RevokeRefreshTokensBySession_def CreateDeviceSession_def RevokeActiveDeviceSessionsByDeviceID_def
      CreateRefreshToken_def Let_def first_row_Inr
      intro!: frames_intros frames_query_user frames_mapped_user split: list.splits if_splits option.splits)

lemma limiter_user [simp]:
  "frames user_view (lockout_blocked s em)" "frames user_view (lockout_reset s em)" "frames user_view (lockout_recordFailure s em)"
  by (auto simp: lockout_blocked_def lockout_reset_def lockout_recordFailure_def intro!: frames_intros)

lemma evict_user [simp]: "frames user_view (evictOldestIfOverLimit s c i)"
proof -
  have r: "frames user_view (revokeSessionAndTokens s c ds reason)" for ds reason
    by (auto simp: revokeSessionAndTokens_def intro!: frames_intros)
  have "frames user_view (evict_loop s c ss)" for ss
    by (induction ss) (auto intro!: frames_intros r)
  then show ?thesis by (auto simp: evictOldestIfOverLimit_def intro!: frames_intros)
qed

lemma random_user [simp]: "frames user_view (rand_read E k)" "frames user_view (NewUUIDNoDash E)"
  by (simp_all add: frames_def rand_read_def NewUUIDNoDash_def user_view_def)

lemma session_tx_user: "frames user_view (session_tx s u ds stt c)"
  by (auto simp: session_tx_def generateTokenPair_def issueTokenPair_def at_Generate_def GenerateRefreshToken_def Let_def
      intro!: frames_intros frames_redis_user)

lemma attempt_user: "wired_service s n \<Longrightarrow> frames user_view (recordAttempt s c em i ch oc)"
  using recordAttempt_core by (fastforce simp: frames_def user_view_def core_view_same)

text \<open>What a successful issue of tokens has done, in the database and in Redis.\<close>

lemma issueTokenPair_Inr:
  assumes "run_state (issueTokenPair s ds) w = (Inr (access, raw, h), w')"
  shows "db w' = db w \<and> now w' = now w \<and> redis w' = store_access s ds access w"
  using assms
  by (auto simp: issueTokenPair_def at_Generate_def GenerateRefreshToken_def rand_read_def redis_call_def Let_def
      store_access_def claims_for_def svR_def split: sum.splits prod.splits list.splits bool.splits option.splits)

interpretation rv: tx_view "\<lambda>_. ()" redis
  by unfold_locales simp_all

lemma redis_query [simp]: "frames redis (run_query c q)" "frames redis (run_mapped c f q)"
  using rv.query_view rv.mapped_view by (simp_all add: frames_def)


lemma create_queries_Inr:
  "CreateRefreshToken i h q fam ex rl t n d = Inr (x, d') \<Longrightarrow> sessions d' = sessions d"
  "CreateDeviceSession p rl t n d = Inr (r, d') \<Longrightarrow> r = session_of p t n \<and> sessions d' = sessions d @ [r]"
  by (auto simp: CreateRefreshToken_def CreateDeviceSession_def Let_def split: option.splits if_splits)

lemma generateTokenPair_Inr:
  assumes "run_state (generateTokenPair s c u ds stt) w = (Inr tp, w')"
  shows "tpUser tp = u \<and> redis w' = store_access s ds (tpAccessToken tp) w \<and> sessions (db w') = sessions (db w)"
proof -
  from assms obtain access raw h w1 fam w2 rt where
    i: "run_state (issueTokenPair s ds) w = (Inr (access, raw, h), w1)"
    and f: "run_state (NewUUIDNoDash (svExt s)) w1 = (fam, w2)"
    and rc: "run_state (refresh_Create (svExt s) c (dsID ds) h fam (now w2 + cfRefreshTokenExpiry (svCfg s))) w2 = (Inr rt, w')"
    and tp: "tpUser tp = u" "tpAccessToken tp = access"
    by (auto simp: generateTokenPair_def split: sum.splits prod.splits)
  from rc obtain row q where q: "run_state (run_query c (CreateRefreshToken (dsID ds) h q (xParseUUID (svExt s) fam)
      (now w2 + cfRefreshTokenExpiry (svCfg s)))) w2 = (Inr row, w')"
    by (auto simp: refresh_Create_def Let_def split: sum.splits prod.splits)
  from run_query_Inr [OF q] have "sessions (db w') = sessions (db w2)"
    by (auto dest: create_queries_Inr)
  moreover have "redis w' = redis w2" using framesD [OF redis_query(1) q] .
  moreover from f have "db w2 = db w1" "redis w2 = redis w1" by (auto simp: NewUUIDNoDash_def)
  ultimately show ?thesis using issueTokenPair_Inr [OF i] tp by simp
qed

lemma sessions_Create_Inr:
  assumes "run_state (sessions_Create c ds) w = (Inr ds2, w')"
  shows "\<exists>row. sessions (db w') = sessions (db w) @ [row] \<and> active_row row \<and> ds2 = toDeviceSession row \<and>
    srUserID row = dsUserID ds \<and> srDeviceID row = dsDeviceID ds \<and> srLastActivity row = now w \<and> redis w' = redis w"
proof -
  from assms obtain row where q: "run_state (run_query c (CreateDeviceSession (session_params ds))) w = (Inr row, w')"
    and d: "ds2 = toDeviceSession row"
    by (auto simp: sessions_Create_def split: sum.splits prod.splits)
  from run_query_Inr [OF q] have row: "row = session_of (session_params ds) (now w) (nextID w)"
      and ss: "sessions (db w') = sessions (db w) @ [row]"
    by (auto dest: create_queries_Inr)
  have "active_row row \<and> srUserID row = dsUserID ds \<and> srDeviceID row = dsDeviceID ds \<and> srLastActivity row = now w"
    by (simp add: row session_of_def session_params_def active_row_def)
  with ss d framesD [OF redis_query(1) q] show ?thesis by blast
qed

definition session_made :: "database \<Rightarrow> device_session \<Rightarrow> device_session \<Rightarrow> time \<Rightarrow> bool" where
  "session_made d ds ds2 t = (\<exists>row\<in>set (sessions d). active_row row \<and> srID row = dsID ds2 \<and> srUserID row = dsUserID ds \<and>
     srDeviceID row = dsDeviceID ds \<and> srLastActivity row = t \<and> dsUserID ds2 = dsUserID ds \<and> dsDeviceID ds2 = dsDeviceID ds)"

lemma session_tx_Inr:
  assumes "run_state (session_tx s u ds stt c) w = (Inr (tp, ds2), w')"
  shows "session_made (db w') ds ds2 (now w) \<and> tpUser tp = u \<and> redis w' = store_access s ds2 (tpAccessToken tp) w"
proof -
  let ?pre = "if dsDeviceID ds \<noteq> [] then sessions_RevokeActiveByDeviceID c (dsDeviceID ds) ''relogin'' else returnE ()"
  from assms obtain x w1 ds1 w2 where p: "run_state ?pre w = (Inr x, w1)"
    and c: "run_state (sessions_Create c ds) w1 = (Inr ds1, w2)"
    and g: "run_state (generateTokenPair s c u (ds1\<lparr>dsUser := Some u\<rparr>) stt) w2 = (Inr tp, w')"
    and ds2: "ds2 = ds1\<lparr>dsUser := Some u\<rparr>"
    unfolding session_tx_def by (auto simp: Let_def split: sum.splits prod.splits)
  have "frames user_view ?pre" by simp
  moreover have "frames redis ?pre" by (simp add: sessions_RevokeActiveByDeviceID_def)
  ultimately have w1: "now w1 = now w" "redis w1 = redis w"
    using p by (auto dest: framesD simp: user_view_def)
  have "now w2 = now w1" using framesD [OF repo_user(6) c] by (simp add: user_view_def)
  with sessions_Create_Inr [OF c] generateTokenPair_Inr [OF g] w1 ds2 show ?thesis
    by (auto simp: session_made_def toDeviceSession_def store_access_def claims_for_def)
qed

lemma count_colon: "services E \<Longrightarrow> count_list (redisKey E tok) (CHR '':'') = 1"
proof -
  assume "services E"
  then have "CHR '':'' \<notin> set (xSha256Hex E tok)" using services.sha_hex by blast
  then show ?thesis by (simp add: redisKey_def count_notin)
qed

lemma access_key_apart: "services E \<Longrightarrow> redisKey E tok \<noteq> buildKey p k"
proof
  assume e: "services E" and k: "redisKey E tok = buildKey p k"
  have "2 \<le> count_list (buildKey p k) (CHR '':'')" by (simp add: buildKey_def)
  with count_colon [OF e, of tok] show False by (simp add: k)
qed

definition holds_claims :: "'r auth_service \<Rightarrow> 'r world \<Rightarrow> string \<Rightarrow> access_claims \<Rightarrow> time \<Rightarrow> bool" where
  "holds_claims s w tok cl t = (rdKeys (svR s) (redis w) (redisKey (svExt s) tok) =
     Some (RData (JClaims cl), deadline t (cfAccessTokenExpiry (svCfg s))))"

lemma createSession_Inr:
  assumes ext: "services (svExt s)" and top: "\<not> cxInTx c"
    and run: "run_state (createSessionAndTokens s c u dev stt) w = (Inr tp, w')"
  shows "\<exists>ds2. session_made (db w') (toSession dev (uID u)) ds2 (now w) \<and> tpUser tp = u \<and>
    holds_claims s w' (tpAccessToken tp) (claims_for ds2 (now w)) (now w)"
proof -
  let ?ds = "toSession dev (uID u)"
  have R: "redis_service (svR s)" using services.axioms(1) [OF ext] by (simp add: svR_def)
  obtain w1 where ev: "run_state (evictOldestIfOverLimit s c (uID u)) w = ((), w1)"
    by (cases "run_state (evictOldestIfOverLimit s c (uID u)) w") auto
  have n1: "now w1 = now w" using framesD [OF evict_user ev] by (simp add: user_view_def)
  from run ev obtain ds2 w2 where
    tx: "run_state (with_tx c (session_tx s u ?ds stt)) w1 = (Inr (tp, ds2), w2)"
    and cs: "w' = snd (run_state (cache_set (svR s) (svP s) (SessionDataKey (dsID ds2)) (JSession ds2) CacheLong) w2)"
    by (auto simp: createSessionAndTokens_def split: sum.splits prod.splits)
  from with_tx_success [OF top tx] obtain v where
    v: "run_state (session_tx s u ?ds stt (c\<lparr>cxInTx := True\<rparr>)) (enter_tx c w1) = (Inr (tp, ds2), v)"
    and w2: "db w2 = db v" "redis w2 = redis v" by auto
  have made: "session_made (db w2) ?ds ds2 (now w)" "tpUser tp = u"
    and red: "redis w2 = store_access s ds2 (tpAccessToken tp) (enter_tx c w1)"
    using session_tx_Inr [OF v] w2 n1 by (simp_all add: enter_tx_def)
  have key: "rdKeys (svR s) (redis w2) (redisKey (svExt s) (tpAccessToken tp)) =
      Some (RData (JClaims (claims_for ds2 (now w))), deadline (now w) (cfAccessTokenExpiry (svCfg s)))"
    using n1 by (simp add: red store_access_def redis_service.set_law [OF R] enter_tx_def)
  have "db w' = db w2" by (simp add: cs cache_set_def redis_call_frame(1) Let_def)
  moreover have "redis w' = redis w2 \<or> redis w' = rdSet (svR s) (redis w2) (now w2) (buildKey (svP s) (SessionDataKey (dsID ds2)))
      (JSession ds2) (24 * hour)"
    by (auto simp: cs cache_set_def Let_def redis_call_def CacheLong_def split: list.splits bool.splits)
  ultimately show ?thesis
    using made key access_key_apart [OF ext, of "tpAccessToken tp"]
    by (intro exI [of _ ds2]) (auto simp: holds_claims_def redis_service.set_law [OF R])
qed

end
