(* ===== verification/Login_Guarantees.thy ===== *)
theory Login_Guarantees
  imports Auth_Guarantees
begin

section \<open>What login and logout guarantee\<close>

text \<open>
  Properties of \<open>Login\<close>, \<open>Logout\<close> and the login limiter: what a successful login has checked, that
  the session it opens works, that a login refused for its password tells nothing about the address,
  and that enough failures close the door for the rest of the window.
\<close>

subsection \<open>A successful login\<close>

lemma FindByEmail_Inr:
  assumes "run_state (users_FindByEmail c em) w = (Inr u, w')"
  shows "u \<in> set (users (db w)) \<and> citext_eq (uEmail u) em \<and> live_user u \<and> users (db w') = users (db w) \<and> now w' = now w"
proof -
  from assms have "run_state (run_query c (GetUserByEmail em)) w = (Inr u, w')"
    by (simp add: users_FindByEmail_def run_mapped_Inr)
  from run_query_Inr [OF this] have "u \<in> set (users (db w)) \<and> citext_eq (uEmail u) em \<and> live_user u"
    by (auto simp: GetUserByEmail_def first_row_Inr dest!: filter_Cons_in)
  with framesD [OF repo_user(1) assms] show ?thesis by (simp add: user_view_def)
qed

text \<open>\<open>last_login_at\<close> does not touch what authentication reads.\<close>

definition login_mark :: "time \<Rightarrow> int \<Rightarrow> user list \<Rightarrow> user list" where
  "login_mark t i us = upd_where (\<lambda>u. uID u = i) (\<lambda>u. u\<lparr>uLastLoginAt := Some t, uUpdatedAt := t\<rparr>) us"

lemma UpdateLastLogin_run:
  assumes "run_state (users_UpdateLastLogin c i) w = (x, w')" and top: "\<not> cxInTx c"
  shows "sessions (db w') = sessions (db w) \<and> redis w' = redis w \<and> now w' = now w \<and>
    (users (db w') = users (db w) \<or> users (db w') = login_mark (now w) i (users (db w)))"
proof -
  have q: "run_state (run_query c (UpdateUserLastLogin i)) w = (x, w')"
    using assms by (simp add: users_UpdateLastLogin_def)
  have r: "redis w' = redis w" using framesD [OF redis_query(1) q] .
  have "frames now (run_query c (UpdateUserLastLogin i))" unfolding run_query_def by (rule now_store_run) simp
  then have n: "now w' = now w" using q by (rule framesD)
  show ?thesis
  proof (cases x)
    case (Inl e)
    with q top have "db w' = db w"
      by (auto simp: run_query_def store_run_def dest: with_tx_atomic)
    with r n show ?thesis by simp
  next
    case (Inr y)
    from run_query_Inr [OF q [unfolded Inr]] show ?thesis
      using r n by (auto simp: UpdateUserLastLogin_def login_mark_def)
  qed
qed

lemma login_mark_keeps:
  "u \<in> set us \<Longrightarrow> live_user u \<Longrightarrow> uStatus u = st \<Longrightarrow>
     \<exists>u'\<in>set (login_mark t i us). uID u' = uID u \<and> live_user u' \<and> uStatus u' = st"
proof (cases "uID u = i")
  case True
  assume "u \<in> set us" "live_user u" "uStatus u = st"
  with True show ?thesis
    by (intro bexI [of _ "u\<lparr>uLastLoginAt := Some t, uUpdatedAt := t\<rparr>"]) (auto simp: login_mark_def upd_where_def live_user_def)
next
  case False
  assume "u \<in> set us" "live_user u" "uStatus u = st"
  with False show ?thesis by (intro bexI [of _ u]) (auto simp: login_mark_def upd_where_def)
qed

lemma createSession_user: "frames user_view (createSessionAndTokens s c u dev stt)"
proof -
  have "frames user_view (with_tx c (session_tx s u (toSession dev (uID u)) stt))"
    using frames_tx_user [of "session_tx s u (toSession dev (uID u)) stt"] session_tx_user by blast
  then show ?thesis by (auto simp: createSessionAndTokens_def intro!: frames_intros)
qed

lemma Login_Inr:
  assumes ext: "services (svExt s)" and wired: "wired_service s n" and top: "\<not> cxInTx c"
    and run: "run_state (Login s c inp) w = (Inr tp, w')"
  shows "\<exists>u ds u'. u \<in> set (users (db w)) \<and> citext_eq (uEmail u) (normalizeEmail (liEmail inp)) \<and> live_user u \<and>
    uStatus u = StActive \<and> verifyPassword (svExt s) (uPasswordHash u) (liPassword inp) \<and> tpUser tp = u \<and>
    fst (run_state (lockout_blocked s (normalizeEmail (liEmail inp))) w) = False \<and>
    session_made (db w') (toSession (liDevice inp) (uID u)) ds (now w) \<and> now w' = now w \<and>
    holds_claims s w' (tpAccessToken tp) (claims_for ds (now w)) (now w) \<and>
    u' \<in> set (users (db w')) \<and> uID u' = uID u \<and> live_user u' \<and> uStatus u' = StActive"
proof -
  let ?em = "normalizeEmail (liEmail inp)"
  obtain b w1 where b: "run_state (lockout_blocked s ?em) w = (b, w1)" by fastforce
  with run have nb: "\<not> b" by (auto simp: Login_def Let_def split: prod.splits)
  obtain x w2 where f: "run_state (users_FindByEmail c ?em) w1 = (x, w2)" by fastforce
  with run b nb obtain u where x: "x = Inr u"
    by (cases x) (auto simp: Login_def Let_def split: prod.splits)
  have "users (db w1) = users (db w)" "now w1 = now w"
    using framesD [OF limiter_user(1) b] by (simp_all add: user_view_def)
  with FindByEmail_Inr [OF f [unfolded x]] have u: "u \<in> set (users (db w))" "citext_eq (uEmail u) ?em" "live_user u"
      "users (db w2) = users (db w)" "now w2 = now w" by auto
  from run b nb f x have ok: "verifyPassword (svExt s) (uPasswordHash u) (liPassword inp)" "user_IsActive u"
    by (auto simp: Login_def Let_def split: prod.splits if_splits)
  obtain w3 where l: "run_state (lockout_reset s ?em) w2 = ((), w3)" by (cases "run_state (lockout_reset s ?em) w2") auto
  obtain y w4 where st: "run_state (settings_GetByUserID c (uID u)) w3 = (y, w4)" by fastforce
  have w4: "users (db w4) = users (db w)" "now w4 = now w"
    using framesD [OF limiter_user(2) l] framesD [OF repo_user(2) st] u by (simp_all add: user_view_def)
  obtain z w5 where cs: "run_state (createSessionAndTokens s c u (liDevice inp) (drop_error y)) w4 = (z, w5)" by fastforce
  with run b nb f x ok l st have z: "z = Inr tp"
    by (cases z) (auto simp: Login_def Let_def split: prod.splits)
  obtain v w6 where ul: "run_state (users_UpdateLastLogin c (uID u)) w5 = (v, w6)" by fastforce
  from run b nb f x ok l st cs z ul have w': "run_state (recordAttempt s c ?em (uID u) ''login'' ''success'') w6 = ((), w')"
    by (auto simp: Login_def Let_def split: prod.splits)
  have core: "core_view w' = core_view w6" using framesD [OF recordAttempt_core [OF wired] w'] .
  have u5: "users (db w5) = users (db w)" "now w5 = now w"
    using framesD [OF createSession_user cs] w4 by (simp_all add: user_view_def)
  from createSession_Inr [OF ext top cs [unfolded z]] w4 obtain ds where
    ds: "session_made (db w5) (toSession (liDevice inp) (uID u)) ds (now w)" "tpUser tp = u"
      "holds_claims s w5 (tpAccessToken tp) (claims_for ds (now w)) (now w)" by auto
  from UpdateLastLogin_run [OF ul top] core u5 have
    w6: "sessions (db w') = sessions (db w5)" "redis w' = redis w5" "now w' = now w"
      "users (db w') = users (db w) \<or> users (db w') = login_mark (now w) (uID u) (users (db w))"
    by (auto simp: core_view_same)
  have act: "uStatus u = StActive" using ok(2) by (simp add: user_IsActive_def)
  have "\<exists>u'\<in>set (users (db w')). uID u' = uID u \<and> live_user u' \<and> uStatus u' = StActive"
    using w6(4) login_mark_keeps [OF u(1,3) act, of "now w" "uID u"] u(1,3) act by auto
  then show ?thesis
    using u ok(1) act nb b ds w6 by (force simp: session_made_def holds_claims_def)
qed

text \<open>C24. A login that succeeds has checked everything, whatever else failed on the way: the address was
  not locked out, it belongs to a live and active user, the password verifies against the stored
  hash of that user, and the tokens answered are for that user and for an active session of theirs
  on the device of the request.\<close>

theorem login_checks_credentials:
  assumes "services (svExt s)" and "wired_service s n" and "\<not> cxInTx c"
    and "run_state (Login s c inp) w = (Inr tp, w')"
  shows "\<exists>u\<in>set (users (db w)). citext_eq (uEmail u) (normalizeEmail (liEmail inp)) \<and> live_user u \<and>
    uStatus u = StActive \<and> verifyPassword (svExt s) (uPasswordHash u) (liPassword inp) \<and> tpUser tp = u \<and>
    fst (run_state (lockout_blocked s (normalizeEmail (liEmail inp))) w) = False \<and>
    (\<exists>r\<in>set (sessions (db w')). active_row r \<and> srUserID r = uID u \<and> srDeviceID r = diDeviceID (liDevice inp) \<and>
       rdKeys (svR s) (redis w') (redisKey (svExt s) (tpAccessToken tp)) = Some
         (RData (JClaims \<lparr>acSessionID = srID r, acUserID = uID u, acDeviceID = diDeviceID (liDevice inp), acIssuedAt = now w\<rparr>),
          deadline (now w) (cfAccessTokenExpiry (svCfg s))))"
proof -
  from Login_Inr [OF assms] obtain u ds where u: "u \<in> set (users (db w))" "citext_eq (uEmail u) (normalizeEmail (liEmail inp))"
      "live_user u" "uStatus u = StActive" "verifyPassword (svExt s) (uPasswordHash u) (liPassword inp)" "tpUser tp = u"
      "fst (run_state (lockout_blocked s (normalizeEmail (liEmail inp))) w) = False"
    and made: "session_made (db w') (toSession (liDevice inp) (uID u)) ds (now w)"
    and cl: "holds_claims s w' (tpAccessToken tp) (claims_for ds (now w)) (now w)" by blast
  from made obtain r where "r \<in> set (sessions (db w'))" "active_row r" "srID r = dsID ds" "srUserID r = uID u"
      "srDeviceID r = diDeviceID (liDevice inp)" "dsUserID ds = uID u" "dsDeviceID ds = diDeviceID (liDevice inp)"
    by (auto simp: session_made_def toSession_def)
  with u cl show ?thesis by (auto simp: holds_claims_def claims_for_def)
qed

subsection \<open>The session of a login works\<close>

lemma FindByID_up:
  assumes "db_up w" and "wf_db n (db w)" and "present (db w) r u"
  shows "\<exists>w'. run_state (sessions_FindByID c (srID r)) w = (Inr (loaded_session r u), w') \<and> now w' = now w"
  unfolding FindByID_load
  by (rule exI, rule conjI, rule store_run_read [OF assms(1)], rule load_session_up)
    (use assms in \<open>simp_all\<close>)

lemma authenticate_up:
  assumes "services (icExt i)" and "db_up w" and "redis_up w" and "wf_db n (db w)" and tok: "BearerToken c = Inr tok"
    and key: "visible (rdKeys (xRedis (icExt i)) (redis w)) (now w) (redisKey (icExt i) tok) = Some (RData (JClaims cl))"
    and p: "present (db w) r u" "srID r = acSessionID cl" "\<not> stamped r" "uStatus u = StActive"
    and t: "now w - srLastActivity r \<le> icMaxInactivity i"
  shows "\<exists>w'. run_state (authenticate i c) w = (Inr (u, loaded_session r u), w')"
proof -
  have R: "redis_service (xRedis (icExt i))" using services.axioms(1) [OF assms(1)] .
  have v: "run_state (at_Validate (icExt i) tok) w = (Inr cl, w)"
    using assms(3) key by (simp add: at_Validate_def redis_call_up redis_service.get_law [OF R])
  from FindByID_up [OF assms(2,4) p(1), of c] obtain w' where
    "run_state (sessions_FindByID c (srID r)) w = (Inr (loaded_session r u), w')" "now w' = now w" by blast
  with v tok p t show ?thesis by (simp add: authenticate_def user_IsActive_def)
qed


subsection \<open>Refused logins and the limiter\<close>

definition bad_credentials :: "'r auth_service \<Rightarrow> database \<Rightarrow> login_input \<Rightarrow> bool" where
  "bad_credentials s d inp = (\<forall>u\<in>set (users d). citext_eq (uEmail u) (normalizeEmail (liEmail inp)) \<and> live_user u \<longrightarrow>
     \<not> verifyPassword (svExt s) (uPasswordHash u) (liPassword inp))"

definition core_time :: "'r world \<Rightarrow> (user list \<times> (int \<times> settings) list \<times> session_row list \<times> refresh_row list) \<times> time" where
  "core_time w = (core (db w), now w)"

lemma core_time_core: "frames core_view m \<Longrightarrow> frames core_time m"
  by (simp add: frames_def core_view_def core_time_def)

lemma FindByEmail_core: "frames core_view (users_FindByEmail c em)"
  unfolding users_FindByEmail_def by (rule frames_mapped_core) (auto simp: GetUserByEmail_def first_row_Inr)

lemma limiter_core_time: "frames core_time (lockout_blocked s em)" "frames core_time (lockout_recordFailure s em)"
  by (auto simp: lockout_blocked_def lockout_recordFailure_def cache_counter_def IncrementWithTTL_def core_time_def core_def
      intro!: frames_intros frames_redis_call split: option.split redis_value.split)

text \<open>A refused login, in the order of its calls: the limiter is asked, the user looked up, the failure
  counted, the attempt published.\<close>

lemma Login_refused:
  assumes bad: "bad_credentials s (db w) inp" and wired: "wired_service s n"
  shows "(\<exists>w1 w2. run_state (lockout_blocked s (normalizeEmail (liEmail inp))) w = (False, w1) \<and>
      core_view w2 = core_view w1 \<and>
      fst (run_state (Login s c inp) w) = Inl (AppE ErrInvalidCredentials) \<and>
      core_view (after (Login s c inp) w) =
        core_view (after (lockout_recordFailure s (normalizeEmail (liEmail inp))) w2))
    \<or> (\<exists>w1. run_state (lockout_blocked s (normalizeEmail (liEmail inp))) w = (True, w1) \<and>
      fst (run_state (Login s c inp) w) = Inl (AppE ErrTooManyAttempts) \<and>
      core_view (after (Login s c inp) w) = core_view w1)"
proof -
  let ?em = "normalizeEmail (liEmail inp)"
  obtain b w1 where b: "run_state (lockout_blocked s ?em) w = (b, w1)" by fastforce
  have rec: "core_view (after (recordAttempt s c ?em i ''login'' oc) v) = core_view v" for i oc v
    using recordAttempt_core [OF wired] by (auto simp: frames_def)
  show ?thesis
  proof (cases b)
    case True
    have "run_state (Login s c inp) w =
        (Inl (AppE ErrTooManyAttempts), after (recordAttempt s c ?em 0 ''login'' ''locked'') w1)"
      using b True by (simp add: Login_def Let_def case_prod_beta)
    with rec b True show ?thesis by simp
  next
    case False
    obtain x w2 where f: "run_state (users_FindByEmail c ?em) w1 = (x, w2)" by fastforce
    have w2: "core_view w2 = core_view w1" using framesD [OF FindByEmail_core f] .
    have d1: "core (db w1) = core (db w)" using framesD [OF limiter_core_time(1) b] by (simp add: core_time_def)
    have "\<exists>i oc. run_state (Login s c inp) w = (Inl (AppE ErrInvalidCredentials),
        after (recordAttempt s c ?em i ''login'' oc) (after (lockout_recordFailure s ?em) w2))"
    proof (cases x)
      case (Inl e)
      then have "run_state (Login s c inp) w = (Inl (AppE ErrInvalidCredentials),
          after (recordAttempt s c ?em 0 ''login'' ''not_found'') (after (lockout_recordFailure s ?em) w2))"
        using b False f by (simp add: Login_def Let_def case_prod_beta)
      then show ?thesis by blast
    next
      case (Inr u)
      from FindByEmail_Inr [OF f [unfolded Inr]] d1 bad have
        "\<not> verifyPassword (svExt s) (uPasswordHash u) (liPassword inp)"
        by (auto simp: bad_credentials_def core_def)
      then have "run_state (Login s c inp) w = (Inl (AppE ErrInvalidCredentials),
          after (recordAttempt s c ?em (uID u) ''login'' ''wrong_password'') (after (lockout_recordFailure s ?em) w2))"
        using b False f Inr by (simp add: Login_def Let_def case_prod_beta)
      then show ?thesis by blast
    qed
    then obtain i oc where "run_state (Login s c inp) w = (Inl (AppE ErrInvalidCredentials),
        after (recordAttempt s c ?em i ''login'' oc) (after (lockout_recordFailure s ?em) w2))" by blast
    then have "fst (run_state (Login s c inp) w) = Inl (AppE ErrInvalidCredentials)"
        "core_view (after (Login s c inp) w) = core_view (after (lockout_recordFailure s ?em) w2)"
      by (simp_all add: rec)
    moreover have "run_state (lockout_blocked s ?em) w = (False, w1)" using b False by simp
    ultimately show ?thesis using w2 by blast
  qed
qed

text \<open>C9. A login refused for its credentials tells an attacker nothing: whether the address is
  registered or not, and whatever the database and Redis do, the answer is the same error (that of
  the limiter, or invalid credentials), and no user, setting, session or token row changes.\<close>

theorem refused_login_is_uniform:
  assumes "wired_service s n" and "bad_credentials s (db w) inp"
  shows "fst (run_state (Login s c inp) w) =
      Inl (AppE (if fst (run_state (lockout_blocked s (normalizeEmail (liEmail inp))) w)
                 then ErrTooManyAttempts else ErrInvalidCredentials)) \<and>
    core (db (after (Login s c inp) w)) = core (db w)"
proof -
  have blk: "core (db w1) = core (db w)" if "run_state (lockout_blocked s em) w = (b, w1)" for em b w1
    using framesD [OF limiter_core_time(1) that] by (simp add: core_time_def)
  have fl: "core (db (after (lockout_recordFailure s em) v)) = core (db v)" for em v
    using limiter_core_time(2) [of s em] by (auto simp: frames_def core_time_def)
  have cv: "core_view v = core_view v' \<Longrightarrow> core (db v) = core (db v')" for v v' :: "'a world"
    by (simp add: core_view_def)
  from Login_refused [OF assms(2,1), of c] show ?thesis
    by (elim disjE exE conjE) (auto dest!: blk cv simp: fl)
qed

definition limiter_key :: "'r auth_service \<Rightarrow> string \<Rightarrow> string" where
  "limiter_key s em = buildKey (svP s) (RateLimitKey ''login'' em)"

text \<open>The counter of an address with its deadline.\<close>

definition counted :: "'r auth_service \<Rightarrow> string \<Rightarrow> 'r world \<Rightarrow> int \<Rightarrow> time \<Rightarrow> bool" where
  "counted s em w k dl = (rdKeys (svR s) (redis w) (limiter_key s em) = Some (RNum k, Some dl))"

lemma counter_up:
  assumes "redis_service (svR s)" and "redis_up w"
  shows "visible (rdKeys (svR s) (redis w)) (now w) (limiter_key s em) = None \<Longrightarrow>
      run_state (lockout_blocked s em) w = (llMaxAttempts (svLockout s) \<le> 0, w)"
    and "counted s em w k dl \<Longrightarrow> now w < dl \<Longrightarrow>
      run_state (lockout_blocked s em) w = (llMaxAttempts (svLockout s) \<le> k, w)"
  using assms(2)
  by (simp_all add: lockout_blocked_def cache_counter_def redis_call_up redis_service.get_law [OF assms(1)]
      limiter_key_def counted_def visible_def not_expired_def)

lemma count_failure_up:
  assumes R: "redis_service (svR s)" and "redis_up w"
  shows "visible (rdKeys (svR s) (redis w)) (now w) (limiter_key s em) = None \<Longrightarrow> 0 < llWindow (svLockout s) \<Longrightarrow>
      counted s em (after (lockout_recordFailure s em) w) 1 (now w + llWindow (svLockout s))"
    and "counted s em w k dl \<Longrightarrow> now w < dl \<Longrightarrow> counted s em (after (lockout_recordFailure s em) w) (k + 1) dl"
    and "redis_up (after (lockout_recordFailure s em) w)"
proof -
  let ?k = "limiter_key s em"
  have r: "after (lockout_recordFailure s em) w = w\<lparr>redis :=
      rdExpireNX (svR s) (snd (rdIncr (svR s) (redis w) (now w) ?k)) (now w) ?k (llWindow (svLockout s))\<rparr>"
    using assms(2) by (simp add: lockout_recordFailure_def IncrementWithTTL_def redis_call_up limiter_key_def Let_def case_prod_beta)
  show "redis_up (after (lockout_recordFailure s em) w)" using assms(2) unfolding r by (simp add: redis_up_def)
  { assume n: "visible (rdKeys (svR s) (redis w)) (now w) ?k = None"
    from redis_service.incr_new_law [OF R n] show "counted s em (after (lockout_recordFailure s em) w) 1 (now w + llWindow (svLockout s))"
      unfolding r counted_def
      by (simp add: redis_service.expire_nx_law [OF R, where rv = "RNum 1"] visible_def not_expired_def keep_deadline_def) }
  { assume c: "counted s em w k dl" "now w < dl"
    then have v: "visible (rdKeys (svR s) (redis w)) (now w) ?k = Some (RNum k)"
      by (simp add: counted_def visible_def not_expired_def)
    from redis_service.incr_num_law [OF R v] c show "counted s em (after (lockout_recordFailure s em) w) (k + 1) dl"
      unfolding r counted_def
      by (simp add: redis_service.expire_nx_law [OF R, where rv = "RNum (k + 1)"] visible_def not_expired_def keep_deadline_def) }
qed

definition fresh_or_counted :: "'r auth_service \<Rightarrow> string \<Rightarrow> 'r world \<Rightarrow> nat \<Rightarrow> duration \<Rightarrow> bool" where
  "fresh_or_counted s em w n left =
     (if n = 0 then visible (rdKeys (svR s) (redis w)) (now w) (limiter_key s em) = None \<and> 0 < left \<and> left \<le> llWindow (svLockout s)
      else \<exists>k dl. counted s em w k dl \<and> now w + left \<le> dl \<and> 0 < left \<and>
        (int n \<le> k \<or> llMaxAttempts (svLockout s) \<le> k))"

lemma Login_counts:
  assumes R: "redis_service (svR s)" and up: "redis_up w" and wired: "wired_service s m" and bad: "bad_credentials s (db w) inp"
    and pos: "0 < llMaxAttempts (svLockout s)" and st: "fresh_or_counted s (normalizeEmail (liEmail inp)) w n left"
  shows "redis_up (after (Login s c inp) w) \<and> now (after (Login s c inp) w) = now w \<and>
    core (db (after (Login s c inp) w)) = core (db w) \<and>
    fresh_or_counted s (normalizeEmail (liEmail inp)) (after (Login s c inp) w) (Suc n) left"
proof -
  let ?em = "normalizeEmail (liEmail inp)"
  have same: "counted s em v k dl = counted s em v' k dl" "redis_up v = redis_up v'" "now v = now v'" "core (db v) = core (db v')"
    if "core_view v = core_view v'" for em k dl and v v' :: "'a world"
    using that by (simp_all add: counted_def redis_up_def core_view_def)
  have fr: "visible (rdKeys (svR s) (redis w2)) (now w2) (limiter_key s ?em) =
      visible (rdKeys (svR s) (redis w)) (now w) (limiter_key s ?em)" if "core_view w2 = core_view w" for w2 :: "'a world"
    using that by (simp add: core_view_def)
  have fl: "now (after (lockout_recordFailure s ?em) v) = now v" "core (db (after (lockout_recordFailure s ?em) v)) = core (db v)" for v
    using limiter_core_time(2) [of s ?em] by (auto simp: frames_def core_time_def)
  obtain b where b: "run_state (lockout_blocked s ?em) w = (b, w)"
    using st counter_up [OF R up, of ?em] unfolding fresh_or_counted_def by (cases "n = 0") force+
  from Login_refused [OF bad wired, of c] b consider
      (no) w2 where "\<not> b" "core_view w2 = core_view w"
        "core_view (after (Login s c inp) w) = core_view (after (lockout_recordFailure s ?em) w2)"
    | (yes) "b" "core_view (after (Login s c inp) w) = core_view w" by auto
  then show ?thesis
  proof cases
    case yes
    with st b counter_up(1) [OF R up, of ?em] pos obtain k dl where
      k: "n \<noteq> 0" "counted s ?em w k dl" "now w + left \<le> dl" "0 < left"
      by (auto simp: fresh_or_counted_def split: if_splits)
    with b yes counter_up(2) [OF R up k(2)] have "llMaxAttempts (svLockout s) \<le> k" by auto
    then have "\<exists>k dl. counted s ?em (after (Login s c inp) w) k dl \<and> now w + left \<le> dl \<and> 0 < left \<and>
        (int (Suc n) \<le> k \<or> llMaxAttempts (svLockout s) \<le> k)"
      using k by (auto simp: same(1) [OF yes(2)])
    with up show ?thesis by (simp add: same(2-4) [OF yes(2)] fresh_or_counted_def)
  next
    case no
    have up2: "redis_up w2" "now w2 = now w" "core (db w2) = core (db w)" using up by (simp_all add: same(2-4) [OF no(2)])
    have base: "redis_up (after (Login s c inp) w) \<and> now (after (Login s c inp) w) = now w \<and>
        core (db (after (Login s c inp) w)) = core (db w)"
      using count_failure_up(3) [OF R up2(1), of ?em] fl [of w2] up2 by (simp add: same(2-4) [OF no(3)])
    have "\<exists>k dl. counted s ?em (after (lockout_recordFailure s ?em) w2) k dl \<and> now w + left \<le> dl \<and> 0 < left \<and>
        (int (Suc n) \<le> k \<or> llMaxAttempts (svLockout s) \<le> k)"
    proof (cases "n = 0")
      case True
      with st fr [OF no(2)] count_failure_up(1) [OF R up2(1), of ?em] up2 show ?thesis
        by (intro exI [of _ 1] exI [of _ "now w + llWindow (svLockout s)"]) (auto simp: fresh_or_counted_def)
    next
      case False
      with st obtain k dl where k: "counted s ?em w k dl" "now w + left \<le> dl" "0 < left"
          "int n \<le> k \<or> llMaxAttempts (svLockout s) \<le> k"
        by (auto simp: fresh_or_counted_def)
      with count_failure_up(2) [OF R up2(1), of ?em k dl] same(1) [OF no(2)] up2 show ?thesis
        by (intro exI [of _ "k + 1"] exI [of _ dl]) (auto simp del: of_nat_Suc simp: of_nat_Suc)
    qed
    then have "\<exists>k dl. counted s ?em (after (Login s c inp) w) k dl \<and> now w + left \<le> dl \<and> 0 < left \<and>
        (int (Suc n) \<le> k \<or> llMaxAttempts (svLockout s) \<le> k)"
      by (simp add: same(1) [OF no(3)])
    with base show ?thesis by (simp add: fresh_or_counted_def)
  qed
qed

text \<open>A run of refused logins, with the time that passes after each.\<close>

fun login_run :: "'r auth_service \<Rightarrow> (ctx \<times> login_input \<times> duration) list \<Rightarrow> 'r world \<Rightarrow> 'r world" where
  "login_run s [] w = w"
| "login_run s ((c, inp, dt) # xs) w =
     (let w1 = after (Login s c inp) w in login_run s xs (w1\<lparr>now := now w1 + dt\<rparr>))"

definition guesses :: "'r auth_service \<Rightarrow> database \<Rightarrow> string \<Rightarrow> (ctx \<times> login_input \<times> duration) list \<Rightarrow> bool" where
  "guesses s d em xs = list_all (\<lambda>(c, inp, dt). normalizeEmail (liEmail inp) = em \<and> bad_credentials s d inp \<and> 0 \<le> dt) xs"

lemma bad_credentials_core: "core d' = core d \<Longrightarrow> bad_credentials s d' inp = bad_credentials s d inp"
  by (simp add: bad_credentials_def core_def)

lemma login_run_counts:
  assumes "redis_service (svR s)" and "wired_service s m" and "0 < llMaxAttempts (svLockout s)"
  shows "redis_up w \<Longrightarrow> guesses s (db w) em xs \<Longrightarrow> fresh_or_counted s em w n left \<Longrightarrow>
      sum_list (map (snd \<circ> snd) xs) < left \<Longrightarrow>
    redis_up (login_run s xs w) \<and> core (db (login_run s xs w)) = core (db w) \<and>
    fresh_or_counted s em (login_run s xs w) (n + length xs) (left - sum_list (map (snd \<circ> snd) xs))"
proof (induction xs arbitrary: w n left)
  case (Cons x xs)
  obtain c inp dt where x: "x = (c, inp, dt)" by (cases x)
  from Cons.prems(2) x have g: "normalizeEmail (liEmail inp) = em" "bad_credentials s (db w) inp" "0 \<le> dt"
    and gs: "guesses s (db w) em xs" by (auto simp: guesses_def)
  let ?w1 = "after (Login s c inp) w"
  let ?w2 = "?w1\<lparr>now := now ?w1 + dt\<rparr>"
  from Login_counts [OF assms(1) Cons.prems(1) assms(2) g(2) assms(3), of n left c] Cons.prems(3) g(1)
  have 1: "redis_up ?w1" "now ?w1 = now w" "core (db ?w1) = core (db w)" "fresh_or_counted s em ?w1 (Suc n) left"
    by auto
  have "0 \<le> sum_list (map (snd \<circ> snd) xs)"
    using gs by (intro sum_list_nonneg) (auto simp: guesses_def list_all_iff)
  with Cons.prems(4) x have left: "dt < left" "sum_list (map (snd \<circ> snd) xs) < left - dt"
    by (simp_all add: comp_def)
  have "redis_up ?w2" using 1(1) by (simp add: redis_up_def)
  moreover have "guesses s (db ?w2) em xs"
    using gs by (simp add: guesses_def bad_credentials_core [OF 1(3)])
  moreover have "fresh_or_counted s em ?w2 (Suc n) (left - dt)"
    using 1(4) left(1) g(3) by (auto simp: fresh_or_counted_def counted_def)
  ultimately have "redis_up (login_run s xs ?w2) \<and> core (db (login_run s xs ?w2)) = core (db ?w2) \<and>
      fresh_or_counted s em (login_run s xs ?w2) (Suc n + length xs) (left - dt - sum_list (map (snd \<circ> snd) xs))"
    by (rule Cons.IH) (rule left(2))
  then show ?case using 1(3) by (simp add: x Let_def algebra_simps comp_def)
qed simp

lemma Login_locked:
  assumes "wired_service s n" and "run_state (lockout_blocked s (normalizeEmail (liEmail inp))) w = (True, w1)"
  shows "fst (run_state (Login s c inp) w) = Inl (AppE ErrTooManyAttempts) \<and> core_view (after (Login s c inp) w) = core_view w1"
proof -
  let ?em = "normalizeEmail (liEmail inp)"
  have "run_state (Login s c inp) w =
      (Inl (AppE ErrTooManyAttempts), after (recordAttempt s c ?em 0 ''login'' ''locked'') w1)"
    using assms(2) by (simp add: Login_def Let_def case_prod_beta)
  moreover have "core_view (after (recordAttempt s c ?em 0 ''login'' ''locked'') w1) = core_view w1"
    using recordAttempt_core [OF assms(1)] by (auto simp: frames_def)
  ultimately show ?thesis by simp
qed

text \<open>C10. Lockout: once as many logins for an address have been refused for their credentials within one
  window as the limiter allows, from whatever devices and with whatever database failures, every
  further login for it in that window is refused as too many attempts, the right password included,
  and changes no user, session or token.\<close>

theorem failed_logins_lock_address:
  assumes "services (svExt s)" and "wired_service s n" and "0 < llMaxAttempts (svLockout s)" and "redis_up w"
    and "guesses s (db w) em xs" and "llMaxAttempts (svLockout s) \<le> int (length xs)"
    and "sum_list (map (snd \<circ> snd) xs) < llWindow (svLockout s)"
    and "visible (rdKeys (svR s) (redis w)) (now w) (limiter_key s em) = None"
    and "normalizeEmail (liEmail inp) = em"
  shows "fst (run_state (Login s c inp) (login_run s xs w)) = Inl (AppE ErrTooManyAttempts) \<and>
    core (db (after (Login s c inp) (login_run s xs w))) = core (db w)"
proof -
  have R: "redis_service (svR s)" using services.axioms(1) [OF assms(1)] by (simp add: svR_def)
  have "0 \<le> sum_list (map (snd \<circ> snd) xs)"
    using assms(5) by (intro sum_list_nonneg) (auto simp: guesses_def list_all_iff)
  with assms(7,8) have "fresh_or_counted s em w 0 (llWindow (svLockout s))" by (simp add: fresh_or_counted_def)
  from login_run_counts [OF R assms(2,3,4,5) this assms(7)] obtain
    w': "redis_up (login_run s xs w)" "core (db (login_run s xs w)) = core (db w)"
      "fresh_or_counted s em (login_run s xs w) (length xs) (llWindow (svLockout s) - sum_list (map (snd \<circ> snd) xs))"
    by auto
  have "length xs \<noteq> 0" using assms(3,6) by auto
  with w'(3) obtain k dl where k: "counted s em (login_run s xs w) k dl" "now (login_run s xs w) < dl"
      "int (length xs) \<le> k \<or> llMaxAttempts (svLockout s) \<le> k"
    by (auto simp: fresh_or_counted_def)
  have "run_state (lockout_blocked s em) (login_run s xs w) = (True, login_run s xs w)"
    using counter_up(2) [OF R w'(1) k(1,2)] k(3) assms(6) by auto
  from Login_locked [OF assms(2), of inp, unfolded assms(9), OF this, of c] w'(2) show ?thesis
    by (simp add: core_view_def)
qed

end
