(* ===== verification/Login_Success.thy ===== *)
theory Login_Success
  imports Login_Guarantees
begin

section \<open>Login succeeds with the right password\<close>

text \<open>
  The converse of \<open>login_checks_credentials\<close>: with the database and Redis up, a login that is not
  locked out and brings the right password for a live and active user succeeds, the eviction of
  older devices and the relogin revocation included.
\<close>

subsection \<open>What keeps the services up\<close>

definition stays_up :: "('r, 'a) proc \<Rightarrow> bool" where
  "stays_up m = (\<forall>w. db_up w \<and> redis_up w \<longrightarrow>
     db_up (after m w) \<and> redis_up (after m w) \<and> draws (after m w) = draws w)"

lemma stays_upD:
  "stays_up m \<Longrightarrow> run_state m w = (x, w') \<Longrightarrow> db_up w \<Longrightarrow> redis_up w \<Longrightarrow>
     db_up w' \<and> redis_up w' \<and> draws w' = draws w"
  unfolding stays_up_def by (metis snd_conv)

lemma stays_up_ret [simp]: "stays_up (ret x)" "stays_up (getw f)" "stays_up (fail e)" "stays_up (returnE y)"
  by (simp_all add: stays_up_def)

lemma stays_up_bind: "stays_up m \<Longrightarrow> (\<And>x. stays_up (f x)) \<Longrightarrow> stays_up (State_Monad.bind m f)"
  unfolding stays_up_def by (auto simp: case_prod_beta)

lemma stays_up_sum: "(\<And>e. stays_up (f e)) \<Longrightarrow> (\<And>x. stays_up (g x)) \<Longrightarrow> stays_up (case r of Inl e \<Rightarrow> f e | Inr x \<Rightarrow> g x)"
  by (auto split: sum.split)

lemma stays_up_if: "stays_up m \<Longrightarrow> stays_up m' \<Longrightarrow> stays_up (if b then m else m')"
  by simp

lemmas stays_up_intros = stays_up_bind stays_up_sum stays_up_if

lemma stays_up_redis [simp]: "stays_up (redis_call f)"
  by (simp add: stays_up_def redis_call_up) (simp add: db_up_def redis_up_def)

interpretation dv: tx_view "\<lambda>_. ()" "\<lambda>w. (redisFaults w, draws w)"
  by unfold_locales simp_all

lemma stays_up_query [simp]: "\<not> cxInTx c \<Longrightarrow> stays_up (run_query c q)"
  unfolding stays_up_def
proof (intro allI impI, elim conjE)
  fix w :: "'a world"
  assume c: "\<not> cxInTx c" and up: "db_up w" "redis_up w"
  from run_query_total [OF up(1) c, of q] obtain x w' where r: "run_state (run_query c q) w = (x, w')" "db_up w'" by blast
  have "frames (\<lambda>w. ((), redisFaults w, draws w)) (run_query c q :: ('a, 'b) call)"
    using dv.query_view by blast
  from framesD [OF this r(1)] r up
  show "db_up (after (run_query c q) w) \<and> redis_up (after (run_query c q) w) \<and> draws (after (run_query c q) w) = draws w"
    by (simp add: redis_up_def)
qed

lemma stays_up_mapped [simp]: "\<not> cxInTx c \<Longrightarrow> stays_up (run_mapped c f q)"
  using stays_up_query [of c q] by (simp add: stays_up_def)

lemma stays_up_cache [simp]:
  "stays_up (cache_set R p k v opts)" "stays_up (cache_delete R p k)" "stays_up (IncrementWithTTL R p k ttl)"
  "stays_up (cache_counter R p k)"
  by (auto simp: cache_set_def cache_delete_def IncrementWithTTL_def cache_counter_def Let_def
      intro!: stays_up_intros split: option.split redis_value.split)

lemma stays_up_limiter [simp]: "stays_up (lockout_blocked s em)" "stays_up (lockout_reset s em)"
  by (auto simp: lockout_blocked_def lockout_reset_def intro!: stays_up_intros)

lemma stays_up_evict:
  assumes "\<not> cxInTx c"
  shows "stays_up (evictOldestIfOverLimit s c i)"
proof -
  have r: "stays_up (revokeSessionAndTokens s c ds reason)" for ds reason
    using assms by (auto simp: revokeSessionAndTokens_def sessions_Revoke_def refresh_RevokeBySessionID_def intro!: stays_up_intros)
  have "stays_up (evict_loop s c ss)" for ss
    by (induction ss) (auto intro!: stays_up_intros r)
  then show ?thesis
    using assms by (auto simp: evictOldestIfOverLimit_def sessions_FindActiveDevicesByUser_def intro!: stays_up_intros)
qed

subsection \<open>The hashes on file\<close>

definition hashes :: "database \<Rightarrow> string list" where
  "hashes d = map rrTokenHash (refreshTokens d)"

interpretation hv: tx_view hashes "\<lambda>_. ()"
  by unfold_locales simp_all

lemma hash_frames [simp]:
  "frames (\<lambda>w. hashes (db w)) (redis_call f)"
  "(\<And>rl t n d x d'. q rl t n d = Inr (x, d') \<Longrightarrow> hashes d' = hashes d) \<Longrightarrow> frames (\<lambda>w. hashes (db w)) (run_query c q)"
  "(\<And>rl t n d x d'. q rl t n d = Inr (x, d') \<Longrightarrow> hashes d' = hashes d) \<Longrightarrow> frames (\<lambda>w. hashes (db w)) (run_mapped c f' q)"
  using hv.query_view [of q c] hv.mapped_view [of q c f'] by (auto simp: frames_def op_frame)

lemma hash_queries:
  "RevokeDeviceSession i reason rl t n d = Inr (r, d') \<Longrightarrow> hashes d' = hashes d"
  "RevokeRefreshTokensBySession i reason rl t n d = Inr (y, d') \<Longrightarrow> hashes d' = hashes d"
  "ListActiveDevicesByUser i thr rl t n d = Inr (rs, d') \<Longrightarrow> hashes d' = hashes d"
  "RevokeActiveDeviceSessionsByDeviceID dv reason rl t n d = Inr (y, d') \<Longrightarrow> hashes d' = hashes d"
  by (auto simp: hashes_def RevokeDeviceSession_def RevokeRefreshTokensBySession_def ListActiveDevicesByUser_def
      RevokeActiveDeviceSessionsByDeviceID_def map_upd_where revoke_token_def split: list.splits)

lemma hash_evict: "frames (\<lambda>w. hashes (db w)) (evictOldestIfOverLimit s c i)"
proof -
  have r: "frames (\<lambda>w. hashes (db w)) (revokeSessionAndTokens s c ds reason)" for ds reason
    by (auto simp: revokeSessionAndTokens_def sessions_Revoke_def refresh_RevokeBySessionID_def cache_delete_def
        dest: hash_queries intro!: frames_intros hash_frames(2,3))
  have "frames (\<lambda>w. hashes (db w)) (evict_loop s c ss)" for ss
    by (induction ss) (auto intro!: frames_intros r)
  then show ?thesis
    by (auto simp: evictOldestIfOverLimit_def sessions_FindActiveDevicesByUser_def
        dest: hash_queries intro!: frames_intros hash_frames(2,3))
qed

subsection \<open>Opening a session\<close>

text \<open>What the request, the entropy source and the tables must offer.\<close>

definition can_open :: "'r auth_service \<Rightarrow> user \<Rightarrow> device_info \<Rightarrow> string \<Rightarrow> string \<Rightarrow> 'r world \<Rightarrow> bool" where
  "can_open s u dev b1 b2 w = (db_up w \<and> redis_up w \<and> uID u \<in> uID ` set (users (db w)) \<and>
     session_fits (session_params (toSession dev (uID u))) \<and> diDeviceID dev \<noteq> [] \<and>
     xRand (svExt s) (draws w) tokenByteLen = Some b1 \<and> xRand (svExt s) (draws w + 1) tokenByteLen = Some b2 \<and>
     xSha256Hex (svExt s) (refresh_of b2) \<notin> set (hashes (db w)))"

lemma relogin_up:
  assumes "db_up v"
  shows "\<exists>v'. run_state (sessions_RevokeActiveByDeviceID c dev reason) v = (Inr (), v') \<and> db_up v' \<and>
    redis v' = redis v \<and> redisFaults v' = redisFaults v \<and> draws v' = draws v \<and> now v' = now v \<and> users (db v') = users (db v) \<and>
    hashes (db v') = hashes (db v) \<and> (\<forall>r\<in>set (sessions (db v')). active_row r \<longrightarrow> srDeviceID r \<noteq> dev)"
proof -
  let ?ss = "upd_where (\<lambda>r. srDeviceID r = dev \<and> active_row r) (revoke_row (now v) reason) (sessions (db v))"
  let ?d = "(db v)\<lparr>sessions := ?ss\<rparr>"
  have "run_state (sessions_RevokeActiveByDeviceID c dev reason) v = (Inr (), after_query c ?d v)"
    unfolding sessions_RevokeActiveByDeviceID_def
    by (rule run_query_up [OF assms]) (simp add: RevokeActiveDeviceSessionsByDeviceID_def)
  moreover have "\<forall>r\<in>set ?ss. active_row r \<longrightarrow> srDeviceID r \<noteq> dev"
    by (rule upd_where_all) (auto simp: revoke_row_def active_row_def)
  ultimately show ?thesis using assms by (auto simp: hashes_def)
qed

lemma sessions_Create_up:
  assumes "db_up v" and "session_fits (session_params ds)" and "dsUserID ds \<in> uID ` set (users (db v))"
    and "\<forall>r\<in>set (sessions (db v)). active_row r \<longrightarrow> srDeviceID r \<noteq> dsDeviceID ds"
  shows "\<exists>v' row. run_state (sessions_Create c ds) v = (Inr (toDeviceSession row), v') \<and> db_up v' \<and>
    redisFaults v' = redisFaults v \<and> draws v' = draws v \<and> hashes (db v') = hashes (db v) \<and> srID row \<in> srID ` set (sessions (db v'))"
proof -
  let ?p = "session_params ds"
  let ?row = "session_of ?p (now v) (nextID v)"
  let ?d = "(db v)\<lparr>sessions := sessions (db v) @ [?row]\<rparr>"
  have "CreateDeviceSession ?p (dbRole v) (now v) (nextID v) (db v) = Inr (?row, ?d)"
    using assms(2-4) by (auto simp: CreateDeviceSession_def list_ex_iff has_user_def session_params_def)
  from run_query_up [of v "CreateDeviceSession ?p" ?row ?d c, OF assms(1) this] show ?thesis
    using assms(1) by (intro exI [of _ "after_query c ?d v"] exI [of _ ?row]) (simp add: sessions_Create_def hashes_def)
qed

lemma generateTokenPair_up:
  assumes ext: "services (svExt s)" and up: "db_up v" "redis_up v"
    and rand: "xRand (svExt s) (draws v) tokenByteLen = Some b1" "xRand (svExt s) (draws v + 1) tokenByteLen = Some b2"
    and new: "xSha256Hex (svExt s) (refresh_of b2) \<notin> set (hashes (db v))"
    and sid: "dsID ds \<in> srID ` set (sessions (db v))"
  shows "\<exists>tp v'. run_state (generateTokenPair s c u ds stt) v = (Inr tp, v') \<and> db_up v' \<and> redis_up v'"
proof -
  let ?h = "xSha256Hex (svExt s) (refresh_of b2)"
  let ?v1 = "v\<lparr>draws := draws v + 2, redis := store_access s ds (access_of b1) v\<rparr>"
  let ?v2 = "?v1\<lparr>draws := draws v + 2 + 1\<rparr>"
  let ?fam = "replace_all ''-'' [] (xUUID (svExt s) (draws v + 2))"
  have v2: "db_up ?v2" "?h \<notin> rrTokenHash ` set (refreshTokens (db ?v2))" "dsID ds \<in> srID ` set (sessions (db ?v2))"
    using up new sid by (simp_all add: db_up_def hashes_def)
  from refresh_Create_up [OF ext v2(1) services.uuid_parses [OF ext] refl v2(2,3)] obtain rt v' where
    rc: "run_state (refresh_Create (svExt s) c (dsID ds) ?h ?fam (now v + cfRefreshTokenExpiry (svCfg s))) ?v2 = (Inr rt, v')"
      "db_up v'" "redisFaults v' = redisFaults v"
    using v2(1) by fastforce
  have "run_state (generateTokenPair s c u ds stt) v = (Inr \<lparr>tpAccessToken = access_of b1, tpRefreshToken = refresh_of b2,
      tpExpiresIn = go_div (cfAccessTokenExpiry (svCfg s)) second, tpUser = u, tpSettings = stt\<rparr>, v')"
    using issueTokenPair_up [OF up(2) rand, of ds] rc(1) by (simp add: generateTokenPair_def NewUUIDNoDash_def)
  with rc up(2) show ?thesis by (auto simp: redis_up_def)
qed

lemma createSession_up:
  assumes ext: "services (svExt s)" and top: "\<not> cxInTx c" and ok: "can_open s u dev b1 b2 w"
  shows "\<exists>tp w'. run_state (createSessionAndTokens s c u dev stt) w = (Inr tp, w')"
proof -
  let ?ds = "toSession dev (uID u)" and ?c = "c\<lparr>cxInTx := True\<rparr>"
  obtain w1 where ev: "run_state (evictOldestIfOverLimit s c (uID u)) w = ((), w1)"
    by (cases "run_state (evictOldestIfOverLimit s c (uID u)) w") auto
  have w1: "db_up w1" "redis_up w1" "draws w1 = draws w" "users (db w1) = users (db w)" "hashes (db w1) = hashes (db w)"
    using stays_upD [OF stays_up_evict [OF top] ev] framesD [OF evict_user ev] framesD [OF hash_evict ev] ok
    by (auto simp: can_open_def user_view_def)
  let ?v = "enter_tx c w1"
  have v: "db_up ?v" "db ?v = db w1" "draws ?v = draws w" "redisFaults ?v = []"
    using w1 by (simp_all add: db_up_def enter_tx_def redis_up_def)
  from relogin_up [OF v(1), of ?c "diDeviceID dev" "''relogin''"] obtain v1 where
    r: "run_state (sessions_RevokeActiveByDeviceID ?c (diDeviceID dev) ''relogin'') ?v = (Inr (), v1)"
    and v1: "db_up v1" "redisFaults v1 = []" "draws v1 = draws w" "users (db v1) = users (db w)" "hashes (db v1) = hashes (db w)"
      "\<forall>r\<in>set (sessions (db v1)). active_row r \<longrightarrow> srDeviceID r \<noteq> diDeviceID dev"
    using v w1 by auto
  have ds: "dsUserID ?ds = uID u" "dsDeviceID ?ds = diDeviceID dev" by (simp_all add: toSession_def)
  from sessions_Create_up [OF v1(1), of ?ds ?c] ok v1(4,6) ds obtain v2 row where
    cr: "run_state (sessions_Create ?c ?ds) v1 = (Inr (toDeviceSession row), v2)"
    and v2: "db_up v2" "redisFaults v2 = redisFaults v1" "draws v2 = draws v1" "hashes (db v2) = hashes (db v1)"
      "srID row \<in> srID ` set (sessions (db v2))"
    by (auto simp: can_open_def)
  let ?ds2 = "(toDeviceSession row)\<lparr>dsUser := Some u\<rparr>"
  from generateTokenPair_up [OF ext v2(1), of b1 b2 ?ds2 ?c u stt] ok v1 v2 obtain tp v3 where
    g: "run_state (generateTokenPair s ?c u ?ds2 stt) v2 = (Inr tp, v3)" "db_up v3" "redis_up v3"
    by (auto simp: can_open_def redis_up_def toDeviceSession_def)
  have "run_state (session_tx s u ?ds stt ?c) ?v = (Inr (tp, ?ds2), v3)"
    using ok r cr g(1) ds by (simp add: session_tx_def can_open_def Let_def)
  from with_tx_run [of c w1 "session_tx s u ?ds stt", OF top _ this] g(2) w1(1)
  have tx: "run_state (with_tx c (session_tx s u ?ds stt)) w1 = (Inr (tp, ?ds2), v3\<lparr>gucs := ([], [])\<rparr>)"
    by (simp add: db_up_def)
  show ?thesis
    using ev tx by (simp add: createSessionAndTokens_def case_prod_beta)
qed

lemma FindByEmail_up:
  assumes up: "db_up v" and wf: "wf_db n (db v)" and u: "u \<in> set (users (db v))" "citext_eq (uEmail u) em" "live_user u"
  shows "run_state (users_FindByEmail c em) v = (Inr u, after_query c (db v) v)"
proof -
  let ?P = "\<lambda>x. citext_eq (uEmail x) em \<and> live_user x"
  have d: "distinct (map (to_lower \<circ> uEmail) (filter live_user (users (db v))))" using wf by (simp add: wf_db_def)
  obtain x xs where x: "filter ?P (users (db v)) = x # xs"
    using u by (cases "filter ?P (users (db v))") (auto simp: filter_empty_conv)
  then have "x \<in> set (users (db v)) \<and> ?P x" by (rule filter_Cons_in)
  with u d have "x = u" by (auto simp: distinct_map citext_eq_def inj_on_def)
  with x have "GetUserByEmail em (dbRole v) (now v) (nextID v) (db v) = Inr (u, db v)"
    by (simp add: GetUserByEmail_def first_row_def)
  from run_query_up [of v "GetUserByEmail em" u "db v" c, OF up this] show ?thesis
    by (simp add: users_FindByEmail_def run_mapped_Inr)
qed

lemma can_open_mono:
  "can_open s u dev b1 b2 w \<Longrightarrow> db_up w' \<Longrightarrow> redis_up w' \<Longrightarrow> draws w' = draws w \<Longrightarrow> core (db w') = core (db w) \<Longrightarrow>
     can_open s u dev b1 b2 w'"
  by (simp add: can_open_def core_def hashes_def)

lemma Login_up:
  assumes "services (svExt s)" and "wired_service s n" and "\<not> cxInTx c" and "wf_db m (db w)"
    and "u \<in> set (users (db w))" and "citext_eq (uEmail u) (normalizeEmail (liEmail inp))" and "live_user u"
    and "uStatus u = StActive" and "verifyPassword (svExt s) (uPasswordHash u) (liPassword inp)"
    and "fst (run_state (lockout_blocked s (normalizeEmail (liEmail inp))) w) = False"
    and "can_open s u (liDevice inp) b1 b2 w"
  shows "\<exists>tp w'. run_state (Login s c inp) w = (Inr tp, w') \<and> tpUser tp = u"
proof -
  let ?em = "normalizeEmail (liEmail inp)"
  obtain w1 where b: "run_state (lockout_blocked s ?em) w = (False, w1)"
    using assms(10) by (metis prod.collapse)
  have w1: "can_open s u (liDevice inp) b1 b2 w1" "core (db w1) = core (db w)"
    using stays_upD [OF stays_up_limiter(1) b] framesD [OF limiter_core_time(1) b] assms(11)
    by (auto simp: core_time_def can_open_def core_def hashes_def)
  let ?w2 = "after_query c (db w1) w1"
  have f: "run_state (users_FindByEmail c ?em) w1 = (Inr u, ?w2)"
    by (rule FindByEmail_up [of _ m]) (use w1 assms in \<open>auto simp: can_open_def core_def wf_db_core [OF w1(2)]\<close>)
  have w2: "can_open s u (liDevice inp) b1 b2 ?w2"
    by (rule can_open_mono [OF w1(1)]) (use w1 in \<open>simp_all add: can_open_def redis_up_def\<close>)
  obtain w3 where l: "run_state (lockout_reset s ?em) ?w2 = ((), w3)"
    by (cases "run_state (lockout_reset s ?em) ?w2") auto
  have "frames (\<lambda>w. core (db w)) (lockout_reset s ?em)"
    by (auto simp: lockout_reset_def cache_delete_def intro!: frames_intros frames_redis_call)
  from framesD [OF this l] stays_upD [OF stays_up_limiter(2) l] w2
  have w3: "can_open s u (liDevice inp) b1 b2 w3"
    by (intro can_open_mono [OF w2]) (simp_all add: can_open_def)
  obtain y w4 where st: "run_state (settings_GetByUserID c (uID u)) w3 = (y, w4)" by fastforce
  have "stays_up (settings_GetByUserID c (uID u) :: ('a, settings) call)"
    using assms(3) by (simp add: settings_GetByUserID_def)
  from stays_upD [OF this st] settings_read_run [of c "uID u" w3] st w3
  have w4: "can_open s u (liDevice inp) b1 b2 w4"
    by (intro can_open_mono [OF w3]) (auto simp: can_open_def core_view_def)
  from createSession_up [OF assms(1,3) w4] obtain tp w5 where
    cs: "run_state (createSessionAndTokens s c u (liDevice inp) (drop_error y)) w4 = (Inr tp, w5)" by blast
  have "\<exists>w'. run_state (Login s c inp) w = (Inr tp, w')"
    using b f l st cs assms(8,9) by (simp add: Login_def Let_def user_IsActive_def case_prod_beta)
  then show ?thesis using createSession_Inr [OF assms(1,3) cs] by auto
qed


end
