(* ===== verification/Account_Guarantees.thy ===== *)
theory Account_Guarantees
  imports Login_Success "HOL-Library.Multiset"
begin

section \<open>Accounts: deletion, logout, one-time tokens, passwords and devices\<close>

text \<open>
  Properties of the remaining calls of \<open>internal/auth\<close> and of \<open>DeleteAccount\<close>
  (\<open>internal/users/service.go\<close>): deletion and logout are final, mailed tokens work once, a reset or a
  change of the password takes over the sessions, and the device limit holds.
\<close>

subsection \<open>Deletion is final\<close>

definition gone_in :: "int set \<Rightarrow> int \<Rightarrow> database \<Rightarrow> bool" where
  "gone_in S n d = ((\<forall>i\<in>S. i < n) \<and> (\<forall>u\<in>set (users d). uID u \<in> S \<longrightarrow> \<not> live_user u))"

interpretation gone: db_invariant "gone_in S" for S
  by unfold_locales (force simp: gone_in_def)

lemma gone_same: "gone_in S n d \<Longrightarrow> users d' = users d \<Longrightarrow> gone_in S (n + 1) d'"
  by (force simp: gone_in_def)

lemma gone_upd:
  assumes "gone_in S n d" and "\<And>u. uID (f u) = uID u" and "\<And>u. live_user (f u) \<Longrightarrow> live_user u"
  shows "gone_in S (n + 1) (d\<lparr>users := upd_where P f (users d)\<rparr>)"
proof -
  have "\<forall>u\<in>set (upd_where P f (users d)). uID u \<in> S \<longrightarrow> \<not> live_user u"
    by (rule upd_where_all) (use assms in \<open>auto simp: gone_in_def\<close>)
  with assms(1) show ?thesis by (auto simp: gone_in_def intro: order_less_trans)
qed

lemma gone_user_queries [simp]:
  "query_keeps (gone_in S) (UpdateUserLastLogin i)" "query_keeps (gone_in S) (UpdateUserPasswordHash i h)"
  "query_keeps (gone_in S) (MarkUserEmailVerified i)" "query_keeps (gone_in S) (UpdateUserStatus i us)"
  "query_keeps (gone_in S) (UpdateUserRole i ro)" "query_keeps (gone_in S) (SoftDeleteUser i)"
  by (rule query_keepsI, auto simp: UpdateUserLastLogin_def UpdateUserPasswordHash_def MarkUserEmailVerified_def
      UpdateUserStatus_def UpdateUserRole_def SoftDeleteUser_def live_user_def intro!: gone_upd)+

lemma gone_CreateUser [simp]: "query_keeps (gone_in S) (CreateUser e h fn ln)"
proof (rule query_keepsI)
  fix rl t n d x d'
  assume q: "CreateUser e h fn ln rl t n d = Inr (x, d')" and g: "gone_in S n d"
  from q have d': "d' = d\<lparr>users := users d @ [x]\<rparr>" and x: "uID x = n"
    by (auto simp: CreateUser_def Let_def split: if_splits)
  from g have "n \<notin> S" by (auto simp: gone_in_def)
  with g x show "gone_in S (n + 1) d'" unfolding d' by (force simp: gone_in_def)
qed

lemma gone_other_queries [simp]:
  "query_keeps (gone_in S) (CreateUserSettings i st)" "query_keeps (gone_in S) (CreateDeviceSession p)"
  "query_keeps (gone_in S) (RevokeDeviceSession i reason)" "query_keeps (gone_in S) (RevokeAllDeviceSessionsByUser i reason)"
  "query_keeps (gone_in S) (RevokeActiveDeviceSessionsByDeviceID dv reason)"
  "query_keeps (gone_in S) (CreateRefreshToken i h pre fam ex)" "query_keeps (gone_in S) (RevokeRefreshTokenByHash h reason)"
  "query_keeps (gone_in S) (RevokeRefreshTokensBySession i reason)"
  "query_keeps (gone_in S) (RevokeRefreshTokensByFamily fam2 reason)"
  "query_keeps (gone_in S) (InsertOutbox ty pl k)" "query_keeps (gone_in S) (MarkOutboxProcessed j)"
  "query_keeps (gone_in S) (MarkOutboxFailed j msg)" "query_keeps (gone_in S) (InsertOutboxDeadLetter dl)"
  "query_keeps (gone_in S) (CreateLoginAttempt em uid ch oc rem rid)" "query_keeps (gone_in S) (CreateAuditLog ar)"
  by (rule query_keepsI, auto simp: CreateUserSettings_def CreateDeviceSession_def RevokeDeviceSession_def
      RevokeAllDeviceSessionsByUser_def RevokeActiveDeviceSessionsByDeviceID_def CreateRefreshToken_def
      RevokeRefreshTokenByHash_def RevokeRefreshTokensBySession_def RevokeRefreshTokensByFamily_def InsertOutbox_def
      MarkOutboxProcessed_def MarkOutboxFailed_def InsertOutboxDeadLetter_def CreateLoginAttempt_def CreateAuditLog_def
      Let_def elim!: gone_same split: if_splits option.splits list.splits)+

interpretation gone: service_invariant "gone_in S" for S
  by unfold_locales simp_all

lemma DeleteAccount_gone:
  assumes wired: "wired_service s n" and i: "i < nextID w" and run: "run_state (DeleteAccount s c i) w = (Inr (), w')"
  shows "gone_in {i} (nextID w') (db w')"
proof -
  obtain x w1 where d: "run_state (users_SoftDeleteByID c i) w = (x, w1)" by fastforce
  with run obtain y where x: "x = Inr y" by (cases x) (auto simp: DeleteAccount_def)
  from d x have "run_state (run_query c (SoftDeleteUser i)) w = (Inr y, w1)" by (simp add: users_SoftDeleteByID_def)
  from run_query_Inr [OF this] have db: "db w1 = (db w)\<lparr>users := upd_where (\<lambda>u. uID u = i \<and> live_user u)
      (\<lambda>u. u\<lparr>uDeletedAt := Some (now w), uUpdatedAt := now w\<rparr>) (users (db w))\<rparr>"
    by (auto simp: SoftDeleteUser_def)
  have n: "nextID w \<le> nextID w1"
    using gone.repo_kept(9) [of "{}" c i] d by (auto simp: keeps_db_def gone_in_def)
  have "\<forall>u\<in>set (users (db w1)). uID u = i \<longrightarrow> \<not> live_user u"
    unfolding db by (simp, rule upd_where_all) (auto simp: live_user_def)
  with i n have g: "gone_in {i} (nextID w1) (db w1)" by (simp add: gone_in_def)
  let ?rest = "(do { RevokeAllSessions s c i ''account_deleted''; t \<leftarrow> getw now;
      bus_Publish (svBus s) c (UserAccountDeleted \<lparr>udUserID = i, udAccountID = 0, udRequestID = [], udOccurredAt = t\<rparr>);
      returnE () }) :: (_, unit) call"
  have "keeps_db (gone_in {i}) ?rest"
    using wired gone.service_kept [OF wired] by (auto simp: wired_service_def intro!: gone.keeps_intros)
  moreover have "run_state ?rest w1 = (Inr (), w')"
    using run d x by (simp add: DeleteAccount_def)
  ultimately show ?thesis using g by (blast dest: keeps_dbD)
qed

subsection \<open>Logout\<close>

lemma frames_redis_query [simp]: "frames (\<lambda>w. (redis w, redisFaults w)) (run_mapped c f q :: ('r, 'a) call)"
proof -
  have "frames redis (run_mapped c f q :: ('r, 'a) call)"
    "frames (\<lambda>w. ((), redisFaults w, draws w)) (run_mapped c f q :: ('r, 'a) call)"
    using dv.mapped_view by simp_all
  then show ?thesis by (simp add: frames_def)
qed

lemma revoke_stamps:
  assumes up: "db_up w" "redis_up w" and top: "\<not> cxInTx c" and t: "now w \<noteq> 0"
    and z: "\<forall>r\<in>set (sessions (db w)). srRevokedAt r \<noteq> Some 0"
  shows "\<exists>x w'. run_state (sessions_Revoke c reason i) w = (x, w') \<and> db_up w' \<and> redis_up w' \<and> redis w' = redis w \<and>
    (\<forall>r\<in>set (sessions (db w')). srID r = i \<longrightarrow> stamped r)"
proof -
  let ?q = "RevokeDeviceSession i reason" and ?f = "no_rows_as ErrSessionNotFound (''revoke session '' @ show_int i)"
  obtain y w' where m: "run_state (run_mapped c ?f ?q) w = (y, w')" by fastforce
  have r: "redis w' = redis w" "redis_up w'"
    using framesD [OF frames_redis_query m] up(2) by (simp_all add: redis_up_def)
  from run_query_total [OF up(1) top, of ?q] obtain x v where
    q: "run_state (run_query c ?q) w = (x, v)" "db_up v" and
    d: "case ?q (dbRole w) (now w) (nextID w) (db w) of Inl e \<Rightarrow> x = Inl e \<and> db v = db w | Inr (y, d) \<Rightarrow> x = Inr y \<and> db v = d"
    by blast
  have v: "v = w'" using m q(1) run_mapped_snd [of c ?f ?q w] by simp
  have "\<forall>r\<in>set (sessions (db w')). srID r = i \<longrightarrow> stamped r"
  proof (cases "?q (dbRole w) (now w) (nextID w) (db w)")
    case (Inl e)
    with d v have "db w' = db w" by simp
    with revoke_query_none [OF Inl] z show ?thesis by (force simp: active_row_def stamped_def)
  next
    case (Inr p)
    with d v have "db w' = (db w)\<lparr>sessions := upd_where (\<lambda>r. srID r = i \<and> active_row r) (revoke_row (now w) reason) (sessions (db w))\<rparr>"
      by (auto simp: RevokeDeviceSession_def split: list.splits)
    moreover have "\<forall>r\<in>set (upd_where (\<lambda>r. srID r = i \<and> active_row r) (revoke_row (now w) reason) (sessions (db w))).
        srID r = i \<longrightarrow> stamped r"
      by (rule upd_where_all) (use t z in \<open>auto simp: revoke_row_def stamped_def active_row_def split: option.split\<close>)
    ultimately show ?thesis by simp
  qed
  moreover have "\<exists>x. run_state (sessions_Revoke c reason i) w = (x, w')"
    using m by (auto simp: sessions_Revoke_def split: sum.split)
  ultimately show ?thesis using q(2) v r by blast
qed

lemma session_revoked_for_good:
  assumes "wired_service s n" and "revoked_in {i} (nextID w) (db w)"
  shows "\<forall>w2. (service_step s)\<^sup>*\<^sup>* w w2 \<longrightarrow>
      (\<forall>ic c2 u ds w3. run_state (authenticate ic c2) w2 = (Inr (u, ds), w3) \<longrightarrow> dsID ds \<noteq> i) \<and>
      (\<forall>c2 tok2 tp w3. run_state (RefreshTokens s c2 tok2) w2 = (Inr tp, w3) \<longrightarrow>
         (\<exists>t\<in>set (refreshTokens (db w2)). rrTokenHash t = hashToken (svExt s) tok2 \<and> rrSessionID t \<noteq> i))"
proof (intro allI impI conjI)
  fix w2 assume "(service_step s)\<^sup>*\<^sup>* w w2"
  from rev.reachable_keeps [OF assms(1) this assms(2)]
  have st: "r \<in> set (sessions (db w2)) \<Longrightarrow> srID r = i \<Longrightarrow> stamped r" for r by (simp add: revoked_in_def)
  show "dsID ds \<noteq> i" if "run_state (authenticate ic c2) w2 = (Inr (u, ds), w3)" for ic c2 u ds w3
    using authenticate_Inr [OF that] st by (auto simp: session_loaded_def toDeviceSession_def)
  show "\<exists>t\<in>set (refreshTokens (db w2)). rrTokenHash t = hashToken (svExt s) tok2 \<and> rrSessionID t \<noteq> i"
    if "run_state (RefreshTokens s c2 tok2) w2 = (Inr tp, w3)" for c2 tok2 tp w3
    using RefreshTokens_Inr [OF that] st by metis
qed

text \<open>C27. Logging out ends the session for good: with the database and Redis up, afterwards the session's row
  is stamped, none of its refresh tokens is live and the access token presented is gone from Redis,
  and no later state the services reach authenticates or refreshes as that session.\<close>

theorem logout_ends_session:
  assumes "services (svExt s)" and "wired_service s n" and "db_up w" and "redis_up w" and "\<not> cxInTx c"
    and "i < nextID w" and "now w \<noteq> 0" and "\<forall>r\<in>set (sessions (db w)). srRevokedAt r \<noteq> Some 0" and "tok \<noteq> []"
    and "w1 = after (Logout s c i tok) w"
  shows "(\<forall>t\<in>set (refreshTokens (db w1)). rrSessionID t = i \<longrightarrow> \<not> live_token t) \<and>
    rdKeys (svR s) (redis w1) (redisKey (svExt s) tok) = None \<and>
    (\<forall>w2. (service_step s)\<^sup>*\<^sup>* w1 w2 \<longrightarrow>
      (\<forall>ic c2 u ds w3. run_state (authenticate ic c2) w2 = (Inr (u, ds), w3) \<longrightarrow> dsID ds \<noteq> i) \<and>
      (\<forall>c2 tok2 tp w3. run_state (RefreshTokens s c2 tok2) w2 = (Inr tp, w3) \<longrightarrow>
         (\<exists>t\<in>set (refreshTokens (db w2)). rrTokenHash t = hashToken (svExt s) tok2 \<and> rrSessionID t \<noteq> i)))"
proof -
  obtain x wa where a: "run_state (sessions_Revoke c ''logout'' i) w = (x, wa)" "db_up wa" "redis_up wa"
      "redis wa = redis w" "\<forall>r\<in>set (sessions (db wa)). srID r = i \<longrightarrow> stamped r"
    using revoke_stamps [OF assms(3,4,5,7,8)] by blast
  have R: "redis_service (svR s)" using services.axioms(1) [OF assms(1)] by (simp add: svR_def)
  let ?wb = "wa\<lparr>redis := rdDel (svR s) (redis wa) (now wa) (redisKey (svExt s) tok)\<rparr>"
  have b: "run_state (at_Revoke (svExt s) tok) wa = (Inr (), ?wb)"
    using a(3) by (simp add: at_Revoke_def redis_call_up svR_def)
  let ?ts = "upd_where (\<lambda>r. rrSessionID r = i \<and> live_token r) (revoke_token (now wa) ''logout'') (refreshTokens (db wa))"
  let ?wc = "after_query c ((db wa)\<lparr>refreshTokens := ?ts\<rparr>) ?wb"
  have "run_state (run_query c (RevokeRefreshTokensBySession i ''logout'')) ?wb = (Inr (), ?wc)"
    by (rule run_query_up) (use a(2) in \<open>simp_all add: db_up_def RevokeRefreshTokensBySession_def\<close>)
  then have c: "run_state (refresh_RevokeBySessionID c i ''logout'') ?wb = (Inr (), ?wc)"
    by (simp add: refresh_RevokeBySessionID_def)
  have d: "run_state (cache_delete (svR s) (svP s) (SessionDataKey i)) ?wc =
      (Inr (), ?wc\<lparr>redis := rdDel (svR s) (redis ?wc) (now ?wc) (buildKey (svP s) (SessionDataKey i))\<rparr>)"
    using a(3) by (simp add: cache_delete_def redis_call_up redis_up_def)
  have w1: "db w1 = (db wa)\<lparr>refreshTokens := ?ts\<rparr>" "redis w1 = rdDel (svR s) (redis ?wb) (now wa) (buildKey (svP s) (SessionDataKey i))"
    using a(1) b c d assms(9) by (simp_all add: assms(10) Logout_def)
  have "\<forall>t\<in>set (refreshTokens (db w1)). rrSessionID t = i \<longrightarrow> \<not> live_token t"
    unfolding w1 by (simp, rule upd_where_all) (auto simp: revoke_token_def live_token_def)
  moreover have "rdKeys (svR s) (redis w1) (redisKey (svExt s) tok) = None"
    by (simp add: w1 redis_service.del_law [OF R])
  moreover have "nextID w \<le> nextID w1"
    using keeps_db_after [OF gone.service_kept(4) [OF assms(2)], of "{}" w c i tok] by (simp add: assms(10) gone_in_def)
  then have rev: "revoked_in {i} (nextID w1) (db w1)" using a(5) assms(6) w1(1) by (simp add: revoked_in_def)
  ultimately show ?thesis
    using session_revoked_for_good [OF assms(2) rev] by simp
qed

subsection \<open>Mailed tokens work once\<close>

lemma getdel_run:
  assumes R: "redis_service R" and run: "run_state (cache_getdel R p dest key) w = (x, w')"
  shows "db w' = db w \<and> now w' = now w \<and> dbFaults w' = dbFaults w \<and> txAborted w' = txAborted w" (is ?frame)
    and "x = Inr (Some y) \<Longrightarrow> (\<exists>v. visible (rdKeys R (redis w)) (now w) (buildKey p key) = Some (RData v) \<and> dest v = Some y) \<and>
      rdKeys R (redis w') (buildKey p key) = None"
    and "rdKeys R (redis w) (buildKey p key) = None \<Longrightarrow> x = Inr None \<or> (\<exists>e. x = Inl e)"
proof -
  let ?f = "\<lambda>s t. let k = buildKey p key in (rdGet R s t k, rdDel R s t k)"
  obtain r v where c: "run_state (redis_call ?f) w = (r, v)" by fastforce
  have x: "x = (case r of Inl e \<Rightarrow> Inl e | Inr v \<Rightarrow> decode dest v)" "w' = v"
    using run c by (auto simp: cache_getdel_def split: sum.splits)
  from c have v: "db v = db w \<and> now v = now w \<and> dbFaults v = dbFaults w \<and> txAborted v = txAborted w"
    using redis_call_frame [of ?f w] by simp
  then show ?frame using x(2) by simp
  from c have r: "(\<exists>e. r = Inl e) \<or> r = Inr (rdGet R (redis w) (now w) (buildKey p key)) \<and>
      redis v = rdDel R (redis w) (now w) (buildKey p key)"
    by (auto simp: redis_call_def Let_def split: list.splits bool.splits)
  show "(\<exists>v. visible (rdKeys R (redis w)) (now w) (buildKey p key) = Some (RData v) \<and> dest v = Some y) \<and>
      rdKeys R (redis w') (buildKey p key) = None" if "x = Inr (Some y)"
    using that r x by (auto simp: decode_def redis_service.get_law [OF R] redis_service.del_law [OF R]
        split: option.splits redis_value.splits)
  show "x = Inr None \<or> (\<exists>e. x = Inl e)" if "rdKeys R (redis w) (buildKey p key) = None"
    using that r x by (auto simp: decode_def redis_service.get_law [OF R] visible_def)
qed

definition token_key :: "'r auth_service \<Rightarrow> string \<Rightarrow> string" where
  "token_key s key = buildKey (svP s) key"

text \<open>The user whose id a stored token carries.\<close>

definition token_for :: "'r auth_service \<Rightarrow> 'r world \<Rightarrow> string \<Rightarrow> int \<Rightarrow> bool" where
  "token_for s w key i = (visible (rdKeys (svR s) (redis w)) (now w) (token_key s key) = Some (RData (JTokenData i)))"

lemma as_token_data_Some: "as_token_data v = Some i \<longleftrightarrow> v = JTokenData i"
  by (cases v) (auto simp: as_token_data_def)

lemma VerifyEmail_spent:
  assumes "services (svExt s)" and "rdKeys (svR s) (redis w) (token_key s (VerificationTokenKey tok)) = None"
  shows "fst (run_state (VerifyEmail s c tok) w) = Inl (AppE ErrInvalidVerificationToken) \<and> db (after (VerifyEmail s c tok) w) = db w"
proof -
  have R: "redis_service (svR s)" using services.axioms(1) [OF assms(1)] by (simp add: svR_def)
  obtain x w' where g: "run_state (cache_getdel (svR s) (svP s) as_token_data (VerificationTokenKey tok)) w = (x, w')" by fastforce
  from getdel_run(1,3) [OF R g] assms(2) g show ?thesis
    by (auto simp: VerifyEmail_def token_key_def)
qed

text \<open>A verification token works once: when \<open>VerifyEmail\<close> succeeds, whatever failed before or fails
  later, the token was stored for a user whose address is now verified, and presenting the token
  again is refused and changes no table as long as no such token is issued anew.\<close>

theorem verification_token_works_once:
  assumes "services (svExt s)" and "run_state (VerifyEmail s c tok) w = (Inr (), w1)"
    and "rdKeys (svR s) (redis w2) (token_key s (VerificationTokenKey tok)) =
      rdKeys (svR s) (redis w1) (token_key s (VerificationTokenKey tok))"
  shows "(\<exists>i. token_for s w (VerificationTokenKey tok) i \<and>
      (\<forall>u\<in>set (users (db w1)). uID u = i \<longrightarrow> uEmailVerifiedAt u = Some (now w))) \<and>
    fst (run_state (VerifyEmail s c2 tok) w2) = Inl (AppE ErrInvalidVerificationToken) \<and>
    db (after (VerifyEmail s c2 tok) w2) = db w2"
proof -
  have R: "redis_service (svR s)" using services.axioms(1) [OF assms(1)] by (simp add: svR_def)
  obtain x w' where g: "run_state (cache_getdel (svR s) (svP s) as_token_data (VerificationTokenKey tok)) w = (x, w')" by fastforce
  from assms(2) g obtain i where x: "x = Inr (Some i)"
    and m: "run_state (users_MarkEmailVerified c i) w' = (Inr (), w1)"
    by (auto simp: VerifyEmail_def split: sum.splits option.splits)
  from getdel_run(1,2) [OF R g] x have k: "token_for s w (VerificationTokenKey tok) i" "now w' = now w"
      "rdKeys (svR s) (redis w') (token_key s (VerificationTokenKey tok)) = None"
    by (auto simp: token_for_def token_key_def as_token_data_Some)
  from m have q: "run_state (run_query c (MarkUserEmailVerified i)) w' = (Inr (), w1)" by (simp add: users_MarkEmailVerified_def)
  from run_query_Inr [OF q] k(2) have d: "users (db w1) =
      upd_where (\<lambda>u. uID u = i) (\<lambda>u. u\<lparr>uEmailVerifiedAt := Some (now w), uUpdatedAt := now w\<rparr>) (users (db w'))"
    by (auto simp: MarkUserEmailVerified_def)
  have "\<forall>u\<in>set (users (db w1)). uID u = i \<longrightarrow> uEmailVerifiedAt u = Some (now w)"
    unfolding d by (rule upd_where_all) auto
  moreover have "redis w1 = redis w'" using framesD [OF redis_query(1) q] .
  ultimately show ?thesis using k VerifyEmail_spent [OF assms(1), of w2 tok c2] assms(3) by auto
qed

subsection \<open>Password reset\<close>

lemma ResetPassword_spent:
  assumes "services (svExt s)" and "rdKeys (svR s) (redis w) (token_key s (PasswordResetKey tok)) = None"
  shows "(\<exists>e. fst (run_state (ResetPassword s c tok pw) w) = Inl e) \<and> db (after (ResetPassword s c tok pw) w) = db w"
proof -
  have R: "redis_service (svR s)" using services.axioms(1) [OF assms(1)] by (simp add: svR_def)
  obtain x w' where g: "run_state (cache_getdel (svR s) (svP s) as_token_data (PasswordResetKey tok)) w = (x, w')" by fastforce
  from getdel_run(1,3) [OF R g] assms(2) g show ?thesis
    by (auto simp: ResetPassword_def token_key_def split: sum.split)
qed

lemma hasher_hash_up:
  assumes "services E" and "run_state (hasher_hash E h plain) w = (Inr enc, w')"
  shows "verifyPassword E enc plain \<and> db w' = db w \<and> redis w' = redis w \<and> now w' = now w"
  using hasher_hash_Inr [OF assms(2)] encoded_hash_verifies [OF assms(1)] by auto

lemma hasher_hash_flags:
  "run_state (hasher_hash E h plain) w = (x, w') \<Longrightarrow> dbFaults w' = dbFaults w \<and> txAborted w' = txAborted w"
  by (auto simp: hasher_hash_def rand_read_def Let_def split: option.splits)

lemma UpdatePasswordHash_run:
  assumes "run_state (users_UpdatePasswordHash c i h) w = (Inr (), w')"
  shows "users (db w') = upd_where (\<lambda>u. uID u = i) (\<lambda>u. u\<lparr>uPasswordHash := h, uUpdatedAt := now w\<rparr>) (users (db w)) \<and>
    sessions (db w') = sessions (db w) \<and> redis w' = redis w"
proof -
  from assms have q: "run_state (run_query c (UpdateUserPasswordHash i h)) w = (Inr (), w')"
    by (simp add: users_UpdatePasswordHash_def)
  from run_query_Inr [OF q] framesD [OF redis_query(1) q] show ?thesis by (auto simp: UpdateUserPasswordHash_def)
qed


subsection \<open>The device limit\<close>

text \<open>The devices that count: active and not idle.\<close>

definition counting :: "int \<Rightarrow> time \<Rightarrow> session_row \<Rightarrow> bool" where
  "counting i thr r = (srUserID r = i \<and> active_row r \<and> srLastActivity r > thr)"

definition counting_ids :: "int \<Rightarrow> time \<Rightarrow> database \<Rightarrow> int multiset" where
  "counting_ids i thr d = image_mset srID (mset (filter (counting i thr) (sessions d)))"

lemma counting_revoke:
  assumes "distinct (map srID (sessions d))" and "r \<in> set (sessions d)" and "counting i thr r"
  shows "counting_ids i thr (d\<lparr>sessions := upd_where (\<lambda>x. srID x = srID r \<and> active_row x) (revoke_row t reason) (sessions d)\<rparr>) =
    counting_ids i thr d - {#srID r#}"
proof -
  have "distinct (map srID ss) \<Longrightarrow>
      filter (counting i thr) (upd_where (\<lambda>x. srID x = k \<and> active_row x) (revoke_row t reason) ss) =
      filter (\<lambda>x. srID x \<noteq> k) (filter (counting i thr) ss)" for ss k
    by (induction ss) (auto simp: counting_def revoke_row_def active_row_def)
  note 1 = this [OF assms(1), of "srID r"]
  have "distinct (map srID ss) \<Longrightarrow> r \<in> set ss \<Longrightarrow>
      image_mset srID (mset (filter (\<lambda>x. srID x \<noteq> srID r) ss)) = image_mset srID (mset ss) - {#srID r#}" for ss
  proof (induction ss)
    case (Cons a ss)
    show ?case
    proof (cases "a = r")
      case True
      with Cons.prems have "filter (\<lambda>x. srID x \<noteq> srID r) ss = ss" by (auto simp: filter_id_conv image_iff)
      with True show ?thesis by simp
    next
      case False
      with Cons.prems have "r \<in> set ss" "srID a \<noteq> srID r" by (auto simp: image_iff)
      with Cons show ?thesis by simp
    qed
  qed simp
  from this [of "filter (counting i thr) (sessions d)"] assms 1 show ?thesis
    by (simp add: counting_ids_def distinct_map_filter)
qed

lemma revoke_counted_up:
  assumes up: "db_up w" and top: "\<not> cxInTx c" and dist: "distinct (map srID (sessions (db w)))"
    and k: "dsID ds \<in># counting_ids i thr (db w)"
  shows "\<exists>w'. run_state (revokeSessionAndTokens s c ds reason) w = (Inr (), w') \<and> db_up w' \<and> now w' = now w \<and>
    map srID (sessions (db w')) = map srID (sessions (db w)) \<and>
    counting_ids i thr (db w') = counting_ids i thr (db w) - {#dsID ds#}"
proof -
  from k obtain r where r: "r \<in> set (sessions (db w))" "counting i thr r" "srID r = dsID ds"
    by (auto simp: counting_ids_def)
  let ?q = "RevokeDeviceSession (dsID ds) reason"
  let ?d = "(db w)\<lparr>sessions := upd_where (\<lambda>x. srID x = dsID ds \<and> active_row x) (revoke_row (now w) reason) (sessions (db w))\<rparr>"
  obtain x xs where "filter (\<lambda>x. srID x = dsID ds \<and> active_row x) (sessions (db w)) = x # xs"
    using r by (cases "filter (\<lambda>x. srID x = dsID ds \<and> active_row x) (sessions (db w))") (auto simp: filter_empty_conv counting_def)
  then have "?q (dbRole w) (now w) (nextID w) (db w) = Inr (revoke_row (now w) reason x, ?d)" by (simp add: RevokeDeviceSession_def)
  from run_query_up [of w ?q _ ?d c, OF up this]
  have "run_state (run_mapped c f ?q) w = (Inr (revoke_row (now w) reason x), after_query c ?d w)" for f
    by (simp only: run_mapped_Inr)
  then have a: "run_state (sessions_Revoke c reason (dsID ds)) w =
      (Inr (toDeviceSession (revoke_row (now w) reason x)), after_query c ?d w)"
    by (simp add: sessions_Revoke_def)
  have "db_up (after_query c ?d w)" using up by simp
  from run_query_total [OF this top, of "RevokeRefreshTokensBySession (dsID ds) reason"] obtain z w2 where
    b: "run_state (refresh_RevokeBySessionID c (dsID ds) reason) (after_query c ?d w) = (z, w2)" "db_up w2" "now w2 = now w"
      "sessions (db w2) = sessions ?d"
    by (auto simp: refresh_RevokeBySessionID_def RevokeRefreshTokensBySession_def)
  let ?w' = "after (cache_delete (svR s) (svP s) (SessionDataKey (dsID ds))) w2"
  have w': "db ?w' = db w2" "now ?w' = now w2" "db_up ?w'"
    using b(2) by (simp_all add: cache_delete_def redis_call_frame db_up_def)
  have "run_state (revokeSessionAndTokens s c ds reason) w = (Inr (), ?w')"
    using a b(1) by (simp add: revokeSessionAndTokens_def case_prod_beta)
  moreover have "counting_ids i thr (db ?w') = counting_ids i thr ?d"
    using b(4) w'(1) by (simp add: counting_ids_def)
  moreover have "counting_ids i thr ?d = counting_ids i thr (db w) - {#dsID ds#}"
    using counting_revoke [OF dist r(1,2)] r(3) by simp
  moreover have "map srID (sessions ?d) = map srID (sessions (db w))"
    by (simp add: map_upd_where revoke_row_def)
  ultimately show ?thesis using b w' by auto
qed

lemma evict_loop_up:
  assumes top: "\<not> cxInTx c"
  shows "db_up w \<Longrightarrow> distinct (map srID (sessions (db w))) \<Longrightarrow> mset (map dsID ss) = counting_ids i thr (db w) \<Longrightarrow>
      0 < cfMaxDevicesPerUser (svCfg s) \<Longrightarrow>
    int (size (counting_ids i thr (db (after (evict_loop s c ss) w)))) < cfMaxDevicesPerUser (svCfg s)"
proof (induction ss arbitrary: w)
  case Nil
  then show ?case by simp
next
  case (Cons d ss)
  have sz: "size (counting_ids i thr (db w)) = length (d # ss)"
    using Cons.prems(3) by (metis length_map size_mset)
  show ?case
  proof (cases "int (length (d # ss)) \<ge> cfMaxDevicesPerUser (svCfg s)")
    case True
    have "dsID d \<in># counting_ids i thr (db w)" using Cons.prems(3) [symmetric] by simp
    from revoke_counted_up [OF Cons.prems(1) top Cons.prems(2) this, of s "''device_limit''"] obtain w' where
      w': "run_state (revokeSessionAndTokens s c d ''device_limit'') w = (Inr (), w')" "db_up w'"
        "map srID (sessions (db w')) = map srID (sessions (db w))"
        "counting_ids i thr (db w') = counting_ids i thr (db w) - {#dsID d#}" by blast
    have "mset (map dsID ss) = counting_ids i thr (db w')" using Cons.prems(3) [symmetric] w'(4) by simp
    from Cons.IH [OF w'(2) _ this Cons.prems(4)] Cons.prems(2) w'(1,3) True show ?thesis by simp
  next
    case False
    with sz show ?thesis by simp
  qed
qed

lemma FindActive_up:
  assumes "db_up w"
  shows "run_state (sessions_FindActiveDevicesByUser c i d) w =
    (Inr (map toDeviceSession (active_devices i (now w - d) (sessions (db w)))), after_query c (db w) w)"
proof -
  have "run_state (run_query c (ListActiveDevicesByUser i (now w - d))) w =
      (Inr (active_devices i (now w - d) (sessions (db w))), after_query c (db w) w)"
    by (rule run_query_up [OF assms]) (simp add: ListActiveDevicesByUser_def)
  then have "run_state (run_mapped c f (ListActiveDevicesByUser i (now w - d))) w =
      (Inr (active_devices i (now w - d) (sessions (db w))), after_query c (db w) w)" for f
    by (simp only: run_mapped_Inr)
  then show ?thesis by (simp add: sessions_FindActiveDevicesByUser_def)
qed

lemma evict_up:
  assumes up: "db_up w" and top: "\<not> cxInTx c" and dist: "distinct (map srID (sessions (db w)))"
    and pos: "0 < cfMaxDevicesPerUser (svCfg s)"
  shows "int (size (counting_ids i (now w - cfMaxInactivityTimeout (svCfg s)) (db (after (evictOldestIfOverLimit s c i) w))))
    < cfMaxDevicesPerUser (svCfg s)"
proof -
  let ?thr = "now w - cfMaxInactivityTimeout (svCfg s)" and ?w1 = "after_query c (db w) w"
  let ?rows = "active_devices i ?thr (sessions (db w))"
  have f: "run_state (sessions_FindActiveDevicesByUser c i (cfMaxInactivityTimeout (svCfg s))) w = (Inr (map toDeviceSession ?rows), ?w1)"
    by (rule FindActive_up [OF up])
  have "mset (map dsID (rev (map toDeviceSession ?rows))) = counting_ids i ?thr (db ?w1)"
    by (simp add: counting_ids_def active_devices_def order_desc_def multiset.map_comp comp_def toDeviceSession_def counting_def)
  from evict_loop_up [OF top, of ?w1 "rev (map toDeviceSession ?rows)" i ?thr s] this up dist pos f
  show ?thesis by (simp add: evictOldestIfOverLimit_def)
qed

lemma length_filter_upd:
  "(\<And>x. P x \<Longrightarrow> \<not> C (f x)) \<Longrightarrow> length (filter C (upd_where P f ss)) \<le> length (filter C ss)"
  by (induction ss) auto

lemma session_tx_count:
  assumes "run_state (session_tx s u ds stt c) w = (Inr (tp, ds2), w')"
  shows "length (filter (counting i thr) (sessions (db w'))) \<le> length (filter (counting i thr) (sessions (db w))) + 1"
proof -
  let ?pre = "if dsDeviceID ds \<noteq> [] then sessions_RevokeActiveByDeviceID c (dsDeviceID ds) ''relogin'' else returnE ()"
  from assms obtain w1 ds1 w2 where p: "run_state ?pre w = (Inr (), w1)"
    and c: "run_state (sessions_Create c ds) w1 = (Inr ds1, w2)"
    and g: "run_state (generateTokenPair s c u (ds1\<lparr>dsUser := Some u\<rparr>) stt) w2 = (Inr tp, w')"
    unfolding session_tx_def by (auto simp: Let_def split: sum.splits prod.splits)
  have "length (filter (counting i thr) (sessions (db w1))) \<le> length (filter (counting i thr) (sessions (db w)))"
  proof (cases "dsDeviceID ds = []")
    case False
    with p have "run_state (run_query c (RevokeActiveDeviceSessionsByDeviceID (dsDeviceID ds) ''relogin'')) w = (Inr (), w1)"
      by (simp add: sessions_RevokeActiveByDeviceID_def)
    from run_query_Inr [OF this] have "sessions (db w1) = upd_where (\<lambda>r. srDeviceID r = dsDeviceID ds \<and> active_row r)
        (revoke_row (now w) ''relogin'') (sessions (db w))"
      by (auto simp: RevokeActiveDeviceSessionsByDeviceID_def)
    then show ?thesis
      by (simp only:) (rule length_filter_upd, simp add: counting_def revoke_row_def active_row_def)
  qed (use p in simp)
  with sessions_Create_Inr [OF c] generateTokenPair_Inr [OF g] show ?thesis by auto
qed


subsection \<open>Changing the password\<close>

lemma revoke_others_up:
  assumes top: "\<not> cxInTx c" and keep: "\<forall>x\<in>#K. x = k"
  shows "db_up w \<Longrightarrow> distinct (map srID (sessions (db w))) \<Longrightarrow> counting_ids i thr (db w) = mset (map dsID ss) + K \<Longrightarrow>
    \<forall>x\<in>#counting_ids i thr (db (after
      (for_each (\<lambda>d. if dsID d = k then ret () else revoke_logged s c reason d) ss) w)). x = k"
  using keep
proof (induction ss arbitrary: w K)
  case (Cons d ss)
  show ?case
  proof (cases "dsID d = k")
    case True
    with Cons.prems(3) have "counting_ids i thr (db w) = mset (map dsID ss) + add_mset k K" by simp
    from Cons.IH [OF Cons.prems(1,2) this] Cons.prems(4) True show ?thesis by simp
  next
    case False
    have "dsID d \<in># counting_ids i thr (db w)" using Cons.prems(3) by simp
    from revoke_counted_up [OF Cons.prems(1) top Cons.prems(2) this, of s reason] obtain w' where
      w': "run_state (revokeSessionAndTokens s c d reason) w = (Inr (), w')" "db_up w'"
        "map srID (sessions (db w')) = map srID (sessions (db w))"
        "counting_ids i thr (db w') = counting_ids i thr (db w) - {#dsID d#}" by blast
    have "counting_ids i thr (db w') = mset (map dsID ss) + K" using Cons.prems(3) w'(4) by simp
    from Cons.IH [OF w'(2) _ this Cons.prems(4)] Cons.prems(2) w'(1,3) False show ?thesis
      by (simp add: revoke_logged_def)
  qed
qed simp

lemma RevokeOthers_up:
  assumes up: "db_up w" and top: "\<not> cxInTx c" and dist: "distinct (map srID (sessions (db w)))"
  shows "\<forall>r\<in>set (sessions (db (after (RevokeOtherSessions s c i k reason) w))).
    counting i (now w - cfMaxInactivityTimeout (svCfg s)) r \<longrightarrow> srID r = k"
proof -
  let ?thr = "now w - cfMaxInactivityTimeout (svCfg s)" and ?w1 = "after_query c (db w) w"
  let ?ss = "map toDeviceSession (active_devices i ?thr (sessions (db w)))"
  have f: "run_state (sessions_FindActiveDevicesByUser c i (cfMaxInactivityTimeout (svCfg s))) w = (Inr ?ss, ?w1)"
    by (rule FindActive_up [OF up])
  have "counting_ids i ?thr (db ?w1) = mset (map dsID ?ss) + {#}"
    by (simp add: counting_ids_def active_devices_def order_desc_def multiset.map_comp comp_def toDeviceSession_def counting_def)
  from revoke_others_up [OF top _ _ _ this, of k s reason] up dist f show ?thesis
    by (auto simp: RevokeOtherSessions_def case_prod_beta counting_ids_def)
qed

lemma revoke_others_users: "frames user_view (RevokeOtherSessions s c i k reason)"
proof -
  have "frames user_view (revoke_logged s c reason ds)" for ds
    by (auto simp: revoke_logged_def revokeSessionAndTokens_def intro!: frames_intros)
  then show ?thesis by (auto simp: RevokeOtherSessions_def intro!: frames_intros)
qed

text \<open>Changing the password needs the current one and signs the other devices out: when \<open>ChangePassword\<close>
  succeeds with the database up, the current password verified against the stored hash of the live
  user, the new one verifies against the hash now stored, and of the user's sessions that are active
  and not idle only the one that asked is left.\<close>

theorem password_change_signs_others_out:
  assumes "services (svExt s)" and "db_up w" and "\<not> cxInTx c" and "distinct (map srID (sessions (db w)))"
    and "run_state (ChangePassword s c i k old new) w = (Inr (), w1)"
  shows "(\<exists>u\<in>set (users (db w)). uID u = i \<and> live_user u \<and> verifyPassword (svExt s) (uPasswordHash u) old) \<and>
    (\<forall>u\<in>set (users (db w1)). uID u = i \<longrightarrow> verifyPassword (svExt s) (uPasswordHash u) new) \<and>
    (\<forall>r\<in>set (sessions (db w1)). counting i (now w - cfMaxInactivityTimeout (svCfg s)) r \<longrightarrow> srID r = k)"
proof -
  obtain x wa where f: "run_state (users_FindByID c i) w = (x, wa)" by fastforce
  from assms(5) f obtain u enc wb wc where x: "x = Inr u"
    and ok: "verifyPassword (svExt s) (uPasswordHash u) old"
    and h: "run_state (hasher_hash (svExt s) (svHasher s) new) wa = (Inr enc, wb)"
    and up: "run_state (users_UpdatePasswordHash c i enc) wb = (Inr (), wc)"
    and w1: "w1 = after (RevokeOtherSessions s c i k ''password_change'') wc"
    by (auto simp: ChangePassword_def split: sum.splits if_splits prod.splits)
  from f x have "run_state (run_query c (GetUserByID i)) w = (Inr u, wa)" by (simp add: users_FindByID_def run_mapped_Inr)
  with run_query_Inr [OF this] run_query_total [OF assms(2,3), of "GetUserByID i"]
  have a: "u \<in> set (users (db w))" "uID u = i" "live_user u" "db wa = db w" "now wa = now w" "db_up wa"
    by (auto simp: GetUserByID_def first_row_Inr dest!: filter_Cons_in)
  from hasher_hash_up [OF assms(1) h] hasher_hash_flags [OF h] a have b: "verifyPassword (svExt s) enc new"
      "db wb = db w" "now wb = now w" "db_up wb"
    by (auto simp: db_up_def)
  from UpdatePasswordHash_run [OF up] b have c: "sessions (db wc) = sessions (db w)"
      "users (db wc) = upd_where (\<lambda>u. uID u = i) (\<lambda>u. u\<lparr>uPasswordHash := enc, uUpdatedAt := now wb\<rparr>) (users (db wb))" by auto
  from run_query_total [OF b(4) assms(3), of "UpdateUserPasswordHash i enc"] up b have upc: "db_up wc" "now wc = now w"
    by (auto simp: users_UpdatePasswordHash_def)
  have "\<forall>u\<in>set (users (db wc)). uID u = i \<longrightarrow> verifyPassword (svExt s) (uPasswordHash u) new"
    unfolding c(2) by (rule upd_where_all) (use b(1) in auto)
  moreover have "users (db w1) = users (db wc)"
    unfolding w1 using revoke_others_users [of s c i k "''password_change''"] by (auto simp: frames_def user_view_def)
  moreover have "\<forall>r\<in>set (sessions (db w1)). counting i (now w - cfMaxInactivityTimeout (svCfg s)) r \<longrightarrow> srID r = k"
    using RevokeOthers_up [OF upc(1) assms(3), of s i k "''password_change''"] assms(4) c(1) upc(2) by (simp add: w1)
  ultimately show ?thesis using a ok by auto
qed

subsection \<open>Registration\<close>

lemma sendVerification_db: "wired_service s n \<Longrightarrow> frames (\<lambda>w. db w) (sendVerification s c u)"
proof -
  assume "wired_service s n"
  then have "frames mail_view (esVerification (svEmail s) c a t)" for a t by (simp add: wired_service_def mail_only_def)
  then have "frames (\<lambda>w. db w) (esVerification (svEmail s) c a t)" for a t
    by (simp add: frames_def mail_view_def)
  then show ?thesis
    by (auto simp: sendVerification_def cache_set_def NewUUIDNoDash_def Let_def frames_def [of _ "State f" for f]
        intro!: frames_intros frames_redis_call)
qed

lemma createSession_in_tx:
  assumes "cxInTx c" and "run_state (createSessionAndTokens s c u dev stt) w = (Inr tp, w')"
  shows "tpUser tp = u \<and> (\<exists>ds. session_made (db w') (toSession dev (uID u)) ds (now w))"
proof -
  obtain w1 where ev: "run_state (evictOldestIfOverLimit s c (uID u)) w = ((), w1)"
    by (cases "run_state (evictOldestIfOverLimit s c (uID u)) w") auto
  have n: "now w1 = now w" using framesD [OF evict_user ev] by (simp add: user_view_def)
  from assms ev obtain ds w2 where tx: "run_state (session_tx s u (toSession dev (uID u)) stt c) w1 = (Inr (tp, ds), w2)"
    and "w' = after (cache_set (svR s) (svP s) (SessionDataKey (dsID ds)) (JSession ds) CacheLong) w2"
    by (auto simp: createSessionAndTokens_def with_tx_nested split: sum.splits prod.splits)
  then have "db w' = db w2" by (simp add: cache_set_def Let_def redis_call_frame)
  with session_tx_Inr [OF tx] n show ?thesis by auto
qed

lemma CreateUser_Inr:
  "CreateUser e h fn ln rl t n d = Inr (u, d') \<Longrightarrow> users d' = users d @ [u] \<and> uID u = n \<and> uEmail u = e \<and> uPasswordHash u = h \<and>
     live_user u \<and> uStatus u = StActive \<and> uRole u = RoUser \<and> \<not> list_ex (\<lambda>v. citext_eq (uEmail v) e \<and> live_user v) (users d)"
  by (auto simp: CreateUser_def Let_def live_user_def split: if_splits)

lemma register_tx_Inr:
  assumes "run_state (register_tx s em hash inp c) w = (Inr (tp, u), w')" and "cxInTx c"
  shows "tpUser tp = u \<and> u \<in> set (users (db w')) \<and> uID u = nextID w \<and> uEmail u = em \<and> uPasswordHash u = hash \<and>
    live_user u \<and> uStatus u = StActive \<and> uRole u = RoUser \<and> (\<exists>ds. session_made (db w') (toSession (riDevice inp) (uID u)) ds (now w)) \<and>
    (\<forall>v\<in>set (users (db w)). live_user v \<longrightarrow> \<not> citext_eq (uEmail v) em)"
proof -
  from assms(1) obtain w1 y w2 where a: "run_state (users_Create c em hash (riFirstName inp) (riLastName inp)) w = (Inr u, w1)"
    and b: "run_state (settings_Create c (uID u) DefaultSettings) w1 = (Inr y, w2)"
    and d: "run_state (createSessionAndTokens s c u (riDevice inp) (Some DefaultSettings)) w2 = (Inr tp, w')"
    by (auto simp: register_tx_def split: sum.splits prod.splits)
  from a have q: "run_state (run_query c (CreateUser em hash (riFirstName inp) (riLastName inp))) w = (Inr u, w1)"
    by (simp add: users_Create_def run_mapped_Inr)
  from run_query_Inr [OF q] have u: "users (db w1) = users (db w) @ [u]" "uID u = nextID w" "uEmail u = em" "uPasswordHash u = hash"
      "live_user u" "uStatus u = StActive" "uRole u = RoUser" "\<forall>v\<in>set (users (db w)). live_user v \<longrightarrow> \<not> citext_eq (uEmail v) em"
    by (auto simp: list_ex_iff dest: CreateUser_Inr)
  have "frames now (run_query c (CreateUser em hash (riFirstName inp) (riLastName inp)) :: ('a, user) call)"
    unfolding run_query_def by (rule now_store_run) simp
  from framesD [OF this q] have n1: "now w1 = now w" .
  have "frames user_view (settings_Create c (uID u) DefaultSettings)"
    unfolding settings_Create_def by (rule frames_mapped_user) (auto simp: CreateUserSettings_def split: if_splits)
  from framesD [OF this b] have w2: "users (db w2) = users (db w1)" "now w2 = now w1" by (simp_all add: user_view_def)
  from framesD [OF createSession_user d] w2 have "users (db w') = users (db w1)" by (simp add: user_view_def)
  with u createSession_in_tx [OF assms(2) d] w2 n1 show ?thesis by auto
qed

text \<open>Registration creates the account whole or not at all, whatever fails: an error leaves every table
  as it was; otherwise there is a new live and active user without privileges under the normalised
  address, which no live user had, whose stored hash verifies the password of the request, with an
  active session on the device of the request, and the tokens are theirs.\<close>

theorem registration_is_atomic:
  assumes "services (svExt s)" and "wired_service s n" and "\<not> cxInTx c"
    and "run_state (Register s c inp) w = (r, w1)"
  shows "case r of Inl e \<Rightarrow> db w1 = db w
    | Inr tp \<Rightarrow> \<exists>u\<in>set (users (db w1)). tpUser tp = u \<and> uEmail u = normalizeEmail (riEmail inp) \<and> live_user u \<and>
        uStatus u = StActive \<and> uRole u = RoUser \<and> verifyPassword (svExt s) (uPasswordHash u) (riPassword inp) \<and>
        (\<forall>v\<in>set (users (db w)). live_user v \<longrightarrow> \<not> citext_eq (uEmail v) (uEmail u)) \<and>
        (\<exists>x\<in>set (sessions (db w1)). active_row x \<and> srUserID x = uID u \<and> srDeviceID x = diDeviceID (riDevice inp))"
proof (cases "validatePassword (riPassword inp)")
  case (Inl e)
  with assms(4) show ?thesis by (auto simp: Register_def)
next
  case (Inr y)
  let ?em = "normalizeEmail (riEmail inp)"
  obtain taken wa where ex: "run_state (users_ExistsByEmail c ?em) w = (taken, wa)" by fastforce
  have "readonly (ExistsUserByEmail ?em)" by (simp add: readonly_def ExistsUserByEmail_def)
  from run_query_readonly [OF this, of c w] ex have a: "db wa = db w"
    by (auto simp: users_ExistsByEmail_def split: sum.splits prod.splits)
  show ?thesis
  proof (cases taken)
    case True
    with assms(4) Inr ex a show ?thesis by (auto simp: Register_def Let_def)
  next
    case False
    obtain h wb where hh: "run_state (hasher_hash (svExt s) (svHasher s) (riPassword inp)) wa = (h, wb)" by fastforce
    have b: "db wb = db w" using hh a by (auto simp: hasher_hash_def rand_read_def Let_def split: option.splits)
    show ?thesis
    proof (cases h)
      case (Inl e)
      with assms(4) Inr ex False hh b show ?thesis by (auto simp: Register_def Let_def)
    next
      case h: (Inr enc)
      obtain x wc where tx: "run_state (with_tx c (register_tx s ?em enc inp)) wb = (x, wc)" by fastforce
      show ?thesis
      proof (cases x)
        case (Inl e)
        with with_tx_atomic [OF assms(3) tx [unfolded Inl]] tx assms(4) \<open>validatePassword (riPassword inp) = Inr y\<close> ex False hh h b
        show ?thesis by (auto simp: Register_def Let_def)
      next
        case x: (Inr p)
        then obtain tp u where p: "x = Inr (tp, u)" by (cases p) auto
        from with_tx_success [OF assms(3) tx [unfolded p]] obtain v where
          v: "run_state (register_tx s ?em enc inp (c\<lparr>cxInTx := True\<rparr>)) (enter_tx c wb) = (Inr (tp, u), v)" "db wc = db v" by auto
        have r: "r = Inr tp" "w1 = after (sendVerification s c u) wc"
          using assms(4) Inr ex False hh h tx p by (auto simp: Register_def Let_def split: prod.splits)
        have "db w1 = db wc" unfolding r(2) using sendVerification_db [OF assms(2)] by (auto simp: frames_def)
        with register_tx_Inr [OF v(1)] v(2) b hasher_hash_up [OF assms(1) hh [unfolded h]] show ?thesis
          by (auto simp: r(1) enter_tx_def session_made_def toSession_def)
      qed
    qed
  qed
qed

end
