(* ===== verification/Grpc_Handlers.thy ===== *)
theory Grpc_Handlers
  imports Interceptors Domain_Services
begin

section \<open>The gRPC handlers\<close>

text \<open>
  Models \<open>internal/grpcsvc\<close>: the handlers of the auth, user, admin and health services and the
  mappers to protobuf messages. A protobuf message is a record of the fields the handlers read or
  write; the id encoder (sqids) is the record \<open>id_encoder\<close>.
\<close>

record id_encoder =
  enEncode :: "int \<Rightarrow> string"
  enDecode :: "string \<Rightarrow> int option"

text \<open>\<open>pkg/idenc\<close>: the checks around the sqids library, whose functions are the arguments. A panic
  is \<open>Inl\<close>.\<close>

definition NewSqidsEncoder_ok :: "int \<Rightarrow> bool" where
  "NewSqidsEncoder_ok minLength = (\<not> (minLength < 0 \<or> minLength > 255))"

definition sqids_Encode :: "(nat \<Rightarrow> string option) \<Rightarrow> int \<Rightarrow> goerr + string" where
  "sqids_Encode enc i =
     (if i < 0 then Inl (PanicE (''invalid negative id '' @ show_int i))
      else case enc (nat i) of None \<Rightarrow> Inl (PanicE (''failed to encode id '' @ show_int i)) | Some s \<Rightarrow> Inr s)"

definition sqids_Decode :: "(string \<Rightarrow> nat list) \<Rightarrow> string \<Rightarrow> goerr + int" where
  "sqids_Decode dec s =
     (case dec s of [] \<Rightarrow> Inl (MsgE ''invalid encoded id'')
      | n # _ \<Rightarrow> if n > 2 ^ 63 - 1 then Inl (MsgE ''invalid encoded id'') else Inr (int n))"

subsection \<open>Messages and mappers\<close>

record pb_user =
  pbuId :: string
  pbuEmail :: string
  pbuFirstName :: string
  pbuLastName :: string
  pbuAvatar :: string
  pbuBio :: string
  pbuStatus :: string
  pbuRole :: string
  pbuEmailVerified :: bool
  pbuCreatedAt :: time
  pbuUpdatedAt :: time

definition toProtoUser :: "id_encoder \<Rightarrow> user \<Rightarrow> pb_user" where
  "toProtoUser enc u = \<lparr>pbuId = enEncode enc (uID u), pbuEmail = uEmail u, pbuFirstName = uFirstName u,
     pbuLastName = uLastName u, pbuAvatar = uAvatar u, pbuBio = uBio u, pbuStatus = status_text (uStatus u),
     pbuRole = role_text (uRole u), pbuEmailVerified = user_IsEmailVerified u,
     pbuCreatedAt = uCreatedAt u, pbuUpdatedAt = uUpdatedAt u\<rparr>"

record pb_public_user =
  ppId :: string
  ppFirstName :: string
  ppLastName :: string
  ppAvatar :: string
  ppBio :: string
  ppMemberSince :: time

definition toProtoPublicUser :: "id_encoder \<Rightarrow> user \<Rightarrow> pb_public_user" where
  "toProtoPublicUser enc u = \<lparr>ppId = enEncode enc (uID u), ppFirstName = uFirstName u,
     ppLastName = uLastName u, ppAvatar = uAvatar u, ppBio = uBio u, ppMemberSince = uCreatedAt u\<rparr>"

record pb_token_pair =
  ptAccessToken :: string
  ptRefreshToken :: string
  ptExpiresIn :: int
  ptUser :: pb_user

definition toProtoTokenPair :: "id_encoder \<Rightarrow> token_pair \<Rightarrow> pb_token_pair" where
  "toProtoTokenPair enc tp = \<lparr>ptAccessToken = tpAccessToken tp, ptRefreshToken = tpRefreshToken tp,
     ptExpiresIn = tpExpiresIn tp, ptUser = toProtoUser enc (tpUser tp)\<rparr>"

record pb_settings =
  psLocale :: string
  psTimezone :: string
  psTheme :: string
  psEmailNotifications :: bool
  psPushNotifications :: bool
  psMarketingEmails :: bool

definition toProtoSettings :: "settings \<Rightarrow> pb_settings" where
  "toProtoSettings s = \<lparr>psLocale = sLocale s, psTimezone = sTimezone s, psTheme = sTheme s,
     psEmailNotifications = sEmailNotifications s, psPushNotifications = sPushNotifications s,
     psMarketingEmails = sMarketingEmails s\<rparr>"

definition fromProtoSettings :: "pb_settings \<Rightarrow> settings" where
  "fromProtoSettings s = \<lparr>sLocale = psLocale s, sTimezone = psTimezone s, sTheme = psTheme s,
     sEmailNotifications = psEmailNotifications s, sPushNotifications = psPushNotifications s,
     sMarketingEmails = psMarketingEmails s\<rparr>"

lemma settings_mappers_inverse [simp]:
  "fromProtoSettings (toProtoSettings s) = s" "toProtoSettings (fromProtoSettings p) = p"
  by (simp_all add: fromProtoSettings_def toProtoSettings_def)

record pb_device =
  pdDeviceId :: string
  pdName :: string
  pdPlatform :: string
  pdManufacturer :: string
  pdModel :: string
  pdLastUsedAt :: time
  pdCurrent :: bool

definition toProtoDevices :: "device_session_info list \<Rightarrow> pb_device list" where
  "toProtoDevices ds = map (\<lambda>d. \<lparr>pdDeviceId = siDeviceID d, pdName = siDeviceName d,
     pdPlatform = siPlatform d, pdManufacturer = siManufacturer d, pdModel = siModel d,
     pdLastUsedAt = siLastUsedAt d, pdCurrent = siCurrent d\<rparr>) ds"

record pb_notif_prefs =
  pnPush :: bool
  pnEmail :: bool
  pnMarketing :: bool
  pnQuietHoursEnabled :: bool
  pnTimezone :: string
  pnQuietHoursStart :: string
  pnQuietHoursEnd :: string

definition toProtoNotifPrefs :: "notif_prefs \<Rightarrow> pb_notif_prefs" where
  "toProtoNotifPrefs p = \<lparr>pnPush = npPush p, pnEmail = npEmail p, pnMarketing = npMarketing p,
     pnQuietHoursEnabled = npQuietHoursEnabled p, pnTimezone = npTimezone p,
     pnQuietHoursStart = StrOf (npQuietHoursStart p), pnQuietHoursEnd = StrOf (npQuietHoursEnd p)\<rparr>"

subsection \<open>The auth service\<close>

record pb_device_info =
  pdiDeviceId :: string
  pdiName :: string
  pdiPlatform :: string
  pdiModel :: string
  pdiManufacturer :: string

definition clientIP :: "ctx \<Rightarrow> string" where
  "clientIP c = (case cxPeer c of None \<Rightarrow> [] | Some a \<Rightarrow> a)"

definition userAgent :: "ctx \<Rightarrow> string" where
  "userAgent c = (case md_get c ''user-agent'' of [] \<Rightarrow> [] | v # _ \<Rightarrow> v)"

definition deviceInfo :: "ctx \<Rightarrow> pb_device_info option \<Rightarrow> device_info" where
  "deviceInfo c d =
     (case d of
        None \<Rightarrow> \<lparr>diDeviceID = [], diName = [], diPlatform = [], diModel = [], diManufacturer = [],
          diIPAddress = clientIP c, diUserAgent = userAgent c\<rparr>
      | Some d \<Rightarrow> \<lparr>diDeviceID = pdiDeviceId d, diName = pdiName d, diPlatform = pdiPlatform d,
          diModel = pdiModel d, diManufacturer = pdiManufacturer d,
          diIPAddress = clientIP c, diUserAgent = userAgent c\<rparr>)"

record pb_register =
  prgEmail :: string
  prgPassword :: string
  prgFirstName :: string
  prgLastName :: string
  prgDevice :: "pb_device_info option"

definition h_Register :: "'r auth_service \<Rightarrow> id_encoder \<Rightarrow> ctx \<Rightarrow> pb_register \<Rightarrow> ('r, pb_token_pair) call" where
  "h_Register s enc c req = do {
     r \<leftarrow> Register s c \<lparr>riEmail = prgEmail req, riPassword = prgPassword req, riFirstName = prgFirstName req,
            riLastName = prgLastName req, riDevice = deviceInfo c (prgDevice req)\<rparr>;
     case r of Inl e \<Rightarrow> fail e | Inr tokens \<Rightarrow> returnE (toProtoTokenPair enc tokens) }"

record pb_login =
  plEmail :: string
  plPassword :: string
  plDevice :: "pb_device_info option"

definition h_Login :: "'r auth_service \<Rightarrow> id_encoder \<Rightarrow> ctx \<Rightarrow> pb_login \<Rightarrow> ('r, pb_token_pair) call" where
  "h_Login s enc c req = do {
     r \<leftarrow> Login s c \<lparr>liEmail = plEmail req, liPassword = plPassword req, liDevice = deviceInfo c (plDevice req)\<rparr>;
     case r of Inl e \<Rightarrow> fail e | Inr tokens \<Rightarrow> returnE (toProtoTokenPair enc tokens) }"

definition h_RefreshToken :: "'r auth_service \<Rightarrow> id_encoder \<Rightarrow> ctx \<Rightarrow> string \<Rightarrow> ('r, pb_token_pair) call" where
  "h_RefreshToken s enc c tok = do {
     r \<leftarrow> RefreshTokens s c tok;
     case r of Inl e \<Rightarrow> fail e | Inr tokens \<Rightarrow> returnE (toProtoTokenPair enc tokens) }"

definition h_Logout :: "'r auth_service \<Rightarrow> ctx \<Rightarrow> unit \<Rightarrow> ('r, unit) call" where
  "h_Logout s c req = do {
     let tok = (case BearerToken c of Inl e \<Rightarrow> [] | Inr t \<Rightarrow> t);
     Logout s c (sbSessionID (cxSubject c)) tok;
     returnE () }"

definition h_VerifyEmail :: "'r auth_service \<Rightarrow> ctx \<Rightarrow> string \<Rightarrow> ('r, unit) call" where
  "h_VerifyEmail s c tok = VerifyEmail s c tok"

definition h_ResendVerification :: "'r auth_service \<Rightarrow> ctx \<Rightarrow> unit \<Rightarrow> ('r, unit) call" where
  "h_ResendVerification s c req = ResendVerification s c (sbUserID (cxSubject c))"

definition h_RequestPasswordReset :: "'r auth_service \<Rightarrow> ctx \<Rightarrow> string \<Rightarrow> ('r, unit) call" where
  "h_RequestPasswordReset s c em = RequestPasswordReset s c em"

definition h_ResetPassword :: "'r auth_service \<Rightarrow> ctx \<Rightarrow> string \<times> string \<Rightarrow> ('r, unit) call" where
  "h_ResetPassword s c req = ResetPassword s c (fst req) (snd req)"

definition h_ChangePassword :: "'r auth_service \<Rightarrow> ctx \<Rightarrow> string \<times> string \<Rightarrow> ('r, unit) call" where
  "h_ChangePassword s c req =
     (let sub = cxSubject c in ChangePassword s c (sbUserID sub) (sbSessionID sub) (fst req) (snd req))"

definition h_ListDevices :: "'r auth_service \<Rightarrow> ctx \<Rightarrow> unit \<Rightarrow> ('r, pb_device list) call" where
  "h_ListDevices s c req = do {
     r \<leftarrow> ListDevices s c (sbUserID (cxSubject c)) (sbSessionID (cxSubject c));
     case r of Inl e \<Rightarrow> fail e | Inr ds \<Rightarrow> returnE (toProtoDevices ds) }"

definition h_RevokeDevice :: "'r auth_service \<Rightarrow> ctx \<Rightarrow> string \<Rightarrow> ('r, unit) call" where
  "h_RevokeDevice s c deviceID = RemoveDevice s c (sbUserID (cxSubject c)) deviceID (sbSessionID (cxSubject c))"

subsection \<open>The user service\<close>

definition ErrInvalidUserID :: app_error where
  "ErrInvalidUserID = errBadRequest ''INVALID_USER_ID'' ''user.invalid_id''"

definition h_GetMe :: "id_encoder \<Rightarrow> ctx \<Rightarrow> unit \<Rightarrow> ('r, pb_user) call" where
  "h_GetMe enc c req = do {
     r \<leftarrow> users_Get c (sbUserID (cxSubject c));
     case r of Inl e \<Rightarrow> fail e | Inr u \<Rightarrow> returnE (toProtoUser enc u) }"

definition h_UpdateMe :: "id_encoder \<Rightarrow> ctx \<Rightarrow> profile_update \<Rightarrow> ('r, pb_user) call" where
  "h_UpdateMe enc c upd = do {
     r \<leftarrow> users_UpdateProfile c (sbUserID (cxSubject c)) upd;
     case r of Inl e \<Rightarrow> fail e | Inr u \<Rightarrow> returnE (toProtoUser enc u) }"

definition h_DeleteMe :: "'r auth_service \<Rightarrow> ctx \<Rightarrow> unit \<Rightarrow> ('r, unit) call" where
  "h_DeleteMe s c req = DeleteAccount s c (sbUserID (cxSubject c))"

definition h_GetUser :: "id_encoder \<Rightarrow> ctx \<Rightarrow> string \<Rightarrow> ('r, pb_public_user) call" where
  "h_GetUser enc c i =
     (case enDecode enc i of None \<Rightarrow> fail (AppE ErrInvalidUserID)
      | Some uid \<Rightarrow> do {
          r \<leftarrow> users_Get c uid;
          case r of Inl e \<Rightarrow> fail e | Inr u \<Rightarrow> returnE (toProtoPublicUser enc u) })"

datatype avatar_msg = ContentType string | Chunk string | NoData

text \<open>The receive loop of \<open>UploadAvatar\<close> with its variables; the end of the list is EOF.\<close>

fun recv_avatar :: "avatar_msg stream \<Rightarrow> string \<Rightarrow> bool \<Rightarrow> string \<Rightarrow> goerr + (string \<times> bool \<times> string)" where
  "recv_avatar [] contentType gotMeta buf = Inr (contentType, gotMeta, buf)"
| "recv_avatar (Inl e # ms) contentType gotMeta buf = Inl e"
| "recv_avatar (Inr (ContentType ct) # ms) contentType gotMeta buf = recv_avatar ms ct True buf"
| "recv_avatar (Inr (Chunk d) # ms) contentType gotMeta buf =
     (if length buf + length d > MaxAvatarBytes then Inl (AppE ErrAvatarTooLarge)
      else recv_avatar ms contentType gotMeta (buf @ d))"
| "recv_avatar (Inr NoData # ms) contentType gotMeta buf = recv_avatar ms contentType gotMeta buf"

definition ErrAvatarMissingContentType :: app_error where
  "ErrAvatarMissingContentType = errBadRequest ''INVALID_PAYLOAD'' ''user.avatar_missing_content_type''"

definition h_UploadAvatar :: "'r ext \<Rightarrow> 'r storage option \<Rightarrow> ctx \<Rightarrow> avatar_msg stream \<Rightarrow> ('r, string) call" where
  "h_UploadAvatar E st c ss =
     (let userID = sbUserID (cxSubject c)
      in case recv_avatar ss [] False [] of
           Inl e \<Rightarrow> fail e
         | Inr (contentType, gotMeta, buf) \<Rightarrow>
             if \<not> gotMeta then fail (AppE ErrAvatarMissingContentType)
             else users_UploadAvatar E st c userID contentType buf)"

definition h_GetSettings :: "ctx \<Rightarrow> unit \<Rightarrow> ('r, pb_settings) call" where
  "h_GetSettings c req = do {
     r \<leftarrow> settings_Get c (sbUserID (cxSubject c));
     case r of Inl e \<Rightarrow> fail e | Inr s \<Rightarrow> returnE (toProtoSettings s) }"

definition h_UpdateSettings :: "ctx \<Rightarrow> pb_settings \<Rightarrow> ('r, pb_settings) call" where
  "h_UpdateSettings c req = do {
     r \<leftarrow> settings_UpdateFor c (sbUserID (cxSubject c)) (fromProtoSettings req);
     case r of Inl e \<Rightarrow> fail e | Inr _ \<Rightarrow> returnE req }"

definition h_RegisterPushToken :: "ctx \<Rightarrow> register_token_input \<Rightarrow> ('r, unit) call" where
  "h_RegisterPushToken c req = RegisterToken c (sbUserID (cxSubject c)) req"

definition h_GetNotificationPreferences :: "ctx \<Rightarrow> unit \<Rightarrow> ('r, pb_notif_prefs) call" where
  "h_GetNotificationPreferences c req = do {
     r \<leftarrow> GetPreferences c (sbUserID (cxSubject c));
     case r of Inl e \<Rightarrow> fail e | Inr p \<Rightarrow> returnE (toProtoNotifPrefs p) }"

definition h_UpdateNotificationPreferences :: "ctx \<Rightarrow> pb_notif_prefs \<Rightarrow> ('r, pb_notif_prefs) call" where
  "h_UpdateNotificationPreferences c req = do {
     r \<leftarrow> UpdatePreferences c (sbUserID (cxSubject c)) \<lparr>upPush = Some (pnPush req), upEmail = Some (pnEmail req),
            upMarketing = Some (pnMarketing req), upQuietHoursEnabled = Some (pnQuietHoursEnabled req),
            upQuietHoursStart = Some (pnQuietHoursStart req), upQuietHoursEnd = Some (pnQuietHoursEnd req),
            upTimezone = Some (pnTimezone req)\<rparr>;
     case r of Inl e \<Rightarrow> fail e | Inr p \<Rightarrow> returnE (toProtoNotifPrefs p) }"

subsection \<open>The admin service\<close>

definition maxPage :: int where "maxPage = 1000000"

record pb_page =
  pgPage :: int
  pgPageSize :: int

definition pageParams :: "pb_page option \<Rightarrow> int \<times> int" where
  "pageParams p =
     (case p of None \<Rightarrow> (1, 20)
      | Some p \<Rightarrow>
          (if pgPage p > 0 \<and> pgPage p \<le> maxPage then pgPage p else 1,
           if pgPageSize p > 0 \<and> pgPageSize p \<le> 100 then pgPageSize p else 20))"

definition h_ListUsers :: "id_encoder \<Rightarrow> ctx \<Rightarrow> pb_page option \<Rightarrow> ('r, pb_user list \<times> nat) call" where
  "h_ListUsers enc c p = do {
     let (page, size) = pageParams p;
     r \<leftarrow> users_List c ((page - 1) * size) size;
     case r of Inl e \<Rightarrow> fail e | Inr (us, cnt) \<Rightarrow> returnE (map (toProtoUser enc) us, cnt) }"

definition h_AdminGetUser :: "id_encoder \<Rightarrow> ctx \<Rightarrow> string \<Rightarrow> ('r, pb_user) call" where
  "h_AdminGetUser enc c i =
     (case enDecode enc i of None \<Rightarrow> fail (StatusE InvalidArgument ''user.invalid_id'')
      | Some uid \<Rightarrow> do {
          r \<leftarrow> users_Get c uid;
          case r of Inl e \<Rightarrow> fail e | Inr u \<Rightarrow> returnE (toProtoUser enc u) })"

definition audit :: "'r bus \<Rightarrow> ctx \<Rightarrow> string \<Rightarrow> string \<Rightarrow> ('r, unit) proc" where
  "audit b c action resourceID = do {
     t \<leftarrow> getw now;
     bus_Publish b c (AuditLogWritten \<lparr>alAdminID = sbUserID (cxSubject c), alAction = action,
       alResource = ''user'', alResourceID = resourceID, alDetails = None, alStatus = ''success'',
       alIPAddress = [], alUserAgent = [], alRequestID = cxRequestID c, alOccurredAt = t\<rparr>);
     ret () }"

record pb_suspend =
  pbsId :: string
  pbsReason :: string
  pbsDetails :: string
  pbsPermanent :: bool
  pbsDays :: int

text \<open>In UTC, \<open>AddDate(0, 0, n)\<close> adds \<open>n\<close> days of 24 hours.\<close>

definition h_SuspendUser :: "'r bus \<Rightarrow> id_encoder \<Rightarrow> ctx \<Rightarrow> pb_suspend \<Rightarrow> ('r, unit) call" where
  "h_SuspendUser b enc c req =
     (case enDecode enc (pbsId req) of None \<Rightarrow> fail (StatusE InvalidArgument ''user.invalid_id'')
      | Some uid \<Rightarrow> do {
          t \<leftarrow> getw now;
          let until = (if \<not> pbsPermanent req then Some (t + pbsDays req * (24 * hour)) else None);
          r \<leftarrow> Suspend c \<lparr>siUserID = uid, siReason = pbsReason req, siDetails = pbsDetails req,
                 siUntil = until, siPermanent = pbsPermanent req\<rparr>;
          case r of Inl e \<Rightarrow> fail e
          | Inr _ \<Rightarrow> do {
              r \<leftarrow> users_SetStatus c uid StSuspended;
              case r of Inl e \<Rightarrow> fail e
              | Inr _ \<Rightarrow> do { audit b c ''user.suspend'' (pbsId req); returnE () }}})"

definition h_UnsuspendUser :: "'r bus \<Rightarrow> id_encoder \<Rightarrow> ctx \<Rightarrow> string \<Rightarrow> ('r, unit) call" where
  "h_UnsuspendUser b enc c i =
     (case enDecode enc i of None \<Rightarrow> fail (StatusE InvalidArgument ''user.invalid_id'')
      | Some uid \<Rightarrow> do {
          r \<leftarrow> Unsuspend c uid;
          case r of Inl e \<Rightarrow> fail e
          | Inr _ \<Rightarrow> do {
              r \<leftarrow> users_SetStatus c uid StActive;
              case r of Inl e \<Rightarrow> fail e
              | Inr _ \<Rightarrow> do { audit b c ''user.unsuspend'' i; returnE () }}})"

definition h_SetUserRole :: "'r bus \<Rightarrow> id_encoder \<Rightarrow> ctx \<Rightarrow> string \<times> string \<Rightarrow> ('r, unit) call" where
  "h_SetUserRole b enc c req =
     (case enDecode enc (fst req) of None \<Rightarrow> fail (StatusE InvalidArgument ''user.invalid_id'')
      | Some uid \<Rightarrow> do {
          r \<leftarrow> users_SetRole c uid (snd req);
          case r of Inl e \<Rightarrow> fail e
          | Inr _ \<Rightarrow> do { audit b c ''user.set_role'' (fst req); returnE () }})"

subsection \<open>The health service\<close>

text \<open>The two pings, true when answered, and the checks reported.\<close>

definition h_Ready :: "bool \<Rightarrow> bool \<Rightarrow> string \<times> (string \<times> string) list" where
  "h_Ready dbUp cacheUp =
     (let checks = [(''database'', if dbUp then ''ok'' else ''down''), (''cache'', if cacheUp then ''ok'' else ''down'')];
          status = (if dbUp \<and> cacheUp then ''ok'' else ''degraded'')
      in (status, checks))"

end
