(* ===== verification/Property_Witnesses.thy ===== *)
theory Property_Witnesses
  imports Login_Guarantees Grpc_Handlers
begin

section \<open>Evaluations\<close>

text \<open>
  Each property with a hypothesis is applied here to the concrete services, tables and worlds of
  \<open>Reference_Instance\<close>, where its hypotheses hold.
\<close>

subsection \<open>Store and outbox\<close>

theorem transaction_all_or_nothing_witness:
  "(\<exists>x w1 (w0 :: ref_store world). fst (run_state (with_tx background (\<lambda>_. exec_query CountUsers)) ref_state) = Inr x \<and>
      run_state (exec_query CountUsers) w0 = (Inr x, w1) \<and> db w0 = ref_db \<and>
      db (snd (run_state (with_tx background (\<lambda>_. exec_query CountUsers)) ref_state)) = db w1) \<or>
   (\<exists>e. fst (run_state (with_tx background (\<lambda>_. exec_query CountUsers)) ref_state) = Inl e \<and>
      db (snd (run_state (with_tx background (\<lambda>_. exec_query CountUsers)) ref_state)) = ref_db)"
  using transaction_all_or_nothing [of background "\<lambda>_. exec_query CountUsers" ref_state] by simp

theorem password_hash_verifies_witness:
  "\<exists>enc w'. run_state (hasher_hash ref_ext (newPasswordHasher 64 1 1 8 16) ''pw'') ref_state = (Inr enc, w') \<and>
     verifyPassword ref_ext enc ''pw''"
proof -
  have "\<exists>enc w'. run_state (hasher_hash ref_ext (newPasswordHasher 64 1 1 8 16) ''pw'') ref_state = (Inr enc, w')"
    by (simp add: hasher_hash_def rand_read_def ref_ext_def Let_def)
  then obtain enc w' where r: "run_state (hasher_hash ref_ext (newPasswordHasher 64 1 1 8 16) ''pw'') ref_state = (Inr enc, w')"
    by blast
  with password_hash_verifies [OF ref_services.services_axioms r] show ?thesis by blast
qed

definition ref_audit :: audit_log_written where
  "ref_audit = \<lparr>alAdminID = 1, alAction = ''suspend'', alResource = ''user'', alResourceID = ''2'', alDetails = None,
     alStatus = [], alIPAddress = [], alUserAgent = [], alRequestID = ''r1'', alOccurredAt = 4000\<rparr>"

text \<open>A pending row and one that waits for its backoff.\<close>

definition ref_outbox :: "outbox_row list" where
  "ref_outbox = [new_outbox_row ''admin.audit_log.written'' (JEvent (AuditLogWritten ref_audit)) None 1000 30,
     mark_failed 4999 ''down'' (new_outbox_row ''admin.audit_log.written'' (JEvent (AuditLogWritten ref_audit)) None 1000 31)]"

definition ref_outbox_state :: "ref_store world" where
  "ref_outbox_state = ref_world AppWorker 5000 (ref_db\<lparr>outbox := ref_outbox\<rparr>)"

lemma ref_outbox_simps [simp]:
  "outbox (db ref_outbox_state) = ref_outbox" "mqReplies ref_outbox_state = []" "now ref_outbox_state = 5000"
  "db_up ref_outbox_state" "nextID ref_outbox_state = 1000" "busFailures ref_outbox_state = 0"
  "map obID ref_outbox = [30, 31]" "length (filter P ref_outbox) \<le> 2"
  using length_filter_le [of P ref_outbox]
  by (simp_all add: ref_outbox_state_def ref_outbox_def new_outbox_row_def mark_failed_def)


theorem drain_loop_ends_witness:
  "fst (run_state (drainOnce 3 (\<lambda>_. False) (wired_bus ref_ext 1) background) ref_outbox_state)"
  by (rule drain_loop_ends) (simp_all add: le_less_trans [OF ref_outbox_simps(8)])

theorem outbox_is_transactional_witness:
  "\<exists>r w'. run_state (with_tx background (tx_then_publish (wired_bus ref_ext 100) (\<lambda>c. run_query c CountUsers)
      (AuditLogWritten ref_audit))) ref_state = (r, w') \<and>
    (case r of Inl _ \<Rightarrow> db w' = ref_db | Inr x \<Rightarrow> length (outbox (db w')) = 1)"
proof -
  let ?m = "with_tx background (tx_then_publish (wired_bus ref_ext 100) (\<lambda>c. run_query c CountUsers) (AuditLogWritten ref_audit))"
  obtain r w' where r: "run_state ?m ref_state = (r, w')" by fastforce
  have ev: "eventType (AuditLogWritten ref_audit) = ''admin.audit_log.written''" by simp
  from outbox_is_transactional [OF _ _ _ _ r] r show ?thesis
    by (auto simp: wired_bus_simps enter_tx_def run_query_def store_run_def background_def exec_query_def
        CountUsers_def ref_db_def empty_db_def next_fault_def split: sum.splits)
qed


theorem breaker_counts_consecutive_failures_witness:
  "\<not> breakerAllows ((record_batches [(4, 0), (2, 2), (0, 0), (1, 1), (3, 3)] ref_state)\<lparr>now := now ref_state + 59 * second\<rparr>)"
  using breaker_counts_consecutive_failures [of ref_state "59 * second" "[(4, 0), (2, 2), (0, 0), (1, 1), (3, 3)]"]
  by (simp add: ref_state_def ref_world_def trailing_failures_def failed_batch_def drainBreakerThreshold_def
      drainBreakerCooldown_def minute_def second_def)

definition ref_attempt :: auth_attempt_recorded where
  "ref_attempt = \<lparr>aaEmail = ''ann@x.org'', aaUserID = 0, aaChannel = ''login'', aaOutcome = ''locked'', aaRemaining = 0,
     aaIPAddress = [], aaUserAgent = [], aaDeviceID = [], aaRequestID = [], aaOccurredAt = 5000\<rparr>"

theorem locked_attempt_never_recorded_witness:
  "db (snd (run_state (InvokeAsync (wired_bus ref_ext 100) background (AuthAttemptRecorded ref_attempt)) ref_state)) = ref_db"
  using locked_attempt_never_recorded [of background ref_attempt ref_ext 100 ref_state] by (simp add: ref_attempt_def)

subsection \<open>Authentication\<close>

lemma ref_sha_long: "6 < length s \<Longrightarrow> ref_sha s ! 6 \<noteq> CHR ''0''"
proof -
  assume "6 < length s"
  then have "ref_sha s ! 6 = char_of (97 + (of_char (s ! 6) :: nat) mod 16)" by (simp add: ref_sha_def nth_append)
  moreover have "(of_char (s ! 6) :: nat) mod 16 < 16" by simp
  ultimately have "(of_char (ref_sha s ! 6) :: nat) = 97 + of_char (s ! 6) mod 16" by simp
  moreover have "(of_char (CHR ''0'') :: nat) = 48" by simp
  ultimately have "(of_char (ref_sha s ! 6) :: nat) \<noteq> of_char (CHR ''0'')" by linarith
  then show ?thesis by metis
qed

lemma refresh_of_long: "6 < length (refresh_of (a # b # c # r))"
  by (simp add: refresh_of_def b64_encode_def)

lemma ref_new_hash: "ref_sha (refresh_of (replicate 32 x)) \<noteq> ref_sha ''rt_ann''"
  "ref_sha (refresh_of (replicate 32 x)) \<noteq> ref_sha ''rt_bob''"
proof -
  have "replicate 32 x = x # x # x # replicate 29 x" by (simp add: numeral_eq_Suc)
  then have n: "ref_sha (refresh_of (replicate 32 x)) ! 6 \<noteq> CHR ''0''" by (simp add: ref_sha_long refresh_of_long)
  have "ref_sha ''rt_ann'' ! 6 = CHR ''0''" "ref_sha ''rt_bob'' ! 6 = CHR ''0''" by (simp_all add: ref_sha_def nth_append)
  with n show "ref_sha (refresh_of (replicate 32 x)) \<noteq> ref_sha ''rt_ann''"
    "ref_sha (refresh_of (replicate 32 x)) \<noteq> ref_sha ''rt_bob''" by auto
qed

abbreviation "ref_ann \<equiv> ref_user 1 ''ann@x.org'' ''hash1''"
abbreviation "ref_phone \<equiv> ref_session 11 1 ''phone'' 3000 None"
abbreviation "ref_row \<equiv> ref_token 20 11 ''rt_ann'' (100 * hour)"

lemma ref_refreshable: "refreshable ref_service ref_state ref_row ref_phone ref_ann"
  by (simp add: refreshable_def present_token_def present_def stamped_def ref_cfg_def live_token_def
      hour_def minute_def second_def)

lemma ref_rand [simp]: "xRand ref_ext i k = Some (replicate k (char_of i))"
  by (simp add: ref_ext_def)

lemma ref_draws [simp]: "draws ref_state = 0"
  by (simp add: ref_state_def ref_world_def)

theorem refresh_rotates_token_witness:
  "\<exists>tp w'. run_state (RefreshTokens ref_service background ''rt_ann'') ref_state = (Inr tp, w') \<and> tpUser tp = ref_ann \<and>
     sessions (db w') = sessions ref_db"
  using refresh_rotates_token [of ref_service 100 ref_state background 1000 ref_row ref_phone ref_ann "''rt_ann''"
      "replicate 32 (char_of (0 :: nat))" "replicate 32 (char_of (1 :: nat))"]
    ref_db_wf ref_refreshable ref_new_hash ref_services.services_axioms
  by (auto simp: hashToken_def tokenByteLen_def)


definition ref_login :: "string \<Rightarrow> string \<Rightarrow> login_input" where
  "ref_login em pw = \<lparr>liEmail = em, liPassword = pw, liDevice = \<lparr>diDeviceID = ''laptop'', diName = ''laptop'',
     diPlatform = ''web'', diModel = [], diManufacturer = [], diIPAddress = [], diUserAgent = []\<rparr>\<rparr>"

lemma ref_normal: "normalizeEmail '' Ann@X.org'' = ''ann@x.org''"
  by code_simp

lemma ref_bad: "bad_credentials ref_service ref_db (ref_login '' Ann@X.org'' ''guess'')"
proof -
  have "\<not> verifyPassword ref_ext ''hash1'' ''guess''" "\<not> verifyPassword ref_ext ''hash2'' ''guess''"
    by (simp_all add: verifyPassword_def split_on_absent)
  then show ?thesis by (simp add: bad_credentials_def ref_login_def)
qed

theorem refused_login_is_uniform_witness:
  "fst (run_state (Login ref_service background (ref_login '' Ann@X.org'' ''guess'')) ref_state) = Inl (AppE ErrInvalidCredentials)"
proof -
  have "fst (run_state (lockout_blocked ref_service ''ann@x.org'') ref_state) = False"
    by (simp add: lockout_blocked_def cache_counter_def redis_call_up svR_def svP_def ref_redis_def visible_def
        RateLimitKey_def buildKey_def redisKey_def ref_service_def newLoginLimiter_def)
  then show ?thesis
    using refused_login_is_uniform [of ref_service 100 ref_state "ref_login '' Ann@X.org'' ''guess''" background] ref_bad
    by (simp add: ref_login_def ref_normal)
qed

theorem failed_logins_lock_address_witness:
  "fst (run_state (Login ref_service background (ref_login '' Ann@X.org'' ''hash1''))
     (login_run ref_service [(background, ref_login '' Ann@X.org'' ''guess'', second),
        (background, ref_login '' Ann@X.org'' ''guess'', minute)] ref_state)) = Inl (AppE ErrTooManyAttempts)"
proof -
  let ?xs = "[(background, ref_login '' Ann@X.org'' ''guess'', second), (background, ref_login '' Ann@X.org'' ''guess'', minute)]"
  have g: "guesses ref_service (db ref_state) ''ann@x.org'' ?xs"
    using ref_bad by (simp add: guesses_def ref_login_def ref_normal second_def minute_def)
  have v: "visible (rdKeys (svR ref_service) (redis ref_state)) (now ref_state) (limiter_key ref_service ''ann@x.org'') = None"
    by (simp add: limiter_key_def svR_def svP_def ref_redis_def visible_def RateLimitKey_def buildKey_def redisKey_def)
  from failed_logins_lock_address [OF _ ref_service_wired _ _ g _ _ v, of "ref_login '' Ann@X.org'' ''hash1''" background]
    ref_services.services_axioms show ?thesis
    by (simp add: ref_service_def newLoginLimiter_def second_def minute_def ref_login_def ref_normal)
qed

end
