(* ===== verification/Account_Witnesses.thy ===== *)
theory Account_Witnesses
  imports Account_Guarantees Property_Witnesses
begin

section \<open>Evaluations of the account properties\<close>

text \<open>
  The properties of \<open>Login_Guarantees\<close>, \<open>Login_Success\<close> and \<open>Account_Guarantees\<close> on the concrete
  services, with a user whose stored hash was made by the hasher of the service.
\<close>

definition ref_pw_user :: user where
  "ref_pw_user = ref_user 1 ''ann@x.org'' (ref_hash ''saltsalt'' ''long-password-1'')"

definition ref_pw_db :: database where
  "ref_pw_db = ref_db\<lparr>users := [ref_pw_user, ref_user 2 ''bob@x.org'' ''hash2'']\<rparr>"

definition ref_pw_state :: "ref_store world" where
  "ref_pw_state = ref_world AppApi 5000 ref_pw_db"

lemma ref_pw_simps [simp]:
  "uID ref_pw_user = 1" "uEmail ref_pw_user = ''ann@x.org''" "live_user ref_pw_user" "uStatus ref_pw_user = StActive"
  "users ref_pw_db = [ref_pw_user, ref_user 2 ''bob@x.org'' ''hash2'']" "sessions ref_pw_db = sessions ref_db"
  "refreshTokens ref_pw_db = refreshTokens ref_db" "db ref_pw_state = ref_pw_db" "now ref_pw_state = 5000"
  "nextID ref_pw_state = 1000" "db_up ref_pw_state" "redis_up ref_pw_state" "draws ref_pw_state = 0"
  "redis ref_pw_state = Map.empty"
  by (simp_all add: ref_pw_user_def ref_pw_db_def ref_pw_state_def)

lemma ref_hash_verifies: "verifyPassword ref_ext (ref_hash salt pw) q = (xArgon2 ref_ext q salt 1 64 1 16 = xArgon2 ref_ext pw salt 1 64 1 16)"
  unfolding ref_hash_def by (rule encoded_hash_verifies [OF ref_services.services_axioms])

lemma ref_pw_verifies: "verifyPassword ref_ext (uPasswordHash ref_pw_user) ''long-password-1''"
  by (simp add: ref_pw_user_def ref_hash_verifies)

lemma ref_pw_wf: "wf_db 1000 ref_pw_db"
  using ref_db_wf by (simp add: wf_db_def)

lemma ref_pw_open: "can_open ref_service ref_pw_user (liDevice (ref_login em pw))
    (replicate 32 (char_of (0 :: nat))) (replicate 32 (char_of (1 :: nat))) ref_pw_state"
  using ref_new_hash [of "char_of (1 :: nat)"]
  by (simp add: can_open_def ref_login_def session_fits_def session_params_def toSession_def too_long_def opt_too_long_def
      tokenByteLen_def hashes_def zero_session_def NullStr_def)

lemma ref_not_blocked: "fst (run_state (lockout_blocked ref_service em) ref_pw_state) = False"
  by (simp add: lockout_blocked_def cache_counter_def redis_call_up svR_def svP_def ref_redis_def visible_def
      ref_service_def newLoginLimiter_def)


lemma ref_login_runs:
  "\<exists>tp w'. run_state (Login ref_service background (ref_login '' Ann@X.org'' ''long-password-1'')) ref_pw_state = (Inr tp, w') \<and>
     tpUser tp = ref_pw_user"
  by (rule Login_up [OF _ ref_service_wired _ _ _ _ _ _ _ ref_not_blocked ref_pw_open])
    (use ref_pw_wf ref_pw_verifies ref_services.services_axioms in
      \<open>simp_all add: ref_login_def ref_normal citext_eq_def\<close>)

theorem login_checks_credentials_witness:
  "\<exists>tp w'. run_state (Login ref_service background (ref_login '' Ann@X.org'' ''long-password-1'')) ref_pw_state = (Inr tp, w') \<and>
     (\<exists>u\<in>set (users ref_pw_db). tpUser tp = u \<and> uStatus u = StActive \<and> verifyPassword ref_ext (uPasswordHash u) ''long-password-1'')"
proof -
  obtain tp w' where r: "run_state (Login ref_service background (ref_login '' Ann@X.org'' ''long-password-1'')) ref_pw_state = (Inr tp, w')"
    using ref_login_runs by blast
  from login_checks_credentials [OF _ ref_service_wired _ r] ref_services.services_axioms r show ?thesis
    by (auto simp: ref_login_def)
qed


theorem logout_ends_session_witness:
  "filter (\<lambda>t. rrSessionID t = 11 \<and> live_token t) (refreshTokens (db (after (Logout ref_service background 11 ''at_ann'') ref_state))) = [] \<and>
   redis (after (Logout ref_service background 11 ''at_ann'') ref_state) (redisKey ref_ext ''at_ann'') = None"
proof -
  have "services (svExt ref_service)" by (simp add: ref_services.services_axioms)
  note p = logout_ends_session [OF this ref_service_wired _ _ _ _ _ _ _ refl, of ref_state background 11 "''at_ann''"]
  show ?thesis using p [THEN conjunct1] p [THEN conjunct2, THEN conjunct1] by (simp add: svR_def ref_redis_def filter_empty_conv)
qed


definition ref_register :: register_input where
  "ref_register = \<lparr>riEmail = ''cal@x.org'', riPassword = ''long-password-1'', riFirstName = ''Cal'', riLastName = ''C'',
     riDevice = liDevice (ref_login [] [])\<rparr>"

theorem registration_is_atomic_witness:
  "\<exists>r w1. run_state (Register ref_service background ref_register) ref_state = (r, w1) \<and>
     (case r of Inl e \<Rightarrow> db w1 = ref_db | Inr tp \<Rightarrow> \<exists>u\<in>set (users (db w1)). tpUser tp = u)"
proof -
  obtain r w1 where r: "run_state (Register ref_service background ref_register) ref_state = (r, w1)" by fastforce
  from registration_is_atomic [OF _ ref_service_wired _ r] ref_services.services_axioms r show ?thesis
    by (auto split: sum.splits)
qed

definition ref_mail_state :: "ref_store world" where
  "ref_mail_state = ref_pw_state\<lparr>redis := [''app:cache:auth:verify:v1'' \<mapsto> (RData (JTokenData 1), None),
     ''app:cache:auth:reset:r1'' \<mapsto> (RData (JTokenData 1), None)]\<rparr>"

lemma ref_mail_up: "db_up ref_mail_state" "redis_up ref_mail_state" "db ref_mail_state = ref_pw_db" "now ref_mail_state = 5000"
  by (simp_all add: ref_mail_state_def db_up_def redis_up_def ref_pw_state_def)

lemma ref_getdel:
  "\<exists>w. run_state (cache_getdel (svR ref_service) (svP ref_service) as_token_data (VerificationTokenKey ''v1'')) ref_mail_state =
     (Inr (Some 1), w) \<and> db_up w"
  "\<exists>w. run_state (cache_getdel (svR ref_service) (svP ref_service) as_token_data (PasswordResetKey ''r1'')) ref_mail_state =
     (Inr (Some 1), w) \<and> db_up w"
  using ref_mail_up
  by (simp_all add: cache_getdel_def redis_call_up svR_def svP_def ref_redis_def visible_def not_expired_def decode_def
      as_token_data_def buildKey_def VerificationTokenKey_def PasswordResetKey_def Let_def db_up_def)
    (simp_all add: ref_mail_state_def not_expired_def as_token_data_def)

lemma total_query_runs: "db_up w \<Longrightarrow> q (dbRole w) (now w) (nextID w) (db w) = Inr (x, d) \<Longrightarrow> \<exists>w'. run_state (run_query c q) w = (Inr x, w')"
  by (rule exI) (rule run_query_up)

theorem verification_token_works_once_witness:
  "\<exists>w1. run_state (VerifyEmail ref_service background ''v1'') ref_mail_state = (Inr (), w1) \<and>
     fst (run_state (VerifyEmail ref_service background ''v1'') w1) = Inl (AppE ErrInvalidVerificationToken)"
proof -
  obtain w where g: "run_state (cache_getdel (svR ref_service) (svP ref_service) as_token_data (VerificationTokenKey ''v1'')) ref_mail_state =
     (Inr (Some 1), w)" "db_up w" using ref_getdel(1) by blast
  have "\<exists>w1. run_state (run_query background (MarkUserEmailVerified 1)) w = (Inr (), w1)"
    by (rule total_query_runs [OF g(2)]) (simp add: MarkUserEmailVerified_def)
  then obtain w1 where r: "run_state (VerifyEmail ref_service background ''v1'') ref_mail_state = (Inr (), w1)"
    using g(1) by (auto simp: VerifyEmail_def users_MarkEmailVerified_def)
  from verification_token_works_once [OF _ r refl, of background] ref_services.services_axioms r show ?thesis by auto
qed


theorem password_change_signs_others_out_witness:
  "\<exists>w1. run_state (ChangePassword ref_service background 1 11 ''long-password-1'' ''long-password-2'') ref_pw_state = (Inr (), w1) \<and>
     (\<forall>r\<in>set (sessions (db w1)). counting 1 (5000 - 24 * hour) r \<longrightarrow> srID r = 11)"
proof -
  have "run_state (run_query background (GetUserByID 1)) ref_pw_state = (Inr ref_pw_user, after_query background ref_pw_db ref_pw_state)"
    by (rule run_query_up) (simp_all add: GetUserByID_def first_row_def)
  then have f: "run_state (users_FindByID background 1) ref_pw_state = (Inr ref_pw_user, after_query background ref_pw_db ref_pw_state)"
    by (simp add: users_FindByID_def run_mapped_Inr)
  obtain h w2 where h: "run_state (hasher_hash ref_ext (svHasher ref_service) ''long-password-2'')
      (after_query background ref_pw_db ref_pw_state) = (Inr h, w2)"
    by (simp add: hasher_hash_def rand_read_def Let_def)
  have "db_up w2" using hasher_hash_flags [OF h] by (simp add: db_up_def [of w2]) (simp add: db_up_def [symmetric] ref_pw_state_def)
  then have "\<exists>w3. run_state (run_query background (UpdateUserPasswordHash 1 h)) w2 = (Inr (), w3)"
    by (rule total_query_runs) (simp add: UpdateUserPasswordHash_def)
  then obtain w1 where r: "run_state (ChangePassword ref_service background 1 11 ''long-password-1'' ''long-password-2'') ref_pw_state = (Inr (), w1)"
    using f h ref_pw_verifies
    by (auto simp: ChangePassword_def users_UpdatePasswordHash_def validatePassword_def minPasswordLen_def case_prod_beta)
  have "services (svExt ref_service)" by (simp add: ref_services.services_axioms)
  from password_change_signs_others_out [OF this _ _ _ r] ref_pw_wf r show ?thesis
    by (auto simp: wf_db_def ref_cfg_def)
qed

end
