(* ===== verification/Emails_Worker.thy ===== *)
theory Emails_Worker
  imports Auth_Service Interceptors
begin

section \<open>The mail worker\<close>

text \<open>
  Models \<open>internal/worker/emails\<close> (dispatcher, processor, senders) and the mail interface of the
  server, \<open>internal/app/email_sender.go\<close>. The queue is the task queue of the world; the Resend client,
  the template engine and the translator are fields of the processor. A processed task carries the
  mail as the dispatcher marshalled it.
\<close>

subsection \<open>Types, queues and senders\<close>

definition PriorityHigh :: string where "PriorityHigh = ''high''"
definition PriorityNormal :: string where "PriorityNormal = ''normal''"
definition PriorityLow :: string where "PriorityLow = ''low''"

definition em_queueName :: "string \<Rightarrow> string" where
  "em_queueName p = ''emails:'' @ p"

definition em_QueueNames :: "string list" where
  "em_QueueNames = [em_queueName PriorityHigh, em_queueName PriorityNormal, em_queueName PriorityLow]"

definition TypeEmailVerification :: string where "TypeEmailVerification = ''security.email_verification''"
definition TypePasswordReset :: string where "TypePasswordReset = ''security.password_reset''"
definition TypeLoginAlert :: string where "TypeLoginAlert = ''security.login_alert''"
definition TypeAccountChange :: string where "TypeAccountChange = ''security.account_change''"
definition TypeNewsletter :: string where "TypeNewsletter = ''news.newsletter''"
definition TypePromotion :: string where "TypePromotion = ''news.promotion''"

datatype sender_type = SenderNoReply | SenderSecurity | SenderNews

fun sender_text :: "sender_type \<Rightarrow> string" where
  "sender_text SenderNoReply = ''noreply''"
| "sender_text SenderSecurity = ''security''"
| "sender_text SenderNews = ''news''"

record sender_info =
  snAddress :: string
  snName :: string

record email_config =
  ecAPIKey :: string
  ecNoReply :: sender_info
  ecSecurity :: sender_info
  ecNews :: sender_info
  ecConcurrency :: int
  ecRetryMax :: int
  ecBasePath :: string
  ecDefaultLanguage :: string
  ecBatchMaxSize :: int

definition isSecurityEmail :: "string \<Rightarrow> bool" where
  "isSecurityEmail t = (t \<in> set [TypeEmailVerification, TypePasswordReset, TypeLoginAlert, TypeAccountChange])"

definition isNewsEmail :: "string \<Rightarrow> bool" where
  "isNewsEmail t = (t \<in> set [TypeNewsletter, TypePromotion])"

definition GetSenderType :: "string \<Rightarrow> sender_type" where
  "GetSenderType t = (if isSecurityEmail t then SenderSecurity else if isNewsEmail t then SenderNews else SenderNoReply)"

definition GetSender :: "email_config \<Rightarrow> sender_type \<Rightarrow> sender_info" where
  "GetSender c st = (case st of SenderSecurity \<Rightarrow> ecSecurity c | SenderNews \<Rightarrow> ecNews c | _ \<Rightarrow> ecNoReply c)"

subsection \<open>The dispatcher\<close>

definition TaskSendEmail :: string where "TaskSendEmail = ''email:send''"
definition TaskScheduledEmail :: string where "TaskScheduledEmail = ''email:scheduled''"
definition TaskBulkEmail :: string where "TaskBulkEmail = ''email:bulk''"

definition default_priority :: "email \<Rightarrow> email" where
  "default_priority e = (if emPriority e = [] then e\<lparr>emPriority := PriorityNormal\<rparr> else e)"

definition default_language :: "email_config \<Rightarrow> email \<Rightarrow> email" where
  "default_language cfg e = (if emLanguage e = [] then e\<lparr>emLanguage := ecDefaultLanguage cfg\<rparr> else e)"

definition task_id_option :: "string \<Rightarrow> asynq_option list" where
  "task_id_option key = (if key \<noteq> [] then [OptTaskID key] else [])"

definition swallow_duplicate :: "string \<Rightarrow> goerr + unit \<Rightarrow> goerr + unit" where
  "swallow_duplicate msg r =
     (case r of Inl e \<Rightarrow> if isDuplicateEnqueue e then Inr () else Inl (WrapE msg e) | Inr _ \<Rightarrow> Inr ())"

definition send_task :: "email_config \<Rightarrow> email \<Rightarrow> asynq_task" where
  "send_task cfg e = new_task TaskSendEmail (TEmail e)
     ([OptQueue (em_queueName (emPriority e)), OptMaxRetry (nat (ecRetryMax cfg)), OptTimeout (60 * second)]
      @ task_id_option (emIdempotencyKey e))"

definition emails_Send :: "email_config \<Rightarrow> ctx \<Rightarrow> email \<Rightarrow> ('r, unit) call" where
  "emails_Send cfg c e = do {
     let e = default_language cfg (default_priority e);
     r \<leftarrow> asynq_enqueue (send_task cfg e);
     ret (swallow_duplicate ''failed to enqueue email'' r) }"

definition emails_Schedule :: "email_config \<Rightarrow> ctx \<Rightarrow> email \<Rightarrow> time \<Rightarrow> ('r, unit) call" where
  "emails_Schedule cfg c e at = do {
     let e = default_language cfg ((default_priority e)\<lparr>emScheduledAt := Some at\<rparr>);
     r \<leftarrow> asynq_enqueue (new_task TaskScheduledEmail (TEmail e)
            ([OptQueue (em_queueName (emPriority e)), OptMaxRetry (nat (ecRetryMax cfg)), OptProcessAt at,
              OptTimeout (60 * second)] @ task_id_option (emIdempotencyKey e)));
     ret (swallow_duplicate ''failed to schedule email'' r) }"

definition bulk_task :: "email_config \<Rightarrow> email list \<Rightarrow> asynq_task" where
  "bulk_task cfg batch = new_task TaskBulkEmail (TEmails batch)
     [OptQueue (em_queueName PriorityLow), OptMaxRetry (nat (ecRetryMax cfg)), OptTimeout (5 * minute)]"

text \<open>
  The loop of \<open>SendBulk\<close> from index \<open>i\<close>; \<open>None\<close> is the loop still running when the fuel is spent. A
  slice with a negative bound panics.
\<close>

fun bulk_loop :: "nat \<Rightarrow> email_config \<Rightarrow> ctx \<Rightarrow> email list \<Rightarrow> int \<Rightarrow> ('r world, (goerr + unit) option) state" where
  "bulk_loop fuel cfg c es i =
     (if \<not> i < int (length es) then ret (Some (Inr ()))
      else case fuel of 0 \<Rightarrow> ret None
      | Suc fuel \<Rightarrow> do {
          let endi = (if i + ecBatchMaxSize cfg > int (length es) then int (length es) else i + ecBatchMaxSize cfg);
          if endi < i then ret (Some (Inl (PanicE ''slice bounds out of range'')))
          else do {
            let batch = take (nat (endi - i)) (drop (nat i) es);
            r \<leftarrow> asynq_enqueue (bulk_task cfg batch);
            case r of Inl e \<Rightarrow> ret (Some (Inl (WrapE ''failed to enqueue bulk email'' e)))
            | Inr _ \<Rightarrow> bulk_loop fuel cfg c es (i + ecBatchMaxSize cfg) }})"

declare bulk_loop.simps [simp del]

definition emails_SendBulk :: "nat \<Rightarrow> email_config \<Rightarrow> ctx \<Rightarrow> email list \<Rightarrow> ('r world, (goerr + unit) option) state" where
  "emails_SendBulk fuel cfg c es = (if length es = 0 then ret (Some (Inr ())) else bulk_loop fuel cfg c es 0)"

subsection \<open>Templates\<close>

text \<open>
  \<open>filepath.Join\<close> and \<open>filepath.Ext\<close>: the elements joined and cleaned of \<open>.\<close> and \<open>..\<close>; the suffix
  from the last dot of the last element.
\<close>

definition clean_step :: "bool \<Rightarrow> string list \<Rightarrow> string \<Rightarrow> string list" where
  "clean_step rooted st e =
     (if e = [] \<or> e = ''.'' then st
      else if e = ''..'' then
        (case st of [] \<Rightarrow> if rooted then [] else [e] | p # ps \<Rightarrow> if p = ''..'' then e # st else ps)
      else e # st)"

definition path_clean :: "string \<Rightarrow> string" where
  "path_clean s =
     (let rooted = has_prefix s ''/'';
          parts = rev (foldl (clean_step rooted) [] (split_on (CHR ''/'') s));
          body = join_with ''/'' parts
      in if rooted then ''/'' @ body else if body = [] then ''.'' else body)"

definition path_join :: "string list \<Rightarrow> string" where
  "path_join es = (case filter (\<lambda>e. e \<noteq> []) es of [] \<Rightarrow> [] | es \<Rightarrow> path_clean (join_with ''/'' es))"

definition path_ext :: "string \<Rightarrow> string" where
  "path_ext s =
     (let r = takeWhile (\<lambda>c. c \<noteq> CHR ''.'' \<and> c \<noteq> CHR ''/'') (rev s)
      in if length r < length s \<and> rev s ! length r = CHR ''.'' then CHR ''.'' # rev r else [])"

text \<open>A parsed template is its \<open>Execute\<close>; an entry of the directory walk is an error, or the path
  relative to the base, whether it is a directory, and the result of parsing.\<close>

type_synonym template = "any_map \<Rightarrow> goerr + string"
type_synonym walk_entry = "goerr + (string \<times> bool \<times> template option)"

fun loadTemplates :: "walk_entry list \<Rightarrow> (string \<rightharpoonup> template) \<Rightarrow> goerr option \<times> (string \<rightharpoonup> template)" where
  "loadTemplates [] ts = (None, ts)"
| "loadTemplates (Inl e # es) ts = (Some e, ts)"
| "loadTemplates (Inr (path, isDir, tmpl) # es) ts =
     (if isDir \<or> path_ext path \<noteq> ''.html'' then loadTemplates es ts
      else case tmpl of None \<Rightarrow> loadTemplates es ts
      | Some t \<Rightarrow> loadTemplates es (ts(path \<mapsto> t)))"

subsection \<open>The processor\<close>

record send_request =
  rqFrom :: string
  rqTo :: "string list"
  rqSubject :: string
  rqHtml :: string
  rqText :: string
  rqTags :: "(string \<times> string) list"
  rqReplyTo :: string
  rqCc :: "string list"
  rqBcc :: "string list"
  rqAttachments :: "(string \<times> string \<times> string) list"
  rqHeaders :: "(string \<times> string) list"

record 'r email_processor =
  epCfg :: email_config
  epTemplates :: "string \<rightharpoonup> template"
  epLocalizer :: translator
  epSend :: "send_request \<Rightarrow> ('r, string) call"  \<comment> \<open>the Resend client: a message id\<close>

definition NewProcessor ::
  "email_config \<Rightarrow> walk_entry list \<Rightarrow> translator \<Rightarrow> (send_request \<Rightarrow> ('r, string) call) \<Rightarrow> 'r email_processor" where
  "NewProcessor cfg walk loc client = \<lparr>epCfg = cfg, epTemplates = snd (loadTemplates walk (\<lambda>_. None)),
     epLocalizer = loc, epSend = client\<rparr>"

definition renderTemplate :: "'r email_processor \<Rightarrow> string \<Rightarrow> string \<Rightarrow> any_map \<Rightarrow> goerr + string" where
  "renderTemplate p templateID lang data =
     (let found = (case epTemplates p (path_join [templateID, lang @ ''.html'']) of
             Some t \<Rightarrow> Some t
           | None \<Rightarrow> epTemplates p (path_join [templateID, ecDefaultLanguage (epCfg p) @ ''.html'']))
      in case found of None \<Rightarrow> Inl (MsgE (''template not found: '' @ templateID))
         | Some t \<Rightarrow> (case t data of Inl e \<Rightarrow> Inl (WrapE ''failed to execute template'' e) | Inr s \<Rightarrow> Inr s))"

definition buildTags :: "email \<Rightarrow> (string \<times> string) list" where
  "buildTags e = [(''type'', emType e), (''sender_category'', sender_text (GetSenderType (emType e)))] @ emTags e"

definition formatSender :: "'r email_processor \<Rightarrow> sender_info \<Rightarrow> sender_type \<Rightarrow> string \<Rightarrow> string" where
  "formatSender p s st lang =
     (let name = (if lang \<noteq> [] then trT (epLocalizer p) lang (''email.fromName.'' @ sender_text st) [] else snName s)
      in if name = [] then snAddress s else name @ '' <'' @ snAddress s @ ''>'')"

definition html_body :: "'r email_processor \<Rightarrow> email \<Rightarrow> string" where
  "html_body p e =
     (if emTemplateID e \<noteq> [] \<and> emHTMLBody e = []
      then case renderTemplate p (emTemplateID e) (emLanguage e) (emTemplateData e) of
             Inl _ \<Rightarrow> emHTMLBody e | Inr s \<Rightarrow> s
      else emHTMLBody e)"

definition request_of :: "'r email_processor \<Rightarrow> email \<Rightarrow> send_request" where
  "request_of p e =
     (let st = GetSenderType (emType e); sender = GetSender (epCfg p) st
      in \<lparr>rqFrom = formatSender p sender st (emLanguage e), rqTo = emTo e, rqSubject = emSubject e,
          rqHtml = html_body p e, rqText = emTextBody e, rqTags = buildTags e, rqReplyTo = emReplyTo e,
          rqCc = emCC e, rqBcc = emBCC e, rqAttachments = emAttachments e, rqHeaders = emHeaders e\<rparr>)"

definition processEmail :: "'r email_processor \<Rightarrow> email \<Rightarrow> ('r, unit) call" where
  "processEmail p e = do {
     r \<leftarrow> epSend p (request_of p e);
     case r of Inl (PanicE m) \<Rightarrow> fail (PanicE m)
     | Inl err \<Rightarrow> fail (WrapE ''failed to send email'' err)
     | Inr _ \<Rightarrow> returnE () }"

text \<open>The loop keeps the last error; a panic leaves it.\<close>

fun bulk_send :: "'r email_processor \<Rightarrow> email list \<Rightarrow> goerr option \<Rightarrow> ('r, unit) call" where
  "bulk_send p [] lastErr = (case lastErr of None \<Rightarrow> returnE () | Some e \<Rightarrow> fail e)"
| "bulk_send p (e # es) lastErr = do {
     r \<leftarrow> processEmail p e;
     case r of Inl (PanicE m) \<Rightarrow> fail (PanicE m)
     | Inl err \<Rightarrow> bulk_send p es (Some err)
     | Inr _ \<Rightarrow> bulk_send p es lastErr }"

definition processBulkEmail :: "'r email_processor \<Rightarrow> email list \<Rightarrow> ('r, unit) call" where
  "processBulkEmail p es = bulk_send p es None"

text \<open>\<open>json.Unmarshal\<close> into an \<open>Email\<close> takes any JSON object, ignoring the keys it does not know.\<close>

definition zero_email :: email where
  "zero_email = \<lparr>emType = [], emTo = [], emSubject = [], emTemplateID = [], emTemplateData = [], emHTMLBody = [],
     emTextBody = [], emLanguage = [], emPriority = [], emScheduledAt = None, emIdempotencyKey = [], emTags = [],
     emReplyTo = [], emCC = [], emBCC = [], emAttachments = [], emHeaders = []\<rparr>"

definition decode_email :: "task_payload \<Rightarrow> goerr + email" where
  "decode_email b =
     (case b of TEmail e \<Rightarrow> Inr e
      | TEnvelope ty _ _ \<Rightarrow> Inr (zero_email\<lparr>emType := ty\<rparr>)
      | TNotification n \<Rightarrow> Inr (zero_email\<lparr>emType := neType n, emPriority := nePriority n,
          emScheduledAt := neScheduledAt n, emIdempotencyKey := neIdempotencyKey n\<rparr>)
      | _ \<Rightarrow> Inl (MsgE ''json: cannot unmarshal''))"

definition decode_emails :: "task_payload \<Rightarrow> goerr + email list" where
  "decode_emails b = (case b of TEmails es \<Rightarrow> Inr es | _ \<Rightarrow> Inl (MsgE ''json: cannot unmarshal''))"

definition emails_ProcessTask :: "'r email_processor \<Rightarrow> asynq_task \<Rightarrow> ('r, unit) call" where
  "emails_ProcessTask p t = do {
     r \<leftarrow> (if tkType t = TaskSendEmail \<or> tkType t = TaskScheduledEmail then
             (case decode_email (tkBody t) of
                Inl e \<Rightarrow> fail (WrapE ''failed to unmarshal email'' (SkipRetryE e))
              | Inr e \<Rightarrow> processEmail p e)
           else if tkType t = TaskBulkEmail then
             (case decode_emails (tkBody t) of
                Inl e \<Rightarrow> fail (WrapE ''failed to unmarshal bulk emails'' (SkipRetryE e))
              | Inr es \<Rightarrow> processBulkEmail p es)
           else fail (SkipRetryE (MsgE (''unknown task type: '' @ tkType t))));
     case r of Inl (PanicE m) \<Rightarrow> fail (MsgE (''emails worker panic: '' @ m))
     | _ \<Rightarrow> ret r }"

subsection \<open>The mail interface of the server\<close>

text \<open>The calendar year of an instant: cycles of 400, 100, 4 and 1 years of the Gregorian calendar
  counted from January 1 of year 1, where Go's zero time stands.\<close>

definition civil_year :: "int \<Rightarrow> int" where
  "civil_year d0 =
     (let n400 = d0 div 146097; d = d0 mod 146097;
          n100 = min 3 (d div 36524); d = d - n100 * 36524;
          n4 = d div 1461; d = d - n4 * 1461;
          n1 = min 3 (d div 365)
      in 400 * n400 + 100 * n100 + 4 * n4 + n1 + 1)"

definition time_Year :: "time \<Rightarrow> int" where
  "time_Year t = civil_year (t div (24 * hour))"

definition templateData :: "string \<Rightarrow> string \<Rightarrow> time \<Rightarrow> any_map" where
  "templateData url tok t = [(''URL'', url), (''Token'', tok), (''Year'', show_int (time_Year t))]"

definition sender_language :: "translator option \<Rightarrow> ctx \<Rightarrow> string" where
  "sender_language bundle c =
     (if cxLanguage c \<noteq> [] then cxLanguage c
      else case bundle of Some b \<Rightarrow> trDefaultLanguage b | None \<Rightarrow> ''en'')"

definition sender_subject :: "translator option \<Rightarrow> string \<Rightarrow> string \<Rightarrow> string \<Rightarrow> string" where
  "sender_subject bundle lang key fallback =
     (case bundle of None \<Rightarrow> fallback
      | Some b \<Rightarrow> let s = trT b lang key [] in if s \<noteq> [] \<and> s \<noteq> key then s else fallback)"

definition verification_mail :: "string \<Rightarrow> translator option \<Rightarrow> string \<Rightarrow> string \<Rightarrow> string \<Rightarrow> time \<Rightarrow> email" where
  "verification_mail webURL bundle lang to tok t = zero_email\<lparr>emType := TypeEmailVerification, emTo := [to],
     emSubject := sender_subject bundle lang ''email.verify.subject'' ''Verify your email'',
     emTemplateID := ''verify_email'', emLanguage := lang,
     emTemplateData := templateData (webURL @ ''/verify-email?token='' @ tok) tok t\<rparr>"

definition SendVerificationEmail ::
  "email_config \<Rightarrow> string \<Rightarrow> translator option \<Rightarrow> ctx \<Rightarrow> string \<Rightarrow> string \<Rightarrow> ('r, unit) call" where
  "SendVerificationEmail cfg webURL bundle c to tok = do {
     t \<leftarrow> getw now;
     emails_Send cfg c (verification_mail webURL bundle (sender_language bundle c) to tok t) }"

definition reset_mail :: "string \<Rightarrow> translator option \<Rightarrow> string \<Rightarrow> string \<Rightarrow> string \<Rightarrow> time \<Rightarrow> email" where
  "reset_mail webURL bundle lang to tok t = zero_email\<lparr>emType := TypePasswordReset, emTo := [to],
     emSubject := sender_subject bundle lang ''email.reset.subject'' ''Reset your password'',
     emTemplateID := ''password_reset'', emLanguage := lang,
     emTemplateData := templateData (webURL @ ''/reset-password?token='' @ tok) tok t\<rparr>"

definition SendPasswordResetEmail ::
  "email_config \<Rightarrow> string \<Rightarrow> translator option \<Rightarrow> ctx \<Rightarrow> string \<Rightarrow> string \<Rightarrow> ('r, unit) call" where
  "SendPasswordResetEmail cfg webURL bundle c to tok = do {
     t \<leftarrow> getw now;
     emails_Send cfg c (reset_mail webURL bundle (sender_language bundle c) to tok t) }"

definition newEmailSender :: "email_config \<Rightarrow> string \<Rightarrow> translator option \<Rightarrow> 'r email_sender" where
  "newEmailSender cfg webURL bundle = \<lparr>esVerification = SendVerificationEmail cfg webURL bundle,
     esPasswordReset = SendPasswordResetEmail cfg webURL bundle\<rparr>"

end
