(* ===== verification/Emails_Guarantees.thy ===== *)
theory Emails_Guarantees
  imports Emails_Worker Account_Guarantees
begin

section \<open>What the mail worker guarantees\<close>

text \<open>
  The mail interface of the server keeps to the queue, the verification mail carries a token that
  works, bulk mails are cut into batches, and what retries of a batch do.
\<close>

subsection \<open>The mail interface only queues\<close>

lemma run_enqueue_ok:
  "mqReplies w = [] \<Longrightarrow> run_state (asynq_enqueue t) w = (Inr (), w\<lparr>mqReplies := [], mq := mq w @ [t]\<rparr>)"
  by (simp add: asynq_enqueue_def)

lemma emails_Send_view: "frames mail_view (emails_Send cfg c e)"
  unfolding emails_Send_def Let_def by (intro frames_intros frames_enqueue) (simp_all add: mail_view_def)

lemma newEmailSender_mail_only: "mail_only (newEmailSender cfg webURL bundle)"
  unfolding mail_only_def newEmailSender_def email_sender.simps SendVerificationEmail_def SendPasswordResetEmail_def Let_def
  by (intro conjI allI frames_bind emails_Send_view) simp_all

text \<open>The server as it is assembled, with the bus of \<open>wire_events\<close> and the mail interface of
  \<open>internal/app\<close>, satisfies the contract under which the invariants of the services are proved: its
  mail interface touches nothing but the task queue.\<close>

theorem assembled_service_is_wired:
  "wired_service (fst (run_state (newAuthService E (wired_bus E n) cfg (newEmailSender mcfg webURL bundle)) w)) n"
  by (simp add: newAuthService_def wired_service_def newEmailSender_mail_only case_prod_beta Let_def)

subsection \<open>The verification mail\<close>

definition queued :: "email_config \<Rightarrow> email \<Rightarrow> email" where
  "queued cfg e = default_language cfg (default_priority e)"

lemma queued_simps [simp]:
  "emTo (queued cfg e) = emTo e" "emTemplateID (queued cfg e) = emTemplateID e" "emHTMLBody (queued cfg e) = emHTMLBody e"
  "emTemplateData (queued cfg e) = emTemplateData e" "emCC (queued cfg e) = emCC e" "emBCC (queued cfg e) = emBCC e"
  "emLanguage e \<noteq> [] \<Longrightarrow> emLanguage (queued cfg e) = emLanguage e"
  "emPriority (queued cfg e) = (if emPriority e = [] then PriorityNormal else emPriority e)"
  by (simp_all add: queued_def default_priority_def default_language_def)

lemma verification_mail_simps [simp]:
  "emTo (verification_mail url b lang a tok t) = [a]" "emTemplateID (verification_mail url b lang a tok t) = ''verify_email''"
  "emHTMLBody (verification_mail url b lang a tok t) = []" "emLanguage (verification_mail url b lang a tok t) = lang"
  "emTemplateData (verification_mail url b lang a tok t) = templateData (url @ ''/verify-email?token='' @ tok) tok t"
  "emCC (verification_mail url b lang a tok t) = []" "emBCC (verification_mail url b lang a tok t) = []"
  "emPriority (verification_mail url b lang a tok t) = []"
  by (simp_all add: verification_mail_def zero_email_def)

lemma fold_task_id [simp]:
  "tkType (fold apply_option (task_id_option key) t) = tkType t" "tkBody (fold apply_option (task_id_option key) t) = tkBody t"
  "tkQueue (fold apply_option (task_id_option key) t) = tkQueue t"
  by (simp_all add: task_id_option_def)

lemma send_task_simps [simp]:
  "tkType (send_task cfg e) = TaskSendEmail" "tkBody (send_task cfg e) = TEmail e" "tkQueue (send_task cfg e) = em_queueName (emPriority e)"
  by (simp_all add: send_task_def new_task_def)

lemma emails_Send_run:
  "mqReplies w = [] \<Longrightarrow> run_state (emails_Send cfg c e) w = (Inr (), w\<lparr>mqReplies := [], mq := mq w @ [send_task cfg (queued cfg e)]\<rparr>)"
  by (simp add: emails_Send_def queued_def run_enqueue_ok swallow_duplicate_def Let_def)

lemma process_send:
  "run_state (epSend P (request_of P e)) v = (Inr m, v') \<Longrightarrow>
   run_state (emails_ProcessTask P (send_task cfg e)) v = (Inr (), v')"
  by (simp add: emails_ProcessTask_def decode_email_def processEmail_def)

text \<open>C34. The verification mail reaches the user and its token works: with Redis and the queue up,
  \<open>sendVerification\<close> stores a token for the user that stays valid for 24 hours and enqueues one task;
  whenever the mail worker runs that task and the mail service accepts it, the mail goes to the
  user's address alone, its HTML is the verification template rendered with the link and that very
  token, and the task succeeds.\<close>

theorem verification_mail_carries_token:
  fixes s :: "'r auth_service"
  assumes "services (svExt s)" and "svEmail s = newEmailSender cfg webURL bundle" and "redis_up w" and "mqReplies w = []"
    and "run_state (sendVerification s c u) w = ((), w1)" and "sender_language bundle c \<noteq> []"
  shows "\<exists>tok t. mq w1 = mq w @ [t] \<and> tkQueue t = ''emails:normal'' \<and>
    (\<forall>w2. redis w2 = redis w1 \<and> now w \<le> now w2 \<and> now w2 < now w + 24 * hour \<longrightarrow>
      token_for s w2 (VerificationTokenKey tok) (uID u)) \<and>
    (\<forall>(P :: 'q email_processor) tmpl html. epTemplates P (path_join [''verify_email'', sender_language bundle c @ ''.html'']) = Some tmpl \<and>
      tmpl (templateData (webURL @ ''/verify-email?token='' @ tok) tok (now w)) = Inr html \<longrightarrow>
      (\<exists>rq. rqTo rq = [uEmail u] \<and> rqCc rq = [] \<and> rqBcc rq = [] \<and> rqHtml rq = html \<and>
        (\<forall>v m v'. run_state (epSend P rq) v = (Inr m, v') \<longrightarrow> run_state (emails_ProcessTask P t) v = (Inr (), v'))))"
proof -
  have R: "redis_service (svR s)" using services.axioms(1) [OF assms(1)] by (simp add: svR_def)
  obtain tok wa where tok: "run_state (NewUUIDNoDash (svExt s)) w = (tok, wa)" by fastforce
  then have wa: "redis_up wa" "mqReplies wa = []" "mq wa = mq w" "now wa = now w"
    using assms(3,4) by (auto simp: NewUUIDNoDash_def redis_up_def)
  obtain x wb where set: "run_state (cache_set (svR s) (svP s) (VerificationTokenKey tok) (JTokenData (uID u)) verifyTokenTTL) wa = (x, wb)"
    by fastforce
  have wb: "mqReplies wb = []" "mq wb = mq w" "now wb = now w" "x = Inr ()"
    using set wa by (auto simp: cache_set_def redis_call_up Let_def)
  let ?e = "queued cfg (verification_mail webURL bundle (sender_language bundle c) (uEmail u) tok (now w))"
  let ?t = "send_task cfg ?e"
  have "w1 = wb\<lparr>mqReplies := [], mq := mq w @ [?t]\<rparr>"
    using assms(2,5) tok set wb
    by (simp add: sendVerification_def newEmailSender_def SendVerificationEmail_def emails_Send_run)
  then have w1: "mq w1 = mq w @ [?t]" "redis w1 = redis wb" by simp_all
  have key: "token_for s w2 (VerificationTokenKey tok) (uID u)"
    if "redis w2 = redis w1" "now w2 < now w + 24 * hour" for w2
    using redis_service.set_then_get [OF R wa(1), of verifyTokenTTL "svP s" "VerificationTokenKey tok" "JTokenData (uID u)" "now w2"]
      that set w1(2) wa(4)
    by (simp add: token_for_def token_key_def verifyTokenTTL_def)
  have mail: "rqTo (request_of P ?e) = [uEmail u]" "rqCc (request_of P ?e) = []" "rqBcc (request_of P ?e) = []" for P :: "'q email_processor"
    by (simp_all add: request_of_def Let_def)
  have html: "rqHtml (request_of P ?e) = html"
    if "epTemplates P (path_join [''verify_email'', sender_language bundle c @ ''.html'']) = Some tmpl"
      "tmpl (templateData (webURL @ ''/verify-email?token='' @ tok) tok (now w)) = Inr html" for P :: "'q email_processor" and tmpl html
    using that assms(6) by (simp add: request_of_def Let_def html_body_def renderTemplate_def)
  have "\<exists>rq. rqTo rq = [uEmail u] \<and> rqCc rq = [] \<and> rqBcc rq = [] \<and> rqHtml rq = html \<and>
        (\<forall>v m v'. run_state (epSend P rq) v = (Inr m, v') \<longrightarrow> run_state (emails_ProcessTask P ?t) v = (Inr (), v'))"
    if "epTemplates P (path_join [''verify_email'', sender_language bundle c @ ''.html'']) = Some tmpl \<and>
      tmpl (templateData (webURL @ ''/verify-email?token='' @ tok) tok (now w)) = Inr html" for P :: "'q email_processor" and tmpl html
    by (rule exI [of _ "request_of P ?e"]) (use mail html that process_send in blast)
  note mailed = this
  have q: "tkQueue ?t = ''emails:normal''" by (simp add: em_queueName_def PriorityNormal_def)
  show ?thesis
  proof (rule exI [of _ tok], rule exI [of _ ?t], intro conjI allI impI)
    show "token_for s w2 (VerificationTokenKey tok) (uID u)"
      if "redis w2 = redis w1 \<and> now w \<le> now w2 \<and> now w2 < now w + 24 * hour" for w2 using that key by blast
  qed (fact w1(1), fact q, erule mailed)
qed

subsection \<open>Bulk mails\<close>

definition batch_ok :: "email_config \<Rightarrow> email list \<Rightarrow> bool" where
  "batch_ok cfg b = (b \<noteq> [] \<and> int (length b) \<le> ecBatchMaxSize cfg)"

lemma bulk_loop_batches:
  assumes "1 \<le> ecBatchMaxSize cfg"
  shows "length es - k < fuel \<Longrightarrow> run_state (bulk_loop fuel cfg c es (int k)) w = (r, w1) \<Longrightarrow>
    \<exists>bs. mq w1 = mq w @ map (bulk_task cfg) bs \<and> (\<forall>b\<in>set bs. batch_ok cfg b) \<and>
      (r = Some (Inr ()) \<and> concat bs = drop k es \<or>
       (\<exists>e rest. r = Some (Inl (WrapE ''failed to enqueue bulk email'' e)) \<and> concat bs @ rest = drop k es))"
proof (induction fuel arbitrary: k w)
  case (Suc fuel)
  let ?m = "nat (ecBatchMaxSize cfg)" and ?b = "take (nat (ecBatchMaxSize cfg)) (drop k es)"
  show ?case
  proof (cases "k < length es")
    case False
    with Suc.prems(2) show ?thesis by (auto simp: bulk_loop.simps intro!: exI [of _ "[]"])
  next
    case True
    have endi: "take (nat ((if int k + ecBatchMaxSize cfg > int (length es) then int (length es) else int k + ecBatchMaxSize cfg) - int k))
        (drop k es) = ?b" using True assms by (auto simp: nat_diff_distrib nat_add_distrib)
    have bad: "\<not> (if int k + ecBatchMaxSize cfg > int (length es) then int (length es) else int k + ecBatchMaxSize cfg) < int k"
      using True assms by auto
    have next_k: "int k + ecBatchMaxSize cfg = int (k + ?m)" using assms by simp
    have b: "batch_ok cfg ?b" using True assms by (auto simp: batch_ok_def)
    obtain x wa where x: "run_state (asynq_enqueue (bulk_task cfg ?b)) w = (x, wa)" by fastforce
    have step: "run_state (bulk_loop (Suc fuel) cfg c es (int k)) w =
        (case x of Inl e \<Rightarrow> (Some (Inl (WrapE ''failed to enqueue bulk email'' e)), wa)
         | Inr _ \<Rightarrow> run_state (bulk_loop fuel cfg c es (int (k + ?m))) wa)"
      using x True bad endi
      by (subst bulk_loop.simps) (simp add: Let_def next_k [symmetric] del: of_nat_add split: sum.split)
    show ?thesis
    proof (cases x)
      case (Inl e)
      with x have "mq wa = mq w" by (auto simp: asynq_enqueue_def split: list.splits enqueue_reply.splits)
      with Inl step Suc.prems(2) show ?thesis by (intro exI [of _ "[]"]) auto
    next
      case (Inr u)
      with x have wa: "mq wa = mq w @ [bulk_task cfg ?b]"
        by (auto simp: asynq_enqueue_def split: list.splits enqueue_reply.splits)
      have "length es - (k + ?m) < fuel" using Suc.prems(1) True assms by auto
      note IH = Suc.IH [OF this]
      have "run_state (bulk_loop fuel cfg c es (int (k + ?m))) wa = (r, w1)" using Inr step Suc.prems(2) by simp
      from IH [OF this] obtain bs where
        bs: "mq w1 = mq wa @ map (bulk_task cfg) bs" "\<forall>b\<in>set bs. batch_ok cfg b"
          "r = Some (Inr ()) \<and> concat bs = drop (k + ?m) es \<or>
           (\<exists>e rest. r = Some (Inl (WrapE ''failed to enqueue bulk email'' e)) \<and> concat bs @ rest = drop (k + ?m) es)"
        by blast
      have d: "?b @ drop (k + ?m) es = drop k es" by (metis add.commute append_take_drop_id drop_drop)
      from bs(3) have "r = Some (Inr ()) \<and> concat (?b # bs) = drop k es \<or>
           (\<exists>e rest. r = Some (Inl (WrapE ''failed to enqueue bulk email'' e)) \<and> concat (?b # bs) @ rest = drop k es)"
      proof
        assume "r = Some (Inr ()) \<and> concat bs = drop (k + ?m) es"
        with d show ?thesis by simp
      next
        assume "\<exists>e rest. r = Some (Inl (WrapE ''failed to enqueue bulk email'' e)) \<and> concat bs @ rest = drop (k + ?m) es"
        then obtain e rest where e: "r = Some (Inl (WrapE ''failed to enqueue bulk email'' e))" "concat bs @ rest = drop (k + ?m) es"
          by blast
        with d have "concat (?b # bs) @ rest = drop k es" by simp
        with e(1) show ?thesis by blast
      qed
      with bs(1,2) wa b show ?thesis by (intro exI [of _ "?b # bs"]) simp
    qed
  qed
qed simp

text \<open>Bulk mails are cut into batches: with a batch size of at least one the loop ends, within as many
  rounds as there are mails; every task it enqueued is a non-empty batch of at most that size, and
  together they carry the mails in order, all of them when no enqueueing failed and otherwise those
  before the failure.\<close>

theorem bulk_batches_partition:
  assumes "1 \<le> ecBatchMaxSize cfg" and "length es < fuel" and "run_state (emails_SendBulk fuel cfg c es) w = (r, w1)"
  shows "\<exists>bs. mq w1 = mq w @ map (bulk_task cfg) bs \<and> (\<forall>b\<in>set bs. batch_ok cfg b) \<and>
      (r = Some (Inr ()) \<and> concat bs = es \<or>
       (\<exists>e rest. r = Some (Inl (WrapE ''failed to enqueue bulk email'' e)) \<and> concat bs @ rest = es))"
proof (cases "es = []")
  case True
  with assms(3) show ?thesis by (intro exI [of _ "[]"]) (simp add: emails_SendBulk_def)
next
  case False
  with assms(3) have "run_state (bulk_loop fuel cfg c es (int 0)) w = (r, w1)" by (simp add: emails_SendBulk_def)
  from bulk_loop_batches [OF assms(1) _ this] assms(2) show ?thesis by simp
qed

text \<open>A batch size of zero, which is what a configuration without \<open>batch.max_size\<close> means, makes
  \<open>SendBulk\<close> run for ever: however long it runs with the queue up, it has not returned, and each round
  has put one more task without mails on the queue.\<close>

theorem bulk_zero_batch_never_returns:
  assumes "ecBatchMaxSize cfg = 0" and "es \<noteq> []" and "mqReplies w = []"
  shows "\<exists>w1. run_state (emails_SendBulk fuel cfg c es) w = (None, w1) \<and> mq w1 = mq w @ replicate fuel (bulk_task cfg [])"
proof -
  have "\<exists>w1. run_state (bulk_loop fuel cfg c es 0) w = (None, w1) \<and> mq w1 = mq w @ replicate fuel (bulk_task cfg [])"
    using assms(3)
  proof (induction fuel arbitrary: w)
    case 0
    then show ?case using assms(2) by (simp add: bulk_loop.simps)
  next
    case (Suc fuel)
    let ?w = "w\<lparr>mqReplies := [], mq := mq w @ [bulk_task cfg []]\<rparr>"
    have "run_state (bulk_loop (Suc fuel) cfg c es 0) w = run_state (bulk_loop fuel cfg c es 0) ?w"
      using run_enqueue_ok [OF Suc.prems] assms(1,2) by (subst bulk_loop.simps) simp
    with Suc.IH [of ?w] show ?case by simp
  qed
  then show ?thesis using assms(2) by (simp add: emails_SendBulk_def)
qed

text \<open>Every mail of a batch is attempted once, whatever became of those before it.\<close>

fun attempts :: "'r email_processor \<Rightarrow> email list \<Rightarrow> 'r world \<Rightarrow> (goerr + unit) list \<times> 'r world" where
  "attempts p [] w = ([], w)"
| "attempts p (e # es) w = (let (r, w1) = run_state (processEmail p e) w; (rs, w2) = attempts p es w1 in (r # rs, w2))"

definition last_error :: "(goerr + unit) list \<Rightarrow> goerr option" where
  "last_error rs = fold (\<lambda>r a. case r of Inl e \<Rightarrow> Some e | Inr _ \<Rightarrow> a) rs None"

definition never_panics :: "'r email_processor \<Rightarrow> bool" where
  "never_panics p = (\<forall>rq v m. fst (run_state (epSend p rq) v) \<noteq> Inl (PanicE m))"

lemma processEmail_no_panic:
  assumes "never_panics p" shows "fst (run_state (processEmail p e) v) \<noteq> Inl (PanicE m)"
proof -
  have "\<not> (\<exists>m. fst (run_state (epSend p (request_of p e)) v) = Inl (PanicE m))" using assms by (simp add: never_panics_def)
  then show ?thesis by (auto simp: processEmail_def case_prod_beta split: sum.splits goerr.splits)
qed

lemma bulk_send_attempts:
  assumes "never_panics p"
  shows "run_state (bulk_send p es acc) w =
    (case fold (\<lambda>r a. case r of Inl e \<Rightarrow> Some e | Inr _ \<Rightarrow> a) (fst (attempts p es w)) acc of None \<Rightarrow> Inr () | Some e \<Rightarrow> Inl e,
     snd (attempts p es w))"
proof (induction es arbitrary: acc w)
  case (Cons e es)
  obtain r w1 where r: "run_state (processEmail p e) w = (r, w1)" by fastforce
  with processEmail_no_panic [OF assms, of e w] have "r \<noteq> Inl (PanicE m)" for m by auto
  with r Cons show ?case by (auto simp: case_prod_beta split: sum.split goerr.split)
qed (simp split: option.split)

lemma bulk_task_simps [simp]: "tkType (bulk_task cfg es) = TaskBulkEmail" "tkBody (bulk_task cfg es) = TEmails es"
  by (simp_all add: bulk_task_def new_task_def)

lemma last_error_no_panic:
  assumes "never_panics p" shows "last_error (fst (attempts p es w)) \<noteq> Some (PanicE m)"
proof -
  have "fold (\<lambda>r a. case r of Inl e \<Rightarrow> Some e | Inr _ \<Rightarrow> a) (fst (attempts p es w)) acc \<noteq> Some (PanicE m)" if "acc \<noteq> Some (PanicE m)" for acc
    using that
  proof (induction es arbitrary: acc w)
    case (Cons e es)
    then show ?case using processEmail_no_panic [OF assms, of e w]
      by (auto simp: case_prod_beta split: sum.split)
  qed simp
  then show ?thesis by (simp add: last_error_def)
qed

text \<open>A bulk task attempts every mail of its batch, and fails with the last error when any attempt failed;
  as the queue then runs the same task again, the mails that were sent the first time are sent again:
  running it twice attempts the whole batch twice.\<close>

theorem bulk_retry_resends:
  assumes "never_panics p" and "run_state (emails_ProcessTask p (bulk_task cfg es)) w = (r, w1)"
  shows "w1 = snd (attempts p es w) \<and> length (fst (attempts p es w)) = length es \<and>
    r = (case last_error (fst (attempts p es w)) of None \<Rightarrow> Inr () | Some e \<Rightarrow> Inl e) \<and>
    (r = Inr () \<longleftrightarrow> (\<forall>x\<in>set (fst (attempts p es w)). x = Inr ())) \<and>
    snd (run_state (emails_ProcessTask p (bulk_task cfg es)) w1) = snd (attempts p es w1)"
proof -
  have run: "run_state (emails_ProcessTask p (bulk_task cfg es)) v =
      (case last_error (fst (attempts p es v)) of None \<Rightarrow> Inr () | Some e \<Rightarrow> Inl e, snd (attempts p es v))" for v
    using bulk_send_attempts [OF assms(1), of es None v] last_error_no_panic [OF assms(1), of es v]
    by (auto simp: emails_ProcessTask_def TaskBulkEmail_def TaskSendEmail_def TaskScheduledEmail_def decode_emails_def
        processBulkEmail_def last_error_def [symmetric] split: option.splits goerr.splits)
  have len: "length (fst (attempts p es v)) = length es" for v
    by (induction es arbitrary: v) (simp_all add: case_prod_beta)
  have "(fold (\<lambda>r a. case r of Inl e \<Rightarrow> Some e | Inr _ \<Rightarrow> a) rs acc = None) \<longleftrightarrow> acc = None \<and> (\<forall>x\<in>set rs. x = Inr ())"
    for rs :: "(goerr + unit) list" and acc
    by (induction rs arbitrary: acc) (auto split: sum.splits)
  then have "last_error (fst (attempts p es w)) = None \<longleftrightarrow> (\<forall>x\<in>set (fst (attempts p es w)). x = Inr ())"
    by (simp add: last_error_def)
  with run [of w] run [of w1] len [of w] assms(2) show ?thesis
    by (cases "last_error (fst (attempts p es w))") auto
qed

text \<open>A mail goes out under its configured address, but not under its configured name: when the
  translations hold no name for the sender, as the shipped ones, the recipient reads the translation
  key; the configured name is used only for a mail without a language, which the dispatcher does not
  let pass as long as a default language is configured.\<close>

theorem sender_name_is_key:
  assumes "\<And>lang k. trT (epLocalizer p) lang (''email.fromName.'' @ k) [] = ''email.fromName.'' @ k"
    and "ecDefaultLanguage cfg \<noteq> []"
  shows "rqFrom (request_of p (default_language cfg e)) =
    ''email.fromName.'' @ sender_text (GetSenderType (emType e)) @ '' <'' @
      snAddress (GetSender (epCfg p) (GetSenderType (emType e))) @ ''>''"
proof -
  have "emLanguage (default_language cfg e) \<noteq> []" "emType (default_language cfg e) = emType e"
    using assms(2) by (simp_all add: default_language_def)
  with assms(1) show ?thesis by (simp add: request_of_def formatSender_def Let_def)
qed

end
