(* ===== verification/Notifications_Worker.thy ===== *)
theory Notifications_Worker
  imports Domain_Services
begin

section \<open>The notification worker\<close>

text \<open>
  Models \<open>internal/worker/notifications\<close>: the dispatcher, the repositories, quiet hours, the FCM
  message and the processor. The FCM client, its classification of errors and the time-zone database
  are fields of the processor. The data of an event is a list of bindings in the order in which a
  range over the Go map takes them.
\<close>

subsection \<open>Queues and the dispatcher\<close>

definition nt_PriorityHigh :: string where "nt_PriorityHigh = ''high''"
definition nt_PriorityNormal :: string where "nt_PriorityNormal = ''normal''"
definition nt_PriorityLow :: string where "nt_PriorityLow = ''low''"

definition nt_queueName :: "string \<Rightarrow> string" where
  "nt_queueName p = ''notifications:'' @ p"

definition nt_QueueNames :: "string list" where
  "nt_QueueNames = [nt_queueName nt_PriorityHigh, nt_queueName nt_PriorityNormal, nt_queueName nt_PriorityLow]"

definition EventCategory :: "string \<Rightarrow> string" where
  "EventCategory evtype = (if has_prefix evtype ''marketing.'' then ''marketing'' else [])"

definition TaskSendNotification :: string where "TaskSendNotification = ''notification:send''"
definition TaskScheduleNotification :: string where "TaskScheduleNotification = ''notification:scheduled''"

record notif_config =
  ncBaseURL :: string
  ncTemplates :: "string \<rightharpoonup> string"
  ncEventLinks :: "string \<rightharpoonup> string"
  ncConcurrency :: int
  ncRetryMax :: int
  ncCheckEnabled :: bool
  ncDefaultTimezone :: string

definition nt_default_priority :: "notif_event \<Rightarrow> notif_event" where
  "nt_default_priority ev = (if nePriority ev = [] then ev\<lparr>nePriority := nt_PriorityNormal\<rparr> else ev)"

definition nt_task_id :: "string \<Rightarrow> asynq_option list" where
  "nt_task_id key = (if key \<noteq> [] then [OptTaskID key] else [])"

definition nt_enqueued :: "string \<Rightarrow> goerr + unit \<Rightarrow> goerr + unit" where
  "nt_enqueued msg r =
     (case r of Inl e \<Rightarrow> if isDuplicateEnqueue e then Inr () else Inl (WrapE msg e) | Inr _ \<Rightarrow> Inr ())"

definition notif_Send :: "notif_config \<Rightarrow> ctx \<Rightarrow> notif_event \<Rightarrow> ('r, unit) call" where
  "notif_Send cfg c ev = do {
     let ev = nt_default_priority ev;
     r \<leftarrow> asynq_enqueue (new_task TaskSendNotification (TNotification ev)
            ([OptQueue (nt_queueName (nePriority ev)), OptMaxRetry (nat (ncRetryMax cfg)), OptTimeout (30 * second)]
             @ nt_task_id (neIdempotencyKey ev)));
     ret (nt_enqueued ''failed to enqueue notification'' r) }"

definition notif_Schedule :: "notif_config \<Rightarrow> ctx \<Rightarrow> notif_event \<Rightarrow> time \<Rightarrow> ('r, unit) call" where
  "notif_Schedule cfg c ev at = do {
     let ev = (nt_default_priority ev)\<lparr>neScheduledAt := Some at\<rparr>;
     r \<leftarrow> asynq_enqueue (new_task TaskScheduleNotification (TNotification ev)
            ([OptQueue (nt_queueName (nePriority ev)), OptMaxRetry (nat (ncRetryMax cfg)), OptProcessAt at,
              OptTimeout (30 * second)] @ nt_task_id (neIdempotencyKey ev)));
     ret (nt_enqueued ''failed to schedule notification'' r) }"

subsection \<open>Repositories\<close>

definition worker_FindActiveByUserID :: "ctx \<Rightarrow> int \<Rightarrow> ('r, fcm_token list) call" where
  "worker_FindActiveByUserID c uid = run_query c (ListActiveFCMTokensByUserID uid)"

definition worker_DeactivateByID :: "ctx \<Rightarrow> int \<Rightarrow> ('r, unit) call" where
  "worker_DeactivateByID c i = run_query c (DeactivateFCMToken i)"

definition worker_UpdateLastUsed :: "ctx \<Rightarrow> int \<Rightarrow> ('r, unit) call" where
  "worker_UpdateLastUsed c i = run_query c (TouchFCMTokenLastUsed i)"

definition worker_FindPreferences :: "ctx \<Rightarrow> int \<Rightarrow> ('r, notif_prefs) call" where
  "worker_FindPreferences c uid = do {
     r \<leftarrow> run_query c (GetNotificationPreferences uid);
     case r of Inl e \<Rightarrow> fail e | Inr row \<Rightarrow> returnE (toPreferences row) }"

definition worker_FindTemplate :: "ctx \<Rightarrow> string \<Rightarrow> ('r, notif_template \<times> template_translation list) call" where
  "worker_FindTemplate c ty = store_run c (\<lambda>_. do {
     r \<leftarrow> exec_query (GetNotificationTemplateByEventType ty);
     case r of Inl e \<Rightarrow> fail e
     | Inr row \<Rightarrow> do {
         r \<leftarrow> exec_query (ListTemplateTranslations (tmID row));
         case r of Inl e \<Rightarrow> fail e | Inr trs \<Rightarrow> returnE (row, trs) }})"

definition worker_CreateLog :: "ctx \<Rightarrow> notif_log \<Rightarrow> ('r, unit) call" where
  "worker_CreateLog c l = run_query c (CreateNotificationLog l)"

subsection \<open>Quiet hours\<close>

text \<open>Go compares strings byte by byte.\<close>

fun go_less :: "string \<Rightarrow> string \<Rightarrow> bool" where
  "go_less xs [] = False"
| "go_less [] (y # ys) = True"
| "go_less (x # xs) (y # ys) = ((of_char x :: nat) < of_char y \<or> x = y \<and> go_less xs ys)"

text \<open>\<open>now.In(loc).Format("15:04:05")\<close>; a location is its offset from UTC in seconds at an instant.\<close>

type_synonym location = "time \<Rightarrow> int"

definition clock_seconds :: "location \<Rightarrow> time \<Rightarrow> int" where
  "clock_seconds loc t = (t div second + loc t) mod 86400"

definition format_clock :: "int \<Rightarrow> string" where
  "format_clock s = pad2 (s div 3600) @ '':'' @ pad2 (s mod 3600 div 60) @ '':'' @ pad2 (s mod 60)"

definition resolve_location :: "notif_config \<Rightarrow> (string \<Rightarrow> location option) \<Rightarrow> string \<Rightarrow> location" where
  "resolve_location cfg LoadLocation zone =
     (let tz = (if zone = [] then ncDefaultTimezone cfg else zone)
      in case LoadLocation tz of Some l \<Rightarrow> l | None \<Rightarrow> (\<lambda>_. 0))"

definition isQuietHours :: "notif_config \<Rightarrow> (string \<Rightarrow> location option) \<Rightarrow> notif_prefs \<Rightarrow> time \<Rightarrow> bool" where
  "isQuietHours cfg LoadLocation prefs t =
     (case (npQuietHoursStart prefs, npQuietHoursEnd prefs) of
        (Some start, Some endd) \<Rightarrow>
          let loc = resolve_location cfg LoadLocation (npTimezone prefs);
              currentTime = format_clock (clock_seconds loc t)
          in if go_less endd start then \<not> go_less currentTime start \<or> go_less currentTime endd
             else \<not> go_less currentTime start \<and> go_less currentTime endd
      | _ \<Rightarrow> False)"

definition isCategoryEnabled :: "notif_prefs \<Rightarrow> string \<Rightarrow> bool" where
  "isCategoryEnabled prefs category = (if category = ''marketing'' then npMarketing prefs else npPush prefs)"

subsection \<open>The message\<close>

definition interpolate :: "string \<Rightarrow> (string \<times> string) list \<Rightarrow> string" where
  "interpolate template data = fold (\<lambda>(key, value) result. replace_all (''{'' @ key @ ''}'') value result) data template"

definition buildDeepLink :: "notif_config \<Rightarrow> string \<Rightarrow> (string \<times> string) list \<Rightarrow> string" where
  "buildDeepLink cfg evtype data =
     (case ncEventLinks cfg evtype of None \<Rightarrow> []
      | Some templateName \<Rightarrow>
          (case ncTemplates cfg templateName of None \<Rightarrow> []
           | Some templatePath \<Rightarrow> interpolate (ncBaseURL cfg @ templatePath) data))"

definition getChannelID :: "notif_template \<Rightarrow> string" where
  "getChannelID tm = (case tmAndroidChannelID tm of Some ch \<Rightarrow> ch | None \<Rightarrow> ''default'')"

definition getAPNSPriority :: "string \<Rightarrow> string" where
  "getAPNSPriority priority = (if priority = ''high'' then ''10'' else ''5'')"

record fcm_message =
  mgToken :: string
  mgTitle :: string
  mgBody :: string
  mgData :: "string \<rightharpoonup> string"
  mgAndroidPriority :: string
  mgAndroidSound :: string
  mgAndroidChannelID :: string
  mgAPNSPriority :: string
  mgAPNSSound :: string

definition buildFCMMessage ::
  "notif_config \<Rightarrow> notif_event \<Rightarrow> notif_template \<times> template_translation list \<Rightarrow> fcm_token \<Rightarrow> fcm_message" where
  "buildFCMMessage cfg ev tmpl tok =
     (let (tm, trs) = tmpl;
          (title, body) = (case filter (\<lambda>t. ttLanguage t = ''en'') trs of [] \<Rightarrow> ([], [])
             | t # _ \<Rightarrow> (interpolate (ttTitle t) (neData ev), interpolate (ttBody t) (neData ev)));
          deepLink = buildDeepLink cfg (neType ev) (neData ev);
          data = [''event_type'' \<mapsto> neType ev, ''click_action'' \<mapsto> ''FLUTTER_NOTIFICATION_CLICK''] ++ map_of (neData ev);
          data = (if deepLink \<noteq> [] then data(''deep_link'' \<mapsto> deepLink) else data);
          data = (case tmAction tm of Some a \<Rightarrow> data(''action'' \<mapsto> a) | None \<Rightarrow> data);
          priority = (if tmPriority tm = [] then nePriority ev else tmPriority tm)
      in \<lparr>mgToken = ftToken tok, mgTitle = title, mgBody = body, mgData = data, mgAndroidPriority = priority,
          mgAndroidSound = tmSound tm, mgAndroidChannelID = getChannelID tm,
          mgAPNSPriority = getAPNSPriority priority, mgAPNSSound = tmSound tm\<rparr>)"

subsection \<open>The processor\<close>

record 'r notif_processor =
  ntCfg :: notif_config
  ntSend :: "fcm_message \<Rightarrow> ('r, string) call"  \<comment> \<open>the FCM client: a message id\<close>
  ntIsUnregistered :: "goerr \<Rightarrow> bool"
  ntIsInvalidArgument :: "goerr \<Rightarrow> bool"
  ntLoadLocation :: "string \<Rightarrow> location option"

record send_result =
  rsSuccess :: bool
  rsFCMTokenID :: int
  rsMessageID :: string
  rsErrorCode :: string
  rsErrorMessage :: string

definition sendToToken ::
  "'r notif_processor \<Rightarrow> ctx \<Rightarrow> notif_event \<Rightarrow> notif_template \<times> template_translation list \<Rightarrow> fcm_token \<Rightarrow> ('r, send_result) call" where
  "sendToToken p c ev tmpl tok = do {
     r \<leftarrow> ntSend p (buildFCMMessage (ntCfg p) ev tmpl tok);
     case r of Inl (PanicE m) \<Rightarrow> fail (PanicE m)
     | Inl err \<Rightarrow> do {
         (if ntIsUnregistered p err \<or> ntIsInvalidArgument p err
          then do { worker_DeactivateByID c (ftID tok); ret () } else ret ());
         returnE \<lparr>rsSuccess = False, rsFCMTokenID = ftID tok, rsMessageID = [], rsErrorCode = ''FCM_ERROR'',
           rsErrorMessage = error_text err\<rparr> }
     | Inr messageID \<Rightarrow> do {
         worker_UpdateLastUsed c (ftID tok);
         returnE \<lparr>rsSuccess = True, rsFCMTokenID = ftID tok, rsMessageID = messageID, rsErrorCode = [],
           rsErrorMessage = []\<rparr> }}"

definition log_of :: "notif_event \<Rightarrow> fcm_token \<Rightarrow> send_result \<Rightarrow> time \<Rightarrow> notif_log" where
  "log_of ev tok res t = \<lparr>nlID = 0, nlUserID = Some (neUserID ev), nlEventType = neType ev,
     nlEventID = Some (rsMessageID res), nlFCMTokenID = Some (ftID tok),
     nlStatus = (if rsSuccess res then ''sent'' else ''failed''),
     nlErrorCode = (if rsSuccess res then None else Some (rsErrorCode res)),
     nlErrorMessage = (if rsSuccess res then None else Some (rsErrorMessage res)),
     nlPayload = Some (neData ev, nePriority ev), nlSentAt = t, nlClickedAt = None, nlDismissedAt = None\<rparr>"

definition logNotification :: "ctx \<Rightarrow> notif_event \<Rightarrow> fcm_token \<Rightarrow> send_result \<Rightarrow> ('r, unit) call" where
  "logNotification c ev tok res = do {
     t \<leftarrow> getw now;
     worker_CreateLog c (log_of ev tok res t) }"

text \<open>The loop over the tokens keeps the last error; failures to log are dropped.\<close>

fun notify_tokens ::
  "'r notif_processor \<Rightarrow> ctx \<Rightarrow> notif_event \<Rightarrow> notif_template \<times> template_translation list \<Rightarrow> fcm_token list \<Rightarrow>
     goerr option \<Rightarrow> ('r, unit) call" where
  "notify_tokens p c ev tmpl [] lastErr = (case lastErr of None \<Rightarrow> returnE () | Some e \<Rightarrow> fail e)"
| "notify_tokens p c ev tmpl (tok # toks) lastErr = do {
     r \<leftarrow> sendToToken p c ev tmpl tok;
     case r of Inl e \<Rightarrow> fail e
     | Inr res \<Rightarrow> do {
         logNotification c ev tok res;
         notify_tokens p c ev tmpl toks (if rsSuccess res then lastErr else Some (MsgE (rsErrorMessage res))) }}"

definition shouldSendNotification :: "'r notif_processor \<Rightarrow> ctx \<Rightarrow> notif_event \<Rightarrow> ('r, bool) proc" where
  "shouldSendNotification p c ev = do {
     r \<leftarrow> worker_FindPreferences c (neUserID ev);
     t \<leftarrow> getw now;
     ret (case r of Inl e \<Rightarrow> True
          | Inr prefs \<Rightarrow>
              isCategoryEnabled prefs (EventCategory (neType ev)) \<and>
              \<not> (ncCheckEnabled (ntCfg p) \<and> npQuietHoursEnabled prefs \<and>
                 isQuietHours (ntCfg p) (ntLoadLocation p) prefs t)) }"

definition processNotification :: "'r notif_processor \<Rightarrow> ctx \<Rightarrow> notif_event \<Rightarrow> ('r, unit) call" where
  "processNotification p c ev = do {
     ok \<leftarrow> shouldSendNotification p c ev;
     if \<not> ok then returnE ()
     else do {
       r \<leftarrow> worker_FindActiveByUserID c (neUserID ev);
       case r of Inl e \<Rightarrow> fail (WrapE ''failed to get FCM tokens'' e)
       | Inr tokens \<Rightarrow>
           if tokens = [] then returnE ()
           else do {
             r \<leftarrow> worker_FindTemplate c (neType ev);
             case r of Inl e \<Rightarrow> if errIs e NoRows then returnE () else fail (WrapE ''failed to get template'' e)
             | Inr tmpl \<Rightarrow> notify_tokens p c ev tmpl tokens None }}}"

text \<open>\<open>json.Unmarshal\<close> into an \<open>Event\<close> takes any JSON object whose known keys have the right types.\<close>

definition decode_notification :: "task_payload \<Rightarrow> goerr + notif_event" where
  "decode_notification b =
     (let zero = \<lparr>neType = [], neUserID = 0, neData = [], nePriority = [], neScheduledAt = None, neIdempotencyKey = []\<rparr>
      in case b of TNotification ev \<Rightarrow> Inr ev
         | TEnvelope ty _ _ \<Rightarrow> Inr (zero\<lparr>neType := ty\<rparr>)
         | TEmail e \<Rightarrow> Inr (zero\<lparr>neType := emType e, nePriority := emPriority e, neScheduledAt := emScheduledAt e,
             neIdempotencyKey := emIdempotencyKey e\<rparr>)
         | _ \<Rightarrow> Inl (MsgE ''json: cannot unmarshal''))"

definition notif_ProcessTask :: "'r notif_processor \<Rightarrow> ctx \<Rightarrow> asynq_task \<Rightarrow> ('r, unit) call" where
  "notif_ProcessTask p c t = do {
     r \<leftarrow> (case decode_notification (tkBody t) of
             Inl e \<Rightarrow> fail (WrapE ''failed to unmarshal payload'' (SkipRetryE e))
           | Inr ev \<Rightarrow> processNotification p c ev);
     case r of Inl (PanicE m) \<Rightarrow> fail (MsgE (''notifications worker panic: '' @ m))
     | _ \<Rightarrow> ret r }"

end
