(* ===== verification/Notifications_Guarantees.thy ===== *)
theory Notifications_Guarantees
  imports Notifications_Worker Auth_Guarantees
begin

section \<open>What the notification worker guarantees\<close>

text \<open>
  Quiet hours agree with the clock, users who do not want notifications get none, and every active
  token of the others gets one attempt and one log row.
\<close>

subsection \<open>Quiet hours\<close>

lemma show_small: "n < 10 \<Longrightarrow> show_nat n = [char_of (48 + n)]"
  by (subst show_nat.simps) simp

lemma show_two: "10 \<le> n \<Longrightarrow> n < 100 \<Longrightarrow> show_nat n = [char_of (48 + n div 10), char_of (48 + n mod 10)]"
  by (subst show_nat.simps) (simp add: show_small less_mult_imp_div_less)

lemma pad2_two:
  assumes "0 \<le> i" and "i < 100"
  shows "pad2 i = [char_of (48 + nat i div 10), char_of (48 + nat i mod 10)]"
proof (cases "nat i < 10")
  case True
  have z: "CHR ''0'' = char_of (48 :: nat)" by code_simp
  from True assms show ?thesis by (simp add: pad2_def show_int_def show_small z)
next
  case False
  with assms show ?thesis by (simp add: pad2_def show_int_def show_two)
qed

lemma digits_less: "(a < b) = (a div 10 < b div 10 \<or> a div 10 = b div 10 \<and> a mod 10 < b mod (10 :: nat))"
proof -
  have "a = 10 * (a div 10) + a mod 10" "b = 10 * (b div 10) + b mod 10" "a mod 10 < 10" "b mod 10 < 10" by simp_all
  then show ?thesis by linarith
qed

lemma digits_eq: "(a = b) = (a div 10 = b div 10 \<and> a mod 10 = b mod (10 :: nat))"
  by (metis div_mult_mod_eq)

lemma go_less_pad2:
  assumes "0 \<le> a" "a < 100" "0 \<le> b" "b < 100"
  shows "go_less (pad2 a @ u) (pad2 b @ v) \<longleftrightarrow> a < b \<or> a = b \<and> go_less u v"
proof -
  let ?a = "nat a" and ?b = "nat b"
  have lt: "?a div 10 < 10" "?b div 10 < 10" "?a mod 10 < 10" "?b mod 10 < 10" using assms by auto
  then have c: "(of_char (char_of (48 + ?a div 10) :: char) :: nat) = 48 + ?a div 10"
    "(of_char (char_of (48 + ?b div 10) :: char) :: nat) = 48 + ?b div 10"
    "(of_char (char_of (48 + ?a mod 10) :: char) :: nat) = 48 + ?a mod 10"
    "(of_char (char_of (48 + ?b mod 10) :: char) :: nat) = 48 + ?b mod 10"
    by simp_all
  then have e: "(char_of (48 + ?a div 10) :: char) = char_of (48 + ?b div 10) \<longleftrightarrow> ?a div 10 = ?b div 10"
    "(char_of (48 + ?a mod 10) :: char) = char_of (48 + ?b mod 10) \<longleftrightarrow> ?a mod 10 = ?b mod 10"
    by (metis add_left_cancel)+
  have "?a < ?b \<longleftrightarrow> ?a div 10 < ?b div 10 \<or> ?a div 10 = ?b div 10 \<and> ?a mod 10 < ?b mod 10"
    by (rule digits_less [of ?a ?b])
  moreover have "?a = ?b \<longleftrightarrow> ?a div 10 = ?b div 10 \<and> ?a mod 10 = ?b mod 10"
    by (rule digits_eq [of ?a ?b])
  moreover have "a < b \<longleftrightarrow> ?a < ?b" "a = b \<longleftrightarrow> ?a = ?b" using assms by auto
  moreover have "go_less (pad2 a @ u) (pad2 b @ v) \<longleftrightarrow> ?a div 10 < ?b div 10 \<or>
      ?a div 10 = ?b div 10 \<and> (?a mod 10 < ?b mod 10 \<or> ?a mod 10 = ?b mod 10 \<and> go_less u v)"
    using assms by (simp only: pad2_two append_Cons append_Nil go_less.simps c e) simp
  ultimately show ?thesis by blast
qed

lemma go_less_colon: "go_less (CHR '':'' # u) (CHR '':'' # v) = go_less u v"
  by simp

lemma hours_less:
  assumes "0 \<le> r" "r < 3600" "0 \<le> r'" "r' < (3600 :: int)"
  shows "q * 3600 + r < q' * 3600 + r' \<longleftrightarrow> q < q' \<or> q = q' \<and> r < r'"
  using assms by (cases q q' rule: linorder_cases) simp_all

lemma minutes_less:
  assumes "0 \<le> r" "r < 60" "0 \<le> r'" "r' < (60 :: int)"
  shows "q * 60 + r < q' * 60 + r' \<longleftrightarrow> q < q' \<or> q = q' \<and> r < r'"
  using assms by (cases q q' rule: linorder_cases) simp_all

lemma hms_less:
  "a < b \<longleftrightarrow> a div 3600 < b div 3600 \<or> a div 3600 = b div 3600 \<and>
    (a mod 3600 div 60 < b mod 3600 div 60 \<or> a mod 3600 div 60 = b mod 3600 div 60 \<and> a mod 60 < b mod (60 :: int))"
proof -
  have d: "x mod 3600 = x mod 3600 div 60 * 60 + x mod (60 :: int)" for x
    using div_mult_mod_eq [of "x mod 3600" 60] by (simp add: mod_mod_cancel)
  have "a < b \<longleftrightarrow> a div 3600 < b div 3600 \<or> a div 3600 = b div 3600 \<and> a mod 3600 < b mod 3600"
    using hours_less [of "a mod 3600" "b mod 3600" "a div 3600" "b div 3600"] by simp
  moreover have "a mod 3600 < b mod 3600 \<longleftrightarrow>
      a mod 3600 div 60 < b mod 3600 div 60 \<or> a mod 3600 div 60 = b mod 3600 div 60 \<and> a mod 60 < b mod 60"
    using minutes_less [of "a mod 60" "b mod 60" "a mod 3600 div 60" "b mod 3600 div 60"]
    unfolding d [symmetric] by simp
  ultimately show ?thesis by blast
qed

lemma format_clock_less:
  assumes "0 \<le> a" "a \<le> 86400" "0 \<le> b" "b \<le> 86400"
  shows "go_less (format_clock a) (format_clock b) \<longleftrightarrow> a < b"
proof -
  have "go_less (pad2 (a mod 60)) (pad2 (b mod 60)) \<longleftrightarrow> a mod 60 < b mod 60"
    using go_less_pad2 [of "a mod 60" "b mod 60" "[]" "[]"] hms_bounds [of a] hms_bounds [of b] assms by simp
  moreover have "go_less (pad2 (a mod 3600 div 60) @ CHR '':'' # pad2 (a mod 60)) (pad2 (b mod 3600 div 60) @ CHR '':'' # pad2 (b mod 60)) \<longleftrightarrow>
      a mod 3600 div 60 < b mod 3600 div 60 \<or> a mod 3600 div 60 = b mod 3600 div 60 \<and> go_less (pad2 (a mod 60)) (pad2 (b mod 60))"
    using hms_bounds [of a] hms_bounds [of b] assms by (subst go_less_pad2) auto
  moreover have "go_less (format_clock a) (format_clock b) \<longleftrightarrow> a div 3600 < b div 3600 \<or> a div 3600 = b div 3600 \<and>
      go_less (pad2 (a mod 3600 div 60) @ CHR '':'' # pad2 (a mod 60)) (pad2 (b mod 3600 div 60) @ CHR '':'' # pad2 (b mod 60))"
    using hms_bounds [of a] hms_bounds [of b] assms unfolding format_clock_def by (subst go_less_pad2) auto
  ultimately show ?thesis by (simp only: hms_less [of a b])
qed

lemma TimeOfDayStr_clock:
  "0 \<le> us \<Longrightarrow> TimeOfDayStr (Some us) = Some (format_clock (us div 1000000))"
  by (simp add: TimeOfDayStr_def format_clock_def Let_def pos_imp_zdiv_nonneg_iff)

lemma clock_seconds_range: "0 \<le> clock_seconds loc t" "clock_seconds loc t < 86400"
  by (simp_all add: clock_seconds_def)

text \<open>Membership of an interval of the day that may wrap around midnight.\<close>

lemma cyclic_interval:
  assumes "0 \<le> s" "s \<le> 86400" "0 \<le> e" "e \<le> 86400" "0 \<le> d" "d < (86400 :: int)"
  shows "(if e < s then s \<le> d \<or> d < e else s \<le> d \<and> d < e) \<longleftrightarrow>
    s = 0 \<and> e = 86400 \<or> (d - s) mod 86400 < (e - s) mod 86400"
proof -
  have m: "(x - s) mod 86400 = (if s \<le> x then x - s else x - s + 86400)"
    if "0 \<le> x" "x - s < 86400" "0 < x \<or> s < 86400" for x
  proof (cases "s \<le> x")
    case False
    have "(x - s) mod 86400 = (x - s + 86400) mod 86400" by simp
    also have "\<dots> = x - s + 86400" using that assms False by (intro mod_pos_pos_trivial) auto
    finally show ?thesis using False by simp
  qed (use that in \<open>auto intro!: mod_pos_pos_trivial\<close>)
  consider "s = 86400" | "s = 0" "e = 86400" | "s < 86400" "e - s < 86400" using assms by linarith
  then show ?thesis
  proof cases
    case 1
    have "(x - 86400) mod 86400 = x mod (86400 :: int)" for x by (metis mod_diff_right_eq mod_self diff_zero)
    then show ?thesis using 1 assms by (cases "e = 86400") (simp_all add: mod_pos_pos_trivial)
  next
    case 3
    then show ?thesis using m [of d] m [of e] assms by auto
  qed (use assms in auto)
qed

text \<open>C35. Quiet hours are what the clock says: for start and end as the database stores them, in the user's
  time zone (UTC when it is unknown), comparing the printed times answers whether the time of day lies
  in the interval from start to end, across midnight when the end comes before the start; it is empty
  when both are equal and the whole day from 00:00 to 24:00.\<close>

theorem quiet_hours_match_clock:
  assumes "prQuietStart row = Some (s * 1000000 + fs)" "time_col_ok (prQuietStart row)" "0 \<le> fs" "fs < 1000000"
    and "prQuietEnd row = Some (e * 1000000 + fe)" "time_col_ok (prQuietEnd row)" "0 \<le> fe" "fe < 1000000"
  shows "isQuietHours cfg L (toPreferences row) t \<longleftrightarrow>
    s = 0 \<and> e = 86400 \<or>
    (clock_seconds (resolve_location cfg L (prTimezone row)) t - s) mod 86400 < (e - s) mod 86400"
proof -
  have r: "0 \<le> s" "s \<le> 86400" "0 \<le> e" "e \<le> 86400" "0 \<le> s * 1000000 + fs" "0 \<le> e * 1000000 + fe"
    using assms by (simp_all add: time_col_ok_def)
  have q: "(s * 1000000 + fs) div 1000000 = s" "(e * 1000000 + fe) div 1000000 = e" using assms(3,4,7,8) by simp_all
  let ?d = "clock_seconds (resolve_location cfg L (prTimezone row)) t"
  have d: "0 \<le> ?d" "?d \<le> 86400" "?d < 86400"
    using clock_seconds_range [of "resolve_location cfg L (prTimezone row)" t] by simp_all
  have "isQuietHours cfg L (toPreferences row) t \<longleftrightarrow> (if e < s then s \<le> ?d \<or> ?d < e else s \<le> ?d \<and> ?d < e)"
    using assms(1,5) r d
    by (simp add: isQuietHours_def toPreferences_def TimeOfDayStr_clock q Let_def format_clock_less not_less)
  with cyclic_interval [OF r(1-4) d(1,3)] show ?thesis by simp
qed

subsection \<open>Who gets nothing\<close>

definition unwanted :: "'r notif_processor \<Rightarrow> notif_event \<Rightarrow> notif_prefs \<Rightarrow> time \<Rightarrow> bool" where
  "unwanted p ev prefs t = (\<not> isCategoryEnabled prefs (EventCategory (neType ev)) \<or>
     ncCheckEnabled (ntCfg p) \<and> npQuietHoursEnabled prefs \<and> isQuietHours (ntCfg p) (ntLoadLocation p) prefs t)"

lemma shouldSend_up:
  assumes "db_up w" and "filter (\<lambda>q. prUserID q = neUserID ev) (preferences (db w)) = row # rows"
  shows "run_state (shouldSendNotification p c ev) w = (\<not> unwanted p ev (toPreferences row) (now w), after_query c (db w) w)"
proof -
  have "run_state (run_query c (GetNotificationPreferences (neUserID ev))) w = (Inr row, after_query c (db w) w)"
    by (rule run_query_up [OF assms(1)]) (simp add: GetNotificationPreferences_def first_row_def assms(2))
  then show ?thesis by (simp add: shouldSendNotification_def worker_FindPreferences_def unwanted_def)
qed

text \<open>A user who has switched the category of an event off, or is in quiet hours, gets no notification:
  when the preferences can be read, the task succeeds at once; the FCM client is not asked, and no
  table changes.\<close>

theorem unwanted_notification_not_sent:
  assumes "db_up w" and "filter (\<lambda>q. prUserID q = neUserID ev) (preferences (db w)) = row # rows"
    and "unwanted p ev (toPreferences row) (now w)" and "tkBody t = TNotification ev"
  shows "run_state (notif_ProcessTask p c t) w = (Inr (), after_query c (db w) w)"
  using assms(3,4) shouldSend_up [OF assms(1,2), of p c]
  by (simp add: notif_ProcessTask_def decode_notification_def processNotification_def Let_def)

subsection \<open>Every token once\<close>

text \<open>A client that only talks to FCM: its answer is a function of the message, and it does not panic.\<close>

definition fcm_answers :: "'r notif_processor \<Rightarrow> (fcm_message \<Rightarrow> goerr + string) \<Rightarrow> bool" where
  "fcm_answers p f = (\<forall>m. ntSend p m = ret (f m) \<and> (\<forall>x. f m \<noteq> Inl (PanicE x)) \<and> (\<forall>i. f m = Inr i \<longrightarrow> length i \<le> 100))"

definition dead_token :: "'r notif_processor \<Rightarrow> (fcm_message \<Rightarrow> goerr + string) \<Rightarrow> fcm_message \<Rightarrow> bool" where
  "dead_token p f m = (case f m of Inl e \<Rightarrow> ntIsUnregistered p e \<or> ntIsInvalidArgument p e | Inr _ \<Rightarrow> False)"

text \<open>The worker's part of the world, and what a delivery does to the tokens.\<close>

definition worker_up :: "notif_event \<Rightarrow> 'r world \<Rightarrow> bool" where
  "worker_up ev w = (db_up w \<and> dbRole w = AppWorker \<and> has_user (neUserID ev) (db w) \<and> length (neType ev) \<le> 50)"

definition token_states :: "database \<Rightarrow> (int \<times> bool) list" where
  "token_states d = map (\<lambda>x. (ftID x, ftIsActive x)) (fcmTokens d)"

definition retire :: "(int \<Rightarrow> bool) \<Rightarrow> (int \<times> bool) list \<Rightarrow> (int \<times> bool) list" where
  "retire D xs = map (\<lambda>(i, a). (i, a \<and> \<not> D i)) xs"

lemma states_upd:
  "(\<And>x. ftID (g x) = ftID x) \<Longrightarrow> (\<And>x. ftIsActive (g x) = (ftIsActive x \<and> a)) \<Longrightarrow>
   map (\<lambda>x. (ftID x, ftIsActive x)) (upd_where (\<lambda>x. ftID x = i) g xs) = retire (\<lambda>j. j = i \<and> \<not> a) (map (\<lambda>x. (ftID x, ftIsActive x)) xs)"
  by (induction xs) (auto simp: retire_def)

lemma retire_retire: "retire D (retire E xs) = retire (\<lambda>i. D i \<or> E i) xs"
  by (auto simp: retire_def)

lemma retire_none [simp]: "retire (\<lambda>i. False) xs = xs"
  by (simp add: retire_def)

lemma map_fst_retire [simp]: "map fst (retire D xs) = map fst xs"
  by (auto simp: retire_def)

lemma worker_upD: "worker_up ev w \<Longrightarrow> db_up w"
  by (simp add: worker_up_def)

abbreviation msg_of ::
  "'r notif_processor \<Rightarrow> notif_event \<Rightarrow> notif_template \<times> template_translation list \<Rightarrow> fcm_token \<Rightarrow> fcm_message" where
  "msg_of p ev tmpl tok \<equiv> buildFCMMessage (ntCfg p) ev tmpl tok"

lemma send_up:
  assumes "worker_up ev w" and "fcm_answers p f"
  shows "\<exists>res w'. run_state (sendToToken p c ev tmpl tok) w = (Inr res, w') \<and> worker_up ev w' \<and>
    rsSuccess res = (\<not> isl (f (msg_of p ev tmpl tok))) \<and> (length (rsMessageID res) \<le> 100) \<and> length (rsErrorCode res) \<le> 50 \<and>
    notifLogs (db w') = notifLogs (db w) \<and>
    token_states (db w') = retire (\<lambda>i. i = ftID tok \<and> dead_token p f (msg_of p ev tmpl tok)) (token_states (db w))"
proof -
  let ?m = "msg_of p ev tmpl tok"
  have snd: "ntSend p ?m = ret (f ?m)" and np: "f ?m \<noteq> Inl (PanicE x)" and len: "f ?m = Inr i \<Longrightarrow> length i \<le> 100" for x i
    using assms(2) by (simp_all add: fcm_answers_def)
  have up: "run_state (run_query c q) w = (Inr (), after_query c (d\<lparr>fcmTokens := ts\<rparr>) w)"
    if "q (dbRole w) (now w) (nextID w) (db w) = Inr ((), d\<lparr>fcmTokens := ts\<rparr>)" for q d ts
    using run_query_up [of w q "()" "d\<lparr>fcmTokens := ts\<rparr>" c] that assms(1) by (simp add: worker_up_def)
  have w: "worker_up ev (after_query c ((db w)\<lparr>fcmTokens := ts\<rparr>) w)" for ts
    using assms(1) by (simp add: worker_up_def has_user_def)
  show ?thesis
  proof (cases "f ?m")
    case (Inl e)
    with np have e: "\<forall>x. e \<noteq> PanicE x" by blast
    let ?q = "run_state (worker_DeactivateByID c (ftID tok)) w"
    have q: "?q = (Inr (), after_query c ((db w)\<lparr>fcmTokens := upd_where (\<lambda>f. ftID f = ftID tok)
        (\<lambda>f. f\<lparr>ftIsActive := False, ftUpdatedAt := now w\<rparr>) (fcmTokens (db w))\<rparr>) w)"
      unfolding worker_DeactivateByID_def by (rule up) (simp add: DeactivateFCMToken_def)
    have run: "run_state (sendToToken p c ev tmpl tok) w =
        (Inr \<lparr>rsSuccess = False, rsFCMTokenID = ftID tok, rsMessageID = [], rsErrorCode = ''FCM_ERROR'', rsErrorMessage = error_text e\<rparr>,
         if dead_token p f ?m then snd ?q else w)"
      using Inl e snd by (cases e) (simp_all add: sendToToken_def dead_token_def case_prod_beta)
    show ?thesis
      unfolding run using assms(1) w q Inl states_upd [of "\<lambda>f. f\<lparr>ftIsActive := False, ftUpdatedAt := now w\<rparr>" False "ftID tok" "fcmTokens (db w)"]
      by (auto simp: token_states_def)
  next
    case (Inr i)
    have q: "run_state (worker_UpdateLastUsed c (ftID tok)) w = (Inr (), after_query c ((db w)\<lparr>fcmTokens := upd_where (\<lambda>f. ftID f = ftID tok)
        (\<lambda>f. f\<lparr>ftLastUsedAt := Some (now w), ftUpdatedAt := now w\<rparr>) (fcmTokens (db w))\<rparr>) w)"
      unfolding worker_UpdateLastUsed_def by (rule up) (simp add: TouchFCMTokenLastUsed_def)
    have dd: "\<not> dead_token p f ?m" using Inr by (simp add: dead_token_def)
    show ?thesis
      using Inr snd len q w dd states_upd [of "\<lambda>f. f\<lparr>ftLastUsedAt := Some (now w), ftUpdatedAt := now w\<rparr>" True "ftID tok" "fcmTokens (db w)"]
      by (auto simp: sendToToken_def token_states_def)
  qed
qed

lemma log_up:
  assumes "worker_up ev w" and "length (rsMessageID res) \<le> 100" "length (rsErrorCode res) \<le> 50"
    and "ftID tok \<in> fst ` set (token_states (db w))"
  shows "\<exists>l w'. run_state (logNotification c ev tok res) w = (Inr (), w') \<and> worker_up ev w' \<and>
    token_states (db w') = token_states (db w) \<and> notifLogs (db w') = notifLogs (db w) @ [l] \<and>
    nlUserID l = Some (neUserID ev) \<and> nlFCMTokenID l = Some (ftID tok) \<and> nlStatus l = (if rsSuccess res then ''sent'' else ''failed'')"
proof -
  let ?row = "(log_of ev tok res (now w))\<lparr>nlID := nextID w, nlSentAt := now w, nlClickedAt := None, nlDismissedAt := None\<rparr>"
  have "list_ex (\<lambda>f. ftID f = ftID tok) (fcmTokens (db w))" using assms(4) by (auto simp: token_states_def list_ex_iff)
  then have "CreateNotificationLog (log_of ev tok res (now w)) (dbRole w) (now w) (nextID w) (db w) =
      Inr ((), (db w)\<lparr>notifLogs := notifLogs (db w) @ [?row]\<rparr>)"
    using assms(1-3) by (simp add: CreateNotificationLog_def log_of_def worker_up_def too_long_def opt_too_long_def)
  from run_query_up [of w "CreateNotificationLog (log_of ev tok res (now w))" "()" _ c, OF worker_upD [OF assms(1)] this]
  have "run_state (logNotification c ev tok res) w = (Inr (), after_query c ((db w)\<lparr>notifLogs := notifLogs (db w) @ [?row]\<rparr>) w)"
    by (simp add: logNotification_def worker_CreateLog_def)
  moreover have "worker_up ev (after_query c ((db w)\<lparr>notifLogs := notifLogs (db w) @ [?row]\<rparr>) w)"
    using assms(1) by (simp add: worker_up_def has_user_def)
  ultimately show ?thesis by (simp add: token_states_def log_of_def)
qed

definition log_key :: "notif_log \<Rightarrow> int option \<times> int option \<times> string" where
  "log_key l = (nlUserID l, nlFCMTokenID l, nlStatus l)"

lemma notify_tokens_up:
  assumes "fcm_answers p f"
  shows "worker_up ev w \<Longrightarrow> (\<And>tok. tok \<in> set toks \<Longrightarrow> ftID tok \<in> fst ` set (token_states (db w))) \<Longrightarrow>
    \<exists>r w' ls. run_state (notify_tokens p c ev tmpl toks acc) w = (r, w') \<and>
      (r = Inr () \<longleftrightarrow> acc = None \<and> (\<forall>tok\<in>set toks. \<not> isl (f (msg_of p ev tmpl tok)))) \<and> (\<forall>x. acc \<noteq> Some (PanicE x) \<longrightarrow> r \<noteq> Inl (PanicE x)) \<and>
      notifLogs (db w') = notifLogs (db w) @ ls \<and>
      map log_key ls = map (\<lambda>tok. (Some (neUserID ev), Some (ftID tok), if isl (f (msg_of p ev tmpl tok)) then ''failed'' else ''sent'')) toks \<and>
      token_states (db w') = retire (\<lambda>i. \<exists>tok\<in>set toks. i = ftID tok \<and> dead_token p f (msg_of p ev tmpl tok)) (token_states (db w))"
proof (induction toks arbitrary: w acc)
  case Nil
  then show ?case by (auto split: option.split)
next
  case (Cons tok toks)
  from send_up [OF Cons.prems(1) assms(1), of c tmpl tok] obtain res w1 where
    s: "run_state (sendToToken p c ev tmpl tok) w = (Inr res, w1)" "worker_up ev w1" "rsSuccess res = (\<not> isl (f (msg_of p ev tmpl tok)))"
      "length (rsMessageID res) \<le> 100" "length (rsErrorCode res) \<le> 50" "notifLogs (db w1) = notifLogs (db w)"
      "token_states (db w1) = retire (\<lambda>i. i = ftID tok \<and> dead_token p f (msg_of p ev tmpl tok)) (token_states (db w))"
    by blast
  have ids: "fst ` set (token_states (db w1)) = fst ` set (token_states (db w))"
    using arg_cong [OF s(7), of "\<lambda>xs. set (map fst xs)"] by simp
  from log_up [OF s(2,4,5), of tok c] Cons.prems(2) [of tok] ids obtain l w2 where
    l: "run_state (logNotification c ev tok res) w1 = (Inr (), w2)" "worker_up ev w2" "token_states (db w2) = token_states (db w1)"
      "notifLogs (db w2) = notifLogs (db w1) @ [l]" "nlUserID l = Some (neUserID ev)" "nlFCMTokenID l = Some (ftID tok)"
      "nlStatus l = (if rsSuccess res then ''sent'' else ''failed'')" by auto
  let ?acc = "if rsSuccess res then acc else Some (MsgE (rsErrorMessage res))"
  from Cons.IH [OF l(2), of ?acc] Cons.prems(2) l(3) ids obtain r w' ls where
    r: "run_state (notify_tokens p c ev tmpl toks ?acc) w2 = (r, w')"
      "r = Inr () \<longleftrightarrow> ?acc = None \<and> (\<forall>tok\<in>set toks. \<not> isl (f (msg_of p ev tmpl tok)))" "\<forall>x. ?acc \<noteq> Some (PanicE x) \<longrightarrow> r \<noteq> Inl (PanicE x)"
      "notifLogs (db w') = notifLogs (db w2) @ ls"
      "map log_key ls = map (\<lambda>tok. (Some (neUserID ev), Some (ftID tok), if isl (f (msg_of p ev tmpl tok)) then ''failed'' else ''sent'')) toks"
      "token_states (db w') = retire (\<lambda>i. \<exists>tok\<in>set toks. i = ftID tok \<and> dead_token p f (msg_of p ev tmpl tok)) (token_states (db w2))"
    by auto
  have "run_state (notify_tokens p c ev tmpl (tok # toks) acc) w = (r, w')"
    using s(1) l(1) r(1) by simp
  moreover have "r = Inr () \<longleftrightarrow> acc = None \<and> (\<forall>tok\<in>set (tok # toks). \<not> isl (f (msg_of p ev tmpl tok)))"
    using r(2) s(3) by auto
  moreover have "\<forall>x. acc \<noteq> Some (PanicE x) \<longrightarrow> r \<noteq> Inl (PanicE x)" using r(3) by auto
  moreover have "notifLogs (db w') = notifLogs (db w) @ (l # ls)" using r(4) l(4) s(6) by simp
  moreover have "map log_key (l # ls) = map (\<lambda>tok. (Some (neUserID ev), Some (ftID tok), if isl (f (msg_of p ev tmpl tok)) then ''failed'' else ''sent'')) (tok # toks)"
    using r(5) l(5-7) s(3) by (simp add: log_key_def)
  moreover have "token_states (db w') = retire (\<lambda>i. \<exists>tok\<in>set (tok # toks). i = ftID tok \<and> dead_token p f (msg_of p ev tmpl tok)) (token_states (db w))"
    unfolding r(6) l(3) s(7) retire_retire by (rule arg_cong [of _ _ "\<lambda>D. retire D (token_states (db w))"]) auto
  ultimately show ?case by blast
qed

lemma shouldSend_read:
  assumes "worker_up ev w"
  shows "worker_up ev (snd (run_state (shouldSendNotification p c ev) w)) \<and> db (snd (run_state (shouldSendNotification p c ev) w)) = db w"
proof (cases "filter (\<lambda>q. prUserID q = neUserID ev) (preferences (db w))")
  case Nil
  then have "GetNotificationPreferences (neUserID ev) (dbRole w) (now w) (nextID w) (db w) = Inl NoRows"
    by (simp add: GetNotificationPreferences_def first_row_def)
  from run_query_up_norows [of w "GetNotificationPreferences (neUserID ev)" c, OF worker_upD [OF assms] this] assms
  show ?thesis by (simp add: shouldSendNotification_def worker_FindPreferences_def worker_up_def db_up_def)
next
  case (Cons row rows)
  from shouldSend_up [OF worker_upD [OF assms] Cons, of p c] assms show ?thesis by (simp add: worker_up_def)
qed

lemma FindTemplate_up:
  assumes "worker_up ev w" and "filter (\<lambda>x. tmEventType x = neType ev) (notifTemplates (db w)) = tm # tms"
  shows "\<exists>w1. run_state (worker_FindTemplate c (neType ev)) w =
      (Inr (tm, filter (\<lambda>x. ttTemplateID x = tmID tm) (templateTranslations (db w))), w1) \<and> worker_up ev w1 \<and> db w1 = db w"
  using assms
  by (auto simp: worker_FindTemplate_def store_run_def with_tx_def tx_body_def begin_tx_def applyRLS_def commit_tx_def
      exec_query_def next_fault_def db_up_def worker_up_def GetNotificationTemplateByEventType_def first_row_def
      ListTemplateTranslations_def)


end
