(* ===== verification/Handler_Guarantees.thy ===== *)
theory Handler_Guarantees
  imports Grpc_Handlers Auth_Guarantees "HOL-Library.Multiset"
begin

section \<open>What the handlers guarantee\<close>

text \<open>
  Properties of single handlers of \<open>internal/grpcsvc\<close>: the pages of the user list, the avatar
  stream, the suspension of a user and the notification preferences.
\<close>

subsection \<open>The pages of the user list\<close>

text \<open>Whatever a request asks for, the page and its size are such that the offset fits 32 bits.\<close>

lemma pageParams_bounds:
  assumes "pageParams p = (page, siz)"
  shows "1 \<le> page" "page \<le> maxPage" "1 \<le> siz" "siz \<le> 100"
    "0 \<le> (page - 1) * siz" "(page - 1) * siz < 2 ^ 31"
proof -
  show b: "1 \<le> page" "page \<le> maxPage" "1 \<le> siz" "siz \<le> 100"
    using assms by (auto simp: pageParams_def maxPage_def split: option.splits if_splits)
  show "0 \<le> (page - 1) * siz" using b by simp
  have "(page - 1) * siz \<le> (maxPage - 1) * 100" by (rule mult_mono) (use b in \<open>simp_all add: maxPage_def\<close>)
  then show "(page - 1) * siz < 2 ^ 31" by (simp add: maxPage_def)
qed

lemma sint_word32: "0 \<le> k \<Longrightarrow> k < 2 ^ 31 \<Longrightarrow> sint (word_of_int k :: 32 word) = k"
  by (simp add: signed_of_int signed_take_bit_int_eq_self)

lemma list_users_query_in_range:
  assumes "pageParams p = (page, siz)"
  shows "list_users_query ((page - 1) * siz) siz rl t n d = ListUsers (nat siz) (nat ((page - 1) * siz)) rl t n d"
proof -
  from pageParams_bounds [OF assms] have "sint (word_of_int siz :: 32 word) = siz"
    "sint (word_of_int ((page - 1) * siz) :: 32 word) = (page - 1) * siz"
    by (auto simp del: of_int_mult of_int_diff intro!: sint_word32)
  moreover have "\<not> siz < 0" "\<not> (page - 1) * siz < 0" using pageParams_bounds [OF assms] by linarith+
  ultimately show ?thesis by (simp only: list_users_query_def Let_def) simp
qed

definition newest_users :: "database \<Rightarrow> user list" where
  "newest_users d = order_desc uCreatedAt (filter live_user (users d))"

lemma h_ListUsers_up:
  assumes "db_up w" and "\<not> cxInTx c" and p: "pageParams p = (page, siz)"
  shows "fst (run_state (h_ListUsers enc c p) w) =
    Inr (map (toProtoUser enc) (take (nat siz) (drop (nat ((page - 1) * siz)) (newest_users (db w)))),
      length (newest_users (db w)))"
  using assms(1,2)
  by (simp add: h_ListUsers_def p users_List_def store_run_def with_tx_def tx_body_def begin_tx_def applyRLS_def commit_tx_def
      exec_query_def next_fault_def db_up_def list_users_query_in_range [OF p] CountUsers_def ListUsers_def newest_users_def)

lemma pageParams_ok:
  "1 \<le> k \<Longrightarrow> k \<le> maxPage \<Longrightarrow> 1 \<le> s \<Longrightarrow> s \<le> 100 \<Longrightarrow> pageParams (Some \<lparr>pgPage = k, pgPageSize = s\<rparr>) = (k, s)"
  by (simp add: pageParams_def)

lemma pages_append: "concat (map (\<lambda>k. take s (drop (k * s) xs)) [0..<n]) = take (n * s) xs"
  by (induction n) (simp_all add: take_add [symmetric] add.commute)


subsection \<open>The avatar stream\<close>

text \<open>The reference: the messages before the first error, their bytes and their last content type.\<close>

definition good_msgs :: "avatar_msg stream \<Rightarrow> avatar_msg list" where
  "good_msgs ss = map projr (takeWhile (\<lambda>x. \<not> isl x) ss)"

fun bytes_of :: "avatar_msg \<Rightarrow> string" where
  "bytes_of (Chunk d) = d"
| "bytes_of _ = []"

fun type_of_msg :: "avatar_msg \<Rightarrow> string list" where
  "type_of_msg (ContentType ct) = [ct]"
| "type_of_msg _ = []"

definition all_bytes :: "avatar_msg stream \<Rightarrow> string" where
  "all_bytes ss = concat (map bytes_of (good_msgs ss))"

definition all_types :: "avatar_msg stream \<Rightarrow> string list" where
  "all_types ss = concat (map type_of_msg (good_msgs ss))"

definition first_error :: "avatar_msg stream \<Rightarrow> goerr option" where
  "first_error ss = (case dropWhile (\<lambda>x. \<not> isl x) ss of [] \<Rightarrow> None | x # _ \<Rightarrow> Some (projl x))"

definition collect_avatar :: "avatar_msg stream \<Rightarrow> string \<Rightarrow> bool \<Rightarrow> string \<Rightarrow> goerr + (string \<times> bool \<times> string)" where
  "collect_avatar ss ct meta buf =
     (if length buf + length (all_bytes ss) > MaxAvatarBytes then Inl (AppE ErrAvatarTooLarge)
      else case first_error ss of Some e \<Rightarrow> Inl e
      | None \<Rightarrow> Inr (last (ct # all_types ss), meta \<or> all_types ss \<noteq> [], buf @ all_bytes ss))"

lemma avatar_parts [simp]:
  "all_bytes [] = []" "all_types [] = []" "first_error [] = None"
  "all_bytes (Inl e # ss) = []" "all_types (Inl e # ss) = []" "first_error (Inl e # ss) = Some e"
  "all_bytes (Inr m # ss) = bytes_of m @ all_bytes ss" "all_types (Inr m # ss) = type_of_msg m @ all_types ss"
  "first_error (Inr m # ss) = first_error ss"
  by (simp_all add: all_bytes_def all_types_def first_error_def good_msgs_def)

lemma recv_avatar_collects:
  "length buf \<le> MaxAvatarBytes \<Longrightarrow> recv_avatar ss ct meta buf = collect_avatar ss ct meta buf"
  by (induction ss ct meta buf rule: recv_avatar.induct) (auto simp: collect_avatar_def split: option.split)

text \<open>C33. The avatar stream: however the bytes are cut into chunks and wherever the content type stands, the
  upload receives the concatenation of the chunks with the last content type; more than 5 MiB in
  total is refused, before any later error of the stream is seen, and otherwise the first error of the
  stream is the answer and nothing is stored.\<close>

theorem avatar_chunks_reassembled:
  "h_UploadAvatar E st c ss =
    (if length (all_bytes ss) > MaxAvatarBytes then fail (AppE ErrAvatarTooLarge)
     else case first_error ss of Some e \<Rightarrow> fail e
     | None \<Rightarrow> if all_types ss = [] then fail (AppE ErrAvatarMissingContentType)
         else users_UploadAvatar E st c (sbUserID (cxSubject c)) (last (all_types ss)) (all_bytes ss))"
  by (simp add: h_UploadAvatar_def recv_avatar_collects collect_avatar_def Let_def split: option.split)

subsection \<open>Suspension by the API\<close>

lemma CreateSuspension_api:
  "dbRole w = AppApi \<Longrightarrow> \<exists>e. fst (run_state (run_query c (CreateSuspension i reason details until perm)) w) = Inl e"
proof (cases "run_state (run_query c (CreateSuspension i reason details until perm)) w")
  case (Pair r w')
  assume "dbRole w = AppApi"
  with run_query_Inr [of c "CreateSuspension i reason details until perm" w _ w'] Pair show ?thesis
    by (cases r) (auto simp: CreateSuspension_def)
qed

lemma failed_query_db:
  assumes "\<not> cxInTx c" and "fst (run_state (run_query c q) w) = Inl e"
  shows "db (snd (run_state (run_query c q) w)) = db w"
  using with_tx_atomic [OF assms(1), of "\<lambda>_. exec_query q" w e] assms
  by (metis prod.collapse run_query_def store_run_def)

text \<open>An administrator cannot suspend anybody through the API: as the database role of the server, the
  suspension row is refused by row-level security, so the call fails whatever it asks, and neither a
  suspension, nor the status of the user, nor an audit event is written.\<close>

theorem api_cannot_suspend:
  assumes "dbRole w = AppApi" and "\<not> cxInTx c"
  shows "\<exists>e. fst (run_state (h_SuspendUser b enc c req) w) = Inl e \<and>
    db (snd (run_state (h_SuspendUser b enc c req) w)) = db w"
proof -
  let ?q = "\<lambda>uid until. CreateSuspension uid (pbsReason req) (NullStr (pbsDetails req)) until (pbsPermanent req)"
  have "\<exists>e. fst (run_state (suspension_Create c uid (pbsReason req) (pbsDetails req) until (pbsPermanent req)) w) = Inl e \<and>
      db (snd (run_state (suspension_Create c uid (pbsReason req) (pbsDetails req) until (pbsPermanent req)) w)) = db w" for uid until
  proof -
    from CreateSuspension_api [OF assms(1), of c uid] obtain e where
      "fst (run_state (run_query c (?q uid until)) w) = Inl e" by metis
    with failed_query_db [OF assms(2) this] run_mapped_run [of c "WrapE ''create suspension''" "?q uid until" w]
    show ?thesis unfolding suspension_Create_def
      by (cases "fst (run_state (run_mapped c (WrapE ''create suspension'') (?q uid until)) w)") auto
  qed
  note sus = this
  show ?thesis
  proof (cases "enDecode enc (pbsId req)")
    case None
    then show ?thesis by (simp add: h_SuspendUser_def)
  next
    case (Some uid)
    let ?until = "if \<not> pbsPermanent req then Some (now w + pbsDays req * (24 * hour)) else None"
    obtain e where e: "fst (run_state (suspension_Create c uid (pbsReason req) (pbsDetails req) ?until (pbsPermanent req)) w) = Inl e"
      "db (snd (run_state (suspension_Create c uid (pbsReason req) (pbsDetails req) ?until (pbsPermanent req)) w)) = db w"
      using sus by blast
    with Some show ?thesis
      by (auto simp: h_SuspendUser_def Suspend_def Let_def case_prod_beta)
  qed
qed

end
