(* ===== verification/Maintenance_Sweeper.thy ===== *)
theory Maintenance_Sweeper
  imports Notifications_Guarantees Handler_Guarantees
begin

section \<open>The maintenance sweeper\<close>

text \<open>
  Models \<open>internal/maintenance/sweeper.go\<close> and its configuration: the three deletions of a sweep, each in
  its own transaction, and the loop over the ticks of the clock. A failed deletion is logged and
  dropped.
\<close>

record maintenance_config =
  mcInterval :: duration
  mcRefreshTokens :: duration
  mcProcessedOutbox :: duration
  mcLoginAttempts :: duration

definition maintenance_applyDefaults :: "maintenance_config \<Rightarrow> maintenance_config" where
  "maintenance_applyDefaults c =
     (let c = (if mcInterval c = 0 then c\<lparr>mcInterval := hour\<rparr> else c);
          c = (if mcRefreshTokens c = 0 then c\<lparr>mcRefreshTokens := 30 * 24 * hour\<rparr> else c);
          c = (if mcProcessedOutbox c = 0 then c\<lparr>mcProcessedOutbox := 7 * 24 * hour\<rparr> else c);
          c = (if mcLoginAttempts c = 0 then c\<lparr>mcLoginAttempts := 90 * 24 * hour\<rparr> else c)
      in c)"

definition sweeper_run :: "ctx \<Rightarrow> nat query \<Rightarrow> ('r, unit) proc" where
  "sweeper_run c del = do { r \<leftarrow> run_query c del; ret () }"

definition sweep :: "maintenance_config \<Rightarrow> ctx \<Rightarrow> ('r, unit) proc" where
  "sweep cfg c = do {
     t \<leftarrow> getw now;
     sweeper_run c (DeleteStaleRefreshTokens (t - mcRefreshTokens cfg));
     sweeper_run c (DeleteProcessedOutboxBefore (t - mcProcessedOutbox cfg));
     sweeper_run c (DeleteLoginAttemptsBefore (t - mcLoginAttempts cfg)) }"

text \<open>The loop of \<open>Run\<close> over the instants of the ticks it receives before its context ends; a ticker
  wants a positive interval.\<close>

definition sweeper_Run :: "maintenance_config \<Rightarrow> ctx \<Rightarrow> time list \<Rightarrow> ('r, unit) call" where
  "sweeper_Run cfg c ticks = do {
     sweep cfg c;
     if mcInterval cfg \<le> 0 then fail (PanicE ''non-positive interval for NewTicker'')
     else do {
       for_each (\<lambda>t. do { modw (\<lambda>w. w\<lparr>now := t\<rparr>); sweep cfg c }) ticks;
       returnE () }}"

subsection \<open>What a sweep deletes\<close>

lemma run_query_db:
  assumes "\<not> cxInTx c"
  shows "db (snd (run_state (run_query c q) w)) = db w \<or>
    (\<exists>x. q (dbRole w) (now w) (nextID w) (db w) = Inr (x, db (snd (run_state (run_query c q) w))))"
proof (cases "run_state (run_query c q) w")
  case (Pair r w')
  then show ?thesis
  proof (cases r)
    case (Inl e)
    with failed_query_db [OF assms, of q w e] Pair show ?thesis by simp
  next
    case (Inr x)
    with run_query_Inr [of c q w x w'] Pair show ?thesis by auto
  qed
qed

interpretation clock: tx_view "\<lambda>_. ()" "\<lambda>w. (now w, dbRole w)"
  by unfold_locales simp_all

lemma run_query_now [simp]: "now (snd (run_state (run_query c q) w)) = now w"
  using clock.query_view [of q c] by (auto simp: frames_def)

definition swept_tokens :: "maintenance_config \<Rightarrow> time \<Rightarrow> refresh_row list \<Rightarrow> refresh_row list" where
  "swept_tokens cfg t ts = filter (\<lambda>r. \<not> stale_token (t - mcRefreshTokens cfg) r) ts"

definition swept_outbox :: "maintenance_config \<Rightarrow> time \<Rightarrow> outbox_row list \<Rightarrow> outbox_row list" where
  "swept_outbox cfg t rs = filter (\<lambda>r. case obProcessedAt r of None \<Rightarrow> True | Some p \<Rightarrow> t - mcProcessedOutbox cfg \<le> p) rs"

lemma DeleteStale_sweeps:
  "DeleteStaleRefreshTokens (t - mcRefreshTokens cfg) rl t' n d = Inr (x, d') \<Longrightarrow>
     d' = d\<lparr>refreshTokens := swept_tokens cfg t (refreshTokens d)\<rparr>"
  by (auto simp: DeleteStaleRefreshTokens_def swept_tokens_def)

lemma DeleteProcessed_sweeps:
  "DeleteProcessedOutboxBefore (t - mcProcessedOutbox cfg) rl t' n d = Inr (x, d') \<Longrightarrow>
     d' = d\<lparr>outbox := swept_outbox cfg t (outbox d)\<rparr>"
  by (auto simp: DeleteProcessedOutboxBefore_def swept_outbox_def Let_def not_less
      intro!: arg_cong [of _ _ "\<lambda>P. d\<lparr>outbox := filter P (outbox d)\<rparr>"] split: option.split)

lemma DeleteAttempts_keeps: "DeleteLoginAttemptsBefore cutoff rl t n d = Inr (x, d') \<Longrightarrow> d' = d"
  by (auto simp: DeleteLoginAttemptsBefore_def split: if_splits)


end
