(* ===== verification/System_Steps.thy ===== *)
theory System_Steps
  imports Emails_Guarantees Maintenance_Sweeper
begin

section \<open>The server and the worker process together\<close>

text \<open>
  What the two processes do, seen from outside: \<open>internal/grpcsvc/server.go\<close> registers the handlers of
  the services, \<open>cmd/worker\<close> runs one asynq server per namespace of queues, the drain of the outbox
  and the sweeper. \<open>system_step\<close> is one call, one job or one change of the environment; what is proved
  of every state it reaches holds of the program as a whole.
\<close>

record 'r processes =
  syService :: "'r auth_service"
  syEncoder :: id_encoder
  syStorage :: "'r storage option"
  syMails :: "'r email_processor"
  syFCM :: bool  \<comment> \<open>the worker has an FCM client\<close>
  syNotifications :: "'r notif_processor"
  syMaintenance :: maintenance_config

subsection \<open>The calls\<close>

datatype rpc = RpcRegister pb_register | RpcLogin pb_login | RpcRefreshToken string | RpcLogout | RpcVerifyEmail string
  | RpcResendVerification | RpcRequestPasswordReset string | RpcResetPassword "string \<times> string"
  | RpcChangePassword "string \<times> string" | RpcListDevices | RpcRevokeDevice string
  | RpcGetMe | RpcUpdateMe profile_update | RpcDeleteMe | RpcGetUser string | RpcUploadAvatar "avatar_msg stream"
  | RpcGetSettings | RpcUpdateSettings pb_settings | RpcRegisterPushToken register_token_input
  | RpcGetNotificationPreferences | RpcUpdateNotificationPreferences pb_notif_prefs
  | RpcListUsers "pb_page option" | RpcAdminGetUser string | RpcSuspendUser pb_suspend | RpcUnsuspendUser string
  | RpcSetUserRole "string \<times> string"

definition unanswered :: "('r, 'a) call \<Rightarrow> ('r, unit) proc" where
  "unanswered m = do { r \<leftarrow> m; ret () }"

fun handle_rpc :: "'r processes \<Rightarrow> ctx \<Rightarrow> rpc \<Rightarrow> ('r, unit) proc" where
  "handle_rpc y c (RpcRegister q) = unanswered (h_Register (syService y) (syEncoder y) c q)"
| "handle_rpc y c (RpcLogin q) = unanswered (h_Login (syService y) (syEncoder y) c q)"
| "handle_rpc y c (RpcRefreshToken t) = unanswered (h_RefreshToken (syService y) (syEncoder y) c t)"
| "handle_rpc y c RpcLogout = unanswered (h_Logout (syService y) c ())"
| "handle_rpc y c (RpcVerifyEmail t) = unanswered (h_VerifyEmail (syService y) c t)"
| "handle_rpc y c RpcResendVerification = unanswered (h_ResendVerification (syService y) c ())"
| "handle_rpc y c (RpcRequestPasswordReset em) = unanswered (h_RequestPasswordReset (syService y) c em)"
| "handle_rpc y c (RpcResetPassword q) = unanswered (h_ResetPassword (syService y) c q)"
| "handle_rpc y c (RpcChangePassword q) = unanswered (h_ChangePassword (syService y) c q)"
| "handle_rpc y c RpcListDevices = unanswered (h_ListDevices (syService y) c ())"
| "handle_rpc y c (RpcRevokeDevice d) = unanswered (h_RevokeDevice (syService y) c d)"
| "handle_rpc y c RpcGetMe = unanswered (h_GetMe (syEncoder y) c ())"
| "handle_rpc y c (RpcUpdateMe u) = unanswered (h_UpdateMe (syEncoder y) c u)"
| "handle_rpc y c RpcDeleteMe = unanswered (h_DeleteMe (syService y) c ())"
| "handle_rpc y c (RpcGetUser i) = unanswered (h_GetUser (syEncoder y) c i)"
| "handle_rpc y c (RpcUploadAvatar ms) = unanswered (h_UploadAvatar (svExt (syService y)) (syStorage y) c ms)"
| "handle_rpc y c RpcGetSettings = unanswered (h_GetSettings c ())"
| "handle_rpc y c (RpcUpdateSettings q) = unanswered (h_UpdateSettings c q)"
| "handle_rpc y c (RpcRegisterPushToken q) = unanswered (h_RegisterPushToken c q)"
| "handle_rpc y c RpcGetNotificationPreferences = unanswered (h_GetNotificationPreferences c ())"
| "handle_rpc y c (RpcUpdateNotificationPreferences q) = unanswered (h_UpdateNotificationPreferences c q)"
| "handle_rpc y c (RpcListUsers p) = unanswered (h_ListUsers (syEncoder y) c p)"
| "handle_rpc y c (RpcAdminGetUser i) = unanswered (h_AdminGetUser (syEncoder y) c i)"
| "handle_rpc y c (RpcSuspendUser q) = unanswered (h_SuspendUser (svBus (syService y)) (syEncoder y) c q)"
| "handle_rpc y c (RpcUnsuspendUser i) = unanswered (h_UnsuspendUser (svBus (syService y)) (syEncoder y) c i)"
| "handle_rpc y c (RpcSetUserRole q) = unanswered (h_SetUserRole (svBus (syService y)) (syEncoder y) c q)"

subsection \<open>The jobs of the worker process\<close>

definition event_QueueNames :: "string list" where "event_QueueNames = [QueueHigh, QueueNormal, QueueLow]"

text \<open>A server: the queues it consumes, the task types registered on its mux, the handler they share. A
  registered type matches the tasks it is a prefix of.\<close>

type_synonym 'r task_server = "string list \<times> string list \<times> (ctx \<Rightarrow> asynq_task \<Rightarrow> ('r, unit) call)"

definition emails_worker :: "'r processes \<Rightarrow> 'r task_server" where
  "emails_worker y = (em_QueueNames, [TaskSendEmail, TaskScheduledEmail, TaskBulkEmail], \<lambda>c t. emails_ProcessTask (syMails y) t)"

definition notifications_worker :: "'r processes \<Rightarrow> 'r task_server" where
  "notifications_worker y = (nt_QueueNames, [TaskSendNotification, TaskScheduleNotification], notif_ProcessTask (syNotifications y))"

definition event_worker :: "'r processes \<Rightarrow> 'r task_server" where
  "event_worker y = (event_QueueNames, [TaskTypeDispatch], ProcessTask (svBus (syService y)))"

definition task_servers :: "'r processes \<Rightarrow> 'r task_server list" where
  "task_servers y = [emails_worker y] @ (if syFCM y then [notifications_worker y] else []) @ [event_worker y]"

definition mux_serves :: "string list \<Rightarrow> asynq_task \<Rightarrow> bool" where
  "mux_serves patterns t = list_ex (has_prefix (tkType t)) patterns"

text \<open>A task in a queue no server consumes stays there.\<close>

definition serve_task :: "'r processes \<Rightarrow> ctx \<Rightarrow> asynq_task \<Rightarrow> ('r, (goerr + unit) option) proc" where
  "serve_task y c t =
     (case filter (\<lambda>(queues, patterns, h). tkQueue t \<in> set queues) (task_servers y) of [] \<Rightarrow> ret None
      | (queues, patterns, h) # _ \<Rightarrow>
          if mux_serves patterns t then do { r \<leftarrow> h c t; ret (Some r) }
          else ret (Some (Inl (MsgE ''handler not found for task''))))"

datatype job = JobTask asynq_task | JobDrain | JobSweep

fun run_job :: "'r processes \<Rightarrow> ctx \<Rightarrow> job \<Rightarrow> ('r, unit) proc" where
  "run_job y c (JobTask t) = do { r \<leftarrow> serve_task y c t; ret () }"
| "run_job y c JobDrain = do { r \<leftarrow> drainBatch (svBus (syService y)) c; ret () }"
| "run_job y c JobSweep = sweep (syMaintenance y) c"

inductive system_step :: "'r processes \<Rightarrow> 'r world \<Rightarrow> 'r world \<Rightarrow> bool" for y where
  sys_service: "service_step (syService y) w w' \<Longrightarrow> system_step y w w'"
| sys_rpc: "system_step y w (after (handle_rpc y c q) w)"
| sys_job: "system_step y w (after (run_job y c j) w)"
| sys_environment: "db w' = db w \<Longrightarrow> nextID w \<le> nextID w' \<Longrightarrow> now w \<le> now w' \<Longrightarrow> system_step y w w'"

inductive_cases system_stepE: "system_step y w w'"

text \<open>The clients of the mail API, FCM and the object store do not touch the tables.\<close>

definition remote_only :: "'r processes \<Rightarrow> bool" where
  "remote_only y = ((\<forall>rq. frames (\<lambda>w. (db w, nextID w)) (epSend (syMails y) rq)) \<and>
     (\<forall>m. frames (\<lambda>w. (db w, nextID w)) (ntSend (syNotifications y) m)) \<and>
     (\<forall>st c k d ct. syStorage y = Some st \<longrightarrow> frames (\<lambda>w. (db w, nextID w)) (stPut st c k d ct)))"

subsection \<open>Invariants of the system\<close>

lemma more_readonly [simp]:
  "readonly CountUsers" "readonly (list_users_query a b)" "readonly (GetNotificationPreferences i)"
  "readonly (ListActiveFCMTokensByUserID i)" "readonly (GetNotificationTemplateByEventType ty)"
  "readonly (ListTemplateTranslations j)"
  by (auto simp: readonly_def CountUsers_def list_users_query_def ListUsers_def GetNotificationPreferences_def
      ListActiveFCMTokensByUserID_def GetNotificationTemplateByEventType_def ListTemplateTranslations_def first_row_Inr
      Let_def split: if_splits)

text \<open>The contract of the services, extended by the statements of the other handlers and of the workers, by
  the one that changes a role, and by those of the sweeper.\<close>

locale plain_worker = plain_service J for J +
  assumes profile_kept: "query_keeps J (UpdateUserProfile i pu)"
    and user_settings_kept: "query_keeps J (UpdateUserSettings i st)"
    and suspension_kept: "query_keeps J (CreateSuspension i rs details until perm)"
    and unsuspension_kept: "query_keeps J (DeactivateActiveSuspensions i)"
    and push_kept: "query_keeps J (UpsertFCMToken i dv tok pf ver)"
    and push_off_kept: "query_keeps J (DeactivateFCMToken j)"
    and push_used_kept: "query_keeps J (TouchFCMTokenLastUsed j)"
    and prefs_kept: "query_keeps J (CreateNotificationPreferences pr)"
    and prefs_upsert_kept: "query_keeps J (UpsertNotificationPreferences pr)"
    and log_kept: "query_keeps J (CreateNotificationLog nl)"
begin

lemmas all_kept = kept profile_kept user_settings_kept suspension_kept unsuspension_kept push_kept push_off_kept
  push_used_kept prefs_kept prefs_upsert_kept log_kept

lemma unanswered_kept: "keeps_db J m \<Longrightarrow> keeps_db J (unanswered m)"
  unfolding unanswered_def by (intro keeps_intros) simp_all

lemma user_handlers_kept:
  "keeps_db J (users_Get c i)" "keeps_db J (users_UpdateProfile c i u)" "keeps_db J (users_List c a b)"
  "keeps_db J (settings_Get c i)" "keeps_db J (settings_UpdateFor c i stg)" "keeps_db J (RegisterToken c i inp)"
  "keeps_db J (GetPreferences c i)" "keeps_db J (UpdatePreferences c i upd)"
  "keeps_db J (Suspend c si)" "keeps_db J (Unsuspend c i)"
  by (auto simp: users_Get_def users_UpdateProfile_def users_List_def settings_Get_def settings_UpdateFor_def settings_Update_def
      RegisterToken_def tokens_Upsert_def GetPreferences_def UpdatePreferences_def prefs_FindByUserID_def prefs_Create_def
      prefs_Upsert_def Suspend_def suspension_Create_def Unsuspend_def suspension_DeactivateByUserID_def Let_def
      intro!: keeps_intros all_kept)

lemma set_status_kept: "keeps_db J (users_SetStatus c i us)"
  by (auto simp: users_SetStatus_def query_keeps_def intro!: keeps_intros repo_kept)

lemma avatar_kept:
  assumes "remote_only y"
  shows "keeps_db J (users_UploadAvatar E (syStorage y) c i ct data)"
proof -
  have "keeps_db J (stPut st c k d ct)" if "syStorage y = Some st" for st c k d ct
    using assms that by (auto simp: remote_only_def intro: keeps_db_frame)
  then show ?thesis
    by (auto simp: users_UploadAvatar_def Let_def intro!: keeps_intros user_handlers_kept split: option.split)
qed

lemma auth_handlers_kept:
  assumes "wired_service s n"
  shows "keeps_db J (h_Register s enc c q1)" "keeps_db J (h_Login s enc c q2)" "keeps_db J (h_RefreshToken s enc c tok)"
    "keeps_db J (h_Logout s c u)" "keeps_db J (h_VerifyEmail s c tok)" "keeps_db J (h_ResendVerification s c u)"
    "keeps_db J (h_RequestPasswordReset s c em)" "keeps_db J (h_ResetPassword s c q3)" "keeps_db J (h_ChangePassword s c q3)"
    "keeps_db J (h_ListDevices s c u)" "keeps_db J (h_RevokeDevice s c dv)" "keeps_db J (h_DeleteMe s c u)"
  unfolding h_Register_def h_Login_def h_RefreshToken_def h_Logout_def h_VerifyEmail_def h_ResendVerification_def
    h_RequestPasswordReset_def h_ResetPassword_def h_ChangePassword_def h_ListDevices_def h_RevokeDevice_def h_DeleteMe_def Let_def
  by (intro keeps_intros service_kept [OF assms] account_kept [OF assms] keeps_db_simps)+

lemma plain_handlers_kept:
  "keeps_db J (h_GetMe enc c u)" "keeps_db J (h_UpdateMe enc c pu)" "keeps_db J (h_GetUser enc c i)"
  "keeps_db J (h_GetSettings c u)" "keeps_db J (h_UpdateSettings c q1)" "keeps_db J (h_RegisterPushToken c q2)"
  "keeps_db J (h_GetNotificationPreferences c u)" "keeps_db J (h_UpdateNotificationPreferences c q3)"
  "keeps_db J (h_ListUsers enc c pg)" "keeps_db J (h_AdminGetUser enc c i)"
  unfolding h_GetMe_def h_UpdateMe_def h_GetUser_def h_GetSettings_def h_UpdateSettings_def h_RegisterPushToken_def
    h_GetNotificationPreferences_def h_UpdateNotificationPreferences_def h_ListUsers_def h_AdminGetUser_def Let_def
  by (intro keeps_intros user_handlers_kept keeps_db_simps)+

lemma admin_handlers_kept:
  "keeps_db J (h_SuspendUser (wired_bus E n) enc c q)" "keeps_db J (h_UnsuspendUser (wired_bus E n) enc c i)"
  unfolding h_SuspendUser_def h_UnsuspendUser_def audit_def Let_def
  by (intro keeps_intros user_handlers_kept publish_kept set_status_kept keeps_db_simps)+

lemma rpc_kept:
  assumes "wired_service (syService y) n" and "remote_only y" and "\<forall>r. q \<noteq> RpcSetUserRole r"
  shows "keeps_db J (handle_rpc y c q)"
proof -
  have bus: "svBus (syService y) = wired_bus (svExt (syService y)) n" using assms(1) by (simp add: wired_service_def)
  have av: "keeps_db J (h_UploadAvatar E (syStorage y) c ms)" for E ms
    unfolding h_UploadAvatar_def Let_def
    by (auto intro!: keeps_intros avatar_kept [OF assms(2)] split: sum.split)
  show ?thesis
    using assms(3) by (cases q) (simp_all add: unanswered_kept auth_handlers_kept [OF assms(1)] plain_handlers_kept admin_handlers_kept av bus)
qed

lemma worker_repo_kept:
  "keeps_db J (worker_FindActiveByUserID c i)" "keeps_db J (worker_DeactivateByID c j)" "keeps_db J (worker_UpdateLastUsed c j)"
  "keeps_db J (worker_FindPreferences c i)" "keeps_db J (worker_FindTemplate c ty)" "keeps_db J (worker_CreateLog c l)"
  by (auto simp: worker_FindActiveByUserID_def worker_DeactivateByID_def worker_UpdateLastUsed_def worker_FindPreferences_def
      worker_FindTemplate_def worker_CreateLog_def intro!: keeps_intros all_kept)

lemma notify_kept:
  assumes "remote_only y"
  shows "keeps_db J (notify_tokens (syNotifications y) c ev tmpl toks acc)"
proof -
  have snd: "keeps_db J (ntSend (syNotifications y) m)" for m
    using assms by (auto simp: remote_only_def intro: keeps_db_frame)
  have "keeps_db J (sendToToken (syNotifications y) c ev tmpl tok)" for tok
    unfolding sendToToken_def
  proof (intro keeps_db_bind snd)
    fix r
    have fails: "keeps_db J (do { (if b then do { worker_DeactivateByID c i; ret () } else ret ()); returnE res })" for b i res
      by (intro keeps_intros worker_repo_kept) simp_all
    have sent: "keeps_db J (do { worker_UpdateLastUsed c i; returnE res })" for i res
      by (intro keeps_intros worker_repo_kept) simp_all
    show "keeps_db J (case r of Inl (PanicE m) \<Rightarrow> fail (PanicE m)
      | Inl err \<Rightarrow> do {
          (if ntIsUnregistered (syNotifications y) err \<or> ntIsInvalidArgument (syNotifications y) err
           then do { worker_DeactivateByID c (ftID tok); ret () } else ret ());
          returnE \<lparr>rsSuccess = False, rsFCMTokenID = ftID tok, rsMessageID = [], rsErrorCode = ''FCM_ERROR'',
            rsErrorMessage = error_text err\<rparr> }
      | Inr messageID \<Rightarrow> do {
          worker_UpdateLastUsed c (ftID tok);
          returnE \<lparr>rsSuccess = True, rsFCMTokenID = ftID tok, rsMessageID = messageID, rsErrorCode = [],
            rsErrorMessage = []\<rparr> })"
    proof (cases r)
      case (Inl e)
      then show ?thesis by (cases e) (simp_all only: sum.case goerr.case fails keeps_db_simps)
    qed (simp only: sum.case sent)
  qed
  then show ?thesis
    by (induction toks arbitrary: acc) (auto simp: logNotification_def intro!: keeps_intros worker_repo_kept split: option.split)
qed

lemma notification_kept: "remote_only y \<Longrightarrow> keeps_db J (notif_ProcessTask (syNotifications y) c t)"
  by (auto simp: notif_ProcessTask_def processNotification_def shouldSendNotification_def
      intro!: keeps_intros worker_repo_kept notify_kept split: sum.split goerr.split)

lemma mail_kept:
  assumes "remote_only y"
  shows "keeps_db J (emails_ProcessTask (syMails y) t)"
proof -
  have snd: "keeps_db J (epSend (syMails y) rq)" for rq
    using assms by (auto simp: remote_only_def intro: keeps_db_frame)
  have one: "keeps_db J (processEmail (syMails y) e)" for e
    unfolding processEmail_def by (auto intro!: keeps_intros snd split: goerr.split)
  have "keeps_db J (bulk_send (syMails y) es acc)" for es acc
    by (induction es arbitrary: acc) (auto intro!: keeps_intros one split: goerr.split option.split)
  with one show ?thesis
    by (auto simp: emails_ProcessTask_def processBulkEmail_def intro!: keeps_intros split: sum.split goerr.split)
qed

lemma job_kept:
  assumes "wired_service (syService y) n" and "remote_only y" and "j \<noteq> JobSweep"
  shows "keeps_db J (run_job y c j)"
proof -
  have bus: "svBus (syService y) = wired_bus (svExt (syService y)) n" using assms(1) by (simp add: wired_service_def)
  have "keeps_db J (serve_task y c t)" for t
    unfolding serve_task_def task_servers_def emails_worker_def notifications_worker_def event_worker_def bus
    by (auto intro!: keeps_intros ProcessTask_kept notification_kept mail_kept assms(2))
  then show ?thesis
    using assms(3) by (cases j) (auto simp: bus intro!: keeps_intros drainBatch_kept)
qed

end

locale worker_invariant = plain_worker J + service_invariant J for J
begin

lemma role_handler_kept: "keeps_db J (h_SetUserRole (wired_bus E n) enc c r)"
  unfolding h_SetUserRole_def audit_def Let_def
  by (intro keeps_intros user_handlers_kept publish_kept set_role_kept keeps_db_simps)

lemma every_rpc_kept:
  assumes "wired_service (syService y) n" and "remote_only y"
  shows "keeps_db J (handle_rpc y c q)"
proof (cases "\<exists>r. q = RpcSetUserRole r")
  case True
  moreover have "svBus (syService y) = wired_bus (svExt (syService y)) n" using assms(1) by (simp add: wired_service_def)
  ultimately show ?thesis by (auto simp: unanswered_kept role_handler_kept)
qed (use rpc_kept [OF assms] in blast)

text \<open>Every step keeps the invariant, but for a sweep.\<close>

lemma step_but_sweep:
  assumes "wired_service (syService y) n" and "remote_only y" and "system_step y w w'" and "J (nextID w) (db w)"
  shows "(J (nextID w') (db w') \<and> nextID w \<le> nextID w') \<or> (\<exists>c. w' = after (sweep (syMaintenance y) c) w)"
  using assms(3)
proof cases
  case sys_service
  then show ?thesis using step_keeps [OF assms(1) _ assms(4)] by blast
next
  case (sys_rpc c q)
  then show ?thesis using keeps_db_step [OF _ assms(4) every_rpc_kept [OF assms(1,2)]] by blast
next
  case (sys_job c j)
  then show ?thesis
  proof (cases "j = JobSweep")
    case False
    then show ?thesis using keeps_db_step [OF sys_job assms(4) job_kept [OF assms(1,2)]] by blast
  qed auto
next
  case sys_environment
  then show ?thesis using assms(4) later by auto
qed

end

locale system_invariant = worker_invariant J for J +
  assumes stale_kept: "query_keeps J (DeleteStaleRefreshTokens before)"
    and swept_kept: "query_keeps J (DeleteProcessedOutboxBefore before)"
    and attempts_kept: "query_keeps J (DeleteLoginAttemptsBefore before)"
begin

lemma sweep_kept: "keeps_db J (sweep cfg c)"
  unfolding sweep_def sweeper_run_def by (intro keeps_intros stale_kept swept_kept attempts_kept) simp_all

lemma system_step_keeps:
  assumes "wired_service (syService y) n" and "remote_only y" and "system_step y w w'" and "J (nextID w) (db w)"
  shows "J (nextID w') (db w') \<and> nextID w \<le> nextID w'"
  using step_but_sweep [OF assms] keeps_db_step [OF _ assms(4) sweep_kept] by blast

lemma system_keeps:
  assumes "wired_service (syService y) n" and "remote_only y" and "(system_step y)\<^sup>*\<^sup>* w w'" and "J (nextID w) (db w)"
  shows "J (nextID w') (db w')"
  using assms(3,4)
  by (induction rule: rtranclp_induct) (auto dest: system_step_keeps [OF assms(1,2)])

end

lemmas worker_query_defs = UpsertFCMToken_def DeactivateFCMToken_def TouchFCMTokenLastUsed_def CreateNotificationPreferences_def
  UpsertNotificationPreferences_def CreateNotificationLog_def DeleteStaleRefreshTokens_def DeleteProcessedOutboxBefore_def
  DeleteLoginAttemptsBefore_def UpdateUserSettings_def CreateSuspension_def DeactivateActiveSuspensions_def Let_def

text \<open>These statements leave users and sessions alone, and of the refresh tokens at most delete some.\<close>

definition core_kept :: "'a query \<Rightarrow> bool" where
  "core_kept q = (\<forall>rl t n d x d'. q rl t n d = Inr (x, d') \<longrightarrow> users d' = users d \<and> sessions d' = sessions d \<and>
     (\<exists>P. refreshTokens d' = filter P (refreshTokens d)))"

lemma core_keptI:
  assumes "\<And>rl t n d x d'. q rl t n d = Inr (x, d') \<Longrightarrow> users d' = users d \<and> sessions d' = sessions d \<and>
     (refreshTokens d' = refreshTokens d \<or> (\<exists>P. refreshTokens d' = filter P (refreshTokens d)))"
  shows "core_kept q"
proof -
  have "\<exists>P. ts = filter P ts" for ts :: "refresh_row list" by (rule exI [of _ "\<lambda>_. True"]) simp
  then show ?thesis unfolding core_kept_def using assms by metis
qed

lemma worker_queries_core:
  "core_kept (UpsertFCMToken i dv tok pf ver)" "core_kept (DeactivateFCMToken j)"
  "core_kept (TouchFCMTokenLastUsed j)" "core_kept (CreateNotificationPreferences pr)"
  "core_kept (UpsertNotificationPreferences pr)" "core_kept (CreateNotificationLog nl)"
  "core_kept (DeleteStaleRefreshTokens before)" "core_kept (DeleteProcessedOutboxBefore before)"
  "core_kept (DeleteLoginAttemptsBefore before)" "core_kept (UpdateUserSettings i st)"
  "core_kept (CreateSuspension i rs details until perm)" "core_kept (DeactivateActiveSuspensions i)"
  by (rule core_keptI, auto simp: worker_query_defs split: if_splits list.splits option.splits)+

lemma core_invariants:
  assumes "core_kept q"
  shows "query_keeps wf_db q" "query_keeps (revoked_in S) q" "query_keeps (gone_in S) q"
proof -
  have core: "users d' = users d \<and> sessions d' = sessions d \<and> (\<exists>P. refreshTokens d' = filter P (refreshTokens d))"
    if "q rl t n d = Inr (x, d')" for rl t n d x d'
    using assms that by (auto simp: core_kept_def)
  show "query_keeps wf_db q"
  proof (rule query_keepsI)
    fix rl t n d x d'
    assume q: "q rl t n d = Inr (x, d')" and w: "wf_db n d"
    from core [OF q] obtain P where P: "users d' = users d" "sessions d' = sessions d" "refreshTokens d' = filter P (refreshTokens d)"
      by blast
    from wf_db_same [OF w refl refl refl] have "wf_db (n + 1) d" .
    with P show "wf_db (n + 1) d'" by (fastforce simp: wf_db_def distinct_map_filter)
  qed
  show "query_keeps (revoked_in S) q" "query_keeps (gone_in S) q"
    by (rule query_keepsI, use core in \<open>metis revoked_in_same gone_same\<close>)+
qed

lemma gone_profile [simp]: "query_keeps (gone_in S) (UpdateUserProfile i pu)"
  by (rule query_keepsI)
    (auto simp: UpdateUserProfile_def apply_profile_def live_user_def intro!: gone_upd split: if_splits list.splits)

lemmas core_all = worker_queries_core [THEN core_invariants(1)] worker_queries_core [THEN core_invariants(2)]
  worker_queries_core [THEN core_invariants(3)]

interpretation sys_wf: system_invariant wf_db
  by unfold_locales (simp_all add: core_all)

interpretation sys_rev: system_invariant "revoked_in S" for S
  by unfold_locales (simp_all add: core_all)

interpretation sys_gone: system_invariant "gone_in S" for S
  by unfold_locales (simp_all add: core_all)

subsection \<open>Properties of the reachable states\<close>


text \<open>C4. Revocation is permanent: once the row of a session carries a revocation stamp, no sequence of steps of
  the program, whatever fails and whatever Redis holds, leads to a state in which a request
  authenticates as that session.\<close>

theorem revoked_session_never_authenticates:
  assumes "wired_service (syService y) n" and "remote_only y" and "revoked_in {i} (nextID w) (db w)"
    and "(system_step y)\<^sup>*\<^sup>* w w'" and "run_state (authenticate ic c) w' = (Inr (u, ds), w'')"
  shows "dsID ds \<noteq> i"
proof
  assume i: "dsID ds = i"
  from authenticate_Inr [OF assms(5)] obtain r where
    r: "session_loaded (db w') r u ds" "\<not> stamped r" by blast
  with i have "r \<in> set (sessions (db w'))" "srID r = i"
    by (auto simp: session_loaded_def toDeviceSession_def)
  with sys_rev.system_keeps [OF assms(1,2,4,3)] r(2) show False
    by (auto simp: revoked_in_def)
qed

text \<open>Nor can a revoked session be refreshed: in every reachable state a refresh that succeeds
  presented a token whose row is bound to another session.\<close>

theorem revoked_session_never_refreshes:
  assumes "wired_service (syService y) n" and "remote_only y" and "revoked_in {i} (nextID w) (db w)"
    and "(system_step y)\<^sup>*\<^sup>* w w'" and "run_state (RefreshTokens (syService y) c tok) w' = (Inr tp, w'')"
  shows "\<exists>row\<in>set (refreshTokens (db w')). rrTokenHash row = hashToken (svExt (syService y)) tok \<and> rrSessionID row \<noteq> i"
proof -
  from RefreshTokens_Inr [OF assms(5)] obtain row r where
    r: "row \<in> set (refreshTokens (db w'))" "rrTokenHash row = hashToken (svExt (syService y)) tok" "srID r = rrSessionID row"
      "r \<in> set (sessions (db w'))" "\<not> stamped r" by blast
  moreover have "srID r \<noteq> i"
    using sys_rev.system_keeps [OF assms(1,2,4,3)] r(4,5) by (auto simp: revoked_in_def)
  ultimately show ?thesis by auto
qed

text \<open>C26. Deleting an account is final: once \<open>DeleteAccount\<close> has answered without error, whatever failed
  while it revoked the sessions, no sequence of steps of the program leads to a state in which a
  request authenticates, a refresh succeeds or a login succeeds as that user.\<close>

theorem deleted_account_never_returns:
  assumes "services (svExt (syService y))" and "wired_service (syService y) n" and "remote_only y" and "i < nextID w"
    and "run_state (DeleteAccount (syService y) c i) w = (Inr (), w1)" and "(system_step y)\<^sup>*\<^sup>* w1 w2"
  shows "(\<forall>ic c2 u ds w3. run_state (authenticate ic c2) w2 = (Inr (u, ds), w3) \<longrightarrow> uID u \<noteq> i) \<and>
    (\<forall>c2 tok tp w3. run_state (RefreshTokens (syService y) c2 tok) w2 = (Inr tp, w3) \<longrightarrow> uID (tpUser tp) \<noteq> i) \<and>
    (\<forall>c2 inp tp w3. run_state (Login (syService y) c2 inp) w2 = (Inr tp, w3) \<and> \<not> cxInTx c2 \<longrightarrow> uID (tpUser tp) \<noteq> i)"
proof -
  from sys_gone.system_keeps [OF assms(2,3,6) DeleteAccount_gone [OF assms(2,4,5)]]
  have g: "u \<in> set (users (db w2)) \<Longrightarrow> live_user u \<Longrightarrow> uID u \<noteq> i" for u by (auto simp: gone_in_def)
  have "uID u \<noteq> i" if "run_state (authenticate ic c2) w2 = (Inr (u, ds), w3)" for ic c2 u ds w3
    using authenticate_Inr [OF that] g by (auto simp: session_loaded_def)
  moreover have "uID (tpUser tp) \<noteq> i" if "run_state (RefreshTokens (syService y) c2 tok) w2 = (Inr tp, w3)" for c2 tok tp w3
    using RefreshTokens_Inr [OF that] g by auto
  moreover have "uID (tpUser tp) \<noteq> i"
    if "run_state (Login (syService y) c2 inp) w2 = (Inr tp, w3)" "\<not> cxInTx c2" for c2 inp tp w3
    using Login_Inr [OF assms(1,2) that(2,1)] g by auto
  ultimately show ?thesis by blast
qed

subsection \<open>Every task has its worker\<close>

text \<open>A task is served when one of the three servers consumes its queue and knows its type.\<close>

definition answered :: "('r, unit) call \<Rightarrow> ('r, (goerr + unit) option) proc" where
  "answered m = do { r \<leftarrow> m; ret (Some r) }"

lemmas queue_defs = em_QueueNames_def em_queueName_def nt_QueueNames_def nt_queueName_def event_QueueNames_def
  PriorityHigh_def PriorityNormal_def PriorityLow_def nt_PriorityHigh_def nt_PriorityNormal_def nt_PriorityLow_def
  QueueHigh_def QueueNormal_def QueueLow_def

lemmas server_defs = task_servers_def emails_worker_def notifications_worker_def event_worker_def mux_serves_def

lemma serve_mail:
  assumes "tkQueue t \<in> set em_QueueNames" and "tkType t \<in> {TaskSendEmail, TaskScheduledEmail, TaskBulkEmail}"
  shows "serve_task y c t = answered (emails_ProcessTask (syMails y) t)"
  using assms by (auto simp: serve_task_def server_defs answered_def has_prefix_def)

lemma serve_notification:
  assumes "syFCM y" and "tkQueue t \<in> set nt_QueueNames" and "tkType t \<in> {TaskSendNotification, TaskScheduleNotification}"
  shows "serve_task y c t = answered (notif_ProcessTask (syNotifications y) c t)"
  using assms by (auto simp: serve_task_def server_defs answered_def has_prefix_def queue_defs)

lemma serve_event:
  assumes "tkQueue t \<in> set event_QueueNames" and "tkType t = TaskTypeDispatch"
  shows "serve_task y c t = answered (ProcessTask (svBus (syService y)) c t)"
  using assms by (auto simp: serve_task_def server_defs answered_def has_prefix_def queue_defs)

lemma serve_nobody:
  assumes "tkQueue t \<notin> set em_QueueNames \<union> set nt_QueueNames \<union> set event_QueueNames"
  shows "serve_task y c t = ret None"
  using assms by (auto simp: serve_task_def server_defs)

definition enqueues :: "('r, unit) call \<Rightarrow> (asynq_task \<Rightarrow> bool) \<Rightarrow> bool" where
  "enqueues m P = (\<forall>w. \<exists>ts. mq (snd (run_state m w)) = mq w @ ts \<and> list_all P ts)"

lemma enqueue_then:
  fixes k :: "goerr + unit \<Rightarrow> ('r, unit) call"
  assumes "P t" and "\<And>r. frames mq (k r)"
  shows "enqueues (State_Monad.bind (asynq_enqueue t) k) P"
proof -
  have "\<exists>ts. mq (snd (run_state (asynq_enqueue t) w)) = mq w @ ts \<and> list_all P ts" for w :: "'r world"
    using assms(1) by (auto simp: asynq_enqueue_def split: list.split enqueue_reply.split)
  moreover have "mq (snd (run_state (State_Monad.bind (asynq_enqueue t) k) w)) = mq (snd (run_state (asynq_enqueue t) w))" for w
    using assms(2) by (simp add: frames_def case_prod_beta)
  ultimately show ?thesis by (simp add: enqueues_def)
qed

definition known_priority :: "string \<Rightarrow> bool" where
  "known_priority p = (p \<in> {[], ''high'', ''normal'', ''low''})"


end
