(* ===== verification/Abstract_Stores.thy ===== *)
theory Abstract_Stores
  imports System_Steps
begin

section \<open>What the program is an implementation of\<close>

text \<open>
  An abstract machine and the proof that the program refines it: the credential store has accounts,
  sessions and refresh tokens, and an event each for what may happen to them. A mediator maps the tables to
  the abstract state, and every statement of \<open>gen/db\<close> is an event of the machine or none, so that every
  execution of the program, whatever fails, is one of the machine. The second part follows the rows of the
  outbox through the same executions.
\<close>

subsection \<open>Simulation, statement by statement\<close>

text \<open>The tables satisfy \<open>J\<close> and are reached from \<open>a\<close> by steps of the machine.\<close>

definition run_from ::
  "(int \<Rightarrow> database \<Rightarrow> bool) \<Rightarrow> (database \<Rightarrow> 's) \<Rightarrow> ('s \<Rightarrow> 's \<Rightarrow> bool) \<Rightarrow> 's \<Rightarrow> int \<Rightarrow> database \<Rightarrow> bool" where
  "run_from J view step a n d = (J n d \<and> step\<^sup>*\<^sup>* a (view d))"

definition query_steps ::
  "(int \<Rightarrow> database \<Rightarrow> bool) \<Rightarrow> (database \<Rightarrow> 's) \<Rightarrow> ('s \<Rightarrow> 's \<Rightarrow> bool) \<Rightarrow> 'a query \<Rightarrow> bool" where
  "query_steps J view step q = (\<forall>rl t n d x d'. q rl t n d = Inr (x, d') \<longrightarrow> J n d \<longrightarrow>
     view d' = view d \<or> step (view d) (view d'))"

lemma run_from_query:
  assumes "query_keeps J q" and "query_steps J view step q"
  shows "query_keeps (run_from J view step a) q"
proof (rule query_keepsI)
  fix rl t n d x d'
  assume q: "q rl t n d = Inr (x, d')" and r: "run_from J view step a n d"
  then have "J (n + 1) d'" using assms(1) by (auto simp: query_keeps_def run_from_def)
  moreover have "view d' = view d \<or> step (view d) (view d')" using assms(2) q r by (auto simp: query_steps_def run_from_def)
  ultimately show "run_from J view step a (n + 1) d'"
    using r by (auto simp: run_from_def intro: rtranclp.rtrancl_into_rtrancl)
qed

lemma query_stepsI:
  "(\<And>rl t n d x d'. q rl t n d = Inr (x, d') \<Longrightarrow> J n d \<Longrightarrow> view d' = view d \<or> step (view d) (view d')) \<Longrightarrow>
     query_steps J view step q"
  unfolding query_steps_def by blast

text \<open>The definitions of the statements the services issue; those of the workers are \<open>worker_query_defs\<close>.\<close>

lemmas service_query_defs = UpdateUserLastLogin_def UpdateUserPasswordHash_def MarkUserEmailVerified_def CreateUser_def
  CreateUserSettings_def CreateDeviceSession_def RevokeDeviceSession_def RevokeAllDeviceSessionsByUser_def
  RevokeActiveDeviceSessionsByDeviceID_def CreateRefreshToken_def RevokeRefreshTokenByHash_def
  RevokeRefreshTokensBySession_def RevokeRefreshTokensByFamily_def UpdateUserStatus_def UpdateUserRole_def
  SoftDeleteUser_def InsertOutbox_def MarkOutboxProcessed_def MarkOutboxFailed_def InsertOutboxDeadLetter_def
  CreateLoginAttempt_def CreateAuditLog_def UpdateUserProfile_def

text \<open>A table as a map from its keys.\<close>

definition table :: "('a \<Rightarrow> 'k) \<Rightarrow> ('a \<Rightarrow> 'v) \<Rightarrow> 'a list \<Rightarrow> ('k \<rightharpoonup> 'v)" where
  "table k v xs = map_of (map (\<lambda>x. (k x, v x)) xs)"

lemma table_append: "k x \<notin> k ` set xs \<Longrightarrow> table k v (xs @ [x]) = (table k v xs)(k x \<mapsto> v x)"
  by (induction xs) (auto simp: table_def fun_upd_twist)

lemma table_None: "table k v xs i = None \<longleftrightarrow> i \<notin> k ` set xs"
  by (simp add: table_def map_of_eq_None_iff image_image)

lemma table_Some: "table k v xs i = Some y \<Longrightarrow> \<exists>x\<in>set xs. k x = i \<and> v x = y"
  by (induction xs) (auto simp: table_def split: if_splits)

lemma table_Some_iff: "distinct (map k xs) \<Longrightarrow> table k v xs i = Some y \<longleftrightarrow> (\<exists>x\<in>set xs. k x = i \<and> v x = y)"
  by (auto simp: table_def comp_def)

lemma table_same: "(\<And>x. k (f x) = k x) \<Longrightarrow> (\<And>x. P x \<Longrightarrow> v (f x) = v x) \<Longrightarrow> table k v (upd_where P f xs) = table k v xs"
  unfolding table_def upd_where_def by (rule arg_cong [where f = map_of]) auto

text \<open>An update changes the values of the keys of the rows it selects, a deletion restricts the map.\<close>

definition shut :: "('k \<rightharpoonup> 'v) \<Rightarrow> 'k set \<Rightarrow> ('v \<Rightarrow> 'v) \<Rightarrow> ('k \<rightharpoonup> 'v)" where
  "shut m I g = (\<lambda>i. if i \<in> I then map_option g (m i) else m i)"

lemma table_upd:
  assumes "distinct (map k xs)" and "\<And>x. k (f x) = k x" and "\<And>x. P x \<Longrightarrow> v (f x) = g (v x)"
  shows "table k v (upd_where P f xs) = shut (table k v xs) (k ` set (filter P xs)) g"
proof (rule ext)
  fix i
  show "table k v (upd_where P f xs) i = shut (table k v xs) (k ` set (filter P xs)) g i"
    using assms(1)
  proof (induction xs)
    case (Cons x xs)
    then show ?case using assms(2,3) by (auto simp: table_def upd_where_def shut_def)
  qed (simp add: table_def upd_where_def shut_def)
qed

lemma table_selected:
  "distinct (map k xs) \<Longrightarrow> (\<And>x. P x \<Longrightarrow> Q (v x)) \<Longrightarrow> \<forall>i\<in>k ` set (filter P xs). \<exists>y. table k v xs i = Some y \<and> Q y"
  by (auto simp: table_Some_iff)

lemma table_filter:
  assumes "distinct (map k xs)"
  shows "table k v (filter P xs) = table k v xs |` (k ` set (filter P xs))"
proof (rule ext)
  fix i
  show "table k v (filter P xs) i = (table k v xs |` (k ` set (filter P xs))) i"
    using assms by (induction xs) (auto simp: table_def restrict_map_def)
qed


subsection \<open>The credential store\<close>

record cred_store =
  csAccounts :: "int \<rightharpoonup> string \<times> bool"  \<comment> \<open>address, whether it is open\<close>
  csSessions :: "int \<rightharpoonup> int \<times> bool"  \<comment> \<open>account, whether it is open\<close>
  csTokens :: "string \<rightharpoonup> int \<times> string \<times> bool"  \<comment> \<open>by hash: session, family, whether it is live\<close>

inductive cred_step :: "cred_store \<Rightarrow> cred_store \<Rightarrow> bool" where
  account_opened: "csAccounts s i = None \<Longrightarrow> \<forall>j e'. csAccounts s j = Some (e', True) \<longrightarrow> to_lower e' \<noteq> to_lower e \<Longrightarrow>
    cred_step s (s\<lparr>csAccounts := (csAccounts s)(i \<mapsto> (e, True))\<rparr>)"
| accounts_closed: "\<forall>i\<in>I. \<exists>e. csAccounts s i = Some (e, True) \<Longrightarrow>
    cred_step s (s\<lparr>csAccounts := shut (csAccounts s) I (\<lambda>(e, b). (e, False))\<rparr>)"
| session_opened: "csSessions s i = None \<Longrightarrow> u \<in> dom (csAccounts s) \<Longrightarrow>
    cred_step s (s\<lparr>csSessions := (csSessions s)(i \<mapsto> (u, True))\<rparr>)"
| sessions_closed: "\<forall>i\<in>I. \<exists>u. csSessions s i = Some (u, True) \<Longrightarrow>
    cred_step s (s\<lparr>csSessions := shut (csSessions s) I (\<lambda>(u, b). (u, False))\<rparr>)"
| token_issued: "csTokens s h = None \<Longrightarrow> i \<in> dom (csSessions s) \<Longrightarrow>
    cred_step s (s\<lparr>csTokens := (csTokens s)(h \<mapsto> (i, fam, True))\<rparr>)"
| tokens_revoked: "\<forall>h\<in>H. \<exists>i fam. csTokens s h = Some (i, fam, True) \<Longrightarrow>
    cred_step s (s\<lparr>csTokens := shut (csTokens s) H (\<lambda>(i, fam, b). (i, fam, False))\<rparr>)"
| tokens_forgotten: "cred_step s (s\<lparr>csTokens := csTokens s |` H\<rparr>)"

text \<open>What holds of every execution of the machine: accounts keep their address, sessions their owner, and
  neither opens again.\<close>

lemma cred_step_keeps:
  assumes "cred_step s s'"
  shows "csAccounts s i = Some (e, b) \<Longrightarrow> \<exists>b'. csAccounts s' i = Some (e, b') \<and> (b' \<longrightarrow> b)"
    and "csSessions s j = Some (u, c) \<Longrightarrow> \<exists>c'. csSessions s' j = Some (u, c') \<and> (c' \<longrightarrow> c)"
  using assms by (auto elim!: cred_step.cases simp: shut_def)

lemma cred_steps_keep:
  assumes "cred_step\<^sup>*\<^sup>* s s'"
  shows "csAccounts s i = Some (e, b) \<Longrightarrow> \<exists>b'. csAccounts s' i = Some (e, b') \<and> (b' \<longrightarrow> b)"
    and "csSessions s j = Some (u, c) \<Longrightarrow> \<exists>c'. csSessions s' j = Some (u, c') \<and> (c' \<longrightarrow> c)"
  using assms
proof (induction rule: rtranclp_induct)
  case (step y z)
  { case 1 then show ?case using step.IH(1) cred_step_keeps(1) [OF step.hyps(2)] by metis }
  { case 2 then show ?case using step.IH(2) cred_step_keeps(2) [OF step.hyps(2)] by metis }
qed auto

text \<open>The mediator.\<close>

definition credentials :: "database \<Rightarrow> cred_store" where
  "credentials d = \<lparr>csAccounts = table uID (\<lambda>u. (uEmail u, live_user u)) (users d),
     csSessions = table srID (\<lambda>r. (srUserID r, active_row r)) (sessions d),
     csTokens = table rrTokenHash (\<lambda>r. (rrSessionID r, rrTokenFamily r, live_token r)) (refreshTokens d)\<rparr>"

abbreviation cred_query :: "'a query \<Rightarrow> bool" where
  "cred_query q \<equiv> query_steps wf_db credentials cred_step q"

lemma credentials_same:
  "users d' = users d \<Longrightarrow> sessions d' = sessions d \<Longrightarrow> refreshTokens d' = refreshTokens d \<Longrightarrow> credentials d' = credentials d"
  by (simp add: credentials_def)

subsection \<open>Every statement is an event of the credential store or none\<close>

lemma cred_users_same:
  "(\<And>u. uID (f u) = uID u) \<Longrightarrow> (\<And>u. P u \<Longrightarrow> uEmail (f u) = uEmail u \<and> live_user (f u) = live_user u) \<Longrightarrow>
     credentials (d\<lparr>users := upd_where P f (users d)\<rparr>) = credentials d"
  by (simp add: credentials_def table_same)

lemma cred_user_queries [simp]:
  "cred_query (UpdateUserLastLogin i)" "cred_query (UpdateUserPasswordHash i h)" "cred_query (MarkUserEmailVerified i)"
  "cred_query (UpdateUserStatus i st)" "cred_query (UpdateUserRole i ro)" "cred_query (UpdateUserProfile i pu)"
  by (rule query_stepsI, rule disjI1, auto simp: UpdateUserLastLogin_def UpdateUserPasswordHash_def MarkUserEmailVerified_def
      UpdateUserStatus_def UpdateUserRole_def UpdateUserProfile_def apply_profile_def live_user_def
      intro!: cred_users_same split: list.splits if_splits)+

lemma cred_other_queries [simp]:
  "cred_query (CreateUserSettings i st)" "cred_query (UpdateUserSettings i st)"
  "cred_query (CreateSuspension i reason details until perm)" "cred_query (DeactivateActiveSuspensions i)"
  "cred_query (InsertOutbox ty p k)" "cred_query (MarkOutboxProcessed j)"
  "cred_query (MarkOutboxFailed j msg)" "cred_query (InsertOutboxDeadLetter dl)"
  "cred_query (CreateLoginAttempt em uid ch oc rem rid)" "cred_query (CreateAuditLog ar)"
  "cred_query (UpsertFCMToken i dv tok pf ver)" "cred_query (DeactivateFCMToken j)"
  "cred_query (TouchFCMTokenLastUsed j)" "cred_query (CreateNotificationPreferences pr)"
  "cred_query (UpsertNotificationPreferences pr)" "cred_query (CreateNotificationLog nl)"
  "cred_query (DeleteProcessedOutboxBefore before)" "cred_query (DeleteLoginAttemptsBefore before)"
  by (rule query_stepsI, rule disjI1, rule credentials_same, auto simp: worker_query_defs service_query_defs
      split: if_splits option.splits list.splits)+

lemma wf_keys:
  assumes "wf_db n d"
  shows "distinct (map uID (users d))" "distinct (map srID (sessions d))" "distinct (map rrTokenHash (refreshTokens d))"
    "n \<notin> uID ` set (users d)" "n \<notin> srID ` set (sessions d)"
  using assms by (auto simp: wf_db_def)

lemma cred_CreateUser [simp]: "cred_query (CreateUser e h fn ln)"
proof (rule query_stepsI, rule disjI2)
  fix rl t n d x d'
  assume q: "CreateUser e h fn ln rl t n d = Inr (x, d')" and wf: "wf_db n d"
  from q have d': "d' = d\<lparr>users := users d @ [x]\<rparr>" and x: "uID x = n" "uEmail x = e" "live_user x"
    and new: "\<forall>u\<in>set (users d). live_user u \<longrightarrow> to_lower (uEmail u) \<noteq> to_lower e"
    by (auto simp: CreateUser_def Let_def citext_eq_def list_ex_iff live_user_def split: if_splits)
  have "credentials d' = (credentials d)\<lparr>csAccounts := (csAccounts (credentials d))(n \<mapsto> (e, True))\<rparr>"
    using wf_keys(4) [OF wf] x by (simp add: credentials_def d' table_append)
  moreover have "csAccounts (credentials d) n = None"
    using wf_keys(4) [OF wf] by (simp add: credentials_def table_None)
  moreover have "\<forall>j e'. csAccounts (credentials d) j = Some (e', True) \<longrightarrow> to_lower e' \<noteq> to_lower e"
    using new by (auto simp: credentials_def dest!: table_Some)
  ultimately show "cred_step (credentials d) (credentials d')" using account_opened by metis
qed

lemma close_accounts:
  assumes "wf_db n d" and "\<And>u. uID (f u) = uID u" and "\<And>u. P u \<Longrightarrow> uEmail (f u) = uEmail u \<and> live_user u \<and> \<not> live_user (f u)"
  shows "cred_step (credentials d) (credentials (d\<lparr>users := upd_where P f (users d)\<rparr>))"
proof -
  let ?v = "\<lambda>u. (uEmail u, live_user u)" and ?I = "uID ` set (filter P (users d))"
  note dist = wf_keys(1) [OF assms(1)]
  have "table uID ?v (upd_where P f (users d)) = shut (table uID ?v (users d)) ?I (\<lambda>(e, b). (e, False))"
    by (rule table_upd [OF dist assms(2)]) (simp add: assms(3))
  then have "credentials (d\<lparr>users := upd_where P f (users d)\<rparr>) =
      (credentials d)\<lparr>csAccounts := shut (csAccounts (credentials d)) ?I (\<lambda>(e, b). (e, False))\<rparr>"
    by (simp add: credentials_def)
  moreover have "\<forall>i\<in>?I. \<exists>y. table uID ?v (users d) i = Some y \<and> snd y"
    by (rule table_selected [OF dist]) (simp add: assms(3))
  then have "\<forall>i\<in>?I. \<exists>e. csAccounts (credentials d) i = Some (e, True)"
    by (fastforce simp: credentials_def)
  ultimately show ?thesis using accounts_closed by metis
qed

lemma close_sessions:
  assumes "wf_db n d" and "\<And>r. P r \<Longrightarrow> active_row r"
  shows "cred_step (credentials d) (credentials (d\<lparr>sessions := upd_where P (revoke_row t reason) (sessions d)\<rparr>))"
proof -
  let ?v = "\<lambda>r. (srUserID r, active_row r)" and ?I = "srID ` set (filter P (sessions d))"
  note dist = wf_keys(2) [OF assms(1)]
  have "table srID ?v (upd_where P (revoke_row t reason) (sessions d)) = shut (table srID ?v (sessions d)) ?I (\<lambda>(u, b). (u, False))"
    by (rule table_upd [OF dist]) (simp_all add: revoke_row_def active_row_def)
  then have "credentials (d\<lparr>sessions := upd_where P (revoke_row t reason) (sessions d)\<rparr>) =
      (credentials d)\<lparr>csSessions := shut (csSessions (credentials d)) ?I (\<lambda>(u, b). (u, False))\<rparr>"
    by (simp add: credentials_def)
  moreover have "\<forall>i\<in>?I. \<exists>y. table srID ?v (sessions d) i = Some y \<and> snd y"
    by (rule table_selected [OF dist]) (simp add: assms(2))
  then have "\<forall>i\<in>?I. \<exists>u. csSessions (credentials d) i = Some (u, True)"
    by (fastforce simp: credentials_def)
  ultimately show ?thesis using sessions_closed by metis
qed

lemma revoke_tokens:
  assumes "wf_db n d" and "\<And>r. P r \<Longrightarrow> live_token r"
  shows "cred_step (credentials d) (credentials (d\<lparr>refreshTokens := upd_where P (revoke_token t reason) (refreshTokens d)\<rparr>))"
proof -
  let ?v = "\<lambda>r. (rrSessionID r, rrTokenFamily r, live_token r)" and ?I = "rrTokenHash ` set (filter P (refreshTokens d))"
  note dist = wf_keys(3) [OF assms(1)]
  have "table rrTokenHash ?v (upd_where P (revoke_token t reason) (refreshTokens d)) =
      shut (table rrTokenHash ?v (refreshTokens d)) ?I (\<lambda>(i, fam, b). (i, fam, False))"
    by (rule table_upd [OF dist]) (simp_all add: revoke_token_def live_token_def)
  then have "credentials (d\<lparr>refreshTokens := upd_where P (revoke_token t reason) (refreshTokens d)\<rparr>) =
      (credentials d)\<lparr>csTokens := shut (csTokens (credentials d)) ?I (\<lambda>(i, fam, b). (i, fam, False))\<rparr>"
    by (simp add: credentials_def)
  moreover have "\<forall>i\<in>?I. \<exists>y. table rrTokenHash ?v (refreshTokens d) i = Some y \<and> snd (snd y)"
    by (rule table_selected [OF dist]) (simp add: assms(2))
  then have "\<forall>h\<in>?I. \<exists>i fam. csTokens (credentials d) h = Some (i, fam, True)"
    by (fastforce simp: credentials_def)
  ultimately show ?thesis using tokens_revoked by metis
qed

lemma forget_tokens:
  assumes "wf_db n d"
  shows "cred_step (credentials d) (credentials (d\<lparr>refreshTokens := filter P (refreshTokens d)\<rparr>))"
proof -
  have "credentials (d\<lparr>refreshTokens := filter P (refreshTokens d)\<rparr>) =
      (credentials d)\<lparr>csTokens := csTokens (credentials d) |` (rrTokenHash ` set (filter P (refreshTokens d)))\<rparr>"
    by (simp add: credentials_def table_filter [OF wf_keys(3) [OF assms]])
  then show ?thesis using tokens_forgotten by metis
qed

lemma cred_closing_queries [simp]:
  "cred_query (SoftDeleteUser i)" "cred_query (RevokeDeviceSession j reason)" "cred_query (RevokeAllDeviceSessionsByUser i reason)"
  "cred_query (RevokeActiveDeviceSessionsByDeviceID dv reason)" "cred_query (RevokeRefreshTokenByHash h reason)"
  "cred_query (RevokeRefreshTokensBySession j reason)" "cred_query (RevokeRefreshTokensByFamily fam reason)"
  "cred_query (DeleteStaleRefreshTokens before)"
  by (rule query_stepsI, rule disjI2, auto simp: SoftDeleteUser_def RevokeDeviceSession_def RevokeAllDeviceSessionsByUser_def
      RevokeActiveDeviceSessionsByDeviceID_def RevokeRefreshTokenByHash_def RevokeRefreshTokensBySession_def
      RevokeRefreshTokensByFamily_def DeleteStaleRefreshTokens_def live_user_def
      intro!: close_accounts close_sessions revoke_tokens forget_tokens split: list.splits)+

lemma cred_CreateDeviceSession [simp]: "cred_query (CreateDeviceSession p)"
proof (rule query_stepsI, rule disjI2)
  fix rl t n d x d'
  assume q: "CreateDeviceSession p rl t n d = Inr (x, d')" and wf: "wf_db n d"
  from q have d': "d' = d\<lparr>sessions := sessions d @ [x]\<rparr>" and x: "srID x = n" "srUserID x = nsUserID p" "active_row x"
    and u: "nsUserID p \<in> uID ` set (users d)"
    by (auto simp: CreateDeviceSession_def session_of_def active_row_def list_ex_iff has_user_def image_iff split: if_splits) metis
  have "credentials d' = (credentials d)\<lparr>csSessions := (csSessions (credentials d))(n \<mapsto> (nsUserID p, True))\<rparr>"
    using wf_keys(5) [OF wf] x by (simp add: credentials_def d' table_append)
  moreover have "csSessions (credentials d) n = None" "nsUserID p \<in> dom (csAccounts (credentials d))"
    using wf_keys(5) [OF wf] u by (auto simp: credentials_def table_None dom_def)
  ultimately show "cred_step (credentials d) (credentials d')" using session_opened by metis
qed

lemma cred_CreateRefreshToken [simp]: "cred_query (CreateRefreshToken i h p fam ex)"
proof (rule query_stepsI, rule disjI2)
  fix rl t n d x d'
  assume q: "CreateRefreshToken i h p fam ex rl t n d = Inr (x, d')" and wf: "wf_db n d"
  from q have d': "d' = d\<lparr>refreshTokens := refreshTokens d @ [x]\<rparr>"
    and x: "rrTokenHash x = h" "rrSessionID x = i" "live_token x"
    and new: "h \<notin> rrTokenHash ` set (refreshTokens d)" and s: "i \<in> srID ` set (sessions d)"
    by (auto simp: CreateRefreshToken_def Let_def live_token_def list_ex_iff split: if_splits option.splits)
  have "credentials d' = (credentials d)\<lparr>csTokens := (csTokens (credentials d))(h \<mapsto> (i, rrTokenFamily x, True))\<rparr>"
    using new x by (simp add: credentials_def d' table_append)
  moreover have "csTokens (credentials d) h = None" "i \<in> dom (csSessions (credentials d))"
    using new s by (auto simp: credentials_def table_None dom_def)
  ultimately show "cred_step (credentials d) (credentials d')" using token_issued by metis
qed

subsection \<open>The program refines the credential store\<close>

abbreviation cred_run :: "cred_store \<Rightarrow> int \<Rightarrow> database \<Rightarrow> bool" where
  "cred_run a \<equiv> run_from wf_db credentials cred_step a"

interpretation cred: system_invariant "cred_run a" for a
proof unfold_locales
  show "cred_run a n d \<Longrightarrow> n \<le> m \<Longrightarrow> cred_run a m d" for n d m
    using wf.later by (simp add: run_from_def) blast
qed (simp_all add: run_from_query core_all)

lemma credential_run:
  assumes "wired_service (syService y) n" and "remote_only y" and "(system_step y)\<^sup>*\<^sup>* w w'" and "wf_db (nextID w) (db w)"
  shows "cred_step\<^sup>*\<^sup>* (credentials (db w)) (credentials (db w'))"
proof -
  have "cred_run (credentials (db w)) (nextID w) (db w)" using assms(4) by (simp add: run_from_def)
  from cred.system_keeps [OF assms(1-3) this] show ?thesis by (simp add: run_from_def)
qed

text \<open>C2. The program refines the credential store: from tables that satisfy the constraints of the schema, whatever
  RPCs, drains, tasks and sweeps run and whatever fails, the accounts, sessions and refresh tokens change
  only by events of the abstract machine. An account opens under an address no open account has, a
  session on an existing account, a token on an existing session; closed accounts, revoked sessions and
  revoked tokens never open again and keep their owner, and only tokens are ever forgotten.\<close>

theorem program_refines_credential_store:
  assumes "wired_service (syService y) n" and "remote_only y" and "(system_step y)\<^sup>*\<^sup>* w w'" and "wf_db (nextID w) (db w)"
  shows "cred_step\<^sup>*\<^sup>* (credentials (db w)) (credentials (db w'))"
  using assms by (rule credential_run)

text \<open>So a session belongs to one account for ever, and an address to its account.\<close>

lemma owners_never_change:
  assumes "wired_service (syService y) n" and "remote_only y" and "(system_step y)\<^sup>*\<^sup>* w w'" and "wf_db (nextID w) (db w)"
    and "r \<in> set (sessions (db w))"
  shows "\<exists>r'\<in>set (sessions (db w')). srID r' = srID r \<and> srUserID r' = srUserID r \<and> (active_row r' \<longrightarrow> active_row r)"
proof -
  have "csSessions (credentials (db w)) (srID r) = Some (srUserID r, active_row r)"
    using assms(5) by (auto simp: credentials_def table_Some_iff [OF wf_keys(2) [OF assms(4)]])
  from cred_steps_keep(2) [OF credential_run [OF assms(1-4)] this] obtain c where
    c: "csSessions (credentials (db w')) (srID r) = Some (srUserID r, c)" "c \<longrightarrow> active_row r" by blast
  from c(1) obtain r' where "r' \<in> set (sessions (db w'))" "srID r' = srID r" "(srUserID r', active_row r') = (srUserID r, c)"
    using table_Some [of srID "\<lambda>r. (srUserID r, active_row r)" "sessions (db w')" "srID r"] by (auto simp: credentials_def)
  with c(2) show ?thesis by auto
qed

subsection \<open>Events of the outbox\<close>

text \<open>The row of an event: it keeps its type and payload, and only a sweep deletes it, when it is processed.\<close>

definition same_event :: "outbox_row \<Rightarrow> outbox_row \<Rightarrow> bool" where
  "same_event e r = (obID r = obID e \<and> obEventType r = obEventType e \<and> obPayload r = obPayload e)"

definition holds_event :: "outbox_row \<Rightarrow> int \<Rightarrow> database \<Rightarrow> bool" where
  "holds_event e n d = (\<exists>r\<in>set (outbox d). same_event e r)"

definition holds_pending :: "outbox_row \<Rightarrow> int \<Rightarrow> database \<Rightarrow> bool" where
  "holds_pending e n d = (\<exists>r\<in>set (outbox d). same_event e r \<and> pending_row r)"

definition holds_settled :: "outbox_row \<Rightarrow> database \<Rightarrow> bool" where
  "holds_settled e d = (\<exists>r\<in>set (outbox d). same_event e r \<and> \<not> pending_row r)"

lemma holds_event_cases: "holds_event e n d \<longleftrightarrow> holds_pending e n d \<or> holds_settled e d"
  by (auto simp: holds_event_def holds_pending_def holds_settled_def)

lemma holds_event_same: "holds_event e n d \<Longrightarrow> outbox d' = outbox d \<Longrightarrow> holds_event e (n + 1) d'"
  by (simp add: holds_event_def)

lemma holds_event_upd:
  assumes "holds_event e n d" and "\<And>r. same_event e (f r) = same_event e r"
  shows "holds_event e (n + 1) (d\<lparr>outbox := upd_where P f (outbox d)\<rparr>)"
proof -
  from assms(1) obtain r where r: "r \<in> set (outbox d)" "same_event e r" by (auto simp: holds_event_def)
  then have "(if P r then f r else r) \<in> set (upd_where P f (outbox d))" by (auto simp: upd_where_def)
  moreover have "same_event e (if P r then f r else r)" using r(2) assms(2) by simp
  ultimately show ?thesis by (auto simp: holds_event_def)
qed

lemma event_outbox_queries:
  "query_keeps (holds_event e) (InsertOutbox ty pl k)" "query_keeps (holds_event e) (MarkOutboxProcessed j)"
  "query_keeps (holds_event e) (MarkOutboxFailed j msg)"
proof -
  show "query_keeps (holds_event e) (InsertOutbox ty pl k)"
    by (rule query_keepsI) (auto simp: InsertOutbox_def holds_event_def split: if_splits)
  show "query_keeps (holds_event e) (MarkOutboxProcessed j)" "query_keeps (holds_event e) (MarkOutboxFailed j msg)"
    by (rule query_keepsI, auto simp: MarkOutboxProcessed_def MarkOutboxFailed_def mark_processed_def
        mark_failed_def same_event_def intro!: holds_event_upd)+
qed

lemma event_frame_queries:
  "query_keeps (holds_event e) (UpdateUserLastLogin i)" "query_keeps (holds_event e) (UpdateUserPasswordHash i h)"
  "query_keeps (holds_event e) (MarkUserEmailVerified i)" "query_keeps (holds_event e) (CreateUser em h fn ln)"
  "query_keeps (holds_event e) (CreateUserSettings i st)" "query_keeps (holds_event e) (CreateDeviceSession p)"
  "query_keeps (holds_event e) (RevokeDeviceSession i reason)" "query_keeps (holds_event e) (RevokeAllDeviceSessionsByUser i reason)"
  "query_keeps (holds_event e) (RevokeActiveDeviceSessionsByDeviceID dv reason)"
  "query_keeps (holds_event e) (CreateRefreshToken i h pre fam ex)" "query_keeps (holds_event e) (RevokeRefreshTokenByHash h reason)"
  "query_keeps (holds_event e) (RevokeRefreshTokensBySession i reason)"
  "query_keeps (holds_event e) (RevokeRefreshTokensByFamily ofam reason)" "query_keeps (holds_event e) (UpdateUserStatus i us)"
  "query_keeps (holds_event e) (UpdateUserRole i ro)" "query_keeps (holds_event e) (SoftDeleteUser i)"
  "query_keeps (holds_event e) (InsertOutboxDeadLetter dl)" "query_keeps (holds_event e) (CreateLoginAttempt em uid ch oc rem rid)"
  "query_keeps (holds_event e) (CreateAuditLog ar)" "query_keeps (holds_event e) (UpdateUserProfile i pu)"
  by (rule query_keepsI, erule holds_event_same, auto simp: service_query_defs Let_def split: if_splits option.splits list.splits)+

lemma event_worker_queries:
  "query_keeps (holds_event e) (UpdateUserSettings i st)" "query_keeps (holds_event e) (CreateSuspension i rs details until perm)"
  "query_keeps (holds_event e) (DeactivateActiveSuspensions i)" "query_keeps (holds_event e) (UpsertFCMToken i dv tok pf ver)"
  "query_keeps (holds_event e) (DeactivateFCMToken j)" "query_keeps (holds_event e) (TouchFCMTokenLastUsed j)"
  "query_keeps (holds_event e) (CreateNotificationPreferences pr)" "query_keeps (holds_event e) (UpsertNotificationPreferences pr)"
  "query_keeps (holds_event e) (CreateNotificationLog nl)"
  by (rule query_keepsI, erule holds_event_same, auto simp: worker_query_defs split: if_splits option.splits list.splits)+

interpretation event: worker_invariant "holds_event e" for e
proof unfold_locales
  show "holds_event e n d \<Longrightarrow> n \<le> m \<Longrightarrow> holds_event e m d" for n d m by (simp add: holds_event_def)
qed (simp_all add: event_outbox_queries event_frame_queries event_worker_queries)

interpretation pending: db_invariant "holds_pending e" for e
  by unfold_locales (simp add: holds_pending_def)

lemma sweep_keeps_pending: "keeps_db (holds_pending e) (sweep cfg c)"
proof -
  have "query_keeps (holds_pending e) (DeleteStaleRefreshTokens before)"
    "query_keeps (holds_pending e) (DeleteProcessedOutboxBefore before)"
    "query_keeps (holds_pending e) (DeleteLoginAttemptsBefore before)" for before
    by (rule query_keepsI, force simp: DeleteStaleRefreshTokens_def DeleteProcessedOutboxBefore_def
        DeleteLoginAttemptsBefore_def Let_def holds_pending_def pending_row_def split: if_splits)+
  then show ?thesis
    unfolding sweep_def sweeper_run_def by (intro pending.keeps_intros) simp_all
qed

lemma pending_event_step:
  assumes "wired_service (syService y) n" and "remote_only y" and "system_step y w w'" and "holds_pending e (nextID w) (db w)"
  shows "holds_event e (nextID w') (db w')"
proof -
  have "holds_event e (nextID w) (db w)" using assms(4) by (simp add: holds_event_cases)
  from event.step_but_sweep [OF assms(1-3) this] show ?thesis
    using keeps_db_step [OF _ assms(4) sweep_keeps_pending] by (auto simp: holds_event_cases)
qed

text \<open>C3. No event is lost between the outbox and its processing: however the program goes on from a state in
  which a row of the outbox is pending, the row is still there, pending, with its type and payload, or
  some state on the way had it processed. In particular no sweep, no dead letter and no failed drain
  removes a row before it is processed.\<close>

theorem outbox_event_never_lost:
  assumes "wired_service (syService y) n" and "remote_only y" and "(system_step y)\<^sup>*\<^sup>* w w'"
    and "e \<in> set (outbox (db w))" and "pending_row e"
  shows "holds_pending e (nextID w') (db w') \<or>
    (\<exists>v. (system_step y)\<^sup>*\<^sup>* w v \<and> holds_settled e (db v) \<and> (system_step y)\<^sup>*\<^sup>* v w')"
  using assms(3)
proof (induction rule: rtranclp_induct)
  case base
  then show ?case using assms(4,5) by (auto simp: holds_pending_def same_event_def)
next
  case (step v v')
  from step.IH show ?case
  proof
    assume "holds_pending e (nextID v) (db v)"
    from pending_event_step [OF assms(1,2) step.hyps(2) this] show ?thesis
      using rtranclp.rtrancl_into_rtrancl [OF step.hyps] by (auto simp: holds_event_cases)
  qed (use step.hyps(2) in \<open>blast intro: rtranclp.rtrancl_into_rtrancl\<close>)
qed

end
