(* ===== verification/Platform_Config.thy ===== *)
theory Platform_Config
  imports Emails_Worker Maintenance_Sweeper
begin

section \<open>Configuration, environment and connection strings\<close>

text \<open>
  Models \<open>pkg/config\<close> (the configuration records, their defaults, \<open>LoadAllConfigs\<close> and \<open>Validate\<close>),
  \<open>pkg/env\<close>, and \<open>internal/platform/db/connection.go\<close>. Reading and decoding a YAML file, pgx and
  \<open>time.ParseDuration\<close> are arguments. Strings are ASCII here.
\<close>

subsection \<open>The environment\<close>

definition env_production :: string where "env_production = ''production''"
definition env_testing :: string where "env_testing = ''testing''"
definition env_development :: string where "env_development = ''development''"

text \<open>The classes \<open>\s\<close> and \<open>[a-z0-9\s]\<close> of the regular expressions.\<close>

definition re_space :: "char \<Rightarrow> bool" where
  "re_space c = (let n = (of_char c :: nat) in n \<in> {9, 10, 12, 13, 32})"

definition env_char :: "char \<Rightarrow> bool" where
  "env_char c = (let n = (of_char c :: nat) in 97 \<le> n \<and> n \<le> 122 \<or> 48 \<le> n \<and> n \<le> 57 \<or> re_space c)"

fun collapse_spaces :: "string \<Rightarrow> bool \<Rightarrow> string" where
  "collapse_spaces [] prev = []"
| "collapse_spaces (c # cs) prev =
     (if re_space c then (if prev then collapse_spaces cs True else CHR '' '' # collapse_spaces cs True)
      else c # collapse_spaces cs False)"

definition sanitize :: "string \<Rightarrow> string" where
  "sanitize s =
     (let s = trim_space s; s = to_lower s; s = filter env_char s in collapse_spaces s False)"

definition GetOrDefault :: "(string \<Rightarrow> string) \<Rightarrow> string \<Rightarrow> string \<Rightarrow> string" where
  "GetOrDefault Getenv key defaultVal =
     (let val = Getenv key; val = (if val = [] then defaultVal else val) in sanitize val)"

definition InitApp :: "(string \<Rightarrow> string) \<Rightarrow> string" where
  "InitApp Getenv =
     (let v = GetOrDefault Getenv ''APP_ENV'' (Getenv ''GO_ENV'')
      in if v = env_production \<or> v = ''prod'' then env_production
         else if v = env_testing \<or> v = ''test'' then env_testing
         else env_development)"

definition IsDev :: "(string \<Rightarrow> string) \<Rightarrow> bool" where
  "IsDev Getenv =
     (let appEnv = to_lower (GetOrDefault Getenv ''APP_ENV'' (Getenv ''GO_ENV''))
      in appEnv = env_development \<or> appEnv = ''dev'' \<or> appEnv = env_testing \<or> appEnv = ''test'')"

subsection \<open>Credentials and pools\<close>

record db_credentials =
  dcHost :: string
  dcPort :: string
  dcUser :: string
  dcPassword :: string
  dcDBName :: string
  dcSSLMode :: string

record connection_pool_config =
  cpMaxOpenConnections :: int
  cpMinOpenConnections :: int
  cpConnectionMaxLifetime :: string
  cpConnectionMaxIdleTime :: string
  cpHealthCheckPeriod :: string

record database_config =
  dbCredentials :: db_credentials
  dbAppCredentials :: db_credentials
  dbAdminCredentials :: db_credentials
  dbConnectionPool :: connection_pool_config
  dbAppPool :: "connection_pool_config option"
  dbAdminPool :: "connection_pool_config option"
  dbMigratePool :: "connection_pool_config option"
  dbStatementTimeoutMs :: int

definition RoleAppDB :: string where "RoleAppDB = ''app''"
definition RoleAdminDB :: string where "RoleAdminDB = ''admin''"
definition RoleMigrationDB :: string where "RoleMigrationDB = ''migration''"

definition searchPath :: string where "searchPath = ''public,auth,notifications,audit,events''"

definition credentialsFor :: "database_config \<Rightarrow> string \<Rightarrow> goerr + db_credentials" where
  "credentialsFor cfg role =
     (if role = RoleAppDB then
        (if dcUser (dbAppCredentials cfg) = []
         then Inl (MsgE ''app role credentials not configured: set DB_API_USER and DB_API_PASSWORD'')
         else Inr (dbAppCredentials cfg))
      else if role = RoleAdminDB then
        (if dcUser (dbAdminCredentials cfg) = []
         then Inl (MsgE ''admin role credentials not configured: set DB_WORKER_USER and DB_WORKER_PASSWORD'')
         else Inr (dbAdminCredentials cfg))
      else Inr (dbCredentials cfg))"

definition pool_or :: "connection_pool_config option \<Rightarrow> connection_pool_config \<Rightarrow> connection_pool_config" where
  "pool_or p d = (case p of Some c \<Rightarrow> c | None \<Rightarrow> d)"

definition poolFor :: "database_config \<Rightarrow> string \<Rightarrow> connection_pool_config" where
  "poolFor cfg role =
     (if role = RoleAppDB then pool_or (dbAppPool cfg) (dbConnectionPool cfg)
      else if role = RoleAdminDB then pool_or (dbAdminPool cfg) (dbConnectionPool cfg)
      else if role = RoleMigrationDB then pool_or (dbMigratePool cfg) (dbConnectionPool cfg)
      else dbConnectionPool cfg)"

record pgx_pool_config =
  pxMaxConns :: int
  pxMinConns :: int
  pxMaxConnLifetime :: duration
  pxMaxConnIdleTime :: duration
  pxHealthCheckPeriod :: duration
  pxRuntimeParams :: "string \<rightharpoonup> string"

definition applyPoolConfig ::
  "(string \<Rightarrow> duration option) \<Rightarrow> connection_pool_config \<Rightarrow> pgx_pool_config \<Rightarrow> pgx_pool_config" where
  "applyPoolConfig ParseDuration pc p =
     (let p = (if cpMaxOpenConnections pc > 0 then p\<lparr>pxMaxConns := wrap32 (cpMaxOpenConnections pc)\<rparr> else p);
          p = (if cpMinOpenConnections pc > 0 then p\<lparr>pxMinConns := wrap32 (cpMinOpenConnections pc)\<rparr> else p);
          p = (case ParseDuration (cpConnectionMaxLifetime pc) of Some d \<Rightarrow> p\<lparr>pxMaxConnLifetime := d\<rparr> | None \<Rightarrow> p);
          p = (case ParseDuration (cpConnectionMaxIdleTime pc) of Some d \<Rightarrow> p\<lparr>pxMaxConnIdleTime := d\<rparr> | None \<Rightarrow> p);
          p = (case ParseDuration (cpHealthCheckPeriod pc) of Some d \<Rightarrow> p\<lparr>pxHealthCheckPeriod := d\<rparr> | None \<Rightarrow> p)
      in p)"

subsection \<open>Connection strings\<close>

definition quoteDSN :: "string \<Rightarrow> string" where
  "quoteDSN v =
     (let v = replace_char (CHR 0x5C) [CHR 0x5C, CHR 0x5C] v;
          v = replace_char (CHR 0x27) [CHR 0x5C, CHR 0x27] v
      in CHR 0x27 # v @ [CHR 0x27])"

definition BuildDSN :: "db_credentials \<Rightarrow> string list \<Rightarrow> string" where
  "BuildDSN creds extra =
     (let dsn = ''host='' @ quoteDSN (dcHost creds) @ '' port='' @ quoteDSN (dcPort creds) @ '' user='' @ quoteDSN (dcUser creds) @
            '' password='' @ quoteDSN (dcPassword creds) @ '' dbname='' @ quoteDSN (dcDBName creds) @
            '' sslmode='' @ quoteDSN (dcSSLMode creds)
      in if length extra > 0 then dsn @ '' '' @ join_with '' '' extra else dsn)"

text \<open>\<open>InitPool\<close> up to the pool it opens: pgx parses the connection string, connects and pings.\<close>

record pgx_api =
  pxParseConfig :: "string \<Rightarrow> goerr + pgx_pool_config"
  pxConnect :: "pgx_pool_config \<Rightarrow> goerr option"
  pxPing :: "pgx_pool_config \<Rightarrow> goerr option"

definition InitPool ::
  "pgx_api \<Rightarrow> (string \<Rightarrow> duration option) \<Rightarrow> database_config \<Rightarrow> string \<Rightarrow> goerr + pgx_pool_config" where
  "InitPool pgx ParseDuration cfg role =
     (case credentialsFor cfg role of Inl e \<Rightarrow> Inl (WrapE ''database role misconfiguration'' e)
      | Inr creds \<Rightarrow>
          let stmtTimeout = (if dbStatementTimeoutMs cfg \<le> 0 then 5000 else dbStatementTimeoutMs cfg)
          in case pxParseConfig pgx (BuildDSN creds []) of Inl e \<Rightarrow> Inl (WrapE ''parse db config'' e)
             | Inr p \<Rightarrow>
                 let p = p\<lparr>pxRuntimeParams := (pxRuntimeParams p)(''search_path'' \<mapsto> searchPath,
                       ''statement_timeout'' \<mapsto> show_int stmtTimeout)\<rparr>;
                     p = applyPoolConfig ParseDuration (poolFor cfg role) p
                 in case pxConnect pgx p of Some e \<Rightarrow> Inl (WrapE ''connect postgres'' e)
                    | None \<Rightarrow> (case pxPing pgx p of Some e \<Rightarrow> Inl (WrapE ''ping database'' e) | None \<Rightarrow> Inr p))"

subsection \<open>The configuration files\<close>

record app_config =
  apName :: string
  apVersion :: string
  apPort :: string
  apReflection :: bool
  apMaxRecvMsgSizeBytes :: int
  apMaxSendMsgSizeBytes :: int
  apConnectionTimeout :: duration
  apKeepaliveTime :: duration
  apKeepaliveTimeout :: duration
  apMaxConnectionIdle :: duration
  apMaxConnectionAge :: duration
  apMaxConnectionAgeGrace :: duration
  apMinClientInterval :: duration
  apShutdownGrace :: duration
  apDefaultLanguage :: string
  apLocalesDir :: string

definition GetServerAddress :: "app_config \<Rightarrow> string" where
  "GetServerAddress c = ''0.0.0.0:'' @ apPort c"

record redis_config =
  rcHost :: string
  rcPort :: int
  rcPassword :: string
  rcDB :: int
  rcPoolSize :: int
  rcMinIdleConns :: int
  rcMaxIdleConns :: int
  rcConnMaxLifetime :: duration
  rcConnMaxIdleTime :: duration
  rcPoolTimeout :: duration
  rcMaxRetries :: int
  rcMinRetryBackoff :: duration
  rcMaxRetryBackoff :: duration
  rcDialTimeout :: duration
  rcReadTimeout :: duration
  rcWriteTimeout :: duration
  rcCachePrefix :: string

definition redis_Credentials :: "redis_config \<Rightarrow> string \<times> string" where
  "redis_Credentials r = (rcHost r @ '':'' @ show_int (rcPort r), rcPassword r)"

text \<open>The part of the security configuration that \<open>Auth_Service\<close> uses is its \<open>auth_config\<close>.\<close>

record security_config =
  scAuth :: auth_config
  scMinLength :: int
  scAlphabet :: string

record storage_config =
  stEndpoint :: string
  stAccessKey :: string
  stSecretKey :: string
  stBucket :: string
  stUseSSL :: bool
  stPublicBaseURL :: string

definition storage_Enabled :: "storage_config option \<Rightarrow> bool" where
  "storage_Enabled c = (case c of None \<Rightarrow> False | Some c \<Rightarrow> stEndpoint c \<noteq> [])"

record firebase_config =
  fbProjectID :: string
  fbCredentialsFile :: string

record gateway_config =
  gwEnabled :: bool
  gwListenAddr :: string
  gwUpstreamAddr :: string

record events_config =
  evInterval :: duration
  evBatchSize :: int
  evMetricsInterval :: duration
  evDrainOnAPI :: bool
  evConcurrency :: int

definition events_applyDefaults :: "events_config \<Rightarrow> events_config" where
  "events_applyDefaults c =
     (let c = (if evInterval c = 0 then c\<lparr>evInterval := 5 * second\<rparr> else c);
          c = (if evBatchSize c = 0 then c\<lparr>evBatchSize := 100\<rparr> else c);
          c = (if evMetricsInterval c = 0 then c\<lparr>evMetricsInterval := 15 * second\<rparr> else c);
          c = (if evConcurrency c = 0 then c\<lparr>evConcurrency := 10\<rparr> else c)
      in c)"

record configs =
  csApp :: app_config
  csDatabase :: database_config
  csRedis :: redis_config
  csSecurity :: security_config
  csNotifications :: notif_config
  csEmail :: email_config
  csEvents :: events_config
  csStorage :: storage_config
  csFirebase :: firebase_config
  csGateway :: gateway_config
  csMaintenance :: maintenance_config

definition config_problems :: "configs \<Rightarrow> string list" where
  "config_problems c =
     (if apPort (csApp c) = [] then [''server port is required''] else []) @
     (if apName (csApp c) = [] then [''app name is required''] else []) @
     (if dcHost (dbAppCredentials (csDatabase c)) = [] \<or> dcDBName (dbAppCredentials (csDatabase c)) = []
      then [''database app credentials (host, dbname) are required''] else []) @
     (if rcHost (csRedis c) = [] then [''redis host is required''] else []) @
     (if scAlphabet (csSecurity c) = [] \<or> scMinLength (csSecurity c) \<le> 0
      then [''id_obfuscation (alphabet, min_length) is required''] else [])"

definition configs_Validate :: "configs \<Rightarrow> goerr + unit" where
  "configs_Validate c =
     (let problems = config_problems c
      in if length problems > 0 then Inl (MsgE (join_with ''; '' problems)) else Inr ())"

text \<open>What reading and decoding each file gives.\<close>

record config_files =
  cfApi :: "goerr + app_config"
  cfDatabase :: "goerr + database_config"
  cfRedis :: "goerr + redis_config"
  cfSecurity :: "goerr + security_config"
  cfNotifications :: "goerr + notif_config"
  cfEmail :: "goerr + email_config"
  cfEvents :: "goerr + events_config"
  cfStorage :: "goerr + storage_config"
  cfFirebase :: "goerr + firebase_config"
  cfGateway :: "goerr + gateway_config"
  cfMaintenance :: "goerr + maintenance_config"

definition load_as :: "string \<Rightarrow> goerr + 'a \<Rightarrow> ('a \<Rightarrow> goerr + 'b) \<Rightarrow> goerr + 'b" where
  "load_as what r f = (case r of Inl e \<Rightarrow> Inl (WrapE what e) | Inr x \<Rightarrow> f x)"

definition LoadAllConfigs :: "config_files \<Rightarrow> goerr + configs" where
  "LoadAllConfigs fs =
     load_as ''api config'' (cfApi fs) (\<lambda>app.
     load_as ''database config'' (cfDatabase fs) (\<lambda>db.
     load_as ''redis config'' (cfRedis fs) (\<lambda>redis.
     load_as ''security config'' (cfSecurity fs) (\<lambda>security.
     load_as ''notifications config'' (cfNotifications fs) (\<lambda>notifications.
     load_as ''email config'' (cfEmail fs) (\<lambda>email.
     load_as ''events config'' (cfEvents fs) (\<lambda>events.
     load_as ''storage config'' (cfStorage fs) (\<lambda>storage.
     load_as ''firebase config'' (cfFirebase fs) (\<lambda>firebase.
     load_as ''gateway config'' (cfGateway fs) (\<lambda>gateway.
     load_as ''maintenance config'' (cfMaintenance fs) (\<lambda>maintenance.
       let cfg = \<lparr>csApp = app, csDatabase = db, csRedis = redis, csSecurity = security, csNotifications = notifications,
             csEmail = email, csEvents = events_applyDefaults events, csStorage = storage, csFirebase = firebase,
             csGateway = gateway, csMaintenance = maintenance_applyDefaults maintenance\<rparr>
       in load_as ''invalid config'' (configs_Validate cfg) (\<lambda>_. Inr cfg))))))))))))"

end
