(* ===== verification/Gate_Guarantees.thy ===== *)
theory Gate_Guarantees
  imports Login_Guarantees
begin

section \<open>What the interceptor chain guarantees\<close>

text \<open>
  Properties of the unary chain of \<open>internal/interceptor\<close>: only an authenticated request reaches a
  handler that is not public, only an administrator one of the admin service, what leaves the chain
  is a status, and what a panic does to the in-flight gauge.
\<close>

subsection \<open>The chain, written out\<close>

text \<open>The part of the chain below the error mapping, and the context it runs in.\<close>

definition guarded :: "('r, 'q) icset \<Rightarrow> string \<Rightarrow> ('r, 'q, 'p) handler \<Rightarrow> ('r, 'q, 'p) handler" where
  "guarded i m h = authUnary i m (validationUnary i m h)"

definition inner_ctx :: "('r, 'q) icset \<Rightarrow> string \<Rightarrow> ctx \<Rightarrow> ctx" where
  "inner_ctx i rid c = c\<lparr>cxRequestID := rid, cxLanguage := resolveLanguage i (c\<lparr>cxRequestID := rid\<rparr>)\<rparr>"

lemma serve_unfold:
  "serve i m h = recoveryUnary m (metricsUnary m (requestIDUnary i m (loggingUnary m (localeUnary i m (errorUnary i m (guarded i m h))))))"
  by (simp add: serve_def chain_def Unary_def guarded_def)

lemma BearerToken_ctx [simp]: "BearerToken (inner_ctx i rid c) = BearerToken c"
  by (simp add: BearerToken_def inner_ctx_def md_get_def)

text \<open>The outer interceptors ask the part below them once, in a world with the tables, the clock and the
  Redis of the call.\<close>

definition same_services :: "'r world \<Rightarrow> 'r world \<Rightarrow> bool" where
  "same_services w w' = (db w' = db w \<and> redis w' = redis w \<and> now w' = now w \<and> rpcInFlight w' = rpcInFlight w + 1)"

lemma serve_inner:
  "\<exists>rid w0. same_services w w0 \<and> (\<forall>h h'. run_state (guarded i m h (inner_ctx i rid c) req) w0 =
      run_state (guarded i m h' (inner_ctx i rid c) req) w0 \<longrightarrow>
    run_state (serve i m h c req) w = run_state (serve i m h' c req) w)"
proof -
  let ?inc = "incomingRequestID c" and ?w1 = "w\<lparr>rpcInFlight := rpcInFlight w + 1\<rparr>"
  obtain rid w0 where r: "run_state (if ?inc = [] then NewUUIDNoDash (icExt i) else ret ?inc) ?w1 = (rid, w0)" by fastforce
  then have "same_services w w0"
    by (auto simp: same_services_def NewUUIDNoDash_def split: if_splits)
  moreover have "run_state (serve i m h c req) w = run_state (serve i m h' c req) w"
    if "run_state (guarded i m h (inner_ctx i rid c) req) w0 = run_state (guarded i m h' (inner_ctx i rid c) req) w0" for h h'
    using that r
    by (simp add: serve_unfold recoveryUnary_def metricsUnary_def requestIDUnary_def loggingUnary_def localeUnary_def
        errorUnary_def inner_ctx_def Let_def)
  ultimately show ?thesis by blast
qed

lemma at_Validate_Inr:
  assumes "redis_service (xRedis E)" and "fst (run_state (at_Validate E tok) w) = Inr cl"
  shows "visible (rdKeys (xRedis E) (redis w)) (now w) (redisKey E tok) = Some (RData (JClaims cl))"
  using assms(2)
  by (auto simp: at_Validate_def redis_call_def redis_service.get_law [OF assms(1)] split: sum.splits prod.splits
      option.splits redis_value.splits cache_value.splits list.splits bool.splits)

lemma gate:
  assumes "services (icExt i)" and "m \<notin> set publicMethods"
    and "run_state (serve i m h c req) w \<noteq> run_state (serve i m h' c req) w"
  shows "\<exists>tok cl r u. BearerToken c = Inr tok \<and>
    visible (rdKeys (xRedis (icExt i)) (redis w)) (now w) (redisKey (icExt i) tok) = Some (RData (JClaims cl)) \<and>
    r \<in> set (sessions (db w)) \<and> srID r = acSessionID cl \<and> \<not> stamped r \<and> now w - srLastActivity r \<le> icMaxInactivity i \<and>
    u \<in> set (users (db w)) \<and> uID u = srUserID r \<and> live_user u \<and> uStatus u = StActive \<and>
    (has_prefix m adminServicePrefix \<longrightarrow> user_IsAdmin u)"
proof -
  from serve_inner [of w i m c req] assms(3) obtain rid w0 where w0: "same_services w w0" and
    d: "run_state (guarded i m h (inner_ctx i rid c) req) w0 \<noteq> run_state (guarded i m h' (inner_ctx i rid c) req) w0"
    by blast
  obtain x w1 where a: "run_state (authenticate i (inner_ctx i rid c)) w0 = (x, w1)" by fastforce
  with d assms(2) obtain u ds where x: "x = Inr (u, ds)" "has_prefix m adminServicePrefix \<longrightarrow> user_IsAdmin u"
    by (cases x) (auto simp: guarded_def authUnary_def split: if_splits)
  from authenticate_Inr [OF a [unfolded x(1)]] obtain tok cl r where
    r: "BearerToken c = Inr tok" "fst (run_state (at_Validate (icExt i) tok) w0) = Inr cl" "session_loaded (db w0) r u ds"
      "srID r = acSessionID cl" "\<not> stamped r" "now w0 - srLastActivity r \<le> icMaxInactivity i" "uStatus u = StActive"
    by auto
  have "redis_service (xRedis (icExt i))" using services.axioms(1) [OF assms(1)] .
  from at_Validate_Inr [OF this r(2)] r w0 x(2) show ?thesis
    by (auto simp: same_services_def session_loaded_def)
qed

text \<open>C30. The gate: the answer to a call of a method that is not public depends on its handler only when
  the request carries the token of claims that Redis holds for a session that is not revoked and not
  idle, of a live and active user, who is an administrator if the method belongs to the admin
  service; otherwise the handler has no influence at all, on the answer or on any state.\<close>

theorem handler_runs_only_authenticated:
  assumes "services (icExt i)" and "m \<notin> set publicMethods"
    and "run_state (serve i m h c req) w \<noteq> run_state (serve i m h' c req) w"
  shows "\<exists>tok cl r u. BearerToken c = Inr tok \<and>
    visible (rdKeys (xRedis (icExt i)) (redis w)) (now w) (redisKey (icExt i) tok) = Some (RData (JClaims cl)) \<and>
    r \<in> set (sessions (db w)) \<and> srID r = acSessionID cl \<and> \<not> stamped r \<and> now w - srLastActivity r \<le> icMaxInactivity i \<and>
    u \<in> set (users (db w)) \<and> uID u = srUserID r \<and> live_user u \<and> uStatus u = StActive \<and>
    (has_prefix m adminServicePrefix \<longrightarrow> user_IsAdmin u)"
  by (rule gate [OF assms])

subsection \<open>What leaves the chain\<close>

definition is_panic :: "goerr \<Rightarrow> bool" where
  "is_panic e = (case e of PanicE _ \<Rightarrow> True | _ \<Rightarrow> False)"

lemma panicked_simps [simp]: "panicked (Inl e) = is_panic e" "\<not> panicked (Inr x)"
  by (simp_all add: panicked_def is_panic_def)

lemma mapError_status: "is_status (mapError c e tr)" "\<not> is_panic (mapError c e tr)"
  by (auto simp: mapError_def is_status_def Let_def is_panic_def split: option.splits goerr.splits)

definition leaves_clean :: "('r, 'q, 'p) handler \<Rightarrow> bool" where
  "leaves_clean h = (\<forall>c req w e. fst (run_state (h c req) w) = Inl e \<longrightarrow> is_status e \<or> is_panic e)"

lemma clean_outer:
  "leaves_clean h \<Longrightarrow> leaves_clean (loggingUnary m h)" "leaves_clean h \<Longrightarrow> leaves_clean (localeUnary i m h)"
  "leaves_clean h \<Longrightarrow> leaves_clean (requestIDUnary i m h)" "leaves_clean h \<Longrightarrow> leaves_clean (metricsUnary m h)"
  "leaves_clean (errorUnary i m k)"
  by (fastforce simp: leaves_clean_def loggingUnary_def localeUnary_def requestIDUnary_def metricsUnary_def errorUnary_def
      Let_def mapError_status case_prod_beta split: if_splits sum.splits)+


subsection \<open>The gauge of calls in flight\<close>

text \<open>The metrics of the server, and what leaves them alone: authentication does.\<close>

definition rpc_view :: "'r world \<Rightarrow> int \<times> (string \<times> gcode) list \<times> (string \<times> gcode \<times> bool) list" where
  "rpc_view w = (rpcInFlight w, rpcTotals w, rpcLogs w)"

interpretation rv: tx_view "\<lambda>_. ()" rpc_view
  by unfold_locales (simp_all add: rpc_view_def)

lemma rpc_frame: "frames (\<lambda>w. ((), rpc_view w)) m \<Longrightarrow> frames rpc_view m"
  by (simp add: frames_def)

lemma frames_authenticate: "frames rpc_view (authenticate i c)"
proof -
  have find: "frames rpc_view (sessions_FindByID c j)" for c j
    unfolding sessions_FindByID_def Let_def by (intro rpc_frame rv.run_view frames_intros rv.exec_view) simp_all
  have "frames rpc_view (at_Validate E tok)" for E tok
    unfolding at_Validate_def
    by (auto simp: rpc_view_def intro!: frames_intros frames_redis_call split: redis_value.split cache_value.split option.split)
  then show ?thesis
    unfolding authenticate_def by (auto simp: find intro!: frames_intros)
qed

lemma guarded_rpc: "(\<And>c q. frames rpc_view (h c q)) \<Longrightarrow> frames rpc_view (guarded i m h c req)"
  unfolding guarded_def authUnary_def validationUnary_def by (intro frames_intros frames_authenticate) simp_all

text \<open>Each call is counted once, with the code of its answer, and gives the in-flight gauge back, unless
  its handler panics: a panic that reaches the chain becomes an internal error for the client, but is
  never counted and leaves the gauge one too high for good.\<close>

theorem panic_leaks_inflight_gauge:
  assumes "\<And>c q. frames rpc_view (h c q)"
  shows "let out = run_state (serve i m h c req) w; w' = snd out in
    (rpcInFlight w' = rpcInFlight w \<and> rpcTotals w' = rpcTotals w @ [(m, status_code (fst out))]) \<or>
    (rpcInFlight w' = rpcInFlight w + 1 \<and> rpcTotals w' = rpcTotals w \<and>
     fst out = Inl (StatusE Internal ''internal error'') \<and>
     (\<exists>v c' msg. fst (run_state (guarded i m h c' req) v) = Inl (PanicE msg)))"
proof -
  let ?inc = "incomingRequestID c" and ?w1 = "w\<lparr>rpcInFlight := rpcInFlight w + 1\<rparr>"
  obtain rid w0 where r: "run_state (if ?inc = [] then NewUUIDNoDash (icExt i) else ret ?inc) ?w1 = (rid, w0)" by fastforce
  then have w0: "rpcInFlight w0 = rpcInFlight w + 1" "rpcTotals w0 = rpcTotals w"
    by (auto simp: NewUUIDNoDash_def split: if_splits)
  obtain x w2 where g: "run_state (guarded i m h (inner_ctx i rid c) req) w0 = (x, w2)" by fastforce
  with framesD [OF guarded_rpc [OF assms] g] w0
  have w2: "rpcInFlight w2 = rpcInFlight w + 1" "rpcTotals w2 = rpcTotals w" by (simp_all add: rpc_view_def)
  show ?thesis
  proof (cases "panicked x")
    case True
    then obtain msg where x: "x = Inl (PanicE msg)" by (auto simp: panicked_def split: sum.splits goerr.splits)
    with g have "fst (run_state (guarded i m h (inner_ctx i rid c) req) w0) = Inl (PanicE msg)" by simp
    then have "\<exists>v c' msg. fst (run_state (guarded i m h c' req) v) = Inl (PanicE msg)" by blast
    with g r w2 x show ?thesis
      by (auto simp: serve_unfold recoveryUnary_def metricsUnary_def requestIDUnary_def loggingUnary_def localeUnary_def
          errorUnary_def inner_ctx_def [symmetric] Let_def is_panic_def)
  next
    case False
    with g r w2 show ?thesis
      by (auto simp: serve_unfold recoveryUnary_def metricsUnary_def requestIDUnary_def loggingUnary_def localeUnary_def
          errorUnary_def inner_ctx_def [symmetric] Let_def mapError_status split: sum.split)
  qed
qed

end
