(* ===== verification/Grpc_Server.thy ===== *)
theory Grpc_Server
  imports System_Steps Platform_Config Gate_Guarantees
begin

section \<open>The gRPC server: registration, options, shutdown\<close>

text \<open>
  \<open>internal/grpcsvc/server.go\<close>: the handlers of the four services registered behind the interceptor
  chain, the server options made of the configuration, and \<open>Shutdown\<close>, which flips the health service
  and drains the calls in flight against a timer. The gRPC library is a parameter: its server is the
  locale \<open>graceful_server\<close>.
\<close>

subsection \<open>Registered methods\<close>

text \<open>What a server is built from; the pings of the health service are functions of the world.\<close>

record 'r grpc_deps =
  gdProcesses :: "'r processes"
  gdVersion :: string
  gdPingDB :: "'r world \<Rightarrow> bool"
  gdPingCache :: "'r world \<Rightarrow> bool"

datatype grpc_request = Rpc rpc | HealthCheck | HealthReady

datatype rpc_answer = AnsTokens pb_token_pair | AnsEmpty | AnsDevices "pb_device list" | AnsUser pb_user
  | AnsPublicUser pb_public_user | AnsAvatar string | AnsSettings pb_settings | AnsPrefs pb_notif_prefs
  | AnsUsers "pb_user list \<times> nat" | AnsHealth string string "(string \<times> string) list"

fun rpc_method :: "rpc \<Rightarrow> string" where
  "rpc_method (RpcRegister q) = ''/auth.v1.AuthService/Register''"
| "rpc_method (RpcLogin q) = ''/auth.v1.AuthService/Login''"
| "rpc_method (RpcRefreshToken t) = ''/auth.v1.AuthService/RefreshToken''"
| "rpc_method RpcLogout = ''/auth.v1.AuthService/Logout''"
| "rpc_method (RpcVerifyEmail t) = ''/auth.v1.AuthService/VerifyEmail''"
| "rpc_method RpcResendVerification = ''/auth.v1.AuthService/ResendVerification''"
| "rpc_method (RpcRequestPasswordReset em) = ''/auth.v1.AuthService/RequestPasswordReset''"
| "rpc_method (RpcResetPassword q) = ''/auth.v1.AuthService/ResetPassword''"
| "rpc_method (RpcChangePassword q) = ''/auth.v1.AuthService/ChangePassword''"
| "rpc_method RpcListDevices = ''/auth.v1.AuthService/ListDevices''"
| "rpc_method (RpcRevokeDevice d) = ''/auth.v1.AuthService/RevokeDevice''"
| "rpc_method RpcGetMe = ''/user.v1.UserService/GetMe''"
| "rpc_method (RpcUpdateMe u) = ''/user.v1.UserService/UpdateMe''"
| "rpc_method RpcDeleteMe = ''/user.v1.UserService/DeleteMe''"
| "rpc_method (RpcGetUser i) = ''/user.v1.UserService/GetUser''"
| "rpc_method (RpcUploadAvatar ms) = ''/user.v1.UserService/UploadAvatar''"
| "rpc_method RpcGetSettings = ''/user.v1.UserService/GetSettings''"
| "rpc_method (RpcUpdateSettings q) = ''/user.v1.UserService/UpdateSettings''"
| "rpc_method (RpcRegisterPushToken q) = ''/user.v1.UserService/RegisterPushToken''"
| "rpc_method RpcGetNotificationPreferences = ''/user.v1.UserService/GetNotificationPreferences''"
| "rpc_method (RpcUpdateNotificationPreferences q) = ''/user.v1.UserService/UpdateNotificationPreferences''"
| "rpc_method (RpcListUsers p) = ''/admin.v1.AdminService/ListUsers''"
| "rpc_method (RpcAdminGetUser i) = ''/admin.v1.AdminService/GetUser''"
| "rpc_method (RpcSuspendUser q) = ''/admin.v1.AdminService/SuspendUser''"
| "rpc_method (RpcUnsuspendUser i) = ''/admin.v1.AdminService/UnsuspendUser''"
| "rpc_method (RpcSetUserRole q) = ''/admin.v1.AdminService/SetUserRole''"

fun grpc_method :: "grpc_request \<Rightarrow> string" where
  "grpc_method (Rpc q) = rpc_method q"
| "grpc_method HealthCheck = ''/health.v1.HealthService/Check''"
| "grpc_method HealthReady = ''/health.v1.HealthService/Ready''"

definition answer :: "('a \<Rightarrow> rpc_answer) \<Rightarrow> ('r, 'a) call \<Rightarrow> ('r, rpc_answer) call" where
  "answer f m = do { r \<leftarrow> m; case r of Inl e \<Rightarrow> fail e | Inr x \<Rightarrow> returnE (f x) }"

definition no_content :: "unit \<Rightarrow> rpc_answer" where "no_content u = AnsEmpty"

fun rpc_handler :: "'r processes \<Rightarrow> ctx \<Rightarrow> rpc \<Rightarrow> ('r, rpc_answer) call" where
  "rpc_handler y c (RpcRegister q) = answer AnsTokens (h_Register (syService y) (syEncoder y) c q)"
| "rpc_handler y c (RpcLogin q) = answer AnsTokens (h_Login (syService y) (syEncoder y) c q)"
| "rpc_handler y c (RpcRefreshToken t) = answer AnsTokens (h_RefreshToken (syService y) (syEncoder y) c t)"
| "rpc_handler y c RpcLogout = answer no_content (h_Logout (syService y) c ())"
| "rpc_handler y c (RpcVerifyEmail t) = answer no_content (h_VerifyEmail (syService y) c t)"
| "rpc_handler y c RpcResendVerification = answer no_content (h_ResendVerification (syService y) c ())"
| "rpc_handler y c (RpcRequestPasswordReset em) = answer no_content (h_RequestPasswordReset (syService y) c em)"
| "rpc_handler y c (RpcResetPassword q) = answer no_content (h_ResetPassword (syService y) c q)"
| "rpc_handler y c (RpcChangePassword q) = answer no_content (h_ChangePassword (syService y) c q)"
| "rpc_handler y c RpcListDevices = answer AnsDevices (h_ListDevices (syService y) c ())"
| "rpc_handler y c (RpcRevokeDevice d) = answer no_content (h_RevokeDevice (syService y) c d)"
| "rpc_handler y c RpcGetMe = answer AnsUser (h_GetMe (syEncoder y) c ())"
| "rpc_handler y c (RpcUpdateMe u) = answer AnsUser (h_UpdateMe (syEncoder y) c u)"
| "rpc_handler y c RpcDeleteMe = answer no_content (h_DeleteMe (syService y) c ())"
| "rpc_handler y c (RpcGetUser i) = answer AnsPublicUser (h_GetUser (syEncoder y) c i)"
| "rpc_handler y c (RpcUploadAvatar ms) = answer AnsAvatar (h_UploadAvatar (svExt (syService y)) (syStorage y) c ms)"
| "rpc_handler y c RpcGetSettings = answer AnsSettings (h_GetSettings c ())"
| "rpc_handler y c (RpcUpdateSettings q) = answer AnsSettings (h_UpdateSettings c q)"
| "rpc_handler y c (RpcRegisterPushToken q) = answer no_content (h_RegisterPushToken c q)"
| "rpc_handler y c RpcGetNotificationPreferences = answer AnsPrefs (h_GetNotificationPreferences c ())"
| "rpc_handler y c (RpcUpdateNotificationPreferences q) = answer AnsPrefs (h_UpdateNotificationPreferences c q)"
| "rpc_handler y c (RpcListUsers p) = answer AnsUsers (h_ListUsers (syEncoder y) c p)"
| "rpc_handler y c (RpcAdminGetUser i) = answer AnsUser (h_AdminGetUser (syEncoder y) c i)"
| "rpc_handler y c (RpcSuspendUser q) = answer no_content (h_SuspendUser (svBus (syService y)) (syEncoder y) c q)"
| "rpc_handler y c (RpcUnsuspendUser i) = answer no_content (h_UnsuspendUser (svBus (syService y)) (syEncoder y) c i)"
| "rpc_handler y c (RpcSetUserRole q) = answer no_content (h_SetUserRole (svBus (syService y)) (syEncoder y) c q)"

fun grpc_handler :: "'r grpc_deps \<Rightarrow> ('r, grpc_request, rpc_answer) handler" where
  "grpc_handler d c (Rpc q) = rpc_handler (gdProcesses d) c q"
| "grpc_handler d c HealthCheck = returnE (AnsHealth ''ok'' (gdVersion d) [])"
| "grpc_handler d c HealthReady = do {
     dbUp \<leftarrow> getw (gdPingDB d);
     cacheUp \<leftarrow> getw (gdPingCache d);
     let (status, checks) = h_Ready dbUp cacheUp;
     returnE (AnsHealth status (gdVersion d) checks) }"

text \<open>A unary call of the server.\<close>

definition grpc_unary ::
  "('r, grpc_request) icset \<Rightarrow> ('r, grpc_request, rpc_answer) handler \<Rightarrow> ('r, grpc_request, rpc_answer) handler" where
  "grpc_unary i h c q = serve i (grpc_method q) h c q"

lemma unanswered_answer: "unanswered (answer f m) = unanswered m"
  by (rule state.expand) (auto simp: unanswered_def answer_def fun_eq_iff State_Monad.bind_def case_prod_beta split: sum.split)

text \<open>\<open>handle_rpc\<close>, in which the steps of the program are stated, is the handler without its answer.\<close>

lemma handle_rpc_handler: "handle_rpc y c q = unanswered (rpc_handler y c q)"
  by (cases q) (simp_all add: unanswered_answer)

end
