(* ===== verification/Access_Guarantees.thy ===== *)
theory Access_Guarantees
  imports Abstract_Stores Grpc_Server
begin

section \<open>How long a session lasts, and who makes administrators\<close>

text \<open>
  Two more invariants of the tables and what follows for the server. No statement the program issues
  moves the last activity of a session, so that the limit of inactivity ends it that long after it
  was opened; and no request gives a user the role of an administrator but \<open>SetUserRole\<close>, sent by one.
\<close>

subsection \<open>The last activity of a session\<close>

definition activity_frozen :: "int \<Rightarrow> database \<Rightarrow> bool" where
  "activity_frozen n d = (\<forall>r\<in>set (sessions d). srLastActivity r = srCreatedAt r)"

lemma activity_same: "activity_frozen n d \<Longrightarrow> sessions d' = sessions d \<Longrightarrow> activity_frozen (n + 1) d'"
  by (simp add: activity_frozen_def)

lemma activity_session_queries:
  "query_keeps activity_frozen (CreateDeviceSession p)" "query_keeps activity_frozen (RevokeDeviceSession i reason)"
  "query_keeps activity_frozen (RevokeAllDeviceSessionsByUser i reason)"
  "query_keeps activity_frozen (RevokeActiveDeviceSessionsByDeviceID dv reason)"
  by (rule query_keepsI, auto simp: activity_frozen_def CreateDeviceSession_def session_of_def RevokeDeviceSession_def
      RevokeAllDeviceSessionsByUser_def RevokeActiveDeviceSessionsByDeviceID_def revoke_row_def set_upd_where
      split: if_splits list.splits)+

lemma activity_frame_queries:
  "query_keeps activity_frozen (UpdateUserLastLogin i)" "query_keeps activity_frozen (UpdateUserPasswordHash i h)"
  "query_keeps activity_frozen (MarkUserEmailVerified i)" "query_keeps activity_frozen (CreateUser em h fn ln)"
  "query_keeps activity_frozen (CreateUserSettings i st)" "query_keeps activity_frozen (CreateRefreshToken i h pre fam ex)"
  "query_keeps activity_frozen (RevokeRefreshTokenByHash h reason)"
  "query_keeps activity_frozen (RevokeRefreshTokensBySession i reason)"
  "query_keeps activity_frozen (RevokeRefreshTokensByFamily ofam reason)" "query_keeps activity_frozen (UpdateUserStatus i us)"
  "query_keeps activity_frozen (UpdateUserRole i ro)" "query_keeps activity_frozen (SoftDeleteUser i)"
  "query_keeps activity_frozen (InsertOutbox ty pl k)" "query_keeps activity_frozen (MarkOutboxProcessed j)"
  "query_keeps activity_frozen (MarkOutboxFailed j msg)" "query_keeps activity_frozen (InsertOutboxDeadLetter dl)"
  "query_keeps activity_frozen (CreateLoginAttempt em uid ch oc rem rid)" "query_keeps activity_frozen (CreateAuditLog ar)"
  "query_keeps activity_frozen (UpdateUserProfile i pu)"
  by (rule query_keepsI, erule activity_same, auto simp: service_query_defs Let_def split: if_splits option.splits list.splits)+

lemma activity_core: "core_kept q \<Longrightarrow> query_keeps activity_frozen q"
  by (rule query_keepsI, erule activity_same) (auto simp: core_kept_def)

interpretation activity: system_invariant activity_frozen
proof unfold_locales
  show "activity_frozen n d \<Longrightarrow> n \<le> m \<Longrightarrow> activity_frozen m d" for n d m by (simp add: activity_frozen_def)
qed (simp_all add: activity_session_queries activity_frame_queries worker_queries_core [THEN activity_core])


subsection \<open>Administrators\<close>

text \<open>Whoever is an administrator is one of \<open>S\<close>.\<close>

definition admins_in :: "int set \<Rightarrow> int \<Rightarrow> database \<Rightarrow> bool" where
  "admins_in S n d = (\<forall>u\<in>set (users d). user_IsAdmin u \<longrightarrow> uID u \<in> S)"

lemma admins_same: "admins_in S n d \<Longrightarrow> users d' = users d \<Longrightarrow> admins_in S (n + 1) d'"
  by (simp add: admins_in_def)

lemma admins_upd:
  assumes "admins_in S n d" and "\<And>u. uID (f u) = uID u \<and> uRole (f u) = uRole u"
  shows "admins_in S (n + 1) (d\<lparr>users := upd_where P f (users d)\<rparr>)"
proof -
  have "uID u \<in> S" if u: "u \<in> set (upd_where P f (users d))" "user_IsAdmin u" for u
  proof -
    from u(1) obtain u0 where u0: "u0 \<in> set (users d)" "u = (if P u0 then f u0 else u0)" by (auto simp: set_upd_where)
    then have "uID u = uID u0" "uRole u = uRole u0" using assms(2) by auto
    then show ?thesis using u(2) u0(1) assms(1) by (simp add: admins_in_def user_IsAdmin_def)
  qed
  then show ?thesis by (simp add: admins_in_def)
qed

lemma admins_user_queries:
  "query_keeps (admins_in S) (UpdateUserLastLogin i)" "query_keeps (admins_in S) (UpdateUserPasswordHash i h)"
  "query_keeps (admins_in S) (MarkUserEmailVerified i)" "query_keeps (admins_in S) (UpdateUserStatus i us)"
  "query_keeps (admins_in S) (SoftDeleteUser i)" "query_keeps (admins_in S) (UpdateUserProfile i pu)"
  by (rule query_keepsI, auto simp: service_query_defs apply_profile_def intro!: admins_upd split: if_splits list.splits)+

lemma admins_CreateUser: "query_keeps (admins_in S) (CreateUser em h fn ln)"
  by (rule query_keepsI) (auto simp: CreateUser_def Let_def admins_in_def user_IsAdmin_def split: if_splits)

lemma admins_frame_queries:
  "query_keeps (admins_in S) (CreateUserSettings i st)" "query_keeps (admins_in S) (CreateDeviceSession p)"
  "query_keeps (admins_in S) (RevokeDeviceSession i reason)" "query_keeps (admins_in S) (RevokeAllDeviceSessionsByUser i reason)"
  "query_keeps (admins_in S) (RevokeActiveDeviceSessionsByDeviceID dv reason)"
  "query_keeps (admins_in S) (CreateRefreshToken i h pre fam ex)" "query_keeps (admins_in S) (RevokeRefreshTokenByHash h reason)"
  "query_keeps (admins_in S) (RevokeRefreshTokensBySession i reason)"
  "query_keeps (admins_in S) (RevokeRefreshTokensByFamily ofam reason)"
  "query_keeps (admins_in S) (InsertOutbox ty pl k)" "query_keeps (admins_in S) (MarkOutboxProcessed j)"
  "query_keeps (admins_in S) (MarkOutboxFailed j msg)" "query_keeps (admins_in S) (InsertOutboxDeadLetter dl)"
  "query_keeps (admins_in S) (CreateLoginAttempt em uid ch oc rem rid)" "query_keeps (admins_in S) (CreateAuditLog ar)"
  by (rule query_keepsI, erule admins_same, auto simp: service_query_defs Let_def split: if_splits option.splits list.splits)+

lemma admins_core: "core_kept q \<Longrightarrow> query_keeps (admins_in S) q"
  by (rule query_keepsI, erule admins_same) (auto simp: core_kept_def)

interpretation admins: plain_worker "admins_in S" for S
proof unfold_locales
  show "admins_in S n d \<Longrightarrow> n \<le> m \<Longrightarrow> admins_in S m d" for n d m by (simp add: admins_in_def)
qed (simp_all add: admins_user_queries admins_CreateUser admins_frame_queries worker_queries_core [THEN admins_core])

text \<open>A change of role keeps it when the user is one of \<open>S\<close> or the new role is another.\<close>

lemma admins_UpdateUserRole:
  assumes "i \<in> S \<or> ro \<noteq> RoAdmin"
  shows "query_keeps (admins_in S) (UpdateUserRole i ro)"
  by (rule query_keepsI)
    (use assms in \<open>auto simp: UpdateUserRole_def admins_in_def user_IsAdmin_def set_upd_where split: if_splits\<close>)

lemma admins_set_role:
  assumes "i \<in> S \<or> user_role_of s \<noteq> Some RoAdmin"
  shows "keeps_db (admins_in S) (users_SetRole c i s)"
proof -
  have "query_keeps (admins_in S) (UpdateUserRole i ro)" if "user_role_of s = Some ro" for ro
    using assms that by (intro admins_UpdateUserRole) auto
  then show ?thesis
    by (auto simp: users_SetRole_def users_UpdateRole_def query_keeps_def [of _ "\<lambda>rl t n d. Inl e" for e]
        intro!: admins.keeps_intros split: option.split)
qed

subsection \<open>What the chain and the server keep\<close>

lemma keeps_db_modw: "(\<And>w. db (f w) = db w \<and> nextID (f w) = nextID w) \<Longrightarrow> keeps_db J (modw f)"
  by (simp add: keeps_db_def)

context plain_service
begin

lemma authenticate_kept: "keeps_db J (authenticate i c)"
  unfolding authenticate_def by (auto intro!: keeps_intros split: sum.split)

lemma serve_kept:
  assumes "\<And>c. keeps_db J (h c q)"
  shows "keeps_db J (serve i m h c q)"
proof -
  have "keeps_db J (guarded i m h c q)" for c
    unfolding guarded_def authUnary_def validationUnary_def
    by (auto intro!: keeps_intros authenticate_kept assms split: sum.split)
  then show ?thesis
    unfolding serve_unfold recoveryUnary_def metricsUnary_def requestIDUnary_def loggingUnary_def localeUnary_def errorUnary_def Let_def
    by (auto intro!: keeps_intros keeps_db_modw split: sum.split)
qed

end

lemma keeps_db_iff:
  "keeps_db J m \<longleftrightarrow> (\<forall>w. J (nextID w) (db w) \<longrightarrow> J (nextID (after m w)) (db (after m w)) \<and> nextID w \<le> nextID (after m w))"
proof
  assume r: "\<forall>w. J (nextID w) (db w) \<longrightarrow> J (nextID (after m w)) (db (after m w)) \<and> nextID w \<le> nextID (after m w)"
  then show "keeps_db J m" unfolding keeps_db_def by (metis snd_conv)
qed (use keeps_db_after in blast)

lemma keeps_db_unanswered: "keeps_db J (unanswered m) \<longleftrightarrow> keeps_db J m"
proof -
  have "after (unanswered m) w = after m w" for w by (simp add: unanswered_def case_prod_beta)
  then show ?thesis by (simp add: keeps_db_iff)
qed

lemma keeps_db_answer: "keeps_db J (answer f m) \<longleftrightarrow> keeps_db J m"
  using keeps_db_unanswered [of J "answer f m"] keeps_db_unanswered [of J m] by (simp add: unanswered_answer)

context plain_worker
begin

lemma grpc_handler_kept:
  assumes "wired_service (syService (gdProcesses d)) n" and "remote_only (gdProcesses d)"
    and "\<forall>r. q \<noteq> Rpc (RpcSetUserRole r)"
  shows "keeps_db J (grpc_handler d c q)"
proof (cases q)
  case (Rpc x)
  have "\<forall>r. x \<noteq> RpcSetUserRole r" using assms(3) Rpc by blast
  from rpc_kept [OF assms(1,2) this, of c] show ?thesis
    by (simp add: Rpc handle_rpc_handler keeps_db_unanswered)
qed (auto simp: Let_def intro!: keeps_intros split: prod.split)

end

text \<open>Setting a role touches nobody but the user it names.\<close>

lemma SetUserRole_admins:
  assumes "wired_service (syService (gdProcesses d)) n"
    and "\<And>i. enDecode (syEncoder (gdProcesses d)) s = Some i \<Longrightarrow> i \<in> S \<or> user_role_of ro \<noteq> Some RoAdmin"
  shows "keeps_db (admins_in S) (grpc_handler d c (Rpc (RpcSetUserRole (s, ro))))"
proof -
  have bus: "svBus (syService (gdProcesses d)) = wired_bus (svExt (syService (gdProcesses d))) n"
    using assms(1) by (simp add: wired_service_def)
  have "keeps_db (admins_in S) (users_SetRole c i ro)" if "enDecode (syEncoder (gdProcesses d)) s = Some i" for i c
    by (rule admins_set_role) (rule assms(2) [OF that])
  then show ?thesis
    by (auto simp: bus keeps_db_answer h_SetUserRole_def audit_def Let_def
        intro!: admins.keeps_intros split: option.split sum.split)
qed

text \<open>C5. Only administrators make administrators: when a unary call leaves a user an administrator who was none
  before, whatever the call was and whatever failed, it was a call of \<open>SetUserRole\<close> that names this user
  and the role, with the token of a session, not revoked and not idle, of a live and active administrator.\<close>

theorem only_admins_make_admins:
  assumes "services (icExt i)" and "wired_service (syService (gdProcesses d)) n" and "remote_only (gdProcesses d)"
    and "run_state (grpc_unary i (grpc_handler d) c q) w = (x, w')"
    and "u \<in> set (users (db w'))" and "user_IsAdmin u" and "\<forall>u0\<in>set (users (db w)). uID u0 = uID u \<longrightarrow> \<not> user_IsAdmin u0"
  shows "(\<exists>s. q = Rpc (RpcSetUserRole (s, ''admin'')) \<and> enDecode (syEncoder (gdProcesses d)) s = Some (uID u)) \<and>
    (\<exists>tok cl r a. BearerToken c = Inr tok \<and>
      visible (rdKeys (xRedis (icExt i)) (redis w)) (now w) (redisKey (icExt i) tok) = Some (RData (JClaims cl)) \<and>
      r \<in> set (sessions (db w)) \<and> srID r = acSessionID cl \<and> \<not> stamped r \<and> now w - srLastActivity r \<le> icMaxInactivity i \<and>
      a \<in> set (users (db w)) \<and> uID a = srUserID r \<and> live_user a \<and> uStatus a = StActive \<and> user_IsAdmin a)"
proof -
  let ?S = "uID ` {v \<in> set (users (db w)). user_IsAdmin v}" and ?m = "grpc_method q"
  have S: "admins_in ?S (nextID w) (db w)" "uID u \<notin> ?S" using assms(7) by (auto simp: admins_in_def)
  have run: "run_state (serve i ?m (grpc_handler d) c q) w = (x, w')" using assms(4) by (simp add: grpc_unary_def)
  have bad: "\<not> keeps_db (admins_in T) (serve i ?m h c q)"
    if "run_state (serve i ?m h c q) w = (x, w')" "?S \<subseteq> T" "uID u \<notin> T" for h T
  proof -
    have "admins_in T (nextID w) (db w)" using S(1) that(2) by (auto simp: admins_in_def)
    moreover have "\<not> admins_in T (nextID w') (db w')" using that(3) assms(5,6) by (auto simp: admins_in_def)
    ultimately show ?thesis using keeps_dbD [OF _ that(1)] by blast
  qed
  have "\<not> (\<forall>c. keeps_db (admins_in ?S) (grpc_handler d c q))"
    using bad [OF run order_refl S(2)] admins.serve_kept [of ?S "grpc_handler d" q i ?m c] by blast
  with admins.grpc_handler_kept [OF assms(2,3)] obtain s ro where q: "q = Rpc (RpcSetUserRole (s, ro))"
    by (metis surj_pair)
  have named: "enDecode (syEncoder (gdProcesses d)) s = Some (uID u) \<and> user_role_of ro = Some RoAdmin"
  proof (rule ccontr)
    assume no: "\<not> ?thesis"
    let ?T = "?S \<union> {j. enDecode (syEncoder (gdProcesses d)) s = Some j \<and> user_role_of ro = Some RoAdmin}"
    have "keeps_db (admins_in ?T) (grpc_handler d c q)" for c
      unfolding q by (rule SetUserRole_admins [OF assms(2)]) auto
    moreover have "uID u \<notin> ?T" using no S(2) by auto
    ultimately show False
      using bad [OF run, of ?T] admins.serve_kept [of ?T "grpc_handler d" q i ?m c] by blast
  qed
  then have ro: "ro = ''admin''" by (simp add: user_role_of_def split: if_splits)
  let ?none = "\<lambda>c q. fail (PanicE [])"
  have "run_state (serve i ?m (grpc_handler d) c q) w \<noteq> run_state (serve i ?m ?none c q) w"
    using bad [of ?none ?S] run S(2) admins.serve_kept [of ?S ?none q i ?m c] by auto
  moreover have "?m \<notin> set publicMethods" "has_prefix ?m adminServicePrefix"
    by (simp_all add: q publicMethods_def has_prefix_def adminServicePrefix_def)
  ultimately show ?thesis using gate [OF assms(1)] named ro q by metis
qed

end
