(* ===== verification/Handler_Witnesses.thy ===== *)
theory Handler_Witnesses
  imports Gate_Guarantees Handler_Guarantees Property_Witnesses
begin

section \<open>Evaluations of the chain and the handlers\<close>

text \<open>The properties of \<open>Gate_Guarantees\<close> and \<open>Handler_Guarantees\<close> at the reference instance.\<close>

text \<open>A request of Ann, in any world with the tables and the Redis of the reference state.\<close>

lemma ref_authenticates_like:
  assumes "BearerToken c = Inr ''at_ann''" and "\<not> cxInTx c" and "db_up w" "redis_up w" "db w = ref_db" "now w = 5000"
    and "redis w = redis ref_state"
  shows "\<exists>ds w'. run_state (authenticate (ref_icset :: (ref_store, 'q) icset) c) w =
     (Inr (ref_user 1 ''ann@x.org'' ''hash1'', ds), w')"
proof -
  have val: "run_state (at_Validate ref_ext ''at_ann'') w =
      (Inr \<lparr>acSessionID = 11, acUserID = 1, acDeviceID = ''phone'', acIssuedAt = 3000\<rparr>, w)"
    using assms by (simp add: at_Validate_def redis_call_up ref_redis_def visible_def not_expired_def)
  show ?thesis
    using assms
    by (simp add: authenticate_def val sessions_FindByID_def store_run_def with_tx_def db_up_def
        tx_body_def begin_tx_def applyRLS_def commit_tx_def exec_query_def next_fault_def
        GetDeviceSessionByID_def GetUserByID_def first_row_def toDeviceSession_def ds_IsRevoked_def ds_IsInactive_def
        ds_user_def user_IsActive_def hour_def minute_def second_def Let_def)
qed

definition ref_answers :: "'p \<Rightarrow> (ref_store, 'q, 'p) handler" where
  "ref_answers b c req = returnE b"

lemma ref_bearer: "BearerToken (ref_ctx ''Bearer at_ann'') = Inr ''at_ann''"
proof -
  have "to_lower ''Bearer'' = ''bearer''" by code_simp
  then show ?thesis by (simp add: BearerToken_def ref_ctx_def background_def md_get_def cut_def)
qed

lemma ref_served:
  assumes "m \<notin> set publicMethods" "\<not> has_prefix m adminServicePrefix" "BearerToken c = Inr ''at_ann''" "\<not> cxInTx c"
  shows "fst (run_state (serve (ref_icset :: (ref_store, 'q) icset) m (ref_answers b) c q) ref_state) = Inr b"
proof -
  let ?i = "ref_icset :: (ref_store, 'q) icset"
  let ?w1 = "ref_state\<lparr>rpcInFlight := rpcInFlight ref_state + 1\<rparr>"
  obtain rid w0 where r: "run_state (if incomingRequestID c = [] then NewUUIDNoDash (icExt ?i) else ret (incomingRequestID c)) ?w1 = (rid, w0)"
    by fastforce
  then have w0: "db_up w0" "redis_up w0" "db w0 = ref_db" "now w0 = 5000" "redis w0 = redis ref_state"
    using ref_state_simps(7,8)
    by (auto simp: NewUUIDNoDash_def db_up_def redis_up_def simp del: ref_state_simps(9) split: if_splits)
  have "BearerToken (inner_ctx ?i rid c) = Inr ''at_ann''" "\<not> cxInTx (inner_ctx ?i rid c)"
    using assms(3,4) by simp_all (simp add: inner_ctx_def)
  from ref_authenticates_like [OF this w0] obtain ds w' where
    "run_state (authenticate ?i (inner_ctx ?i rid c)) w0 = (Inr (ref_user 1 ''ann@x.org'' ''hash1'', ds), w')" by blast
  moreover have "validateMessage ?i q = Inr ()" by (simp add: validateMessage_def ref_icset_def newSet_def)
  ultimately have "run_state (guarded ?i m (ref_answers b) (inner_ctx ?i rid c) q) w0 = (Inr b, w')"
    using assms by (simp add: guarded_def authUnary_def validationUnary_def ref_answers_def)
  with r show ?thesis
    by (simp add: serve_unfold recoveryUnary_def metricsUnary_def requestIDUnary_def loggingUnary_def localeUnary_def
        errorUnary_def inner_ctx_def [symmetric] Let_def)
qed

theorem handler_runs_only_authenticated_witness:
  "\<exists>u. u \<in> set (users ref_db) \<and> uID u = 1 \<and> live_user u \<and> uStatus u = StActive"
proof -
  let ?m = "''/user.v1.UserService/GetMe''" and ?c = "ref_ctx ''Bearer at_ann''"
  have m: "?m \<notin> set publicMethods" "\<not> has_prefix ?m adminServicePrefix"
    by (simp_all add: publicMethods_def has_prefix_def adminServicePrefix_def)
  have d: "run_state (serve (ref_icset :: (ref_store, unit) icset) ?m (ref_answers True) ?c ()) ref_state \<noteq>
      run_state (serve ref_icset ?m (ref_answers False) ?c ()) ref_state"
    using ref_served [OF m ref_bearer, where q = "()"] by (metis Inr_inject ref_ctx_simps(1))
  from handler_runs_only_authenticated [OF _ m(1) d] ref_services.services_axioms
  show ?thesis by auto
qed


theorem panic_leaks_inflight_gauge_witness:
  "let out = run_state (serve (ref_icset :: (ref_store, unit) icset) ''/health.v1.HealthService/Check''
      (\<lambda>c req. fail (PanicE ''nil map'') :: (ref_store, unit) call) (ref_ctx []) ()) ref_state in
    (rpcInFlight (snd out) = 0 \<and> rpcTotals (snd out) = [(''/health.v1.HealthService/Check'', status_code (fst out))]) \<or>
    (rpcInFlight (snd out) = 1 \<and> rpcTotals (snd out) = [])"
  using panic_leaks_inflight_gauge [of "\<lambda>c req. fail (PanicE ''nil map'') :: (ref_store, unit) call" ref_icset
      "''/health.v1.HealthService/Check''" "ref_ctx []" "()" ref_state]
  by (auto simp: ref_state_def ref_world_def Let_def)


theorem api_cannot_suspend_witness:
  "\<exists>e. fst (run_state (h_SuspendUser (wired_bus ref_ext 100) \<lparr>enEncode = show_int, enDecode = (\<lambda>_. Some 2)\<rparr> background
       \<lparr>pbsId = ''x'', pbsReason = ''spam'', pbsDetails = [], pbsPermanent = True, pbsDays = 0\<rparr>) ref_state) = Inl e"
  using api_cannot_suspend [of ref_state background "wired_bus ref_ext 100" "\<lparr>enEncode = show_int, enDecode = (\<lambda>_. Some 2)\<rparr>"
      "\<lparr>pbsId = ''x'', pbsReason = ''spam'', pbsDetails = [], pbsPermanent = True, pbsDays = 0\<rparr>"]
  by (auto simp: ref_state_def ref_world_def)

end
