(* ===== verification/Worker_Witnesses.thy ===== *)
theory Worker_Witnesses
  imports Emails_Guarantees Property_Witnesses
begin

section \<open>Evaluations of the workers\<close>

text \<open>The properties of the mail worker at a concrete configuration.\<close>

definition ref_mail_cfg :: "int \<Rightarrow> email_config" where
  "ref_mail_cfg batch = \<lparr>ecAPIKey = [], ecNoReply = \<lparr>snAddress = ''noreply@x.org'', snName = ''Shop''\<rparr>,
     ecSecurity = \<lparr>snAddress = ''security@x.org'', snName = ''Shop Security''\<rparr>,
     ecNews = \<lparr>snAddress = ''news@x.org'', snName = ''Shop News''\<rparr>, ecConcurrency = 5, ecRetryMax = 3,
     ecBasePath = ''templates'', ecDefaultLanguage = ''en'', ecBatchMaxSize = batch\<rparr>"

definition ref_translator :: translator where
  "ref_translator = \<lparr>trT = (\<lambda>lang k d. k), trDefaultLanguage = ''en''\<rparr>"

text \<open>A client that refuses the mails to Bob.\<close>

definition ref_processor :: "ref_store email_processor" where
  "ref_processor = NewProcessor (ref_mail_cfg 2) [Inr (''verify_email/en.html'', False, Some (\<lambda>d. Inr (snd (hd d))))] ref_translator
     (\<lambda>rq. if rqTo rq = [''bob@x.org''] then fail (MsgE ''rejected'') else returnE ''id'')"

definition ref_mail_service :: "ref_store auth_service" where
  "ref_mail_service = ref_service\<lparr>svEmail := newEmailSender (ref_mail_cfg 2) ''https://x.org'' None\<rparr>"

theorem verification_mail_carries_token_witness:
  "\<exists>w1 tok t. run_state (sendVerification ref_mail_service background ref_ann) ref_state = ((), w1) \<and>
     mq w1 = [t] \<and> tkQueue t = ''emails:normal'' \<and> token_for ref_mail_service (ref_state\<lparr>redis := redis w1\<rparr>) (VerificationTokenKey tok) 1 \<and>
     fst (run_state (emails_ProcessTask ref_processor t) ref_state) = Inr ()"
proof -
  obtain w1 where r: "run_state (sendVerification ref_mail_service background ref_ann) ref_state = ((), w1)"
    by (cases "run_state (sendVerification ref_mail_service background ref_ann) ref_state") (auto intro: that)
  have lang: "sender_language None background = ''en''" by (simp add: sender_language_def background_def)
  have path: "path_join [''verify_email'', ''en.html''] = ''verify_email/en.html''" by code_simp
  have ext: "path_ext ''verify_email/en.html'' = ''.html''" by code_simp
  have tmpl: "epTemplates ref_processor (path_join [''verify_email'', sender_language None background @ ''.html'']) = Some (\<lambda>d. Inr (snd (hd d)))"
    by (simp add: ref_processor_def NewProcessor_def lang path ext)
  have "services (svExt ref_mail_service)" "svEmail ref_mail_service = newEmailSender (ref_mail_cfg 2) ''https://x.org'' None"
    "mqReplies ref_state = []" "mq ref_state = []" "sender_language None background \<noteq> []"
    using ref_services.services_axioms by (simp_all add: ref_mail_service_def ref_state_def ref_world_def lang)
  from verification_mail_carries_token [OF this(1,2) ref_state_simps(8) this(3) r this(5)] this(4)
  obtain tok t where t: "mq w1 = [t]" "tkQueue t = ''emails:normal''"
    "\<forall>w2. redis w2 = redis w1 \<and> now ref_state \<le> now w2 \<and> now w2 < now ref_state + 24 * hour \<longrightarrow>
      token_for ref_mail_service w2 (VerificationTokenKey tok) (uID ref_ann)"
    "\<forall>(P :: ref_store email_processor) tmpl html. epTemplates P (path_join [''verify_email'', sender_language None background @ ''.html'']) = Some tmpl \<and>
      tmpl (templateData (''https://x.org'' @ ''/verify-email?token='' @ tok) tok (now ref_state)) = Inr html \<longrightarrow>
      (\<exists>rq. rqTo rq = [uEmail ref_ann] \<and> rqCc rq = [] \<and> rqBcc rq = [] \<and> rqHtml rq = html \<and>
        (\<forall>v m v'. run_state (epSend P rq) v = (Inr m, v') \<longrightarrow> run_state (emails_ProcessTask P t) v = (Inr (), v')))"
    by auto
  have "token_for ref_mail_service (ref_state\<lparr>redis := redis w1\<rparr>) (VerificationTokenKey tok) 1"
    using t(3) [rule_format, of "ref_state\<lparr>redis := redis w1\<rparr>"] by (simp add: hour_def minute_def second_def)
  moreover have "fst (run_state (emails_ProcessTask ref_processor t) ref_state) = Inr ()"
  proof -
    obtain rq where rq: "rqTo rq = [uEmail ref_ann]"
      "\<forall>v m v'. run_state (epSend ref_processor rq) v = (Inr m, v') \<longrightarrow> run_state (emails_ProcessTask ref_processor t) v = (Inr (), v')"
      using t(4) tmpl by blast
    have "run_state (epSend ref_processor rq) ref_state = (Inr ''id'', ref_state)"
      using rq(1) by (simp add: ref_processor_def NewProcessor_def)
    with rq(2) show ?thesis by simp
  qed
  ultimately show ?thesis using r t(1,2) by blast
qed

theorem bulk_batches_partition_witness:
  "\<exists>r w1 bs. run_state (emails_SendBulk 4 (ref_mail_cfg 2) background [zero_email, zero_email, zero_email]) ref_state = (r, w1) \<and>
     mq w1 = map (bulk_task (ref_mail_cfg 2)) bs \<and> length (concat bs) \<le> 3"
proof -
  obtain r w1 where r: "run_state (emails_SendBulk 4 (ref_mail_cfg 2) background [zero_email, zero_email, zero_email]) ref_state = (r, w1)"
    by fastforce
  from bulk_batches_partition [OF _ _ r] obtain bs where
    bs: "mq w1 = mq ref_state @ map (bulk_task (ref_mail_cfg 2)) bs"
      "concat bs = [zero_email, zero_email, zero_email] \<or> (\<exists>rest. concat bs @ rest = [zero_email, zero_email, zero_email])"
    by (auto simp: ref_mail_cfg_def)
  from bs(2) have "length (concat bs) \<le> 3"
  proof
    assume "\<exists>rest. concat bs @ rest = [zero_email, zero_email, zero_email]"
    then obtain rest where "concat bs @ rest = [zero_email, zero_email, zero_email]" by blast
    then have "length (concat bs @ rest) = 3" by simp
    then show ?thesis by (simp only: length_append)
  qed simp
  with bs(1) r show ?thesis by (auto simp: ref_state_def ref_world_def)
qed

theorem bulk_zero_batch_never_returns_witness:
  "\<exists>w1. run_state (emails_SendBulk 3 (ref_mail_cfg 0) background [zero_email]) ref_state = (None, w1) \<and>
     mq w1 = [bulk_task (ref_mail_cfg 0) [], bulk_task (ref_mail_cfg 0) [], bulk_task (ref_mail_cfg 0) []]"
  using bulk_zero_batch_never_returns [of "ref_mail_cfg 0" "[zero_email]" ref_state 3 background]
  by (simp add: ref_mail_cfg_def ref_state_def ref_world_def numeral_eq_Suc)

theorem bulk_retry_resends_witness:
  "\<exists>r w1. run_state (emails_ProcessTask ref_processor (bulk_task (ref_mail_cfg 2)
       [zero_email\<lparr>emTo := [''ann@x.org'']\<rparr>, zero_email\<lparr>emTo := [''bob@x.org'']\<rparr>])) ref_state = (r, w1) \<and> r \<noteq> Inr ()"
proof -
  let ?es = "[zero_email\<lparr>emTo := [''ann@x.org'']\<rparr>, zero_email\<lparr>emTo := [''bob@x.org'']\<rparr>]"
  obtain r w1 where r: "run_state (emails_ProcessTask ref_processor (bulk_task (ref_mail_cfg 2) ?es)) ref_state = (r, w1)"
    by fastforce
  have np: "never_panics ref_processor" by (simp add: never_panics_def ref_processor_def NewProcessor_def)
  have "Inl (WrapE ''failed to send email'' (MsgE ''rejected'')) \<in> set (fst (attempts ref_processor ?es ref_state))"
    by (simp add: processEmail_def request_of_def ref_processor_def NewProcessor_def Let_def)
  with bulk_retry_resends [OF np r] r show ?thesis by (intro exI conjI) auto
qed

theorem sender_name_is_key_witness:
  "rqFrom (request_of ref_processor (default_language (ref_mail_cfg 2) (zero_email\<lparr>emType := TypePasswordReset\<rparr>))) =
     ''email.fromName.security <security@x.org>''"
proof -
  have t: "GetSenderType TypePasswordReset = SenderSecurity" by (simp add: GetSenderType_def isSecurityEmail_def)
  show ?thesis
    using sender_name_is_key [of ref_processor "ref_mail_cfg 2" "zero_email\<lparr>emType := TypePasswordReset\<rparr>"]
    by (simp add: t ref_processor_def NewProcessor_def ref_translator_def ref_mail_cfg_def GetSender_def)
qed

end
