(* ===== verification/Migrate_Tool.thy ===== *)
theory Migrate_Tool
  imports Store_Layer
begin

section \<open>The migration tool\<close>

text \<open>
  Models \<open>cmd/migrate/main.go\<close>: the choice of the command, the history table and its records, and
  the runs of golang-migrate with their tracking. The library is a record of functions on an abstract
  state; a run also says how long it took. \<open>log.Fatal\<close> is the result \<open>Inl\<close>. The goroutine that
  forwards a signal to the library is not modelled.
\<close>

subsection \<open>Records and the world of the tool\<close>

record migration_record =
  mrID :: string
  mrVersion :: nat
  mrName :: string
  mrDirection :: string
  mrExecutedAt :: time
  mrDuration :: int
  mrStatus :: string
  mrErrorMsg :: string
  mrExecutedBy :: string
  mrEnvironment :: string

text \<open>The tables as pairs of schema and name, the rows of the history, the state of the library, the clock,
  a schedule of failing statements, the number of UUIDs drawn and the lines logged.\<close>

record 'm mig_world =
  mgTables :: "(string \<times> string) list"
  mgHistory :: "migration_record list"
  mgLib :: 'm
  mgClock :: time
  mgFaults :: "bool list"
  mgDraws :: nat
  mgLogs :: "string list"

type_synonym ('m, 'a) mcall = "('m mig_world, goerr + 'a) state"

definition ErrNoChange :: goerr where "ErrNoChange = MsgE ''no change''"
definition ErrNilVersion :: goerr where "ErrNilVersion = MsgE ''no migration''"

record 'm migrator =
  mbVersion :: "'m \<Rightarrow> nat \<times> bool \<times> goerr option"
  mbUp :: "'m \<Rightarrow> goerr option \<times> 'm \<times> duration"
  mbDown :: "'m \<Rightarrow> goerr option \<times> 'm \<times> duration"
  mbSteps :: "int \<Rightarrow> 'm \<Rightarrow> goerr option \<times> 'm \<times> duration"
  mbMigrate :: "nat \<Rightarrow> 'm \<Rightarrow> goerr option \<times> 'm \<times> duration"
  mbForce :: "int \<Rightarrow> 'm \<Rightarrow> goerr option \<times> 'm"

record 'm mig_env =
  meLib :: "'m migrator"
  meSetup :: "goerr option"  \<comment> \<open>an error of opening the driver or the source\<close>
  meGetenv :: "string \<Rightarrow> string"
  meFiles :: "string list"  \<comment> \<open>the matches of \<open>migrations/*.up.sql\<close>\<close>
  meUUID :: "nat \<Rightarrow> string"
  meErrorText :: "goerr \<Rightarrow> string"
  meFormatTime :: "time \<Rightarrow> string"

definition logp :: "string \<Rightarrow> ('m mig_world, unit) state" where
  "logp s = modw (\<lambda>w. w\<lparr>mgLogs := mgLogs w @ [s]\<rparr>)"

definition sql :: "('m mig_world \<Rightarrow> goerr + ('a \<times> 'm mig_world)) \<Rightarrow> ('m, 'a) mcall" where
  "sql f = State (\<lambda>w.
     let v = w\<lparr>mgFaults := tl (mgFaults w)\<rparr>
     in if next_fault (mgFaults w) then (Inl (PgE ConnDown), v)
        else case f v of Inl e \<Rightarrow> (Inl e, v) | Inr (x, v') \<Rightarrow> (Inr x, v'))"

subsection \<open>The history table\<close>

definition find_elsewhere :: "string \<Rightarrow> 'm mig_world \<Rightarrow> goerr + (string \<times> 'm mig_world)" where
  "find_elsewhere tbl w =
     (case filter (\<lambda>(s, t). t = tbl \<and> s \<noteq> ''public'') (mgTables w) of [] \<Rightarrow> Inl NoRows | (s, t) # _ \<Rightarrow> Inr (s, w))"

definition set_schema_public :: "string \<Rightarrow> string \<Rightarrow> 'm mig_world \<Rightarrow> goerr + (unit \<times> 'm mig_world)" where
  "set_schema_public src tbl w =
     Inr ((), w\<lparr>mgTables := map (\<lambda>x. if x = (src, tbl) then (''public'', tbl) else x) (mgTables w)\<rparr>)"

definition moveTableToPublic :: "string \<Rightarrow> ('m, unit) mcall" where
  "moveTableToPublic tbl = do {
     r \<leftarrow> sql (\<lambda>w. Inr ((''public'', tbl) \<in> set (mgTables w), w));
     case r of Inl e \<Rightarrow> fail (WrapE (''check public.'' @ tbl) e)
     | Inr inPublic \<Rightarrow>
         if inPublic then returnE ()
         else do {
           r \<leftarrow> sql (find_elsewhere tbl);
           case r of Inl e \<Rightarrow> if errIs e NoRows then returnE () else fail (WrapE (''find '' @ tbl) e)
           | Inr src \<Rightarrow> do {
               r \<leftarrow> sql (set_schema_public src tbl);
               case r of Inl e \<Rightarrow> fail (WrapE (''move '' @ src @ ''.'' @ tbl @ '' to public'') e)
               | Inr _ \<Rightarrow> do { logp (''Moved '' @ src @ ''.'' @ tbl @ '' to public schema''); returnE () }}}}"

definition moveSchemamigrationsToPublic :: "('m, unit) mcall" where
  "moveSchemamigrationsToPublic = moveTableToPublic ''schema_migrations''"

definition createHistoryTable :: "('m, unit) mcall" where
  "createHistoryTable = do {
     r \<leftarrow> moveTableToPublic ''migration_history'';
     case r of Inl e \<Rightarrow> fail e
     | Inr _ \<Rightarrow> sql (\<lambda>w. Inr ((), if (''public'', ''migration_history'') \<in> set (mgTables w) then w
         else w\<lparr>mgTables := mgTables w @ [(''public'', ''migration_history'')]\<rparr>)) }"

text \<open>The INSERT with the constraints of the table as \<open>createHistoryTable\<close> declares it.\<close>

definition insert_history :: "migration_record \<Rightarrow> 'm mig_world \<Rightarrow> goerr + (unit \<times> 'm mig_world)" where
  "insert_history r w =
     (if (''public'', ''migration_history'') \<notin> set (mgTables w) then Inl (MsgE ''relation does not exist'')
      else if mrVersion r \<ge> 2 ^ 63 then Inl (MsgE ''uint64 values with high bit set are not supported'')
      else if length (mrName r) > 255 \<or> length (mrDirection r) > 10 \<or> length (mrExecutedBy r) > 100 \<or>
          length (mrEnvironment r) > 50 then Inl (PgE (CheckViolation ''varchar''))
      else if mrDirection r \<notin> {''up'', ''down''} then Inl (PgE (CheckViolation ''direction''))
      else if mrStatus r \<notin> {''success'', ''failed''} then Inl (PgE (CheckViolation ''status''))
      else if mrID r \<in> mrID ` set (mgHistory w) then Inl (PgE (UniqueViolation ''migration_history_pkey''))
      else Inr ((), w\<lparr>mgHistory := mgHistory w @ [r]\<rparr>))"

definition recordMigration :: "migration_record \<Rightarrow> ('m, unit) mcall" where
  "recordMigration r = sql (insert_history r)"

definition getHistory :: "nat \<Rightarrow> ('m, migration_record list) mcall" where
  "getHistory limit = sql (\<lambda>w. Inr (take limit (order_desc mrExecutedAt (mgHistory w)), w))"

subsection \<open>Environment and names\<close>

definition getCurrentUser :: "'m mig_env \<Rightarrow> string" where
  "getCurrentUser E =
     (if meGetenv E ''USER'' \<noteq> [] then meGetenv E ''USER''
      else if meGetenv E ''USERNAME'' \<noteq> [] then meGetenv E ''USERNAME'' else ''unknown'')"

definition getCurrentEnvironment :: "'m mig_env \<Rightarrow> string" where
  "getCurrentEnvironment E =
     (if meGetenv E ''APP_ENV'' \<noteq> [] then meGetenv E ''APP_ENV''
      else if meGetenv E ''ENVIRONMENT'' \<noteq> [] then meGetenv E ''ENVIRONMENT'' else ''development'')"

text \<open>\<open>filepath.Base\<close>, \<open>strings.TrimPrefix\<close>, \<open>strings.TrimSuffix\<close> and the format \<open>%06d\<close>.\<close>

definition path_base :: "string \<Rightarrow> string" where
  "path_base s =
     (if s = [] then ''.''
      else let t = dropWhile (\<lambda>c. c = CHR ''/'') (rev s)
           in if t = [] then ''/'' else rev (takeWhile (\<lambda>c. c \<noteq> CHR ''/'') t))"

definition trim_prefix :: "string \<Rightarrow> string \<Rightarrow> string" where
  "trim_prefix s p = (if has_prefix s p then drop (length p) s else s)"

definition trim_suffix :: "string \<Rightarrow> string \<Rightarrow> string" where
  "trim_suffix s p = (if has_prefix (rev s) (rev p) then take (length s - length p) s else s)"

definition format_06d :: "nat \<Rightarrow> string" where
  "format_06d v = replicate (6 - length (show_nat v)) (CHR ''0'') @ show_nat v"

definition getMigrationName :: "'m mig_env \<Rightarrow> nat \<Rightarrow> string" where
  "getMigrationName E version =
     (let versionStr = format_06d version
      in case filter (\<lambda>f. has_prefix (path_base f) versionStr) (meFiles E) of
           [] \<Rightarrow> ''migration_'' @ show_nat version
         | f # _ \<Rightarrow> trim_suffix (trim_prefix (path_base f) (versionStr @ ''_'')) ''.up.sql'')"

subsection \<open>Running the library\<close>

definition getMigrate :: "'m mig_env \<Rightarrow> ('m, unit) mcall" where
  "getMigrate E = do {
     r \<leftarrow> moveSchemamigrationsToPublic;
     case r of Inl e \<Rightarrow> fail e
     | Inr _ \<Rightarrow> (case meSetup E of Some e \<Rightarrow> fail (WrapE ''failed to create migrate instance'' e) | None \<Rightarrow> returnE ()) }"

definition lib_version :: "'m mig_env \<Rightarrow> 'm mig_world \<Rightarrow> nat" where
  "lib_version E w = fst (mbVersion (meLib E) (mgLib w))"

definition run_lib :: "('m \<Rightarrow> goerr option \<times> 'm \<times> duration) \<Rightarrow> ('m mig_world, goerr option) state" where
  "run_lib f = State (\<lambda>w. let (e, m, d) = f (mgLib w) in (e, w\<lparr>mgLib := m, mgClock := mgClock w + d\<rparr>))"

definition directionUp :: string where "directionUp = ''up''"
definition directionDown :: string where "directionDown = ''down''"

definition new_uuid :: "'m mig_env \<Rightarrow> ('m mig_world, string) state" where
  "new_uuid E = State (\<lambda>w. (meUUID E (mgDraws w), w\<lparr>mgDraws := mgDraws w + 1\<rparr>))"

text \<open>The version a finished run is recorded under, if it moved the way it was meant to.\<close>

definition moved_version :: "string \<Rightarrow> nat \<Rightarrow> nat \<Rightarrow> nat option" where
  "moved_version direction cur new =
     (if direction = directionUp \<and> new > cur then Some new
      else if direction = directionDown \<and> cur > new then Some cur
      else None)"

definition run_status :: "goerr option \<Rightarrow> string" where
  "run_status err = (case err of Some e \<Rightarrow> if errIs e ErrNoChange then ''success'' else ''failed'' | None \<Rightarrow> ''success'')"

definition executeMigrationWithTracking ::
  "'m mig_env \<Rightarrow> ('m \<Rightarrow> goerr option \<times> 'm \<times> duration) \<Rightarrow> string \<Rightarrow> ('m mig_world, goerr option) state" where
  "executeMigrationWithTracking E migrationFunc direction = do {
     r \<leftarrow> getMigrate E;
     case r of Inl e \<Rightarrow> ret (Some e)
     | Inr _ \<Rightarrow> do {
         currentVersion \<leftarrow> getw (lib_version E);
         startTime \<leftarrow> getw mgClock;
         err \<leftarrow> run_lib migrationFunc;
         endTime \<leftarrow> getw mgClock;
         newVersion \<leftarrow> getw (lib_version E);
         case moved_version direction currentVersion newVersion of None \<Rightarrow> ret err
         | Some targetVersion \<Rightarrow> do {
             u \<leftarrow> new_uuid E;
             r \<leftarrow> recordMigration \<lparr>mrID = u, mrVersion = targetVersion, mrName = getMigrationName E targetVersion,
                    mrDirection = direction, mrExecutedAt = startTime, mrDuration = (endTime - startTime) div 1000000,
                    mrStatus = run_status err,
                    mrErrorMsg = (if run_status err = ''failed'' then meErrorText E (the err) else []),
                    mrExecutedBy = getCurrentUser E, mrEnvironment = getCurrentEnvironment E\<rparr>;
             (case r of Inl e \<Rightarrow> logp (''Warning: Failed to record migration history: '' @ meErrorText E e)
              | Inr _ \<Rightarrow> ret ());
             ret err }}}"

subsection \<open>The commands\<close>

definition finish_run :: "string \<Rightarrow> string \<Rightarrow> goerr option \<Rightarrow> ('m, unit) mcall" where
  "finish_run failed okay err =
     (if err \<noteq> None \<and> \<not> errIs (the err) ErrNoChange then fail (WrapE failed (the err))
      else do { logp okay; returnE () })"

definition migrateUp :: "'m mig_env \<Rightarrow> ('m, unit) mcall" where
  "migrateUp E = do {
     logp ''Running all migrations up...'';
     err \<leftarrow> executeMigrationWithTracking E (mbUp (meLib E)) directionUp;
     finish_run ''Migration up failed:'' ''All migrations completed successfully'' err }"

definition migrateDown :: "'m mig_env \<Rightarrow> ('m, unit) mcall" where
  "migrateDown E = do {
     logp ''Running all migrations down...'';
     err \<leftarrow> executeMigrationWithTracking E (mbDown (meLib E)) directionDown;
     finish_run ''Migration down failed:'' ''All migrations rolled back successfully'' err }"

definition migrateSteps :: "'m mig_env \<Rightarrow> int \<Rightarrow> ('m, unit) mcall" where
  "migrateSteps E steps = do {
     logp (''Running '' @ show_int steps @ '' migration steps...'');
     let direction = (if steps < 0 then directionDown else directionUp);
     err \<leftarrow> executeMigrationWithTracking E (mbSteps (meLib E) steps) direction;
     finish_run ''Migration steps failed:'' ''Migration steps completed successfully'' err }"

definition migrateToVersion :: "'m mig_env \<Rightarrow> nat \<Rightarrow> ('m, unit) mcall" where
  "migrateToVersion E version = do {
     logp (''Migrating to version '' @ show_nat version @ ''...'');
     r \<leftarrow> getMigrate E;
     case r of Inl e \<Rightarrow> fail (WrapE ''Migration setup failed:'' e)
     | Inr _ \<Rightarrow> do {
         currentVersion \<leftarrow> getw (lib_version E);
         let direction = (if version < currentVersion then directionDown else directionUp);
         err \<leftarrow> executeMigrationWithTracking E (mbMigrate (meLib E) version) direction;
         if err \<noteq> None \<and> \<not> errIs (the err) ErrNoChange
         then do { logp (''Migration to version failed: '' @ meErrorText E (the err)); returnE () }
         else do { logp (''Migration to version '' @ show_nat version @ '' completed successfully''); returnE () } }}"

definition forceMigration :: "'m mig_env \<Rightarrow> nat \<Rightarrow> ('m, unit) mcall" where
  "forceMigration E version = do {
     logp (''WARNING: Forcing migration to version '' @ show_nat version @ ''...'');
     r \<leftarrow> getMigrate E;
     case r of Inl e \<Rightarrow> fail (WrapE ''Migration setup failed:'' e)
     | Inr _ \<Rightarrow>
         if int version > 2 ^ 63 - 1
         then do { logp (''Force migration: version '' @ show_nat version @ '' exceeds int range''); returnE () }
         else do {
           err \<leftarrow> State (\<lambda>w. let (e, m) = mbForce (meLib E) (int version) (mgLib w) in (e, w\<lparr>mgLib := m\<rparr>));
           case err of Some e \<Rightarrow> do { logp (''Force migration failed: '' @ meErrorText E e); returnE () }
           | None \<Rightarrow> do {
               u \<leftarrow> new_uuid E;
               t \<leftarrow> getw mgClock;
               r \<leftarrow> recordMigration \<lparr>mrID = u, mrVersion = version, mrName = ''force_migration'', mrDirection = ''force'',
                      mrExecutedAt = t, mrDuration = 0, mrStatus = ''success'', mrErrorMsg = [],
                      mrExecutedBy = getCurrentUser E, mrEnvironment = getCurrentEnvironment E\<rparr>;
               (case r of Inl e \<Rightarrow> logp (''Warning: Failed to record force migration: '' @ meErrorText E e)
                | Inr _ \<Rightarrow> ret ());
               logp (''Migration forced to version '' @ show_nat version);
               returnE () }}}"

definition showStatus :: "'m mig_env \<Rightarrow> ('m, unit) mcall" where
  "showStatus E = do {
     logp ''Checking migration status...'';
     r \<leftarrow> getMigrate E;
     case r of Inl e \<Rightarrow> fail (WrapE ''Migration setup failed:'' e)
     | Inr _ \<Rightarrow> do {
         m \<leftarrow> getw mgLib;
         let (version, dirty, err) = mbVersion (meLib E) m;
         case err of
           Some e \<Rightarrow>
             if errIs e ErrNilVersion then do { logp ''No migrations have been applied yet''; returnE () }
             else do { logp (''Failed to get version: '' @ meErrorText E e); returnE () }
         | None \<Rightarrow> do {
             logp (''Current migration version: '' @ show_nat version @ '' (state: '' @
               (if dirty then ''dirty'' else ''clean'') @ '')'');
             returnE () }}}"

text \<open>A slice bound below zero panics.\<close>

definition truncateString :: "string \<Rightarrow> int \<Rightarrow> goerr + string" where
  "truncateString s maxLen =
     (if int (length s) \<le> maxLen then Inr s
      else if maxLen - 3 < 0 then Inl (PanicE ''slice bounds out of range'')
      else Inr (take (nat (maxLen - 3)) s @ ''...''))"

definition pad_right :: "nat \<Rightarrow> string \<Rightarrow> string" where
  "pad_right n s = s @ replicate (n - length s) (CHR '' '')"

definition truncated :: "string \<Rightarrow> int \<Rightarrow> string" where
  "truncated s n = (case truncateString s n of Inr t \<Rightarrow> t | Inl _ \<Rightarrow> [])"

definition history_lines :: "'m mig_env \<Rightarrow> migration_record \<Rightarrow> string list" where
  "history_lines E r =
     (pad_right 8 (show_nat (mrVersion r)) @ '' '' @ pad_right 20 (truncated (mrName r) 20) @ '' '' @
      pad_right 10 (mrDirection r) @ '' '' @ pad_right 20 (meFormatTime E (mrExecutedAt r)) @ '' '' @
      pad_right 10 (show_int (mrDuration r)) @ ''ms '' @ pad_right 8 (mrStatus r) @ '' '' @ pad_right 12 (mrExecutedBy r))
     # (if mrErrorMsg r \<noteq> [] then [''         Error: '' @ truncated (mrErrorMsg r) 70] else [])"

definition showHistory :: "'m mig_env \<Rightarrow> ('m, string list) mcall" where
  "showHistory E = do {
     logp ''Migration history (last 20):'';
     r \<leftarrow> getHistory 20;
     case r of Inl e \<Rightarrow> fail (WrapE ''Failed to get migration history:'' e)
     | Inr records \<Rightarrow>
         if records = [] then do { logp ''No migration history found''; returnE [] }
         else returnE
           ([pad_right 8 ''Version'' @ '' '' @ pad_right 20 ''Name'' @ '' '' @ pad_right 10 ''Direction'' @ '' '' @
             pad_right 20 ''Executed At'' @ '' '' @ pad_right 10 ''Duration'' @ '' '' @ pad_right 8 ''Status'' @ '' '' @
             pad_right 12 ''By'', replicate 90 (CHR ''-'')]
            @ concat (map (history_lines E) records)) }"

definition createMigration :: "string \<Rightarrow> ('m, string list) mcall" where
  "createMigration nm = do {
     logp (''Creating migration: '' @ nm);
     returnE [''Run this command to create migration files:'', ''migrate create -ext sql -dir migrations -seq '' @ nm] }"

subsection \<open>The choice of the command\<close>

record mig_flags =
  mfUp :: bool
  mfDown :: bool
  mfSteps :: int
  mfVersion :: nat
  mfForce :: nat
  mfStatus :: bool
  mfHistory :: bool
  mfCreate :: string

datatype command =
  CmdCreate string | CmdStatus | CmdHistory | CmdForce nat | CmdToVersion nat | CmdSteps int | CmdAllUp | CmdAllDown | CmdUsage

definition choose_command :: "mig_flags \<Rightarrow> command" where
  "choose_command f =
     (if mfCreate f \<noteq> [] then CmdCreate (mfCreate f)
      else if mfStatus f then CmdStatus
      else if mfHistory f then CmdHistory
      else if mfForce f > 0 then CmdForce (mfForce f)
      else if mfVersion f > 0 then CmdToVersion (mfVersion f)
      else if mfUp f then (if mfSteps f > 0 then CmdSteps (mfSteps f) else CmdAllUp)
      else if mfDown f then (if mfSteps f > 0 then CmdSteps (- mfSteps f) else CmdAllDown)
      else CmdUsage)"

definition quiet_lines :: "('m, unit) mcall \<Rightarrow> ('m, string list) mcall" where
  "quiet_lines m = do { r \<leftarrow> m; case r of Inl e \<Rightarrow> fail e | Inr _ \<Rightarrow> returnE [] }"

definition run_command :: "'m mig_env \<Rightarrow> command \<Rightarrow> ('m, string list) mcall" where
  "run_command E cmd =
     (case cmd of CmdCreate n \<Rightarrow> createMigration n
      | CmdStatus \<Rightarrow> quiet_lines (showStatus E)
      | CmdHistory \<Rightarrow> showHistory E
      | CmdForce v \<Rightarrow> quiet_lines (forceMigration E v)
      | CmdToVersion v \<Rightarrow> quiet_lines (migrateToVersion E v)
      | CmdSteps n \<Rightarrow> quiet_lines (migrateSteps E n)
      | CmdAllUp \<Rightarrow> quiet_lines (migrateUp E)
      | CmdAllDown \<Rightarrow> quiet_lines (migrateDown E)
      | CmdUsage \<Rightarrow> returnE [''Usage'', [], ''Examples:'', ''  go run main.go -create create_users_table'',
          ''  go run main.go -up'', ''  go run main.go -down -steps 1'', ''  go run main.go -status'',
          ''  go run main.go -history''])"

definition migrate_main :: "'m mig_env \<Rightarrow> mig_flags \<Rightarrow> ('m, string list) mcall" where
  "migrate_main E f = do {
     r \<leftarrow> createHistoryTable;
     case r of Inl e \<Rightarrow> fail (WrapE ''Failed to initialize migration tracker:'' e)
     | Inr _ \<Rightarrow> run_command E (choose_command f) }"

end
