(* ===== verification/Migrate_Guarantees.thy ===== *)
theory Migrate_Guarantees
  imports Migrate_Tool
begin

section \<open>What the migration tool guarantees\<close>

text \<open>
  Its history only grows, by rows its table admits; a run that moved the schema is recorded and its
  error returned; a forced version is not recorded; and what the shipped file names do to the names
  of the history.
\<close>

subsection \<open>Which parts write the history\<close>

lemma frames_logp [simp]: "frames mgHistory (logp s)"
  by (simp add: logp_def frames_def)

lemma frames_sql: "(\<And>w x w'. f w = Inr (x, w') \<Longrightarrow> mgHistory w' = mgHistory w) \<Longrightarrow> frames mgHistory (sql f)"
  by (force simp: frames_def sql_def Let_def split: sum.split prod.split)

lemma frames_moveTableToPublic [simp]: "frames mgHistory (moveTableToPublic t)"
  unfolding moveTableToPublic_def
  by (intro frames_bind frames_sum frames_if frames_sql)
    (auto simp: find_elsewhere_def set_schema_public_def split: list.splits prod.splits)

lemma frames_createHistoryTable [simp]: "frames mgHistory createHistoryTable"
  unfolding createHistoryTable_def by (intro frames_bind frames_sum frames_sql) (auto split: if_splits)

lemma frames_getHistory [simp]: "frames mgHistory (getHistory n)"
  unfolding getHistory_def by (intro frames_sql) auto

lemma frames_getMigrate [simp]: "frames mgHistory (getMigrate E)"
  unfolding getMigrate_def moveSchemamigrationsToPublic_def by (intro frames_bind frames_sum frames_option) auto

lemma frames_lib [simp]: "frames mgHistory (run_lib f)" "frames mgHistory (new_uuid E)" "frames mgHistory (finish_run a b err)"
  by (auto simp: run_lib_def new_uuid_def finish_run_def frames_def logp_def split: prod.split)

text \<open>A row the table admits, and a computation that appends at most one such row.\<close>

definition history_row_ok :: "migration_record \<Rightarrow> bool" where
  "history_row_ok r =
     (mrVersion r < 2 ^ 63 \<and> length (mrName r) \<le> 255 \<and> length (mrExecutedBy r) \<le> 100 \<and> length (mrEnvironment r) \<le> 50 \<and>
      mrDirection r \<in> {''up'', ''down''} \<and> mrStatus r \<in> {''success'', ''failed''})"

definition grown :: "migration_record list \<Rightarrow> migration_record list \<Rightarrow> bool" where
  "grown h h' = (h' = h \<or> (\<exists>r. h' = h @ [r] \<and> history_row_ok r \<and> mrID r \<notin> mrID ` set h))"

definition appends :: "('m mig_world, 'a) state \<Rightarrow> bool" where
  "appends m = (\<forall>w. grown (mgHistory w) (mgHistory (snd (run_state m w))))"

lemma appends_frames: "frames mgHistory m \<Longrightarrow> appends m"
  by (simp add: appends_def frames_def grown_def)

lemma appends_then: "appends m \<Longrightarrow> (\<And>x. frames mgHistory (k x)) \<Longrightarrow> appends (State_Monad.bind m k)"
  by (simp add: appends_def frames_def case_prod_beta)

lemma appends_after: "frames mgHistory m \<Longrightarrow> (\<And>x. appends (k x)) \<Longrightarrow> appends (State_Monad.bind m k)"
  unfolding appends_def by (auto simp: case_prod_beta frames_def) (metis)

lemma appends_sum:
  "(\<And>e. appends (g e)) \<Longrightarrow> (\<And>x. appends (h x)) \<Longrightarrow> appends (case r of Inl e \<Rightarrow> g e | Inr x \<Rightarrow> h x)"
  by (auto split: sum.split)

lemma appends_option:
  "appends g \<Longrightarrow> (\<And>x. appends (h x)) \<Longrightarrow> appends (case r of None \<Rightarrow> g | Some x \<Rightarrow> h x)"
  by (auto split: option.split)

lemma appends_if: "appends g \<Longrightarrow> appends h \<Longrightarrow> appends (if p then g else h)"
  by simp

lemma insert_history_ok:
  "insert_history r w = Inr (x, w') \<Longrightarrow> w' = w\<lparr>mgHistory := mgHistory w @ [r]\<rparr> \<and> history_row_ok r \<and> mrID r \<notin> mrID ` set (mgHistory w)"
  by (auto simp: insert_history_def history_row_ok_def split: if_splits)

lemma appends_record [simp]: "appends (recordMigration r)"
  by (auto simp: appends_def recordMigration_def sql_def Let_def grown_def split: sum.split dest!: insert_history_ok)

lemmas appends_intros = appends_sum appends_option appends_if

lemma appends_execute [simp]: "appends (executeMigrationWithTracking E f d)"
  unfolding executeMigrationWithTracking_def
  by (intro appends_then [OF appends_record] appends_after appends_intros frames_bind frames_sum) (simp_all add: appends_frames)

lemma frames_showStatus [simp]: "frames mgHistory (showStatus E)"
  unfolding showStatus_def Let_def by (intro frames_intros) simp_all

lemma frames_showHistory [simp]: "frames mgHistory (showHistory E)"
  unfolding showHistory_def by (intro frames_intros) simp_all

lemma frames_createMigration [simp]: "frames mgHistory (createMigration n)"
  unfolding createMigration_def by (intro frames_intros) simp_all

lemma insert_force_refused: "mrDirection r = ''force'' \<Longrightarrow> \<exists>e. insert_history r w = Inl e"
  by (simp add: insert_history_def)

lemma frames_record_force [simp]: "mrDirection r = ''force'' \<Longrightarrow> frames mgHistory (recordMigration r)"
  unfolding recordMigration_def by (rule frames_sql) (simp add: insert_history_def split: if_splits)

lemma frames_lib_force [simp]:
  "frames mgHistory (State (\<lambda>w. case g (mgLib w) of (e, m) \<Rightarrow> (e, w\<lparr>mgLib := m\<rparr>)))"
  by (simp add: frames_def case_prod_beta)

lemma frames_force [simp]: "frames mgHistory (forceMigration E v)"
  unfolding forceMigration_def by (intro frames_intros) simp_all

lemma appends_command: "appends (run_command E cmd)"
proof -
  have q: "appends (quiet_lines m)" if "appends m" for m :: "('m, unit) mcall"
    unfolding quiet_lines_def by (rule appends_then [OF that]) (simp add: frames_sum)
  have "appends (migrateUp E)" "appends (migrateDown E)" "appends (migrateSteps E n)" for n
    unfolding migrateUp_def migrateDown_def migrateSteps_def Let_def
    by (auto intro!: appends_after [OF frames_logp] appends_then [OF appends_execute])
  moreover have "appends (migrateToVersion E v)" for v
    unfolding migrateToVersion_def Let_def
    by (intro appends_after appends_sum appends_then [OF appends_execute] frames_intros) (auto intro: appends_frames)
  ultimately show ?thesis
    by (cases cmd) (simp_all add: run_command_def q appends_frames)
qed

text \<open>The history of the tool is append-only and well formed: whatever command is run, whatever fails and
  whatever the library does, one invocation leaves the rows before it unchanged and adds at most one,
  with a fresh id, direction up or down and status success or failed.\<close>

theorem history_append_only:
  "grown (mgHistory w) (mgHistory (snd (run_state (migrate_main E f) w)))"
proof -
  have "appends (migrate_main E f)"
    unfolding migrate_main_def by (intro appends_after appends_sum appends_command) (auto intro: appends_frames)
  then show ?thesis by (simp add: appends_def)
qed

subsection \<open>Runs and forced versions\<close>

lemma no_faults [simp]: "mgFaults w = [] \<Longrightarrow> w\<lparr>mgFaults := []\<rparr> = w"
  by (cases w) simp

lemma sql_up: "mgFaults w = [] \<Longrightarrow> run_state (sql f) w = (case f w of Inl e \<Rightarrow> (Inl e, w) | Inr (x, w') \<Rightarrow> (Inr x, w'))"
  by (auto simp: sql_def next_fault_def Let_def split: sum.split)

lemma record_up:
  assumes "mgFaults w = []" and "(''public'', ''migration_history'') \<in> set (mgTables w)" and "history_row_ok r"
    and "mrID r \<notin> mrID ` set (mgHistory w)"
  shows "run_state (recordMigration r) w = (Inr (), w\<lparr>mgHistory := mgHistory w @ [r]\<rparr>)"
proof -
  have "insert_history r w = Inr ((), w\<lparr>mgHistory := mgHistory w @ [r]\<rparr>)"
    using assms(2-4) by (auto simp: insert_history_def history_row_ok_def)
  with assms(1) show ?thesis by (simp add: recordMigration_def sql_up)
qed

lemma getMigrate_up:
  assumes "mgFaults w = []" and "meSetup E = None"
  shows "\<exists>ts ls. run_state (getMigrate E) w = (Inr (), w\<lparr>mgTables := ts, mgLogs := ls\<rparr>) \<and>
    ((''public'', ''migration_history'') \<in> set (mgTables w) \<longrightarrow> (''public'', ''migration_history'') \<in> set ts)"
proof (cases "(''public'', ''schema_migrations'') \<in> set (mgTables w)")
  case True
  then have "run_state (getMigrate E) w = (Inr (), w)"
    using assms by (simp add: getMigrate_def moveSchemamigrationsToPublic_def moveTableToPublic_def sql_up)
  then show ?thesis by (intro exI [of _ "mgTables w"] exI [of _ "mgLogs w"]) simp
next
  case False
  note new = False
  show ?thesis
  proof (cases "find_elsewhere ''schema_migrations'' w")
    case (Inl e)
    then have e: "e = NoRows" by (auto simp: find_elsewhere_def split: list.splits)
    have "run_state (getMigrate E) w = (Inr (), w)"
      using assms new Inl e
      by (simp add: getMigrate_def moveSchemamigrationsToPublic_def moveTableToPublic_def sql_up errIs_def)
    then show ?thesis by (intro exI [of _ "mgTables w"] exI [of _ "mgLogs w"]) simp
  next
    case (Inr a)
    then obtain s where s: "find_elsewhere ''schema_migrations'' w = Inr (s, w)"
      by (auto simp: find_elsewhere_def split: list.splits)
    let ?ts = "map (\<lambda>x. if x = (s, ''schema_migrations'') then (''public'', ''schema_migrations'') else x) (mgTables w)"
    have "run_state (getMigrate E) w = (Inr (), w\<lparr>mgTables := ?ts,
        mgLogs := mgLogs w @ [''Moved '' @ s @ ''.'' @ ''schema_migrations'' @ '' to public schema'']\<rparr>)"
      using assms new s
      by (simp add: getMigrate_def moveSchemamigrationsToPublic_def moveTableToPublic_def sql_up set_schema_public_def logp_def)
    then show ?thesis by (force simp: image_iff)
  qed
qed


text \<open>Forcing a version is never recorded: the schema version is forced, the command reports success, and
  the history stays as it was, because its table admits only the directions up and down.\<close>

theorem force_is_never_recorded:
  assumes "mgFaults w = []" and "meSetup E = None" and "int v \<le> 2 ^ 63 - 1" and "mbForce (meLib E) (int v) (mgLib w) = (None, m)"
  shows "\<exists>w1. run_state (forceMigration E v) w = (Inr (), w1) \<and> mgLib w1 = m \<and> mgHistory w1 = mgHistory w \<and>
    last (mgLogs w1) = ''Migration forced to version '' @ show_nat v"
proof -
  let ?w = "w\<lparr>mgLogs := mgLogs w @ [''WARNING: Forcing migration to version '' @ show_nat v @ ''...'']\<rparr>"
  obtain ts ls where g: "run_state (getMigrate E) ?w = (Inr (), ?w\<lparr>mgTables := ts, mgLogs := ls\<rparr>)"
    using getMigrate_up [of ?w E] assms(1,2) by auto
  let ?w1 = "?w\<lparr>mgTables := ts, mgLogs := ls, mgLib := m, mgDraws := mgDraws w + 1\<rparr>"
  let ?row = "\<lparr>mrID = meUUID E (mgDraws w), mrVersion = v, mrName = ''force_migration'', mrDirection = ''force'',
    mrExecutedAt = mgClock w, mrDuration = 0, mrStatus = ''success'', mrErrorMsg = [],
    mrExecutedBy = getCurrentUser E, mrEnvironment = getCurrentEnvironment E\<rparr>"
  obtain e where "insert_history ?row ?w1 = Inl e" using insert_force_refused [of ?row ?w1] by auto
  then have "run_state (recordMigration ?row) ?w1 = (Inl e, ?w1)" using assms(1) by (simp add: recordMigration_def sql_up)
  then show ?thesis using assms(3,4) g
    by (simp add: forceMigration_def logp_def new_uuid_def)
qed

subsection \<open>Names of migrations\<close>

text \<open>The name of a migration is never found in files numbered as the shipped ones, with five digits: the
  tool looks for six, so that every row of the history carries the placeholder name.\<close>

theorem five_digit_files_not_found:
  assumes "\<forall>f\<in>set (meFiles E). \<exists>ds rest. path_base f = ds @ CHR ''_'' # rest \<and> length ds = 5"
  shows "getMigrationName E v = ''migration_'' @ show_nat v"
proof -
  have digits: "c \<in> set (format_06d v) \<Longrightarrow> is_digit c" for c
    using show_nat_digits [of c v] by (auto simp: format_06d_def is_digit_def)
  have len: "6 \<le> length (format_06d v)" by (simp add: format_06d_def)
  have "\<not> has_prefix (path_base f) (format_06d v)" if "f \<in> set (meFiles E)" for f
  proof
    assume "has_prefix (path_base f) (format_06d v)"
    then obtain r where r: "path_base f = format_06d v @ r" using has_prefixD by blast
    from bspec [OF assms that] obtain ds rest where ds: "path_base f = ds @ CHR ''_'' # rest" "length ds = 5"
      by (elim exE conjE)
    have "path_base f ! 5 = CHR ''_''" using nth_append_length [of ds] ds by simp
    moreover have "path_base f ! 5 = format_06d v ! 5" unfolding r using len by (simp add: nth_append)
    moreover have "is_digit (format_06d v ! 5)" by (rule digits) (use len in simp)
    moreover have "\<not> is_digit (CHR ''_'')" by (simp add: is_digit_def)
    ultimately show False by (simp only:)
  qed
  then have "filter (\<lambda>f. has_prefix (path_base f) (format_06d v)) (meFiles E) = []" by (simp add: filter_empty_conv)
  then show ?thesis by (simp add: getMigrationName_def Let_def)
qed

end
