(* ===== verification/Tool_Witnesses.thy ===== *)
theory Tool_Witnesses
  imports Maintenance_Sweeper Migrate_Guarantees Property_Witnesses
begin

section \<open>Evaluations of the notification worker, the sweeper and the migration tool\<close>

text \<open>The properties of the three at concrete users, tokens, tables and files.\<close>

subsection \<open>Notifications\<close>

definition ref_prefs :: prefs_row where
  "ref_prefs = \<lparr>prUserID = 1, prPush = True, prEmail = True, prMarketing = False, prQuietEnabled = True,
     prQuietStart = Some (79200 * 1000000), prQuietEnd = Some (21600 * 1000000), prTimezone = ''Europe/Paris'',
     prCreatedAt = 1, prUpdatedAt = 1\<rparr>"

definition ref_notif_cfg :: notif_config where
  "ref_notif_cfg = \<lparr>ncBaseURL = ''app:'', ncTemplates = Map.empty, ncEventLinks = Map.empty, ncConcurrency = 5, ncRetryMax = 3,
     ncCheckEnabled = True, ncDefaultTimezone = ''UTC''\<rparr>"

text \<open>From ten in the evening to six in the morning covers one o'clock, in a zone one hour east of UTC.\<close>

theorem quiet_hours_match_clock_witness:
  "isQuietHours ref_notif_cfg (\<lambda>_. Some (\<lambda>_. 3600)) (toPreferences ref_prefs) 0 \<and>
   \<not> isQuietHours ref_notif_cfg (\<lambda>_. Some (\<lambda>_. 3600)) (toPreferences ref_prefs) (12 * hour)"
proof -
  note q = quiet_hours_match_clock [of ref_prefs 79200 0 21600 0 ref_notif_cfg "\<lambda>_. Some (\<lambda>_. 3600)"]
  have "prQuietStart ref_prefs = Some (79200 * 1000000 + 0)" "prQuietEnd ref_prefs = Some (21600 * 1000000 + 0)"
    "time_col_ok (prQuietStart ref_prefs)" "time_col_ok (prQuietEnd ref_prefs)"
    by (simp_all add: ref_prefs_def time_col_ok_def)
  from q [OF this(1,3) _ _ this(2,4)] show ?thesis
    by (simp add: resolve_location_def clock_seconds_def hour_def minute_def second_def)
qed

definition ref_event :: notif_event where
  "ref_event = \<lparr>neType = ''promo'', neUserID = 1, neData = [], nePriority = ''normal'', neScheduledAt = None, neIdempotencyKey = []\<rparr>"

definition ref_fcm_token :: "int \<Rightarrow> string \<Rightarrow> fcm_token" where
  "ref_fcm_token i tok = \<lparr>ftID = i, ftUserID = 1, ftDeviceID = ''phone'', ftToken = tok, ftPlatform = ''ios'', ftAppVersion = None,
     ftIsActive = True, ftLastUsedAt = None, ftCreatedAt = 1, ftUpdatedAt = 1\<rparr>"

definition ref_template :: notif_template where
  "ref_template = \<lparr>tmID = 7, tmEventType = ''promo'', tmIcon = None, tmSound = ''default'', tmPriority = ''high'',
     tmAndroidChannelID = None, tmAction = None, tmCreatedAt = 1, tmUpdatedAt = 1\<rparr>"

text \<open>FCM knows the token \<open>alive\<close> only.\<close>

definition ref_fcm :: "fcm_message \<Rightarrow> goerr + string" where
  "ref_fcm m = (if mgToken m = ''alive'' then Inr ''m1'' else Inl (MsgE ''unregistered''))"

definition ref_notifier :: "ref_store notif_processor" where
  "ref_notifier = \<lparr>ntCfg = ref_notif_cfg, ntSend = (\<lambda>m. ret (ref_fcm m)), ntIsUnregistered = (\<lambda>e. e = MsgE ''unregistered''),
     ntIsInvalidArgument = (\<lambda>_. False), ntLoadLocation = (\<lambda>_. Some (\<lambda>_. 3600))\<rparr>"

definition ref_worker_state :: "prefs_row list \<Rightarrow> ref_store world" where
  "ref_worker_state ps = ref_world AppWorker 5000 (ref_db\<lparr>preferences := ps,
     fcmTokens := [ref_fcm_token 40 ''dead'', ref_fcm_token 41 ''alive''], notifTemplates := [ref_template]\<rparr>)"

lemma ref_worker_simps [simp]:
  "db_up (ref_worker_state ps)" "preferences (db (ref_worker_state ps)) = ps" "now (ref_worker_state ps) = 5000"
  "fcmTokens (db (ref_worker_state ps)) = [ref_fcm_token 40 ''dead'', ref_fcm_token 41 ''alive'']"
  "notifTemplates (db (ref_worker_state ps)) = [ref_template]" "notifLogs (db (ref_worker_state ps)) = []"
  by (simp_all add: ref_worker_state_def ref_world_def db_up_def ref_db_def empty_db_def)

theorem unwanted_notification_not_sent_witness:
  "fst (run_state (notif_ProcessTask ref_notifier background (new_task TaskSendNotification (TNotification ref_event) []))
     (ref_worker_state [ref_prefs])) = Inr ()"
proof -
  have q: "isQuietHours ref_notif_cfg (\<lambda>_. Some (\<lambda>_. 3600)) (toPreferences ref_prefs) 5000"
    by code_simp
  have "unwanted ref_notifier ref_event (toPreferences ref_prefs) (now (ref_worker_state [ref_prefs]))"
    using q by (simp add: unwanted_def ref_notifier_def ref_notif_cfg_def toPreferences_def ref_prefs_def)
  from unwanted_notification_not_sent [OF _ _ this, of "[]" "new_task TaskSendNotification (TNotification ref_event) []" background]
  show ?thesis by (simp add: ref_event_def ref_prefs_def new_task_def)
qed


subsection \<open>The sweeper\<close>

definition ref_sweep_cfg :: maintenance_config where
  "ref_sweep_cfg = maintenance_applyDefaults \<lparr>mcInterval = 0, mcRefreshTokens = 0, mcProcessedOutbox = 0, mcLoginAttempts = 0\<rparr>"


subsection \<open>The migration tool\<close>

text \<open>A library that knows three migrations; its state is the version.\<close>

definition ref_migrator :: "nat migrator" where
  "ref_migrator = \<lparr>mbVersion = (\<lambda>v. (v, False, None)), mbUp = (\<lambda>v. (if v = 3 then Some ErrNoChange else None, 3, 5000000)),
     mbDown = (\<lambda>v. (None, 0, 7000000)), mbSteps = (\<lambda>n v. (None, nat (int v + n), 1000000)),
     mbMigrate = (\<lambda>u v. (None, u, 1000000)), mbForce = (\<lambda>n v. (None, nat n))\<rparr>"

definition ref_mig_env :: "nat mig_env" where
  "ref_mig_env = \<lparr>meLib = ref_migrator, meSetup = None, meGetenv = (\<lambda>k. if k = ''USER'' then ''ci'' else []),
     meFiles = [''migrations/00001_init.up.sql'', ''migrations/00002_users.up.sql''],
     meUUID = (\<lambda>n. ''u'' @ show_nat n), meErrorText = (\<lambda>_. ''error''), meFormatTime = (\<lambda>_. ''2024'')\<rparr>"

definition ref_mig_world :: "nat mig_world" where
  "ref_mig_world = \<lparr>mgTables = [(''public'', ''migration_history''), (''auth'', ''schema_migrations'')], mgHistory = [], mgLib = 1,
     mgClock = 1000, mgFaults = [], mgDraws = 0, mgLogs = []\<rparr>"

theorem five_digit_files_not_found_witness:
  "getMigrationName ref_mig_env 2 = ''migration_'' @ show_nat 2"
proof -
  have b: "path_base ''migrations/00001_init.up.sql'' = ''00001'' @ CHR ''_'' # ''init.up.sql''"
    "path_base ''migrations/00002_users.up.sql'' = ''00002'' @ CHR ''_'' # ''users.up.sql''"
    by code_simp+
  have "\<exists>ds rest. path_base f = ds @ CHR ''_'' # rest \<and> length ds = 5" if "f \<in> set (meFiles ref_mig_env)" for f
  proof -
    from that have "f = ''migrations/00001_init.up.sql'' \<or> f = ''migrations/00002_users.up.sql''" by (simp add: ref_mig_env_def)
    then show ?thesis
    proof
      assume "f = ''migrations/00001_init.up.sql''"
      with b(1) show ?thesis by (intro exI [of _ "''00001''"] exI [of _ "''init.up.sql''"]) simp
    next
      assume "f = ''migrations/00002_users.up.sql''"
      with b(2) show ?thesis by (intro exI [of _ "''00002''"] exI [of _ "''users.up.sql''"]) simp
    qed
  qed
  then show ?thesis by (intro five_digit_files_not_found ballI)
qed


theorem force_is_never_recorded_witness:
  "\<exists>w1. run_state (forceMigration ref_mig_env 2) ref_mig_world = (Inr (), w1) \<and> mgLib w1 = 2 \<and> mgHistory w1 = []"
  using force_is_never_recorded [of ref_mig_world ref_mig_env 2 2]
  by (auto simp: ref_mig_env_def ref_mig_world_def ref_migrator_def)

end
