(* ===== verification/System_Witnesses.thy ===== *)
theory System_Witnesses
  imports System_Steps Worker_Witnesses Tool_Witnesses
begin

section \<open>Evaluations of the whole program\<close>

text \<open>The properties of the reachable states and of the routing of tasks, at the concrete services.\<close>

definition ref_processes :: "ref_store processes" where
  "ref_processes = \<lparr>syService = ref_service, syEncoder = \<lparr>enEncode = show_int, enDecode = (\<lambda>s. Some (int (read_nat s)))\<rparr>,
     syStorage = None, syMails = ref_processor, syFCM = True, syNotifications = ref_notifier, syMaintenance = ref_sweep_cfg\<rparr>"

lemma ref_processes_simps [simp]:
  "syService ref_processes = ref_service" "wired_service (syService ref_processes) 100" "remote_only ref_processes"
  by (simp_all add: ref_processes_def remote_only_def ref_processor_def NewProcessor_def ref_notifier_def)

lemma ref_swept: "(system_step ref_processes)\<^sup>*\<^sup>* w (after (run_job ref_processes background JobSweep) w)"
  by (rule r_into_rtranclp) (rule sys_job)


theorem revoked_session_never_authenticates_witness:
  "\<exists>ds w''. run_state (authenticate (ref_icset :: (ref_store, unit) icset) (ref_ctx ''Bearer at_ann'')) ref_state =
     (Inr (ref_user 1 ''ann@x.org'' ''hash1'', ds), w'') \<and> dsID ds \<noteq> 10"
  using ref_authenticates ref_db_revoked
    revoked_session_never_authenticates [OF ref_processes_simps(2,3), of 10 ref_state ref_state]
  by simp blast

theorem revoked_session_never_refreshes_witness:
  "\<exists>tp w' row. run_state (RefreshTokens ref_service background ''rt_ann'') ref_state = (Inr tp, w') \<and>
     row \<in> set (refreshTokens ref_db) \<and> rrTokenHash row = ref_sha ''rt_ann'' \<and> rrSessionID row \<noteq> 10"
proof -
  from refresh_up [of ref_service 100 ref_state background 1000 ref_row ref_phone ref_ann "''rt_ann''"
      "replicate 32 (char_of (0 :: nat))" "replicate 32 (char_of (1 :: nat))"]
    ref_db_wf ref_refreshable ref_new_hash ref_services.services_axioms
  obtain tp w' where r: "run_state (RefreshTokens ref_service background ''rt_ann'') ref_state = (Inr tp, w')"
    by (auto simp: hashToken_def tokenByteLen_def)
  then have "run_state (RefreshTokens (syService ref_processes) background ''rt_ann'') ref_state = (Inr tp, w')" by simp
  from revoked_session_never_refreshes [OF ref_processes_simps(2,3) _ rtranclp.rtrancl_refl this, of 10] ref_db_revoked r
  show ?thesis by (auto simp: hashToken_def)
qed

theorem deleted_account_never_returns_witness:
  "\<exists>w1. run_state (DeleteAccount ref_service background 1) ref_state = (Inr (), w1) \<and>
    (\<forall>tok tp w3. run_state (RefreshTokens ref_service background tok) w1 = (Inr tp, w3) \<longrightarrow> uID (tpUser tp) \<noteq> 1)"
proof -
  let ?d = "ref_db\<lparr>users := upd_where (\<lambda>u. uID u = 1 \<and> live_user u) (\<lambda>u. u\<lparr>uDeletedAt := Some 5000, uUpdatedAt := 5000\<rparr>) (users ref_db)\<rparr>"
  have "SoftDeleteUser 1 (dbRole ref_state) (now ref_state) (nextID ref_state) (db ref_state) = Inr ((), ?d)"
    by (simp add: SoftDeleteUser_def del: ref_db_simps)
  from run_query_up [of ref_state "SoftDeleteUser 1" "()" ?d background, OF ref_state_simps(7) this]
  have "\<exists>w1. run_state (DeleteAccount ref_service background 1) ref_state = (Inr (), w1)"
    by (simp add: DeleteAccount_def users_SoftDeleteByID_def case_prod_beta)
  then obtain w1 where r: "run_state (DeleteAccount ref_service background 1) ref_state = (Inr (), w1)" by blast
  then have r': "run_state (DeleteAccount (syService ref_processes) background 1) ref_state = (Inr (), w1)" by simp
  have "services (svExt (syService ref_processes))" by (simp add: ref_services.services_axioms)
  note p = deleted_account_never_returns [OF this ref_processes_simps(2,3) _ r' rtranclp.rtrancl_refl]
  from p [THEN conjunct2, THEN conjunct1] r show ?thesis by auto
qed


end
