(* ===== verification/Access_Witnesses.thy ===== *)
theory Access_Witnesses
  imports Access_Guarantees Handler_Witnesses System_Witnesses
begin

section \<open>Evaluations of the abstract store and of access\<close>

text \<open>The properties of \<open>Abstract_Stores\<close> and \<open>Access_Guarantees\<close> at the concrete services, and a world where
  Ann is an administrator.\<close>

theorem program_refines_credential_store_witness:
  "cred_step\<^sup>*\<^sup>* (credentials ref_db) (credentials (db (after (run_job ref_processes background JobSweep) ref_state)))"
  using program_refines_credential_store [OF ref_processes_simps(2,3) ref_swept, of ref_state] ref_db_wf by simp

theorem outbox_event_never_lost_witness:
  "let w = ref_outbox_state; w' = after (run_job ref_processes background JobSweep) w; e = ref_outbox ! 0 in
     holds_pending e (nextID w') (db w') \<or>
     (\<exists>v. (system_step ref_processes)\<^sup>*\<^sup>* w v \<and> holds_settled e (db v) \<and> (system_step ref_processes)\<^sup>*\<^sup>* v w')"
proof -
  have "ref_outbox ! 0 \<in> set (outbox (db ref_outbox_state))" "pending_row (ref_outbox ! 0)"
    by (simp_all add: ref_outbox_simps(1)) (simp_all add: ref_outbox_def pending_row_def new_outbox_row_def)
  from outbox_event_never_lost [OF ref_processes_simps(2,3) ref_swept this] show ?thesis by (simp add: Let_def)
qed


text \<open>Ann, an administrator, makes Bob one.\<close>

definition adm_ann :: user where "adm_ann = (ref_user 1 ''ann@x.org'' ''hash1'')\<lparr>uRole := RoAdmin\<rparr>"

definition adm_db :: database where
  "adm_db = ref_db\<lparr>users := [adm_ann, ref_user 2 ''bob@x.org'' ''hash2'']\<rparr>"

definition adm_state :: "ref_store world" where "adm_state = ref_state\<lparr>db := adm_db\<rparr>"

definition adm_deps :: "ref_store grpc_deps" where
  "adm_deps = \<lparr>gdProcesses = ref_processes, gdVersion = [], gdPingDB = (\<lambda>w. True), gdPingCache = (\<lambda>w. True)\<rparr>"

lemma adm_simps [simp]:
  "users adm_db = [adm_ann, ref_user 2 ''bob@x.org'' ''hash2'']" "sessions adm_db = sessions ref_db"
  "uID adm_ann = 1" "live_user adm_ann" "uStatus adm_ann = StActive" "user_IsAdmin adm_ann"
  "\<not> user_IsAdmin (ref_user 2 ''bob@x.org'' ''hash2'')" "gdProcesses adm_deps = ref_processes"
  by (simp_all add: adm_db_def adm_ann_def adm_deps_def user_IsAdmin_def live_user_def ref_user_def zero_user_def)

lemma publish_audit_users: "frames user_view (bus_Publish (wired_bus E n) c (AuditLogWritten a))"
proof -
  have ob: "frames user_view (outbox_Write c evt)" "frames user_view (outbox_MarkProcessed c i)"
      "frames user_view (outbox_MarkFailed c i m)" for c evt i m
    by (auto simp: outbox_Write_def outbox_MarkProcessed_def outbox_MarkFailed_def InsertOutbox_def
        MarkOutboxProcessed_def MarkOutboxFailed_def Let_def
        intro!: frames_intros frames_query_user split: if_splits)
  have enq: "frames user_view (dispatcher_Enqueue c evt opts)" for c evt opts
    unfolding dispatcher_Enqueue_def by (intro frames_intros frames_enqueue) (simp_all add: user_view_def)
  have kick: "frames user_view kickDrain"
    by (simp add: frames_def kickDrain_def user_view_def)
  have d: "frames user_view (dispatch (wired_bus E n) c (AuditLogWritten a) [audit_sub])"
    by (auto simp: dispatch_def wired_bus_simps(1) audit_sub_def intro!: frames_intros enq)
  show ?thesis
    unfolding bus_Publish_def Let_def eventType.simps wired_bus_subs
    by (intro frames_intros ob d kick) simp_all
qed

lemma adm_authenticates:
  assumes "BearerToken c = Inr ''at_ann''" and "\<not> cxInTx c" and "db_up w" "redis_up w" "db w = adm_db" "now w = 5000"
    and "redis w = redis ref_state"
  shows "\<exists>ds w'. run_state (authenticate (ref_icset :: (ref_store, 'q) icset) c) w = (Inr (adm_ann, ds), w') \<and>
    db_up w' \<and> db w' = adm_db"
proof -
  have val: "run_state (at_Validate ref_ext ''at_ann'') w =
      (Inr \<lparr>acSessionID = 11, acUserID = 1, acDeviceID = ''phone'', acIssuedAt = 3000\<rparr>, w)"
    using assms by (simp add: at_Validate_def redis_call_up ref_redis_def visible_def not_expired_def)
  show ?thesis
    using assms
    by (simp add: authenticate_def val sessions_FindByID_def store_run_def with_tx_def db_up_def
        tx_body_def begin_tx_def applyRLS_def commit_tx_def exec_query_def next_fault_def
        GetDeviceSessionByID_def GetUserByID_def first_row_def toDeviceSession_def ds_IsRevoked_def ds_IsInactive_def
        ds_user_def user_IsActive_def hour_def minute_def second_def Let_def)
qed

lemma adm_handler:
  assumes "db_up w" and "db w = adm_db"
  shows "\<exists>w'. run_state (grpc_handler adm_deps c (Rpc (RpcSetUserRole (''2'', ''admin'')))) w = (Inr AnsEmpty, w') \<and>
    (\<exists>u\<in>set (users (db w')). uID u = 2 \<and> user_IsAdmin u)"
proof -
  let ?d = "adm_db\<lparr>users := upd_where (\<lambda>u. uID u = 2) (\<lambda>u. u\<lparr>uRole := RoAdmin, uUpdatedAt := now w\<rparr>) (users adm_db)\<rparr>"
  have dec: "enDecode (syEncoder ref_processes) ''2'' = Some 2"
    by (simp add: ref_processes_def) code_simp
  have "UpdateUserRole 2 RoAdmin (dbRole w) (now w) (nextID w) (db w) = Inr ((), ?d)"
    by (simp only: UpdateUserRole_def assms(2))
  from run_query_up [of w "UpdateUserRole 2 RoAdmin" "()" ?d c, OF assms(1) this]
  have r: "run_state (users_SetRole c 2 ''admin'') w = (Inr (), after_query c ?d w)"
    by (simp add: users_SetRole_def user_role_of_def users_UpdateRole_def)
  have u: "\<exists>u\<in>set (users ?d). uID u = 2 \<and> user_IsAdmin u"
    by (simp add: upd_where_def user_IsAdmin_def)
  let ?w1 = "after_query c ?d w"
  obtain w2 where a: "run_state (audit (wired_bus ref_ext 100) c ''user.set_role'' ''2'') ?w1 = ((), w2)"
    by (cases "run_state (audit (wired_bus ref_ext 100) c ''user.set_role'' ''2'') ?w1") auto
  have "frames user_view (audit (wired_bus ref_ext 100) c ''user.set_role'' ''2'')"
    by (auto simp: audit_def intro!: frames_intros publish_audit_users)
  from framesD [OF this a] have "users (db w2) = users ?d" by (simp add: user_view_def)
  moreover have "run_state (grpc_handler adm_deps c (Rpc (RpcSetUserRole (''2'', ''admin'')))) w = (Inr AnsEmpty, w2)"
    by (simp add: answer_def h_SetUserRole_def dec r a no_content_def del: adm_simps(1))
  ultimately show ?thesis using u by auto
qed

theorem only_admins_make_admins_witness:
  "\<exists>x w'. run_state (grpc_unary ref_icset (grpc_handler adm_deps) (ref_ctx ''Bearer at_ann'')
      (Rpc (RpcSetUserRole (''2'', ''admin'')))) adm_state = (x, w') \<and> (\<exists>u\<in>set (users (db w')). uID u = 2 \<and> user_IsAdmin u) \<and>
    (\<exists>a. a \<in> set (users adm_db) \<and> uID a = 1 \<and> user_IsAdmin a)"
proof -
  let ?i = "ref_icset :: (ref_store, grpc_request) icset" and ?c = "ref_ctx ''Bearer at_ann''"
    and ?q = "Rpc (RpcSetUserRole (''2'', ''admin''))" and ?h = "grpc_handler adm_deps"
  let ?m = "grpc_method ?q" and ?w1 = "adm_state\<lparr>rpcInFlight := rpcInFlight adm_state + 1\<rparr>"
  obtain rid w0 where r: "run_state (if incomingRequestID ?c = [] then NewUUIDNoDash (icExt ?i) else ret (incomingRequestID ?c)) ?w1 = (rid, w0)"
    by fastforce
  then have w0: "db_up w0" "redis_up w0" "db w0 = adm_db" "now w0 = 5000" "redis w0 = redis ref_state"
    using ref_state_simps(7,8)
    by (auto simp: adm_state_def NewUUIDNoDash_def db_up_def redis_up_def simp del: ref_state_simps(9) split: if_splits)
  have c: "BearerToken (inner_ctx ?i rid ?c) = Inr ''at_ann''" "\<not> cxInTx (inner_ctx ?i rid ?c)"
    using ref_bearer by simp_all (simp add: inner_ctx_def)
  from adm_authenticates [OF c w0] obtain ds w1 where
    a: "run_state (authenticate ?i (inner_ctx ?i rid ?c)) w0 = (Inr (adm_ann, ds), w1)" "db_up w1" "db w1 = adm_db" by blast
  from adm_handler [OF a(2,3)] obtain w2 where
    h: "run_state (?h ((inner_ctx ?i rid ?c)\<lparr>cxSubject := subject_of adm_ann ds\<rparr>) ?q) w1 = (Inr AnsEmpty, w2)"
      "\<exists>u\<in>set (users (db w2)). uID u = 2 \<and> user_IsAdmin u" by blast
  have v: "validateMessage ?i ?q = Inr ()" by (simp add: validateMessage_def ref_icset_def newSet_def)
  have "?m \<notin> set publicMethods" by (simp add: publicMethods_def)
  with a(1) h(1) v have "run_state (guarded ?i ?m ?h (inner_ctx ?i rid ?c) ?q) w0 = (Inr AnsEmpty, w2)"
    by (simp add: guarded_def authUnary_def validationUnary_def)
  with r have "db (after (serve ?i ?m ?h ?c ?q) adm_state) = db w2"
    by (simp add: serve_unfold recoveryUnary_def metricsUnary_def requestIDUnary_def loggingUnary_def localeUnary_def
        errorUnary_def inner_ctx_def [symmetric] Let_def)
  then obtain x w' u where run: "run_state (grpc_unary ?i ?h ?c ?q) adm_state = (x, w')"
    and u: "u \<in> set (users (db w'))" "user_IsAdmin u" "uID u = 2"
    using h(2) by (metis grpc_unary_def prod.collapse)
  have dep: "services (icExt ?i)" "wired_service (syService (gdProcesses adm_deps)) 100" "remote_only (gdProcesses adm_deps)"
    using ref_services.services_axioms by simp_all
  have new: "\<forall>u0\<in>set (users (db adm_state)). uID u0 = uID u \<longrightarrow> \<not> user_IsAdmin u0"
    by (simp add: adm_state_def u(3))
  from only_admins_make_admins [OF dep run u(1,2) new] obtain a where "a \<in> set (users (db adm_state))" "user_IsAdmin a" by blast
  then have "\<exists>a. a \<in> set (users adm_db) \<and> uID a = 1 \<and> user_IsAdmin a" by (auto simp: adm_state_def)
  then show ?thesis using run u by blast
qed

end
