(* ===== verification/Config_Guarantees.thy ===== *)
theory Config_Guarantees
  imports Platform_Config
begin

section \<open>What configuration and connection strings guarantee\<close>

text \<open>
  The connection strings of \<open>BuildDSN\<close> are read back as the values they were built from, by a reader of
  the keyword/value format as the documentation of libpq describes it; and what holds of a
  configuration that was loaded.
\<close>

subsection \<open>The keyword/value format\<close>

text \<open>Keyword, equal sign and value, separated by blanks, which may also stand around the equal sign; a
  value in single quotes may contain blanks; a backslash takes the next character literally.\<close>

definition blank :: "char \<Rightarrow> bool" where "blank c = is_space c"

fun read_quoted :: "string \<Rightarrow> (string \<times> string) option" where
  "read_quoted [] = None"
| "read_quoted (c # cs) =
     (if c = CHR 0x27 then Some ([], cs)
      else if c = CHR 0x5C then
        (case cs of [] \<Rightarrow> None | d # ds \<Rightarrow> map_option (\<lambda>(v, r). (d # v, r)) (read_quoted ds))
      else map_option (\<lambda>(v, r). (c # v, r)) (read_quoted cs))"

fun read_bare :: "string \<Rightarrow> (string \<times> string) option" where
  "read_bare [] = Some ([], [])"
| "read_bare (c # cs) =
     (if blank c then Some ([], cs)
      else if c = CHR 0x5C then
        (case cs of [] \<Rightarrow> None | d # ds \<Rightarrow> map_option (\<lambda>(v, r). (d # v, r)) (read_bare ds))
      else map_option (\<lambda>(v, r). (c # v, r)) (read_bare cs))"

definition read_value :: "string \<Rightarrow> (string \<times> string) option" where
  "read_value s = (case s of c # cs \<Rightarrow> if c = CHR 0x27 then read_quoted cs else read_bare s | [] \<Rightarrow> read_bare s)"

lemma read_quoted_shorter: "read_quoted s = Some (v, r) \<Longrightarrow> length r < length s"
  by (induction s arbitrary: v r rule: read_quoted.induct)
    (force split: if_splits list.splits)+

lemma read_bare_shorter: "read_bare s = Some (v, r) \<Longrightarrow> length r \<le> length s"
  by (induction s arbitrary: v r rule: read_bare.induct)
    (force split: if_splits list.splits)+

lemma read_value_shorter: "read_value s = Some (v, r) \<Longrightarrow> length r \<le> length s"
  by (cases s) (auto simp: read_value_def simp del: read_bare.simps dest!: read_bare_shorter read_quoted_shorter split: if_splits)

text \<open>A keyword up to the equal sign, and what follows it.\<close>

definition read_key :: "string \<Rightarrow> (string \<times> string) option" where
  "read_key s =
     (let k = takeWhile (\<lambda>c. c \<noteq> CHR ''='' \<and> \<not> blank c) s
      in case dropWhile blank (drop (length k) s) of
           c # r \<Rightarrow> if c = CHR ''='' \<and> k \<noteq> [] then Some (k, dropWhile blank r) else None
         | [] \<Rightarrow> None)"

lemma read_key_shorter: "read_key s = Some (k, r) \<Longrightarrow> length r < length s"
proof -
  assume a: "read_key s = Some (k, r)"
  let ?k = "takeWhile (\<lambda>c. c \<noteq> CHR ''='' \<and> \<not> blank c) s"
  from a obtain c u where u: "dropWhile blank (drop (length ?k) s) = c # u" "r = dropWhile blank u"
    by (auto simp: read_key_def Let_def split: list.splits if_splits)
  have "length r \<le> length u" using u(2) by (simp add: length_dropWhile_le)
  also have "length u < length (dropWhile blank (drop (length ?k) s))" using u(1) by simp
  also have "\<dots> \<le> length (drop (length ?k) s)" by (rule length_dropWhile_le)
  also have "\<dots> \<le> length s" by simp
  finally show ?thesis .
qed

function read_settings :: "string \<Rightarrow> (string \<times> string) list option" where
  "read_settings s =
     (case dropWhile blank s of [] \<Rightarrow> Some []
      | c # cs \<Rightarrow>
          (case read_key (c # cs) of None \<Rightarrow> None
           | Some (k, r) \<Rightarrow>
               (case read_value r of None \<Rightarrow> None
                | Some (v, rest) \<Rightarrow> map_option (Cons (k, v)) (read_settings rest))))"
  by pat_completeness auto
termination
proof (relation "measure length")
  fix s c cs p k r q v rest
  assume a: "dropWhile blank s = c # cs" "read_key (c # cs) = Some p" "(k, r) = p" "read_value r = Some q" "(v, rest) = q"
  have "length rest \<le> length r" using read_value_shorter [of r v rest] a(4,5) by simp
  also have "length r < length (c # cs)" using read_key_shorter [of "c # cs" k r] a(2,3) by simp
  also have "length (c # cs) \<le> length s" using length_dropWhile_le [of blank s] a(1) by simp
  finally show "(rest, s) \<in> measure length" by simp
qed simp

declare read_settings.simps [simp del]

subsection \<open>Connection strings round-trip\<close>

definition escaped :: "string \<Rightarrow> string" where
  "escaped v = concat (map (\<lambda>c. if c = CHR 0x5C then [CHR 0x5C, CHR 0x5C] else if c = CHR 0x27 then [CHR 0x5C, CHR 0x27] else [c]) v)"

lemma quoteDSN_escaped: "quoteDSN v = CHR 0x27 # escaped v @ [CHR 0x27]"
proof -
  have "replace_char (CHR 0x27) [CHR 0x5C, CHR 0x27] (replace_char (CHR 0x5C) [CHR 0x5C, CHR 0x5C] v) = escaped v"
    by (induction v) (simp_all add: replace_char_def escaped_def)
  then show ?thesis by (simp add: quoteDSN_def)
qed

lemma read_escaped: "read_quoted (escaped v @ CHR 0x27 # rest) = Some (v, rest)"
  by (induction v) (simp_all add: escaped_def)

lemma read_quoteDSN: "read_value (quoteDSN v @ rest) = Some (v, rest)"
  by (simp add: quoteDSN_escaped read_value_def read_escaped)

definition keyword :: "string \<Rightarrow> bool" where
  "keyword k = (k \<noteq> [] \<and> list_all (\<lambda>c. c \<noteq> CHR ''='' \<and> \<not> blank c) k)"

lemma quote_not_blank: "\<not> blank (CHR 0x27)" "\<not> blank (CHR ''='')"
  by (simp_all add: blank_def is_space_def)

lemma read_setting:
  assumes "keyword k"
  shows "read_settings (k @ ''='' @ quoteDSN v @ rest) = map_option (Cons (k, v)) (read_settings rest)"
proof -
  have k: "takeWhile (\<lambda>c. c \<noteq> CHR ''='' \<and> \<not> blank c) (k @ ''='' @ u) = k" for u
    using assms by (subst takeWhile_append2) (auto simp: keyword_def list_all_iff)
  have q: "dropWhile blank (quoteDSN v @ rest) = quoteDSN v @ rest" by (simp add: quoteDSN_escaped quote_not_blank)
  have key: "read_key (k @ ''='' @ quoteDSN v @ rest) = Some (k, quoteDSN v @ rest)"
    using assms q by (simp only: read_key_def k Let_def) (simp add: keyword_def quote_not_blank)
  obtain c cs where c: "k = c # cs" "\<not> blank c" using assms by (cases k) (auto simp: keyword_def)
  then have "dropWhile blank (k @ ''='' @ quoteDSN v @ rest) = k @ ''='' @ quoteDSN v @ rest" by simp
  with key c(1) show ?thesis
    by (subst read_settings.simps) (simp add: read_quoteDSN)
qed

lemma read_blank: "read_settings (CHR '' '' # s) = read_settings s"
proof -
  have "blank (CHR '' '')" by (simp add: blank_def is_space_def)
  then show ?thesis by (subst (1 2) read_settings.simps) simp
qed

text \<open>C40. Whatever the credentials contain, quotes, backslashes, blanks or equal signs, a reader of the
  keyword/value format gets back from the connection string exactly those six values, followed by
  the settings of the extra parameters: no value can add, end or change a setting.\<close>

theorem dsn_roundtrip:
  "read_settings (BuildDSN creds extra) =
     map_option (append [(''host'', dcHost creds), (''port'', dcPort creds), (''user'', dcUser creds),
         (''password'', dcPassword creds), (''dbname'', dcDBName creds), (''sslmode'', dcSSLMode creds)])
       (read_settings (join_with '' '' extra))"
proof -
  have k: "keyword ''host''" "keyword ''port''" "keyword ''user''" "keyword ''password''" "keyword ''dbname''" "keyword ''sslmode''"
    by (simp_all add: keyword_def blank_def is_space_def)
  note r = k [THEN read_setting, simplified]
  note last = k(6) [THEN read_setting, of _ "[]", simplified]
  have "read_settings [] = Some []" by (subst read_settings.simps) simp
  with r last show ?thesis
    by (cases "read_settings (join_with '' '' extra)") (auto simp: BuildDSN_def Let_def read_blank)
qed

subsection \<open>A loaded configuration\<close>

lemma load_as_ok: "(load_as what r f = Inr y) = (\<exists>x. r = Inr x \<and> f x = Inr y)"
  by (simp add: load_as_def split: sum.split)

lemma events_defaults_set:
  "evInterval (events_applyDefaults c) \<noteq> 0" "evBatchSize (events_applyDefaults c) \<noteq> 0"
  "evMetricsInterval (events_applyDefaults c) \<noteq> 0" "evConcurrency (events_applyDefaults c) \<noteq> 0"
  by (auto simp: events_applyDefaults_def second_def Let_def)

lemma events_defaults_idem: "events_applyDefaults (events_applyDefaults c) = events_applyDefaults c"
  by (simp add: events_applyDefaults_def second_def Let_def)

lemma maintenance_defaults_set:
  "mcInterval (maintenance_applyDefaults c) \<noteq> 0" "mcRefreshTokens (maintenance_applyDefaults c) \<noteq> 0"
  "mcProcessedOutbox (maintenance_applyDefaults c) \<noteq> 0" "mcLoginAttempts (maintenance_applyDefaults c) \<noteq> 0"
  by (auto simp: maintenance_applyDefaults_def hour_def minute_def second_def Let_def)

lemma validated_problems: "(configs_Validate c = Inr ()) = (config_problems c = [])"
  by (simp add: configs_Validate_def Let_def)

text \<open>What a process may rely on once \<open>LoadAllConfigs\<close> returned: the required values are there and no
  interval, batch or retention of the outbox and the sweeper is zero. The batch size of the mails is
  not among them.\<close>

theorem loaded_config_is_usable:
  assumes "LoadAllConfigs fs = Inr cfg"
  shows "config_problems cfg = [] \<and> events_applyDefaults (csEvents cfg) = csEvents cfg \<and>
    evBatchSize (csEvents cfg) \<noteq> 0 \<and> evInterval (csEvents cfg) \<noteq> 0 \<and> mcInterval (csMaintenance cfg) \<noteq> 0 \<and>
    cfEmail fs = Inr (csEmail cfg)"
  using assms
  by (auto simp: LoadAllConfigs_def load_as_ok Let_def validated_problems events_defaults_set maintenance_defaults_set
      events_defaults_idem)

text \<open>The environment has one of three names, and a development environment is never the production one.\<close>

lemma dev_never_production: "IsDev env \<Longrightarrow> InitApp env \<noteq> env_production"
proof -
  assume "IsDev env"
  moreover have "to_lower env_production = env_production" "to_lower ''prod'' = ''prod''"
    by (simp_all add: to_lower_def to_lower_char_def env_production_def)
  ultimately show ?thesis
    by (auto simp: IsDev_def InitApp_def Let_def env_production_def env_testing_def env_development_def)
qed

end
