(* ===== verification/Cache_Extra.thy ===== *)
theory Cache_Extra
  imports Redis_Cache
begin

section \<open>Read-through and bulk deletion of the cache manager\<close>

text \<open>
  The operations of \<open>internal/platform/cache/manager.go\<close> no service uses yet: \<open>GetOrSet\<close> as one caller
  runs it, whose flight nobody shares, and the deletions over a SCAN. A SCAN is what it yields: the
  keys of the iteration and the error it ends with.
\<close>

definition singleflightKind :: "string \<Rightarrow> string" where
  "singleflightKind key = (if length key \<ge> 8 \<and> take 8 key = ''session:'' then ''session'' else ''service'')"

text \<open>The function of the flight reads the cache again, into a raw message, and ignores an error of it.\<close>

definition fetch_and_set ::
  "'r redis_api \<Rightarrow> string \<Rightarrow> string \<Rightarrow> ('r, cache_value) call \<Rightarrow> cache_options \<Rightarrow> ('r, cache_value) call" where
  "fetch_and_set R prefix key fetchFunc opts = do {
     r \<leftarrow> cache_get R prefix Some key;
     case r of Inr (Some raw) \<Rightarrow> returnE raw
     | _ \<Rightarrow> do {
         r \<leftarrow> fetchFunc;
         case r of Inl ferr \<Rightarrow> fail ferr
         | Inr value \<Rightarrow> do {
             r \<leftarrow> cache_set R prefix key value opts;
             case r of Inl sErr \<Rightarrow> fail sErr | Inr _ \<Rightarrow> returnE value }}}"

definition GetOrSet ::
  "'r redis_api \<Rightarrow> string \<Rightarrow> (cache_value \<Rightarrow> 'a option) \<Rightarrow> string \<Rightarrow> ('r, cache_value) call \<Rightarrow> cache_options \<Rightarrow>
     ('r, bool \<times> 'a) call" where
  "GetOrSet R prefix dest key fetchFunc opts = do {
     r \<leftarrow> cache_get R prefix dest key;
     case r of Inl getErr \<Rightarrow> fail getErr
     | Inr (Some x) \<Rightarrow> returnE (True, x)
     | Inr None \<Rightarrow> do {
         r \<leftarrow> fetch_and_set R prefix key fetchFunc opts;
         case r of Inl sfErr \<Rightarrow> fail sfErr
         | Inr v \<Rightarrow> (case dest v of None \<Rightarrow> fail (MsgE ''json'') | Some x \<Rightarrow> returnE (False, x)) }}"

definition scanCount :: nat where "scanCount = 200"

fun scanDelete :: "'r redis_api \<Rightarrow> string list \<Rightarrow> goerr option \<Rightarrow> string list \<Rightarrow> ('r, unit) call" where
  "scanDelete R [] iterErr batch =
     (case iterErr of Some e \<Rightarrow> fail e
      | None \<Rightarrow> if length batch > 0 then redis_call (\<lambda>s t. ((), del_all R t batch s)) else returnE ())"
| "scanDelete R (key # keys) iterErr batch =
     (let batch = batch @ [key]
      in if length batch = scanCount
         then do {
           r \<leftarrow> redis_call (\<lambda>s t. ((), del_all R t batch s));
           case r of Inl e \<Rightarrow> fail e | Inr _ \<Rightarrow> scanDelete R keys iterErr [] }
         else scanDelete R keys iterErr batch)"

text \<open>\<open>scan\<close> is Redis's SCAN as a function of the pattern.\<close>

definition InvalidatePattern ::
  "'r redis_api \<Rightarrow> (string \<Rightarrow> string list \<times> goerr option) \<Rightarrow> string \<Rightarrow> string \<Rightarrow> ('r, unit) call" where
  "InvalidatePattern R scan prefix pattern = (let (keys, e) = scan (buildKey prefix pattern) in scanDelete R keys e [])"

definition cache_Flush ::
  "'r redis_api \<Rightarrow> (string \<Rightarrow> string list \<times> goerr option) \<Rightarrow> string \<Rightarrow> ('r, unit) call" where
  "cache_Flush R scan prefix = (let (keys, e) = scan (buildKey prefix ''*'') in scanDelete R keys e [])"

subsection \<open>Laws\<close>

context redis_service
begin

lemma cache_get_up:
  "redis_up w \<Longrightarrow> run_state (cache_get R p dest key) w = (decode dest (visible (rdKeys R (redis w)) (now w) (buildKey p key)), w)"
  by (simp add: cache_get_def redis_call_up get_law)

lemma cache_set_up:
  assumes "redis_up w" and "coTags opts = []"
  shows "\<exists>s. run_state (cache_set R p key v opts) w = (Inr (), w\<lparr>redis := s\<rparr>) \<and>
    rdKeys R s = (rdKeys R (redis w))(buildKey p key \<mapsto> (RData v, deadline (now w) (coTTL opts)))"
  using assms by (intro exI [of _ "rdSet R (redis w) (now w) (buildKey p key) v (coTTL opts)"])
    (simp add: cache_set_def redis_call_up set_law)

text \<open>A miss fetches once and stores the value; until it expires, every later call is a hit that does not
  fetch at all.\<close>

lemma get_or_set_fetches_once:
  assumes "redis_up w" and "coTags opts = []" and "visible (rdKeys R (redis w)) (now w) (buildKey p key) = None"
    and "run_state fetch w = (Inr v, w1)" "redis_up w1" "now w1 = now w" "redis w1 = redis w" "dest v = Some x"
  shows "\<exists>w2. run_state (GetOrSet R p dest key fetch opts) w = (Inr (False, x), w2) \<and>
    (\<forall>fetch' w3. redis_up w3 \<and> redis w3 = redis w2 \<and> (coTTL opts > 0 \<longrightarrow> now w3 < now w + coTTL opts) \<longrightarrow>
       run_state (GetOrSet R p dest key fetch' opts) w3 = (Inr (True, x), w3))"
proof -
  from cache_set_up [OF assms(5,2), of p key v] obtain s where
    s: "run_state (cache_set R p key v opts) w1 = (Inr (), w1\<lparr>redis := s\<rparr>)"
      "rdKeys R s = (rdKeys R (redis w))(buildKey p key \<mapsto> (RData v, deadline (now w) (coTTL opts)))"
    using assms(6,7) by auto
  have "run_state (GetOrSet R p dest key fetch opts) w = (Inr (False, x), w1\<lparr>redis := s\<rparr>)"
    using assms(1,3,4,8) s(1) by (simp add: GetOrSet_def fetch_and_set_def cache_get_up decode_def)
  moreover have "run_state (GetOrSet R p dest key fetch' opts) w3 = (Inr (True, x), w3)"
    if "redis_up w3" "redis w3 = s" "coTTL opts > 0 \<longrightarrow> now w3 < now w + coTTL opts" for fetch' w3
  proof -
    have "visible (rdKeys R s) (now w3) (buildKey p key) = Some (RData v)"
      using that(3) s(2) by (simp add: visible_def deadline_def not_expired_def)
    then show ?thesis using that(1,2) assms(8) by (simp add: GetOrSet_def cache_get_up decode_def)
  qed
  ultimately show ?thesis by auto
qed

text \<open>A deletion over a scan removes the keys it yields, in batches, and nothing else.\<close>

lemma scanDelete_removes:
  assumes "redis_up w" "length batch < scanCount"
  shows "\<exists>s. run_state (scanDelete R keys None batch) w = (Inr (), w\<lparr>redis := s\<rparr>) \<and>
    rdKeys R s = (\<lambda>k. if k \<in> set batch \<union> set keys then None else rdKeys R (redis w) k)"
  using assms
proof (induction keys arbitrary: batch w)
  case Nil
  then show ?case
    by (cases "batch = []") (auto simp: redis_call_up del_all_keys intro: exI [of _ "redis w"])
next
  case (Cons key keys)
  show ?case
  proof (cases "length (batch @ [key]) = scanCount")
    case True
    let ?w = "w\<lparr>redis := del_all R (now w) (batch @ [key]) (redis w)\<rparr>"
    have "redis_up ?w" using Cons.prems by (simp add: redis_up_def)
    from Cons.IH [OF this, of "[]"] obtain s where
      "run_state (scanDelete R keys None []) ?w = (Inr (), ?w\<lparr>redis := s\<rparr>)"
      "rdKeys R s = (\<lambda>k. if k \<in> set keys then None else rdKeys R (redis ?w) k)"
      by (auto simp: scanCount_def)
    then show ?thesis using Cons.prems True
      by (intro exI [of _ s]) (auto simp: redis_call_up del_all_keys Let_def)
  next
    case False
    with Cons.prems have "length (batch @ [key]) < scanCount" by simp
    from Cons.IH [OF Cons.prems(1) this] False show ?thesis by (auto simp: Let_def)
  qed
qed

end

end
