(* ===== verification/Http_Gateway.thy ===== *)
theory Http_Gateway
  imports Grpc_Server
begin

section \<open>The HTTP gateway\<close>

text \<open>
  \<open>cmd/gateway\<close> and the handlers \<open>gen/*/v1/*.pb.gw.go\<close> it registers: each turns an HTTP request into a call
  of the gRPC server, taking the message from the body, the variables of the path and the query. The
  grpc-gateway runtime (marshalers, patterns, the mux) and the transport to the server are the record
  \<open>gw_runtime\<close>; what is relied on of them is the locale \<open>gateway_runtime\<close> of \<open>Gateway_Guarantees\<close>.
\<close>

subsection \<open>Requests and the runtime\<close>

record http_request =
  hqMethod :: string
  hqPath :: "string list"  \<comment> \<open>the components of the path\<close>
  hqHeaders :: "(string \<times> string list) list"
  hqBody :: string
  hqQuery :: string

type_synonym path_params = "string \<rightharpoonup> string"
type_synonym metadata = "string \<rightharpoonup> string list"
type_synonym query_form = "(string \<times> string list) list"

text \<open>What \<open>Decode\<close> gives: the message, \<open>io.EOF\<close> for an empty body, or another error.\<close>

datatype 'a decoded = Decoded 'a | BodyEOF | Malformed string

text \<open>A pattern is its opcodes and its pool, as \<open>runtime.NewPattern\<close> takes them.\<close>

type_synonym gw_pattern = "int list \<times> string list"

record gw_runtime =
  rtString :: "string \<Rightarrow> string + string"
  rtParseForm :: "http_request \<Rightarrow> string + query_form"
  rtPopulatePage :: "query_form \<Rightarrow> string + pb_page option"
  rtAnnotate :: "(string \<Rightarrow> string option) \<Rightarrow> string \<Rightarrow> http_request \<Rightarrow> goerr + metadata"
  rtDefaultHeaderMatcher :: "string \<Rightarrow> string option"
  rtDispatch :: "(string \<times> gw_pattern) list \<Rightarrow> http_request \<Rightarrow> (nat \<times> path_params) option"
  rtIncoming :: "metadata \<Rightarrow> ctx"  \<comment> \<open>the context the server makes of the metadata it receives\<close>
  dcRegister :: "string \<Rightarrow> pb_register decoded"
  dcLogin :: "string \<Rightarrow> pb_login decoded"
  dcVerify :: "string \<Rightarrow> string decoded"
  dcEmail :: "string \<Rightarrow> string decoded"
  dcRefresh :: "string \<Rightarrow> string decoded"
  dcReset :: "string \<Rightarrow> (string \<times> string) decoded"
  dcChange :: "string \<Rightarrow> (string \<times> string) decoded"
  dcProfile :: "string \<Rightarrow> profile_update decoded"
  dcSettings :: "string \<Rightarrow> pb_settings decoded"
  dcPushToken :: "string \<Rightarrow> register_token_input decoded"
  dcPrefs :: "string \<Rightarrow> pb_notif_prefs decoded"
  dcSuspend :: "string \<Rightarrow> pb_suspend decoded"
  dcRole :: "string \<Rightarrow> (string \<times> string) decoded"

subsection \<open>Zero messages\<close>

definition zero_register :: pb_register where
  "zero_register = \<lparr>prgEmail = [], prgPassword = [], prgFirstName = [], prgLastName = [], prgDevice = None\<rparr>"
definition zero_login :: pb_login where "zero_login = \<lparr>plEmail = [], plPassword = [], plDevice = None\<rparr>"
definition zero_profile :: profile_update where
  "zero_profile = \<lparr>puFirstName = None, puLastName = None, puBio = None, puAvatar = None\<rparr>"
definition zero_settings :: pb_settings where
  "zero_settings = \<lparr>psLocale = [], psTimezone = [], psTheme = [], psEmailNotifications = False,
     psPushNotifications = False, psMarketingEmails = False\<rparr>"
definition zero_push_token :: register_token_input where
  "zero_push_token = \<lparr>rtiDeviceID = [], rtiToken = [], rtiPlatform = [], rtiAppVersion = []\<rparr>"
definition zero_prefs :: pb_notif_prefs where
  "zero_prefs = \<lparr>pnPush = False, pnEmail = False, pnMarketing = False, pnQuietHoursEnabled = False, pnTimezone = [],
     pnQuietHoursStart = [], pnQuietHoursEnd = []\<rparr>"
definition zero_suspend :: pb_suspend where
  "zero_suspend = \<lparr>pbsId = [], pbsReason = [], pbsDetails = [], pbsPermanent = False, pbsDays = 0\<rparr>"

subsection \<open>The request functions\<close>

text \<open>The two blocks the generated functions repeat: decoding the body, an empty one leaving the zero
  message, and reading a variable of the path.\<close>

definition gw_decode :: "'a decoded \<Rightarrow> 'a \<Rightarrow> ('a \<Rightarrow> goerr + 'b) \<Rightarrow> goerr + 'b" where
  "gw_decode d zero k =
     (case d of Malformed err \<Rightarrow> Inl (StatusE InvalidArgument err) | BodyEOF \<Rightarrow> k zero | Decoded protoReq \<Rightarrow> k protoReq)"

definition gw_path_param :: "gw_runtime \<Rightarrow> path_params \<Rightarrow> string \<Rightarrow> (string \<Rightarrow> goerr + 'b) \<Rightarrow> goerr + 'b" where
  "gw_path_param g pathParams nm k =
     (case pathParams nm of None \<Rightarrow> Inl (StatusE InvalidArgument (''missing parameter '' @ nm))
      | Some val \<Rightarrow>
          (case rtString g val of
             Inl err \<Rightarrow> Inl (StatusE InvalidArgument (''type mismatch, parameter: '' @ nm @ '', error: '' @ err))
           | Inr s \<Rightarrow> k s))"

text \<open>AuthService.\<close>

definition request_AuthService_Register_0 :: "gw_runtime \<Rightarrow> http_request \<Rightarrow> path_params \<Rightarrow> goerr + grpc_request" where
  "request_AuthService_Register_0 g req pathParams =
     gw_decode (dcRegister g (hqBody req)) zero_register (\<lambda>protoReq. Inr (Rpc (RpcRegister protoReq)))"

definition request_AuthService_Login_0 :: "gw_runtime \<Rightarrow> http_request \<Rightarrow> path_params \<Rightarrow> goerr + grpc_request" where
  "request_AuthService_Login_0 g req pathParams =
     gw_decode (dcLogin g (hqBody req)) zero_login (\<lambda>protoReq. Inr (Rpc (RpcLogin protoReq)))"

definition request_AuthService_RefreshToken_0 :: "gw_runtime \<Rightarrow> http_request \<Rightarrow> path_params \<Rightarrow> goerr + grpc_request" where
  "request_AuthService_RefreshToken_0 g req pathParams =
     gw_decode (dcRefresh g (hqBody req)) [] (\<lambda>protoReq. Inr (Rpc (RpcRefreshToken protoReq)))"

definition request_AuthService_Logout_0 :: "gw_runtime \<Rightarrow> http_request \<Rightarrow> path_params \<Rightarrow> goerr + grpc_request" where
  "request_AuthService_Logout_0 g req pathParams = Inr (Rpc RpcLogout)"

definition request_AuthService_VerifyEmail_0 :: "gw_runtime \<Rightarrow> http_request \<Rightarrow> path_params \<Rightarrow> goerr + grpc_request" where
  "request_AuthService_VerifyEmail_0 g req pathParams =
     gw_decode (dcVerify g (hqBody req)) [] (\<lambda>protoReq. Inr (Rpc (RpcVerifyEmail protoReq)))"

definition request_AuthService_ResendVerification_0 :: "gw_runtime \<Rightarrow> http_request \<Rightarrow> path_params \<Rightarrow> goerr + grpc_request" where
  "request_AuthService_ResendVerification_0 g req pathParams = Inr (Rpc RpcResendVerification)"

definition request_AuthService_RequestPasswordReset_0 :: "gw_runtime \<Rightarrow> http_request \<Rightarrow> path_params \<Rightarrow> goerr + grpc_request" where
  "request_AuthService_RequestPasswordReset_0 g req pathParams =
     gw_decode (dcEmail g (hqBody req)) [] (\<lambda>protoReq. Inr (Rpc (RpcRequestPasswordReset protoReq)))"

definition request_AuthService_ResetPassword_0 :: "gw_runtime \<Rightarrow> http_request \<Rightarrow> path_params \<Rightarrow> goerr + grpc_request" where
  "request_AuthService_ResetPassword_0 g req pathParams =
     gw_decode (dcReset g (hqBody req)) ([], []) (\<lambda>protoReq. Inr (Rpc (RpcResetPassword protoReq)))"

definition request_AuthService_ChangePassword_0 :: "gw_runtime \<Rightarrow> http_request \<Rightarrow> path_params \<Rightarrow> goerr + grpc_request" where
  "request_AuthService_ChangePassword_0 g req pathParams =
     gw_decode (dcChange g (hqBody req)) ([], []) (\<lambda>protoReq. Inr (Rpc (RpcChangePassword protoReq)))"

definition request_AuthService_ListDevices_0 :: "gw_runtime \<Rightarrow> http_request \<Rightarrow> path_params \<Rightarrow> goerr + grpc_request" where
  "request_AuthService_ListDevices_0 g req pathParams = Inr (Rpc RpcListDevices)"

definition request_AuthService_RevokeDevice_0 :: "gw_runtime \<Rightarrow> http_request \<Rightarrow> path_params \<Rightarrow> goerr + grpc_request" where
  "request_AuthService_RevokeDevice_0 g req pathParams =
     gw_path_param g pathParams ''device_id'' (\<lambda>deviceId. Inr (Rpc (RpcRevokeDevice deviceId)))"

text \<open>UserService.\<close>

definition request_UserService_GetUser_0 :: "gw_runtime \<Rightarrow> http_request \<Rightarrow> path_params \<Rightarrow> goerr + grpc_request" where
  "request_UserService_GetUser_0 g req pathParams =
     gw_path_param g pathParams ''id'' (\<lambda>i. Inr (Rpc (RpcGetUser i)))"

definition request_UserService_GetMe_0 :: "gw_runtime \<Rightarrow> http_request \<Rightarrow> path_params \<Rightarrow> goerr + grpc_request" where
  "request_UserService_GetMe_0 g req pathParams = Inr (Rpc RpcGetMe)"

definition request_UserService_UpdateMe_0 :: "gw_runtime \<Rightarrow> http_request \<Rightarrow> path_params \<Rightarrow> goerr + grpc_request" where
  "request_UserService_UpdateMe_0 g req pathParams =
     gw_decode (dcProfile g (hqBody req)) zero_profile (\<lambda>protoReq. Inr (Rpc (RpcUpdateMe protoReq)))"

definition request_UserService_DeleteMe_0 :: "gw_runtime \<Rightarrow> http_request \<Rightarrow> path_params \<Rightarrow> goerr + grpc_request" where
  "request_UserService_DeleteMe_0 g req pathParams = Inr (Rpc RpcDeleteMe)"

definition request_UserService_GetSettings_0 :: "gw_runtime \<Rightarrow> http_request \<Rightarrow> path_params \<Rightarrow> goerr + grpc_request" where
  "request_UserService_GetSettings_0 g req pathParams = Inr (Rpc RpcGetSettings)"

definition request_UserService_UpdateSettings_0 :: "gw_runtime \<Rightarrow> http_request \<Rightarrow> path_params \<Rightarrow> goerr + grpc_request" where
  "request_UserService_UpdateSettings_0 g req pathParams =
     gw_decode (dcSettings g (hqBody req)) zero_settings (\<lambda>protoReq. Inr (Rpc (RpcUpdateSettings protoReq)))"

definition request_UserService_RegisterPushToken_0 :: "gw_runtime \<Rightarrow> http_request \<Rightarrow> path_params \<Rightarrow> goerr + grpc_request" where
  "request_UserService_RegisterPushToken_0 g req pathParams =
     gw_decode (dcPushToken g (hqBody req)) zero_push_token (\<lambda>protoReq. Inr (Rpc (RpcRegisterPushToken protoReq)))"

definition request_UserService_GetNotificationPreferences_0 :: "gw_runtime \<Rightarrow> http_request \<Rightarrow> path_params \<Rightarrow> goerr + grpc_request" where
  "request_UserService_GetNotificationPreferences_0 g req pathParams = Inr (Rpc RpcGetNotificationPreferences)"

definition request_UserService_UpdateNotificationPreferences_0 :: "gw_runtime \<Rightarrow> http_request \<Rightarrow> path_params \<Rightarrow> goerr + grpc_request" where
  "request_UserService_UpdateNotificationPreferences_0 g req pathParams =
     gw_decode (dcPrefs g (hqBody req)) zero_prefs (\<lambda>protoReq. Inr (Rpc (RpcUpdateNotificationPreferences protoReq)))"

text \<open>AdminService.\<close>

definition request_AdminService_ListUsers_0 :: "gw_runtime \<Rightarrow> http_request \<Rightarrow> path_params \<Rightarrow> goerr + grpc_request" where
  "request_AdminService_ListUsers_0 g req pathParams =
     (case rtParseForm g req of Inl err \<Rightarrow> Inl (StatusE InvalidArgument err)
      | Inr form \<Rightarrow>
          (case rtPopulatePage g form of Inl err \<Rightarrow> Inl (StatusE InvalidArgument err)
           | Inr pg \<Rightarrow> Inr (Rpc (RpcListUsers pg))))"

definition request_AdminService_GetUser_0 :: "gw_runtime \<Rightarrow> http_request \<Rightarrow> path_params \<Rightarrow> goerr + grpc_request" where
  "request_AdminService_GetUser_0 g req pathParams =
     gw_path_param g pathParams ''id'' (\<lambda>i. Inr (Rpc (RpcAdminGetUser i)))"

definition request_AdminService_SuspendUser_0 :: "gw_runtime \<Rightarrow> http_request \<Rightarrow> path_params \<Rightarrow> goerr + grpc_request" where
  "request_AdminService_SuspendUser_0 g req pathParams =
     gw_decode (dcSuspend g (hqBody req)) zero_suspend (\<lambda>protoReq.
       gw_path_param g pathParams ''id'' (\<lambda>i. Inr (Rpc (RpcSuspendUser (protoReq\<lparr>pbsId := i\<rparr>)))))"

definition request_AdminService_UnsuspendUser_0 :: "gw_runtime \<Rightarrow> http_request \<Rightarrow> path_params \<Rightarrow> goerr + grpc_request" where
  "request_AdminService_UnsuspendUser_0 g req pathParams =
     gw_path_param g pathParams ''id'' (\<lambda>i. Inr (Rpc (RpcUnsuspendUser i)))"

definition request_AdminService_SetUserRole_0 :: "gw_runtime \<Rightarrow> http_request \<Rightarrow> path_params \<Rightarrow> goerr + grpc_request" where
  "request_AdminService_SetUserRole_0 g req pathParams =
     gw_decode (dcRole g (hqBody req)) ([], []) (\<lambda>protoReq.
       gw_path_param g pathParams ''id'' (\<lambda>i. Inr (Rpc (RpcSetUserRole (i, snd protoReq)))))"

text \<open>HealthService.\<close>

definition request_HealthService_Check_0 :: "gw_runtime \<Rightarrow> http_request \<Rightarrow> path_params \<Rightarrow> goerr + grpc_request" where
  "request_HealthService_Check_0 g req pathParams = Inr HealthCheck"

definition request_HealthService_Ready_0 :: "gw_runtime \<Rightarrow> http_request \<Rightarrow> path_params \<Rightarrow> goerr + grpc_request" where
  "request_HealthService_Ready_0 g req pathParams = Inr HealthReady"

subsection \<open>Routes\<close>

text \<open>An entry of the mux: the HTTP method and pattern it is registered for, and of its handler the method
  of the server and the path template it annotates the context with, and the request function.\<close>

record gw_route =
  grMethod :: string
  grPattern :: gw_pattern
  grFullMethod :: string
  grTemplate :: string
  grRequest :: "gw_runtime \<Rightarrow> http_request \<Rightarrow> path_params \<Rightarrow> goerr + grpc_request"

text \<open>The patterns.\<close>

definition pattern_AuthService_Register_0 :: gw_pattern where
  "pattern_AuthService_Register_0 = ([2, 0, 2, 1, 2, 2], [''v1'', ''auth'', ''register''])"
definition pattern_AuthService_Login_0 :: gw_pattern where
  "pattern_AuthService_Login_0 = ([2, 0, 2, 1, 2, 2], [''v1'', ''auth'', ''login''])"
definition pattern_AuthService_RefreshToken_0 :: gw_pattern where
  "pattern_AuthService_RefreshToken_0 = ([2, 0, 2, 1, 2, 2, 2, 3], [''v1'', ''auth'', ''token'', ''refresh''])"
definition pattern_AuthService_Logout_0 :: gw_pattern where
  "pattern_AuthService_Logout_0 = ([2, 0, 2, 1, 2, 2], [''v1'', ''auth'', ''logout''])"
definition pattern_AuthService_VerifyEmail_0 :: gw_pattern where
  "pattern_AuthService_VerifyEmail_0 = ([2, 0, 2, 1, 2, 2, 2, 3], [''v1'', ''auth'', ''email'', ''verify''])"
definition pattern_AuthService_ResendVerification_0 :: gw_pattern where
  "pattern_AuthService_ResendVerification_0 = ([2, 0, 2, 1, 2, 2, 2, 3], [''v1'', ''auth'', ''email'', ''resend''])"
definition pattern_AuthService_RequestPasswordReset_0 :: gw_pattern where
  "pattern_AuthService_RequestPasswordReset_0 = ([2, 0, 2, 1, 2, 2, 2, 3], [''v1'', ''auth'', ''password'', ''reset-request''])"
definition pattern_AuthService_ResetPassword_0 :: gw_pattern where
  "pattern_AuthService_ResetPassword_0 = ([2, 0, 2, 1, 2, 2, 2, 3], [''v1'', ''auth'', ''password'', ''reset''])"
definition pattern_AuthService_ChangePassword_0 :: gw_pattern where
  "pattern_AuthService_ChangePassword_0 = ([2, 0, 2, 1, 2, 2, 2, 3], [''v1'', ''auth'', ''password'', ''change''])"
definition pattern_AuthService_ListDevices_0 :: gw_pattern where
  "pattern_AuthService_ListDevices_0 = ([2, 0, 2, 1, 2, 2], [''v1'', ''auth'', ''devices''])"
definition pattern_AuthService_RevokeDevice_0 :: gw_pattern where
  "pattern_AuthService_RevokeDevice_0 = ([2, 0, 2, 1, 2, 2, 1, 0, 4, 1, 5, 3], [''v1'', ''auth'', ''devices'', ''device_id''])"

definition pattern_UserService_GetUser_0 :: gw_pattern where
  "pattern_UserService_GetUser_0 = ([2, 0, 2, 1, 1, 0, 4, 1, 5, 2], [''v1'', ''users'', ''id''])"
definition pattern_UserService_GetMe_0 :: gw_pattern where
  "pattern_UserService_GetMe_0 = ([2, 0, 2, 1, 2, 2], [''v1'', ''users'', ''me''])"
definition pattern_UserService_UpdateMe_0 :: gw_pattern where
  "pattern_UserService_UpdateMe_0 = ([2, 0, 2, 1, 2, 2], [''v1'', ''users'', ''me''])"
definition pattern_UserService_DeleteMe_0 :: gw_pattern where
  "pattern_UserService_DeleteMe_0 = ([2, 0, 2, 1, 2, 2], [''v1'', ''users'', ''me''])"
definition pattern_UserService_GetSettings_0 :: gw_pattern where
  "pattern_UserService_GetSettings_0 = ([2, 0, 2, 1, 2, 2, 2, 3], [''v1'', ''users'', ''me'', ''settings''])"
definition pattern_UserService_UpdateSettings_0 :: gw_pattern where
  "pattern_UserService_UpdateSettings_0 = ([2, 0, 2, 1, 2, 2, 2, 3], [''v1'', ''users'', ''me'', ''settings''])"
definition pattern_UserService_RegisterPushToken_0 :: gw_pattern where
  "pattern_UserService_RegisterPushToken_0 = ([2, 0, 2, 1, 2, 2, 2, 3], [''v1'', ''users'', ''me'', ''push-tokens''])"
definition pattern_UserService_GetNotificationPreferences_0 :: gw_pattern where
  "pattern_UserService_GetNotificationPreferences_0 = ([2, 0, 2, 1, 2, 2, 2, 3], [''v1'', ''users'', ''me'', ''notification-preferences''])"
definition pattern_UserService_UpdateNotificationPreferences_0 :: gw_pattern where
  "pattern_UserService_UpdateNotificationPreferences_0 = ([2, 0, 2, 1, 2, 2, 2, 3], [''v1'', ''users'', ''me'', ''notification-preferences''])"

definition pattern_AdminService_ListUsers_0 :: gw_pattern where
  "pattern_AdminService_ListUsers_0 = ([2, 0, 2, 1, 2, 2], [''v1'', ''admin'', ''users''])"
definition pattern_AdminService_GetUser_0 :: gw_pattern where
  "pattern_AdminService_GetUser_0 = ([2, 0, 2, 1, 2, 2, 1, 0, 4, 1, 5, 3], [''v1'', ''admin'', ''users'', ''id''])"
definition pattern_AdminService_SuspendUser_0 :: gw_pattern where
  "pattern_AdminService_SuspendUser_0 = ([2, 0, 2, 1, 2, 2, 1, 0, 4, 1, 5, 3, 2, 4], [''v1'', ''admin'', ''users'', ''id'', ''suspend''])"
definition pattern_AdminService_UnsuspendUser_0 :: gw_pattern where
  "pattern_AdminService_UnsuspendUser_0 = ([2, 0, 2, 1, 2, 2, 1, 0, 4, 1, 5, 3, 2, 4], [''v1'', ''admin'', ''users'', ''id'', ''unsuspend''])"
definition pattern_AdminService_SetUserRole_0 :: gw_pattern where
  "pattern_AdminService_SetUserRole_0 = ([2, 0, 2, 1, 2, 2, 1, 0, 4, 1, 5, 3, 2, 4], [''v1'', ''admin'', ''users'', ''id'', ''role''])"

definition pattern_HealthService_Check_0 :: gw_pattern where
  "pattern_HealthService_Check_0 = ([2, 0, 2, 1], [''v1'', ''health''])"
definition pattern_HealthService_Ready_0 :: gw_pattern where
  "pattern_HealthService_Ready_0 = ([2, 0, 2, 1, 2, 2], [''v1'', ''health'', ''ready''])"

text \<open>The routes of each service, in the order of the calls of \<open>mux.Handle\<close>.\<close>

definition RegisterAuthServiceHandlerClient :: "gw_route list" where
  "RegisterAuthServiceHandlerClient = [
     \<lparr>grMethod = ''POST'', grPattern = pattern_AuthService_Register_0, grFullMethod = ''/auth.v1.AuthService/Register'',
       grTemplate = ''/v1/auth/register'', grRequest = request_AuthService_Register_0\<rparr>,
     \<lparr>grMethod = ''POST'', grPattern = pattern_AuthService_Login_0, grFullMethod = ''/auth.v1.AuthService/Login'',
       grTemplate = ''/v1/auth/login'', grRequest = request_AuthService_Login_0\<rparr>,
     \<lparr>grMethod = ''POST'', grPattern = pattern_AuthService_RefreshToken_0, grFullMethod = ''/auth.v1.AuthService/RefreshToken'',
       grTemplate = ''/v1/auth/token/refresh'', grRequest = request_AuthService_RefreshToken_0\<rparr>,
     \<lparr>grMethod = ''POST'', grPattern = pattern_AuthService_Logout_0, grFullMethod = ''/auth.v1.AuthService/Logout'',
       grTemplate = ''/v1/auth/logout'', grRequest = request_AuthService_Logout_0\<rparr>,
     \<lparr>grMethod = ''POST'', grPattern = pattern_AuthService_VerifyEmail_0, grFullMethod = ''/auth.v1.AuthService/VerifyEmail'',
       grTemplate = ''/v1/auth/email/verify'', grRequest = request_AuthService_VerifyEmail_0\<rparr>,
     \<lparr>grMethod = ''POST'', grPattern = pattern_AuthService_ResendVerification_0, grFullMethod = ''/auth.v1.AuthService/ResendVerification'',
       grTemplate = ''/v1/auth/email/resend'', grRequest = request_AuthService_ResendVerification_0\<rparr>,
     \<lparr>grMethod = ''POST'', grPattern = pattern_AuthService_RequestPasswordReset_0, grFullMethod = ''/auth.v1.AuthService/RequestPasswordReset'',
       grTemplate = ''/v1/auth/password/reset-request'', grRequest = request_AuthService_RequestPasswordReset_0\<rparr>,
     \<lparr>grMethod = ''POST'', grPattern = pattern_AuthService_ResetPassword_0, grFullMethod = ''/auth.v1.AuthService/ResetPassword'',
       grTemplate = ''/v1/auth/password/reset'', grRequest = request_AuthService_ResetPassword_0\<rparr>,
     \<lparr>grMethod = ''POST'', grPattern = pattern_AuthService_ChangePassword_0, grFullMethod = ''/auth.v1.AuthService/ChangePassword'',
       grTemplate = ''/v1/auth/password/change'', grRequest = request_AuthService_ChangePassword_0\<rparr>,
     \<lparr>grMethod = ''GET'', grPattern = pattern_AuthService_ListDevices_0, grFullMethod = ''/auth.v1.AuthService/ListDevices'',
       grTemplate = ''/v1/auth/devices'', grRequest = request_AuthService_ListDevices_0\<rparr>,
     \<lparr>grMethod = ''DELETE'', grPattern = pattern_AuthService_RevokeDevice_0, grFullMethod = ''/auth.v1.AuthService/RevokeDevice'',
       grTemplate = ''/v1/auth/devices/{device_id}'', grRequest = request_AuthService_RevokeDevice_0\<rparr>]"

definition RegisterUserServiceHandlerClient :: "gw_route list" where
  "RegisterUserServiceHandlerClient = [
     \<lparr>grMethod = ''GET'', grPattern = pattern_UserService_GetUser_0, grFullMethod = ''/user.v1.UserService/GetUser'',
       grTemplate = ''/v1/users/{id}'', grRequest = request_UserService_GetUser_0\<rparr>,
     \<lparr>grMethod = ''GET'', grPattern = pattern_UserService_GetMe_0, grFullMethod = ''/user.v1.UserService/GetMe'',
       grTemplate = ''/v1/users/me'', grRequest = request_UserService_GetMe_0\<rparr>,
     \<lparr>grMethod = ''PATCH'', grPattern = pattern_UserService_UpdateMe_0, grFullMethod = ''/user.v1.UserService/UpdateMe'',
       grTemplate = ''/v1/users/me'', grRequest = request_UserService_UpdateMe_0\<rparr>,
     \<lparr>grMethod = ''DELETE'', grPattern = pattern_UserService_DeleteMe_0, grFullMethod = ''/user.v1.UserService/DeleteMe'',
       grTemplate = ''/v1/users/me'', grRequest = request_UserService_DeleteMe_0\<rparr>,
     \<lparr>grMethod = ''GET'', grPattern = pattern_UserService_GetSettings_0, grFullMethod = ''/user.v1.UserService/GetSettings'',
       grTemplate = ''/v1/users/me/settings'', grRequest = request_UserService_GetSettings_0\<rparr>,
     \<lparr>grMethod = ''PUT'', grPattern = pattern_UserService_UpdateSettings_0, grFullMethod = ''/user.v1.UserService/UpdateSettings'',
       grTemplate = ''/v1/users/me/settings'', grRequest = request_UserService_UpdateSettings_0\<rparr>,
     \<lparr>grMethod = ''POST'', grPattern = pattern_UserService_RegisterPushToken_0, grFullMethod = ''/user.v1.UserService/RegisterPushToken'',
       grTemplate = ''/v1/users/me/push-tokens'', grRequest = request_UserService_RegisterPushToken_0\<rparr>,
     \<lparr>grMethod = ''GET'', grPattern = pattern_UserService_GetNotificationPreferences_0, grFullMethod = ''/user.v1.UserService/GetNotificationPreferences'',
       grTemplate = ''/v1/users/me/notification-preferences'', grRequest = request_UserService_GetNotificationPreferences_0\<rparr>,
     \<lparr>grMethod = ''PUT'', grPattern = pattern_UserService_UpdateNotificationPreferences_0, grFullMethod = ''/user.v1.UserService/UpdateNotificationPreferences'',
       grTemplate = ''/v1/users/me/notification-preferences'', grRequest = request_UserService_UpdateNotificationPreferences_0\<rparr>]"

definition RegisterAdminServiceHandlerClient :: "gw_route list" where
  "RegisterAdminServiceHandlerClient = [
     \<lparr>grMethod = ''GET'', grPattern = pattern_AdminService_ListUsers_0, grFullMethod = ''/admin.v1.AdminService/ListUsers'',
       grTemplate = ''/v1/admin/users'', grRequest = request_AdminService_ListUsers_0\<rparr>,
     \<lparr>grMethod = ''GET'', grPattern = pattern_AdminService_GetUser_0, grFullMethod = ''/admin.v1.AdminService/GetUser'',
       grTemplate = ''/v1/admin/users/{id}'', grRequest = request_AdminService_GetUser_0\<rparr>,
     \<lparr>grMethod = ''POST'', grPattern = pattern_AdminService_SuspendUser_0, grFullMethod = ''/admin.v1.AdminService/SuspendUser'',
       grTemplate = ''/v1/admin/users/{id}/suspend'', grRequest = request_AdminService_SuspendUser_0\<rparr>,
     \<lparr>grMethod = ''POST'', grPattern = pattern_AdminService_UnsuspendUser_0, grFullMethod = ''/admin.v1.AdminService/UnsuspendUser'',
       grTemplate = ''/v1/admin/users/{id}/unsuspend'', grRequest = request_AdminService_UnsuspendUser_0\<rparr>,
     \<lparr>grMethod = ''PUT'', grPattern = pattern_AdminService_SetUserRole_0, grFullMethod = ''/admin.v1.AdminService/SetUserRole'',
       grTemplate = ''/v1/admin/users/{id}/role'', grRequest = request_AdminService_SetUserRole_0\<rparr>]"

definition RegisterHealthServiceHandlerClient :: "gw_route list" where
  "RegisterHealthServiceHandlerClient = [
     \<lparr>grMethod = ''GET'', grPattern = pattern_HealthService_Check_0, grFullMethod = ''/health.v1.HealthService/Check'',
       grTemplate = ''/v1/health'', grRequest = request_HealthService_Check_0\<rparr>,
     \<lparr>grMethod = ''GET'', grPattern = pattern_HealthService_Ready_0, grFullMethod = ''/health.v1.HealthService/Ready'',
       grTemplate = ''/v1/health/ready'', grRequest = request_HealthService_Ready_0\<rparr>]"

definition mux_routes :: "gw_route list" where
  "mux_routes = RegisterAuthServiceHandlerClient @ RegisterUserServiceHandlerClient @
     RegisterAdminServiceHandlerClient @ RegisterHealthServiceHandlerClient"

subsection \<open>Serving a request\<close>

definition headerMatcher :: "gw_runtime \<Rightarrow> string \<Rightarrow> string option" where
  "headerMatcher g key =
     (if to_lower key \<in> {''authorization'', ''accept-language'', ''lang'', ''x-request-id''} then Some (to_lower key)
      else rtDefaultHeaderMatcher g key)"

datatype 'p http_answer = HTTPError goerr | Forwarded 'p | RouteNotFound

text \<open>The handler closure of a route; \<open>call\<close> is the connection to the server.\<close>

definition gw_handler ::
  "gw_runtime \<Rightarrow> (metadata \<Rightarrow> grpc_request \<Rightarrow> ('r, 'p) call) \<Rightarrow> gw_route \<Rightarrow> http_request \<Rightarrow> path_params \<Rightarrow>
     ('r, 'p http_answer) proc" where
  "gw_handler g call r req pathParams =
     (case rtAnnotate g (headerMatcher g) (grFullMethod r) req of Inl err \<Rightarrow> ret (HTTPError err)
      | Inr md \<Rightarrow>
          (case grRequest r g req pathParams of Inl err \<Rightarrow> ret (HTTPError err)
           | Inr protoReq \<Rightarrow> do {
               resp \<leftarrow> call md protoReq;
               case resp of Inl err \<Rightarrow> ret (HTTPError err) | Inr msg \<Rightarrow> ret (Forwarded msg) }))"

definition gw_lookup :: "gw_runtime \<Rightarrow> http_request \<Rightarrow> (gw_route \<times> path_params) option" where
  "gw_lookup g req =
     (case rtDispatch g (map (\<lambda>r. (grMethod r, grPattern r)) mux_routes) req of None \<Rightarrow> None
      | Some (i, pathParams) \<Rightarrow> Some (mux_routes ! i, pathParams))"

definition gw_serve ::
  "gw_runtime \<Rightarrow> (metadata \<Rightarrow> grpc_request \<Rightarrow> ('r, 'p) call) \<Rightarrow> http_request \<Rightarrow> ('r, 'p http_answer) proc" where
  "gw_serve g call req =
     (case gw_lookup g req of None \<Rightarrow> ret RouteNotFound
      | Some (r, pathParams) \<Rightarrow> gw_handler g call r req pathParams)"

text \<open>The server behind the connection.\<close>

definition gw_upstream ::
  "gw_runtime \<Rightarrow> ('r, grpc_request) icset \<Rightarrow> ('r, grpc_request, rpc_answer) handler \<Rightarrow>
     metadata \<Rightarrow> grpc_request \<Rightarrow> ('r, rpc_answer) call" where
  "gw_upstream g i h md q = grpc_unary i h (rtIncoming g md) q"

subsection \<open>The process\<close>

text \<open>What each service adds to the mux; a registration fails when no client can be made for the
  endpoint.\<close>

definition RegisterAuthServiceHandler :: "gw_route list" where
  "RegisterAuthServiceHandler = RegisterAuthServiceHandlerClient"

definition RegisterAuthServiceHandlerFromEndpoint :: "(string \<Rightarrow> goerr option) \<Rightarrow> string \<Rightarrow> goerr + gw_route list" where
  "RegisterAuthServiceHandlerFromEndpoint newClient endpoint =
     (case newClient endpoint of Some err \<Rightarrow> Inl err | None \<Rightarrow> Inr RegisterAuthServiceHandler)"

definition RegisterUserServiceHandler :: "gw_route list" where
  "RegisterUserServiceHandler = RegisterUserServiceHandlerClient"

definition RegisterUserServiceHandlerFromEndpoint :: "(string \<Rightarrow> goerr option) \<Rightarrow> string \<Rightarrow> goerr + gw_route list" where
  "RegisterUserServiceHandlerFromEndpoint newClient endpoint =
     (case newClient endpoint of Some err \<Rightarrow> Inl err | None \<Rightarrow> Inr RegisterUserServiceHandler)"

definition RegisterAdminServiceHandler :: "gw_route list" where
  "RegisterAdminServiceHandler = RegisterAdminServiceHandlerClient"

definition RegisterAdminServiceHandlerFromEndpoint :: "(string \<Rightarrow> goerr option) \<Rightarrow> string \<Rightarrow> goerr + gw_route list" where
  "RegisterAdminServiceHandlerFromEndpoint newClient endpoint =
     (case newClient endpoint of Some err \<Rightarrow> Inl err | None \<Rightarrow> Inr RegisterAdminServiceHandler)"

definition RegisterHealthServiceHandler :: "gw_route list" where
  "RegisterHealthServiceHandler = RegisterHealthServiceHandlerClient"

definition RegisterHealthServiceHandlerFromEndpoint :: "(string \<Rightarrow> goerr option) \<Rightarrow> string \<Rightarrow> goerr + gw_route list" where
  "RegisterHealthServiceHandlerFromEndpoint newClient endpoint =
     (case newClient endpoint of Some err \<Rightarrow> Inl err | None \<Rightarrow> Inr RegisterHealthServiceHandler)"

text \<open>\<open>run\<close> registers the services at the upstream address one by one and then listens.\<close>

datatype gw_outcome = GatewayDisabled | GatewayFatal goerr | GatewayListens string string "gw_route list"

fun gw_register :: "(string \<Rightarrow> goerr + gw_route list) list \<Rightarrow> string \<Rightarrow> goerr + gw_route list" where
  "gw_register [] upstream = Inr []"
| "gw_register (reg # rs) upstream =
     (case reg upstream of Inl err \<Rightarrow> Inl err
      | Inr routes \<Rightarrow> (case gw_register rs upstream of Inl err \<Rightarrow> Inl err | Inr later \<Rightarrow> Inr (routes @ later)))"

definition registrars :: "(string \<Rightarrow> goerr option) \<Rightarrow> (string \<Rightarrow> goerr + gw_route list) list" where
  "registrars newClient = [RegisterAuthServiceHandlerFromEndpoint newClient, RegisterUserServiceHandlerFromEndpoint newClient,
     RegisterAdminServiceHandlerFromEndpoint newClient, RegisterHealthServiceHandlerFromEndpoint newClient]"

definition gateway_run :: "(string \<Rightarrow> goerr option) \<Rightarrow> string \<Rightarrow> string \<Rightarrow> goerr + gw_outcome" where
  "gateway_run newClient listenAddr upstreamAddr =
     (case gw_register (registrars newClient) upstreamAddr of Inl err \<Rightarrow> Inl err
      | Inr routes \<Rightarrow> Inr (GatewayListens listenAddr upstreamAddr routes))"

definition gateway_main ::
  "goerr + gateway_config \<Rightarrow> goerr + app_config \<Rightarrow> (string \<Rightarrow> goerr option) \<Rightarrow> gw_outcome" where
  "gateway_main gwFile appFile newClient =
     (case gwFile of Inl err \<Rightarrow> GatewayFatal (WrapE ''gateway: load config'' err)
      | Inr gw \<Rightarrow>
          if \<not> gwEnabled gw then GatewayDisabled
          else (case appFile of Inl err \<Rightarrow> GatewayFatal (WrapE ''gateway: load server config'' err)
                | Inr app \<Rightarrow>
                    let upstream = (if gwUpstreamAddr gw = [] then ''localhost:'' @ apPort app else gwUpstreamAddr gw)
                    in (case gateway_run newClient (gwListenAddr gw) upstream of
                          Inl err \<Rightarrow> GatewayFatal (WrapE ''gateway'' err) | Inr out \<Rightarrow> out)))"

text \<open>A gateway that listens serves the routes of the four services, in the order of \<open>mux_routes\<close>.\<close>

lemma gateway_serves_mux_routes:
  "gateway_main gwFile appFile newClient = GatewayListens addr up routes \<Longrightarrow> routes = mux_routes"
  by (auto simp: gateway_main_def gateway_run_def registrars_def mux_routes_def Let_def
      RegisterAuthServiceHandlerFromEndpoint_def RegisterUserServiceHandlerFromEndpoint_def
      RegisterAdminServiceHandlerFromEndpoint_def RegisterHealthServiceHandlerFromEndpoint_def
      RegisterAuthServiceHandler_def RegisterUserServiceHandler_def RegisterAdminServiceHandler_def RegisterHealthServiceHandler_def
      split: sum.splits if_splits option.splits)

end
