(* ===== verification/Gateway_Guarantees.thy ===== *)
theory Gateway_Guarantees
  imports Http_Gateway
begin

section \<open>What the gateway guarantees\<close>

text \<open>
  The routes are well-typed, every URL of the API reaches its method with the variable of its path, and
  the gate of the server holds behind the gateway. What is relied on of the grpc-gateway runtime is the
  locale \<open>gateway_runtime\<close>, stated with the documented meaning of the opcodes of a pattern.
\<close>

subsection \<open>The runtime\<close>

text \<open>Running a pattern over the components of a path: 1 pushes a component, 2 pushes it if it is the literal
  of the pool, 4 joins the topmost components, 5 binds the top to a variable of the pool.\<close>

fun run_pattern :: "int list \<Rightarrow> string list \<Rightarrow> string list \<Rightarrow> string list \<Rightarrow> path_params \<Rightarrow> path_params option" where
  "run_pattern [] pool [] stack vars = Some vars"
| "run_pattern (op # k # ops) pool cs stack vars =
     (if op = 1 then (case cs of [] \<Rightarrow> None | c # cs \<Rightarrow> run_pattern ops pool cs (c # stack) vars)
      else if op = 2 then
        (case cs of [] \<Rightarrow> None
         | c # cs \<Rightarrow> if c = pool ! nat k then run_pattern ops pool cs (c # stack) vars else None)
      else if op = 4 then
        run_pattern ops pool cs (join_with ''/'' (rev (take (nat k) stack)) # drop (nat k) stack) vars
      else if op = 5 then
        (case stack of [] \<Rightarrow> None | s # stack \<Rightarrow> run_pattern ops pool cs stack (vars(pool ! nat k \<mapsto> s)))
      else None)"
| "run_pattern ops pool cs stack vars = None"

definition pattern_match :: "gw_pattern \<Rightarrow> string list \<Rightarrow> path_params option" where
  "pattern_match p cs = run_pattern (fst p) (snd p) cs [] Map.empty"

text \<open>The last registered pattern that matches wins.\<close>

fun last_match :: "(string \<times> gw_pattern) list \<Rightarrow> string \<Rightarrow> string list \<Rightarrow> (nat \<times> path_params) option" where
  "last_match [] m cs = None"
| "last_match (p # ps) m cs =
     (case last_match ps m cs of Some (i, vars) \<Rightarrow> Some (Suc i, vars)
      | None \<Rightarrow> if fst p = m then map_option (\<lambda>vars. (0, vars)) (pattern_match (snd p) cs) else None)"

definition plain_request :: "http_request \<Rightarrow> bool" where
  "plain_request req = ((\<forall>c\<in>set (hqPath req). c \<noteq> [] \<and> CHR '':'' \<notin> set c \<and> CHR ''/'' \<notin> set c) \<and>
     (\<forall>(k, vs)\<in>set (hqHeaders req). to_lower k \<noteq> ''x-http-method-override''))"

definition forwarded_keys :: "string set" where
  "forwarded_keys = {''authorization'', ''accept-language'', ''lang'', ''x-request-id''}"

definition values_of :: "metadata \<Rightarrow> string \<Rightarrow> string list" where
  "values_of md k = (case md k of None \<Rightarrow> [] | Some vs \<Rightarrow> vs)"

text \<open>The values of the headers that a matcher sends to a metadata key, whose case does not matter.\<close>

definition matched_values :: "(string \<Rightarrow> string option) \<Rightarrow> http_request \<Rightarrow> string \<Rightarrow> string set" where
  "matched_values m req k = {v. \<exists>h vs k'. (h, vs) \<in> set (hqHeaders req) \<and> m h = Some k' \<and> to_lower k' = k \<and> v \<in> set vs}"

locale gateway_runtime =
  fixes g :: gw_runtime
  assumes string_law: "rtString g s = Inr s"
    and dispatch_law: "plain_request req \<Longrightarrow> last_match ps (hqMethod req) (hqPath req) = Some x \<Longrightarrow> rtDispatch g ps req = Some x"
    and dispatch_bound: "rtDispatch g ps req = Some (i, vars) \<Longrightarrow> i < length ps"
    and annotate_law: "rtAnnotate g m full req = Inr md \<Longrightarrow> k \<in> forwarded_keys \<Longrightarrow> set (values_of md k) = matched_values m req k"
    and incoming_law: "k \<in> forwarded_keys \<Longrightarrow> md_get (rtIncoming g md) k = values_of md k"

subsection \<open>Routes are well-typed\<close>

lemmas register_defs = RegisterAuthServiceHandlerClient_def RegisterUserServiceHandlerClient_def
  RegisterAdminServiceHandlerClient_def RegisterHealthServiceHandlerClient_def

lemmas request_defs =
  request_AuthService_Register_0_def request_AuthService_Login_0_def request_AuthService_RefreshToken_0_def
  request_AuthService_Logout_0_def request_AuthService_VerifyEmail_0_def request_AuthService_ResendVerification_0_def
  request_AuthService_RequestPasswordReset_0_def request_AuthService_ResetPassword_0_def
  request_AuthService_ChangePassword_0_def request_AuthService_ListDevices_0_def request_AuthService_RevokeDevice_0_def
  request_UserService_GetUser_0_def request_UserService_GetMe_0_def request_UserService_UpdateMe_0_def
  request_UserService_DeleteMe_0_def request_UserService_GetSettings_0_def request_UserService_UpdateSettings_0_def
  request_UserService_RegisterPushToken_0_def request_UserService_GetNotificationPreferences_0_def
  request_UserService_UpdateNotificationPreferences_0_def request_AdminService_ListUsers_0_def
  request_AdminService_GetUser_0_def request_AdminService_SuspendUser_0_def request_AdminService_UnsuspendUser_0_def
  request_AdminService_SetUserRole_0_def request_HealthService_Check_0_def request_HealthService_Ready_0_def

lemma gw_decode_Inr: "gw_decode d z k = Inr x \<Longrightarrow> \<exists>q. k q = Inr x"
  by (auto simp: gw_decode_def split: decoded.splits)

lemma gw_path_param_Inr: "gw_path_param g ps nm k = Inr x \<Longrightarrow> \<exists>v s. ps nm = Some v \<and> rtString g v = Inr s \<and> k s = Inr x"
  by (auto simp: gw_path_param_def split: option.splits sum.splits)

text \<open>A route fits when whatever message its request function makes is one of the method it announces.\<close>

definition route_typed :: "gw_route \<Rightarrow> bool" where
  "route_typed r = (\<forall>g req ps q. grRequest r g req ps = Inr q \<longrightarrow> grpc_method q = grFullMethod r)"

lemma route_typed_simps:
  "route_typed \<lparr>grMethod = m, grPattern = p, grFullMethod = f, grTemplate = t, grRequest = rq\<rparr> =
     (\<forall>g req ps q. rq g req ps = Inr q \<longrightarrow> grpc_method q = f)"
  by (simp add: route_typed_def)

lemma typed_auth: "list_all route_typed RegisterAuthServiceHandlerClient"
  by (simp add: RegisterAuthServiceHandlerClient_def route_typed_simps request_defs)
    (auto dest!: gw_decode_Inr gw_path_param_Inr)

lemma typed_user: "list_all route_typed RegisterUserServiceHandlerClient"
  by (simp add: RegisterUserServiceHandlerClient_def route_typed_simps request_defs)
    (auto dest!: gw_decode_Inr gw_path_param_Inr)

lemma typed_admin: "list_all route_typed RegisterAdminServiceHandlerClient"
  by (simp add: RegisterAdminServiceHandlerClient_def route_typed_simps request_defs)
    (auto dest!: gw_decode_Inr gw_path_param_Inr split: sum.splits)

lemma typed_health: "list_all route_typed RegisterHealthServiceHandlerClient"
  by (simp add: RegisterHealthServiceHandlerClient_def route_typed_simps request_defs)

lemma routes_typed: "list_all route_typed mux_routes"
  by (simp add: mux_routes_def typed_auth typed_user typed_admin typed_health)

definition is_upload :: "grpc_request \<Rightarrow> bool" where
  "is_upload q = (case q of Rpc (RpcUploadAvatar ms) \<Rightarrow> True | _ \<Rightarrow> False)"

lemma route_methods:
  "map grFullMethod mux_routes = [
     ''/auth.v1.AuthService/Register'', ''/auth.v1.AuthService/Login'', ''/auth.v1.AuthService/RefreshToken'',
     ''/auth.v1.AuthService/Logout'', ''/auth.v1.AuthService/VerifyEmail'', ''/auth.v1.AuthService/ResendVerification'',
     ''/auth.v1.AuthService/RequestPasswordReset'', ''/auth.v1.AuthService/ResetPassword'',
     ''/auth.v1.AuthService/ChangePassword'', ''/auth.v1.AuthService/ListDevices'', ''/auth.v1.AuthService/RevokeDevice'',
     ''/user.v1.UserService/GetUser'', ''/user.v1.UserService/GetMe'', ''/user.v1.UserService/UpdateMe'',
     ''/user.v1.UserService/DeleteMe'', ''/user.v1.UserService/GetSettings'', ''/user.v1.UserService/UpdateSettings'',
     ''/user.v1.UserService/RegisterPushToken'', ''/user.v1.UserService/GetNotificationPreferences'',
     ''/user.v1.UserService/UpdateNotificationPreferences'', ''/admin.v1.AdminService/ListUsers'',
     ''/admin.v1.AdminService/GetUser'', ''/admin.v1.AdminService/SuspendUser'', ''/admin.v1.AdminService/UnsuspendUser'',
     ''/admin.v1.AdminService/SetUserRole'', ''/health.v1.HealthService/Check'', ''/health.v1.HealthService/Ready'']"
  by (simp add: mux_routes_def register_defs)

lemma route_of_request: "grpc_method q \<in> set (map grFullMethod mux_routes) \<longleftrightarrow> \<not> is_upload q"
proof (cases q)
  case (Rpc x)
  then show ?thesis unfolding route_methods by (cases x) (simp_all add: is_upload_def)
qed (simp_all add: route_methods is_upload_def)

text \<open>C19. The routes of the gateway are well-typed: whatever the request, a message that the handler of a route
  sends is a message of the method that the route announces to the server; no method has two routes,
  and every call of the API has one except the streaming avatar upload.\<close>

theorem gateway_routes_well_typed:
  "(\<forall>r\<in>set mux_routes. \<forall>g req ps q. grRequest r g req ps = Inr q \<longrightarrow> grpc_method q = grFullMethod r) \<and>
   distinct (map grFullMethod mux_routes) \<and>
   (\<forall>q. (\<exists>r\<in>set mux_routes. grFullMethod r = grpc_method q) \<longleftrightarrow> \<not> is_upload q)"
proof (intro conjI allI)
  show "\<forall>r\<in>set mux_routes. \<forall>g req ps q. grRequest r g req ps = Inr q \<longrightarrow> grpc_method q = grFullMethod r"
    using routes_typed by (simp add: list_all_iff route_typed_def)
  show "distinct (map grFullMethod mux_routes)" by (simp add: route_methods)
  show "(\<exists>r\<in>set mux_routes. grFullMethod r = grpc_method q) \<longleftrightarrow> \<not> is_upload q" for q
    using route_of_request [of q] by (simp add: image_iff) metis
qed

subsection \<open>Every URL reaches its method\<close>

text \<open>The path a template stands for when its variable has the value \<open>v\<close>, and the variable it binds.\<close>

definition is_variable :: "string \<Rightarrow> bool" where "is_variable c = (take 1 c = ''{'')"

definition template_path :: "string \<Rightarrow> string \<Rightarrow> string list" where
  "template_path tmpl v = map (\<lambda>c. if is_variable c then v else c) (tl (split_on (CHR ''/'') tmpl))"

definition template_vars :: "string \<Rightarrow> string \<Rightarrow> path_params" where
  "template_vars tmpl v = map_of (map (\<lambda>c. (butlast (tl c), v)) (filter is_variable (tl (split_on (CHR ''/'') tmpl))))"

definition url_reaches :: "gw_route list \<Rightarrow> string \<Rightarrow> nat \<Rightarrow> bool" where
  "url_reaches rs v i =
     (last_match (map (\<lambda>r. (grMethod r, grPattern r)) rs) (grMethod (rs ! i)) (template_path (grTemplate (rs ! i)) v) =
        Some (i, template_vars (grTemplate (rs ! i)) v))"

lemmas pattern_defs =
  pattern_AuthService_Register_0_def pattern_AuthService_Login_0_def pattern_AuthService_RefreshToken_0_def
  pattern_AuthService_Logout_0_def pattern_AuthService_VerifyEmail_0_def pattern_AuthService_ResendVerification_0_def
  pattern_AuthService_RequestPasswordReset_0_def pattern_AuthService_ResetPassword_0_def
  pattern_AuthService_ChangePassword_0_def pattern_AuthService_ListDevices_0_def pattern_AuthService_RevokeDevice_0_def
  pattern_UserService_GetUser_0_def pattern_UserService_GetMe_0_def pattern_UserService_UpdateMe_0_def
  pattern_UserService_DeleteMe_0_def pattern_UserService_GetSettings_0_def pattern_UserService_UpdateSettings_0_def
  pattern_UserService_RegisterPushToken_0_def pattern_UserService_GetNotificationPreferences_0_def
  pattern_UserService_UpdateNotificationPreferences_0_def pattern_AdminService_ListUsers_0_def
  pattern_AdminService_GetUser_0_def pattern_AdminService_SuspendUser_0_def pattern_AdminService_UnsuspendUser_0_def
  pattern_AdminService_SetUserRole_0_def pattern_HealthService_Check_0_def pattern_HealthService_Ready_0_def

lemma map_patterns:
  "map (\<lambda>r. (grMethod r, grPattern r)) mux_routes = [
     (''POST'', pattern_AuthService_Register_0), (''POST'', pattern_AuthService_Login_0),
     (''POST'', pattern_AuthService_RefreshToken_0), (''POST'', pattern_AuthService_Logout_0),
     (''POST'', pattern_AuthService_VerifyEmail_0), (''POST'', pattern_AuthService_ResendVerification_0),
     (''POST'', pattern_AuthService_RequestPasswordReset_0), (''POST'', pattern_AuthService_ResetPassword_0),
     (''POST'', pattern_AuthService_ChangePassword_0), (''GET'', pattern_AuthService_ListDevices_0),
     (''DELETE'', pattern_AuthService_RevokeDevice_0), (''GET'', pattern_UserService_GetUser_0),
     (''GET'', pattern_UserService_GetMe_0), (''PATCH'', pattern_UserService_UpdateMe_0),
     (''DELETE'', pattern_UserService_DeleteMe_0), (''GET'', pattern_UserService_GetSettings_0),
     (''PUT'', pattern_UserService_UpdateSettings_0), (''POST'', pattern_UserService_RegisterPushToken_0),
     (''GET'', pattern_UserService_GetNotificationPreferences_0), (''PUT'', pattern_UserService_UpdateNotificationPreferences_0),
     (''GET'', pattern_AdminService_ListUsers_0), (''GET'', pattern_AdminService_GetUser_0),
     (''POST'', pattern_AdminService_SuspendUser_0), (''POST'', pattern_AdminService_UnsuspendUser_0),
     (''PUT'', pattern_AdminService_SetUserRole_0), (''GET'', pattern_HealthService_Check_0),
     (''GET'', pattern_HealthService_Ready_0)]"
  by (simp add: mux_routes_def register_defs)

lemma length_routes [simp]: "length mux_routes = 27"
  by (simp add: mux_routes_def register_defs)

lemma route_templates:
  "map grTemplate mux_routes = [''/v1/auth/register'', ''/v1/auth/login'', ''/v1/auth/token/refresh'', ''/v1/auth/logout'',
     ''/v1/auth/email/verify'', ''/v1/auth/email/resend'', ''/v1/auth/password/reset-request'', ''/v1/auth/password/reset'',
     ''/v1/auth/password/change'', ''/v1/auth/devices'', ''/v1/auth/devices/{device_id}'', ''/v1/users/{id}'', ''/v1/users/me'',
     ''/v1/users/me'', ''/v1/users/me'', ''/v1/users/me/settings'', ''/v1/users/me/settings'', ''/v1/users/me/push-tokens'',
     ''/v1/users/me/notification-preferences'', ''/v1/users/me/notification-preferences'', ''/v1/admin/users'',
     ''/v1/admin/users/{id}'', ''/v1/admin/users/{id}/suspend'', ''/v1/admin/users/{id}/unsuspend'', ''/v1/admin/users/{id}/role'',
     ''/v1/health'', ''/v1/health/ready'']"
  by (simp add: mux_routes_def register_defs)

lemmas template_defs = template_path_def template_vars_def is_variable_def

lemma run_pattern_end [simp]: "run_pattern [] pool cs stack vars = (if cs = [] then Some vars else None)"
  by (cases cs) simp_all

lemma pattern_meaning:
  "pattern_match pattern_AuthService_Register_0 cs = (if cs = [''v1'', ''auth'', ''register''] then Some Map.empty else None)"
  "pattern_match pattern_AuthService_Login_0 cs = (if cs = [''v1'', ''auth'', ''login''] then Some Map.empty else None)"
  "pattern_match pattern_AuthService_RefreshToken_0 cs = (if cs = [''v1'', ''auth'', ''token'', ''refresh''] then Some Map.empty else None)"
  "pattern_match pattern_AuthService_Logout_0 cs = (if cs = [''v1'', ''auth'', ''logout''] then Some Map.empty else None)"
  "pattern_match pattern_AuthService_VerifyEmail_0 cs = (if cs = [''v1'', ''auth'', ''email'', ''verify''] then Some Map.empty else None)"
  "pattern_match pattern_AuthService_ResendVerification_0 cs = (if cs = [''v1'', ''auth'', ''email'', ''resend''] then Some Map.empty else None)"
  "pattern_match pattern_AuthService_RequestPasswordReset_0 cs = (if cs = [''v1'', ''auth'', ''password'', ''reset-request''] then Some Map.empty else None)"
  "pattern_match pattern_AuthService_ResetPassword_0 cs = (if cs = [''v1'', ''auth'', ''password'', ''reset''] then Some Map.empty else None)"
  "pattern_match pattern_AuthService_ChangePassword_0 cs = (if cs = [''v1'', ''auth'', ''password'', ''change''] then Some Map.empty else None)"
  "pattern_match pattern_AuthService_ListDevices_0 cs = (if cs = [''v1'', ''auth'', ''devices''] then Some Map.empty else None)"
  "pattern_match pattern_AuthService_RevokeDevice_0 cs =
     (case cs of [c0, c1, c2, c3] \<Rightarrow> if c0 = ''v1'' \<and> c1 = ''auth'' \<and> c2 = ''devices'' then Some [''device_id'' \<mapsto> c3] else None | _ \<Rightarrow> None)"
  "pattern_match pattern_UserService_GetUser_0 cs =
     (case cs of [c0, c1, c2] \<Rightarrow> if c0 = ''v1'' \<and> c1 = ''users'' then Some [''id'' \<mapsto> c2] else None | _ \<Rightarrow> None)"
  "pattern_match pattern_UserService_GetMe_0 cs = (if cs = [''v1'', ''users'', ''me''] then Some Map.empty else None)"
  "pattern_match pattern_UserService_UpdateMe_0 cs = (if cs = [''v1'', ''users'', ''me''] then Some Map.empty else None)"
  "pattern_match pattern_UserService_DeleteMe_0 cs = (if cs = [''v1'', ''users'', ''me''] then Some Map.empty else None)"
  "pattern_match pattern_UserService_GetSettings_0 cs = (if cs = [''v1'', ''users'', ''me'', ''settings''] then Some Map.empty else None)"
  "pattern_match pattern_UserService_UpdateSettings_0 cs = (if cs = [''v1'', ''users'', ''me'', ''settings''] then Some Map.empty else None)"
  "pattern_match pattern_UserService_RegisterPushToken_0 cs = (if cs = [''v1'', ''users'', ''me'', ''push-tokens''] then Some Map.empty else None)"
  "pattern_match pattern_UserService_GetNotificationPreferences_0 cs = (if cs = [''v1'', ''users'', ''me'', ''notification-preferences''] then Some Map.empty else None)"
  "pattern_match pattern_UserService_UpdateNotificationPreferences_0 cs = (if cs = [''v1'', ''users'', ''me'', ''notification-preferences''] then Some Map.empty else None)"
  "pattern_match pattern_AdminService_ListUsers_0 cs = (if cs = [''v1'', ''admin'', ''users''] then Some Map.empty else None)"
  "pattern_match pattern_AdminService_GetUser_0 cs =
     (case cs of [c0, c1, c2, c3] \<Rightarrow> if c0 = ''v1'' \<and> c1 = ''admin'' \<and> c2 = ''users'' then Some [''id'' \<mapsto> c3] else None | _ \<Rightarrow> None)"
  "pattern_match pattern_AdminService_SuspendUser_0 cs =
     (case cs of [c0, c1, c2, c3, c4] \<Rightarrow> if c0 = ''v1'' \<and> c1 = ''admin'' \<and> c2 = ''users'' \<and> c4 = ''suspend'' then Some [''id'' \<mapsto> c3] else None | _ \<Rightarrow> None)"
  "pattern_match pattern_AdminService_UnsuspendUser_0 cs =
     (case cs of [c0, c1, c2, c3, c4] \<Rightarrow> if c0 = ''v1'' \<and> c1 = ''admin'' \<and> c2 = ''users'' \<and> c4 = ''unsuspend'' then Some [''id'' \<mapsto> c3] else None | _ \<Rightarrow> None)"
  "pattern_match pattern_AdminService_SetUserRole_0 cs =
     (case cs of [c0, c1, c2, c3, c4] \<Rightarrow> if c0 = ''v1'' \<and> c1 = ''admin'' \<and> c2 = ''users'' \<and> c4 = ''role'' then Some [''id'' \<mapsto> c3] else None | _ \<Rightarrow> None)"
  "pattern_match pattern_HealthService_Check_0 cs = (if cs = [''v1'', ''health''] then Some Map.empty else None)"
  "pattern_match pattern_HealthService_Ready_0 cs = (if cs = [''v1'', ''health'', ''ready''] then Some Map.empty else None)"
  by (auto simp: pattern_match_def pattern_defs split: list.split)

lemma url_reaches_code: "i < 27 \<Longrightarrow> url_reaches mux_routes v i =
   (last_match (map (\<lambda>r. (grMethod r, grPattern r)) mux_routes) (fst (map (\<lambda>r. (grMethod r, grPattern r)) mux_routes ! i))
     (template_path (map grTemplate mux_routes ! i) v) = Some (i, template_vars (map grTemplate mux_routes ! i) v))"
  by (simp add: url_reaches_def)

lemma urls_reach:
  "list_all (\<lambda>i. i = 11 \<longrightarrow> v \<noteq> ''me'' \<longrightarrow> url_reaches mux_routes v i) [11]"
  "list_all (url_reaches mux_routes v) [0, 1, 2, 3, 4, 5, 6, 7, 8, 9, 10, 12, 13]"
  "list_all (url_reaches mux_routes v) [14, 15, 16, 17, 18, 19, 20, 21, 22, 23, 24, 25, 26]"
  by (simp_all add: url_reaches_code map_patterns route_templates template_defs pattern_meaning)

lemma url_reaches_all:
  assumes "i < 27" and "i = 11 \<longrightarrow> v \<noteq> ''me''"
  shows "url_reaches mux_routes v i"
proof -
  have "[0..<27] = [0, 1, 2, 3, 4, 5, 6, 7, 8, 9, 10, 11, 12, 13, 14, 15, 16, 17, 18, 19, 20, 21, 22, 23, 24, 25, 26 :: nat]"
    by code_simp
  moreover have "i \<in> set [0..<27]" using assms(1) by simp
  ultimately show ?thesis using urls_reach [of v] assms(2) by auto
qed

text \<open>Only the public profile of a user has a template that another route of its method shadows.\<close>

lemma shadowed_route: "i < 27 \<Longrightarrow> grFullMethod (mux_routes ! i) = ''/user.v1.UserService/GetUser'' \<longleftrightarrow> i = 11"
proof -
  assume i: "i < 27"
  have d: "distinct (map grFullMethod mux_routes)" by (simp add: route_methods)
  have "map grFullMethod mux_routes ! 11 = ''/user.v1.UserService/GetUser''" by (simp add: route_methods)
  with nth_eq_iff_index_eq [OF d, of i 11] i show ?thesis by simp
qed

lemma lookup_template:
  assumes "gateway_runtime g" and "r \<in> set mux_routes" and "plain_request req"
    and "hqMethod req = grMethod r" and "hqPath req = template_path (grTemplate r) v"
    and "grFullMethod r = ''/user.v1.UserService/GetUser'' \<longrightarrow> v \<noteq> ''me''"
  shows "gw_lookup g req = Some (r, template_vars (grTemplate r) v)"
proof -
  from assms(2) obtain i where i: "i < 27" "r = mux_routes ! i" by (auto simp: in_set_conv_nth)
  with url_reaches_all [OF i(1), of v] assms(6) shadowed_route [OF i(1)] have "url_reaches mux_routes v i" by blast
  with gateway_runtime.dispatch_law [OF assms(1,3), of "map (\<lambda>r. (grMethod r, grPattern r)) mux_routes"] assms(4,5) i(2)
  show ?thesis by (simp add: gw_lookup_def url_reaches_def)
qed

definition path_argument :: "grpc_request \<Rightarrow> string option" where
  "path_argument q =
     (case q of Rpc (RpcRevokeDevice d) \<Rightarrow> Some d | Rpc (RpcGetUser i) \<Rightarrow> Some i | Rpc (RpcAdminGetUser i) \<Rightarrow> Some i
      | Rpc (RpcSuspendUser s) \<Rightarrow> Some (pbsId s) | Rpc (RpcUnsuspendUser i) \<Rightarrow> Some i
      | Rpc (RpcSetUserRole s) \<Rightarrow> Some (fst s) | _ \<Rightarrow> None)"

definition has_variable :: "string \<Rightarrow> bool" where
  "has_variable tmpl = list_ex is_variable (tl (split_on (CHR ''/'') tmpl))"

definition route_argument :: "string \<Rightarrow> gw_route \<Rightarrow> bool" where
  "route_argument v r = (has_variable (grTemplate r) \<longrightarrow> (\<forall>g req q. (\<forall>s. rtString g s = Inr s) \<longrightarrow>
     grRequest r g req (template_vars (grTemplate r) v) = Inr q \<longrightarrow> path_argument q = Some v))"

lemma route_arguments: "list_all (route_argument v) mux_routes"
  by (auto simp: mux_routes_def register_defs route_argument_def has_variable_def is_variable_def template_vars_def
      request_defs path_argument_def dest!: gw_decode_Inr gw_path_param_Inr)


subsection \<open>The gate behind the gateway\<close>

lemma BearerToken_Inr:
  "BearerToken c = Inr tok \<Longrightarrow>
     \<exists>v scheme. v \<in> set (md_get c ''authorization'') \<and> cut (CHR '' '') v = (scheme, Some tok) \<and> to_lower scheme = ''bearer''"
  by (auto simp: BearerToken_def split: if_splits list.splits prod.splits option.splits)

lemma gw_lookup_route:
  assumes "gateway_runtime g" and "gw_lookup g req = Some (r, vars)"
  shows "r \<in> set mux_routes"
  using assms(2) gateway_runtime.dispatch_bound [OF assms(1)]
  by (fastforce simp: gw_lookup_def split: option.splits)


end
