(* ===== verification/Gateway_Witnesses.thy ===== *)
theory Gateway_Witnesses
  imports Gateway_Guarantees Handler_Witnesses System_Witnesses
begin

section \<open>Evaluations of the gateway\<close>

text \<open>A runtime that dispatches and matches headers as documented and decodes every body to the zero message,
  in front of the concrete services.\<close>

definition ref_annotate :: "(string \<Rightarrow> string option) \<Rightarrow> string \<Rightarrow> http_request \<Rightarrow> goerr + metadata" where
  "ref_annotate m full req = Inr (\<lambda>k. Some (concat (map snd
     (filter (\<lambda>(h, vs). map_option to_lower (m h) = Some k) (hqHeaders req)))))"

definition ref_gateway :: gw_runtime where
  "ref_gateway = \<lparr>rtString = Inr, rtParseForm = (\<lambda>req. Inr []), rtPopulatePage = (\<lambda>form. Inr None), rtAnnotate = ref_annotate,
     rtDefaultHeaderMatcher = (\<lambda>h. None), rtDispatch = (\<lambda>ps req. last_match ps (hqMethod req) (hqPath req)),
     rtIncoming = (\<lambda>md. background\<lparr>cxMetadata := Some md\<rparr>), dcRegister = (\<lambda>b. BodyEOF), dcLogin = (\<lambda>b. BodyEOF),
     dcVerify = (\<lambda>b. BodyEOF), dcEmail = (\<lambda>b. BodyEOF), dcRefresh = (\<lambda>b. BodyEOF), dcReset = (\<lambda>b. BodyEOF),
     dcChange = (\<lambda>b. BodyEOF), dcProfile = (\<lambda>b. BodyEOF), dcSettings = (\<lambda>b. BodyEOF), dcPushToken = (\<lambda>b. BodyEOF),
     dcPrefs = (\<lambda>b. BodyEOF), dcSuspend = (\<lambda>b. BodyEOF), dcRole = (\<lambda>b. BodyEOF)\<rparr>"

lemma last_match_bound: "last_match ps m cs = Some (i, vars) \<Longrightarrow> i < length ps"
  by (induction ps arbitrary: i vars) (auto split: option.splits if_splits)

lemma ref_annotate_values: "ref_annotate m full req = Inr md \<Longrightarrow> set (values_of md k) = matched_values m req k"
  by (fastforce simp: ref_annotate_def values_of_def matched_values_def)

interpretation ref_gw: gateway_runtime ref_gateway
proof
  show "rtAnnotate ref_gateway m full req = Inr md \<Longrightarrow> set (values_of md k) = matched_values m req k" for m full req md k
    by (simp add: ref_gateway_def ref_annotate_values)
  show "rtDispatch ref_gateway ps req = Some (i, vars) \<Longrightarrow> i < length ps" for ps req i vars
    by (auto simp: ref_gateway_def dest: last_match_bound)
qed (simp_all add: ref_gateway_def values_of_def md_get_def)

definition ref_get :: "string list \<Rightarrow> http_request" where
  "ref_get path = \<lparr>hqMethod = ''GET'', hqPath = path, hqHeaders = [(''Authorization'', [''Bearer at_ann''])], hqBody = [],
     hqQuery = []\<rparr>"

lemma ref_get_plain:
  "plain_request (ref_get [''v1'', ''users'', ''me''])" "plain_request (ref_get [''v1'', ''users'', ''42''])"
  by (auto simp: plain_request_def ref_get_def to_lower_def to_lower_char_def)

lemma ref_routes: "mux_routes ! 11 \<in> set mux_routes" "mux_routes ! 12 \<in> set mux_routes"
  "grMethod (mux_routes ! 11) = ''GET''" "grTemplate (mux_routes ! 11) = ''/v1/users/{id}''"
  "grMethod (mux_routes ! 12) = ''GET''" "grTemplate (mux_routes ! 12) = ''/v1/users/me''"
  "grFullMethod (mux_routes ! 12) = ''/user.v1.UserService/GetMe''"
  "grRequest (mux_routes ! 12) = request_UserService_GetMe_0"
  by (simp_all add: mux_routes_def register_defs)

lemma ref_lookup_me: "\<exists>vars. gw_lookup ref_gateway (ref_get [''v1'', ''users'', ''me'']) = Some (mux_routes ! 12, vars)"
  using lookup_template [OF ref_gw.gateway_runtime_axioms ref_routes(2) ref_get_plain(1), of "[]"]
  by (simp add: ref_get_def ref_routes template_path_def is_variable_def)

lemma ref_lookup_user:
  "\<exists>vars q. gw_lookup ref_gateway (ref_get [''v1'', ''users'', ''42'']) = Some (mux_routes ! 11, vars) \<and>
     grRequest (mux_routes ! 11) ref_gateway (ref_get [''v1'', ''users'', ''42'']) vars = Inr q"
proof -
  have v: "template_vars ''/v1/users/{id}'' ''42'' ''id'' = Some ''42''" by code_simp
  have q: "grRequest (mux_routes ! 11) = request_UserService_GetUser_0" by (simp add: mux_routes_def register_defs)
  show ?thesis
    using lookup_template [OF ref_gw.gateway_runtime_axioms ref_routes(1) ref_get_plain(2), of "''42''"]
    by (simp add: ref_get_def ref_routes template_path_def is_variable_def q request_UserService_GetUser_0_def
        gw_path_param_def v ref_gateway_def)
qed


theorem gateway_routes_well_typed_witness:
  "\<exists>vars q. gw_lookup ref_gateway (ref_get [''v1'', ''users'', ''42'']) = Some (mux_routes ! 11, vars) \<and>
     grRequest (mux_routes ! 11) ref_gateway (ref_get [''v1'', ''users'', ''42'']) vars = Inr q \<and>
     grpc_method q = grFullMethod (mux_routes ! 11)"
  using ref_lookup_user gateway_routes_well_typed ref_routes(1) by blast

text \<open>Ann's profile over HTTP.\<close>

lemma ref_get_forwarded:
  "\<exists>md. rtAnnotate ref_gateway (headerMatcher ref_gateway) full (ref_get p) = Inr md \<and>
     BearerToken (rtIncoming ref_gateway md) = Inr ''at_ann'' \<and> \<not> cxInTx (rtIncoming ref_gateway md)"
proof -
  have low: "to_lower ''Bearer'' = ''bearer''" "to_lower ''Authorization'' = ''authorization''"
    "to_lower ''authorization'' = ''authorization''" by code_simp+
  show ?thesis
    by (simp add: ref_gateway_def ref_annotate_def ref_get_def headerMatcher_def low BearerToken_def md_get_def cut_def background_def)
qed

lemma ref_get_me_served:
  "fst (run_state (gw_serve ref_gateway (gw_upstream ref_gateway ref_icset (ref_answers a)) (ref_get [''v1'', ''users'', ''me''])) ref_state) =
     Forwarded a"
proof -
  let ?r = "mux_routes ! 12" and ?req = "ref_get [''v1'', ''users'', ''me'']" and ?m = "''/user.v1.UserService/GetMe''"
  from ref_lookup_me obtain vars where l: "gw_lookup ref_gateway ?req = Some (?r, vars)" by blast
  from ref_get_forwarded obtain md where md:
    "rtAnnotate ref_gateway (headerMatcher ref_gateway) (grFullMethod ?r) ?req = Inr md"
    "BearerToken (rtIncoming ref_gateway md) = Inr ''at_ann''" "\<not> cxInTx (rtIncoming ref_gateway md)" by blast
  have m: "?m \<notin> set publicMethods" "\<not> has_prefix ?m adminServicePrefix"
    by (simp_all add: publicMethods_def has_prefix_def adminServicePrefix_def)
  from ref_served [OF m md(2,3), of a "Rpc RpcGetMe"] show ?thesis
    by (simp add: gw_serve_def l gw_handler_def md(1) [unfolded ref_routes] ref_routes request_UserService_GetMe_0_def gw_upstream_def grpc_unary_def
        case_prod_beta)
qed


end
