(* ===== verification/Gateway_Local.thy ===== *)
theory Gateway_Local
  imports Gateway_Guarantees
begin

section \<open>The gateway in the process of the server\<close>

text \<open>
  The other half of \<open>gen/*/v1/*.pb.gw.go\<close>: handlers that call the server of their service in process
  instead of sending the message over a connection. \<open>cmd/gateway\<close> registers the ones of \<open>Http_Gateway\<close>; these
  take the same messages from the same requests, and give them to the server without its interceptors.
\<close>

subsection \<open>The request functions\<close>

text \<open>The server is a function of the context the handler was given and the request.\<close>

type_synonym ('r, 'p) rpc_server = "ctx \<Rightarrow> grpc_request \<Rightarrow> ('r, 'p) call"
type_synonym ('r, 'p) local_request =
  "gw_runtime \<Rightarrow> ('r, 'p) rpc_server \<Rightarrow> ctx \<Rightarrow> http_request \<Rightarrow> path_params \<Rightarrow> ('r, 'p) call"

definition local_decode :: "'a decoded \<Rightarrow> 'a \<Rightarrow> ('a \<Rightarrow> ('r, 'p) call) \<Rightarrow> ('r, 'p) call" where
  "local_decode d zero k =
     (case d of Malformed err \<Rightarrow> fail (StatusE InvalidArgument err) | BodyEOF \<Rightarrow> k zero | Decoded protoReq \<Rightarrow> k protoReq)"

definition local_path_param :: "gw_runtime \<Rightarrow> path_params \<Rightarrow> string \<Rightarrow> (string \<Rightarrow> ('r, 'p) call) \<Rightarrow> ('r, 'p) call" where
  "local_path_param g pathParams nm k =
     (case pathParams nm of None \<Rightarrow> fail (StatusE InvalidArgument (''missing parameter '' @ nm))
      | Some val \<Rightarrow>
          (case rtString g val of
             Inl err \<Rightarrow> fail (StatusE InvalidArgument (''type mismatch, parameter: '' @ nm @ '', error: '' @ err))
           | Inr s \<Rightarrow> k s))"

text \<open>AuthService.\<close>

definition local_request_AuthService_Register_0 :: "('r, 'p) local_request" where
  "local_request_AuthService_Register_0 g server c req pathParams =
     local_decode (dcRegister g (hqBody req)) zero_register (\<lambda>protoReq. server c (Rpc (RpcRegister protoReq)))"

definition local_request_AuthService_Login_0 :: "('r, 'p) local_request" where
  "local_request_AuthService_Login_0 g server c req pathParams =
     local_decode (dcLogin g (hqBody req)) zero_login (\<lambda>protoReq. server c (Rpc (RpcLogin protoReq)))"

definition local_request_AuthService_RefreshToken_0 :: "('r, 'p) local_request" where
  "local_request_AuthService_RefreshToken_0 g server c req pathParams =
     local_decode (dcRefresh g (hqBody req)) [] (\<lambda>protoReq. server c (Rpc (RpcRefreshToken protoReq)))"

definition local_request_AuthService_Logout_0 :: "('r, 'p) local_request" where
  "local_request_AuthService_Logout_0 g server c req pathParams = server c (Rpc RpcLogout)"

definition local_request_AuthService_VerifyEmail_0 :: "('r, 'p) local_request" where
  "local_request_AuthService_VerifyEmail_0 g server c req pathParams =
     local_decode (dcVerify g (hqBody req)) [] (\<lambda>protoReq. server c (Rpc (RpcVerifyEmail protoReq)))"

definition local_request_AuthService_ResendVerification_0 :: "('r, 'p) local_request" where
  "local_request_AuthService_ResendVerification_0 g server c req pathParams = server c (Rpc RpcResendVerification)"

definition local_request_AuthService_RequestPasswordReset_0 :: "('r, 'p) local_request" where
  "local_request_AuthService_RequestPasswordReset_0 g server c req pathParams =
     local_decode (dcEmail g (hqBody req)) [] (\<lambda>protoReq. server c (Rpc (RpcRequestPasswordReset protoReq)))"

definition local_request_AuthService_ResetPassword_0 :: "('r, 'p) local_request" where
  "local_request_AuthService_ResetPassword_0 g server c req pathParams =
     local_decode (dcReset g (hqBody req)) ([], []) (\<lambda>protoReq. server c (Rpc (RpcResetPassword protoReq)))"

definition local_request_AuthService_ChangePassword_0 :: "('r, 'p) local_request" where
  "local_request_AuthService_ChangePassword_0 g server c req pathParams =
     local_decode (dcChange g (hqBody req)) ([], []) (\<lambda>protoReq. server c (Rpc (RpcChangePassword protoReq)))"

definition local_request_AuthService_ListDevices_0 :: "('r, 'p) local_request" where
  "local_request_AuthService_ListDevices_0 g server c req pathParams = server c (Rpc RpcListDevices)"

definition local_request_AuthService_RevokeDevice_0 :: "('r, 'p) local_request" where
  "local_request_AuthService_RevokeDevice_0 g server c req pathParams =
     local_path_param g pathParams ''device_id'' (\<lambda>deviceId. server c (Rpc (RpcRevokeDevice deviceId)))"

text \<open>UserService.\<close>

definition local_request_UserService_GetUser_0 :: "('r, 'p) local_request" where
  "local_request_UserService_GetUser_0 g server c req pathParams =
     local_path_param g pathParams ''id'' (\<lambda>i. server c (Rpc (RpcGetUser i)))"

definition local_request_UserService_GetMe_0 :: "('r, 'p) local_request" where
  "local_request_UserService_GetMe_0 g server c req pathParams = server c (Rpc RpcGetMe)"

definition local_request_UserService_UpdateMe_0 :: "('r, 'p) local_request" where
  "local_request_UserService_UpdateMe_0 g server c req pathParams =
     local_decode (dcProfile g (hqBody req)) zero_profile (\<lambda>protoReq. server c (Rpc (RpcUpdateMe protoReq)))"

definition local_request_UserService_DeleteMe_0 :: "('r, 'p) local_request" where
  "local_request_UserService_DeleteMe_0 g server c req pathParams = server c (Rpc RpcDeleteMe)"

definition local_request_UserService_GetSettings_0 :: "('r, 'p) local_request" where
  "local_request_UserService_GetSettings_0 g server c req pathParams = server c (Rpc RpcGetSettings)"

definition local_request_UserService_UpdateSettings_0 :: "('r, 'p) local_request" where
  "local_request_UserService_UpdateSettings_0 g server c req pathParams =
     local_decode (dcSettings g (hqBody req)) zero_settings (\<lambda>protoReq. server c (Rpc (RpcUpdateSettings protoReq)))"

definition local_request_UserService_RegisterPushToken_0 :: "('r, 'p) local_request" where
  "local_request_UserService_RegisterPushToken_0 g server c req pathParams =
     local_decode (dcPushToken g (hqBody req)) zero_push_token (\<lambda>protoReq. server c (Rpc (RpcRegisterPushToken protoReq)))"

definition local_request_UserService_GetNotificationPreferences_0 :: "('r, 'p) local_request" where
  "local_request_UserService_GetNotificationPreferences_0 g server c req pathParams = server c (Rpc RpcGetNotificationPreferences)"

definition local_request_UserService_UpdateNotificationPreferences_0 :: "('r, 'p) local_request" where
  "local_request_UserService_UpdateNotificationPreferences_0 g server c req pathParams =
     local_decode (dcPrefs g (hqBody req)) zero_prefs (\<lambda>protoReq. server c (Rpc (RpcUpdateNotificationPreferences protoReq)))"

text \<open>AdminService.\<close>

definition local_request_AdminService_ListUsers_0 :: "('r, 'p) local_request" where
  "local_request_AdminService_ListUsers_0 g server c req pathParams =
     (case rtParseForm g req of Inl err \<Rightarrow> fail (StatusE InvalidArgument err)
      | Inr form \<Rightarrow>
          (case rtPopulatePage g form of Inl err \<Rightarrow> fail (StatusE InvalidArgument err)
           | Inr pg \<Rightarrow> server c (Rpc (RpcListUsers pg))))"

definition local_request_AdminService_GetUser_0 :: "('r, 'p) local_request" where
  "local_request_AdminService_GetUser_0 g server c req pathParams =
     local_path_param g pathParams ''id'' (\<lambda>i. server c (Rpc (RpcAdminGetUser i)))"

definition local_request_AdminService_SuspendUser_0 :: "('r, 'p) local_request" where
  "local_request_AdminService_SuspendUser_0 g server c req pathParams =
     local_decode (dcSuspend g (hqBody req)) zero_suspend (\<lambda>protoReq.
       local_path_param g pathParams ''id'' (\<lambda>i. server c (Rpc (RpcSuspendUser (protoReq\<lparr>pbsId := i\<rparr>)))))"

definition local_request_AdminService_UnsuspendUser_0 :: "('r, 'p) local_request" where
  "local_request_AdminService_UnsuspendUser_0 g server c req pathParams =
     local_path_param g pathParams ''id'' (\<lambda>i. server c (Rpc (RpcUnsuspendUser i)))"

definition local_request_AdminService_SetUserRole_0 :: "('r, 'p) local_request" where
  "local_request_AdminService_SetUserRole_0 g server c req pathParams =
     local_decode (dcRole g (hqBody req)) ([], []) (\<lambda>protoReq.
       local_path_param g pathParams ''id'' (\<lambda>i. server c (Rpc (RpcSetUserRole (i, snd protoReq)))))"

text \<open>HealthService.\<close>

definition local_request_HealthService_Check_0 :: "('r, 'p) local_request" where
  "local_request_HealthService_Check_0 g server c req pathParams = server c HealthCheck"

definition local_request_HealthService_Ready_0 :: "('r, 'p) local_request" where
  "local_request_HealthService_Ready_0 g server c req pathParams = server c HealthReady"

subsection \<open>Routes\<close>

record ('r, 'p) local_route =
  lrMethod :: string
  lrPattern :: gw_pattern
  lrFullMethod :: string
  lrTemplate :: string
  lrRequest :: "('r, 'p) local_request"

definition RegisterAuthServiceHandlerServer :: "('r, 'p) local_route list" where
  "RegisterAuthServiceHandlerServer = [
     \<lparr>lrMethod = ''POST'', lrPattern = pattern_AuthService_Register_0, lrFullMethod = ''/auth.v1.AuthService/Register'',
       lrTemplate = ''/v1/auth/register'', lrRequest = local_request_AuthService_Register_0\<rparr>,
     \<lparr>lrMethod = ''POST'', lrPattern = pattern_AuthService_Login_0, lrFullMethod = ''/auth.v1.AuthService/Login'',
       lrTemplate = ''/v1/auth/login'', lrRequest = local_request_AuthService_Login_0\<rparr>,
     \<lparr>lrMethod = ''POST'', lrPattern = pattern_AuthService_RefreshToken_0, lrFullMethod = ''/auth.v1.AuthService/RefreshToken'',
       lrTemplate = ''/v1/auth/token/refresh'', lrRequest = local_request_AuthService_RefreshToken_0\<rparr>,
     \<lparr>lrMethod = ''POST'', lrPattern = pattern_AuthService_Logout_0, lrFullMethod = ''/auth.v1.AuthService/Logout'',
       lrTemplate = ''/v1/auth/logout'', lrRequest = local_request_AuthService_Logout_0\<rparr>,
     \<lparr>lrMethod = ''POST'', lrPattern = pattern_AuthService_VerifyEmail_0, lrFullMethod = ''/auth.v1.AuthService/VerifyEmail'',
       lrTemplate = ''/v1/auth/email/verify'', lrRequest = local_request_AuthService_VerifyEmail_0\<rparr>,
     \<lparr>lrMethod = ''POST'', lrPattern = pattern_AuthService_ResendVerification_0, lrFullMethod = ''/auth.v1.AuthService/ResendVerification'',
       lrTemplate = ''/v1/auth/email/resend'', lrRequest = local_request_AuthService_ResendVerification_0\<rparr>,
     \<lparr>lrMethod = ''POST'', lrPattern = pattern_AuthService_RequestPasswordReset_0, lrFullMethod = ''/auth.v1.AuthService/RequestPasswordReset'',
       lrTemplate = ''/v1/auth/password/reset-request'', lrRequest = local_request_AuthService_RequestPasswordReset_0\<rparr>,
     \<lparr>lrMethod = ''POST'', lrPattern = pattern_AuthService_ResetPassword_0, lrFullMethod = ''/auth.v1.AuthService/ResetPassword'',
       lrTemplate = ''/v1/auth/password/reset'', lrRequest = local_request_AuthService_ResetPassword_0\<rparr>,
     \<lparr>lrMethod = ''POST'', lrPattern = pattern_AuthService_ChangePassword_0, lrFullMethod = ''/auth.v1.AuthService/ChangePassword'',
       lrTemplate = ''/v1/auth/password/change'', lrRequest = local_request_AuthService_ChangePassword_0\<rparr>,
     \<lparr>lrMethod = ''GET'', lrPattern = pattern_AuthService_ListDevices_0, lrFullMethod = ''/auth.v1.AuthService/ListDevices'',
       lrTemplate = ''/v1/auth/devices'', lrRequest = local_request_AuthService_ListDevices_0\<rparr>,
     \<lparr>lrMethod = ''DELETE'', lrPattern = pattern_AuthService_RevokeDevice_0, lrFullMethod = ''/auth.v1.AuthService/RevokeDevice'',
       lrTemplate = ''/v1/auth/devices/{device_id}'', lrRequest = local_request_AuthService_RevokeDevice_0\<rparr>]"

definition RegisterUserServiceHandlerServer :: "('r, 'p) local_route list" where
  "RegisterUserServiceHandlerServer = [
     \<lparr>lrMethod = ''GET'', lrPattern = pattern_UserService_GetUser_0, lrFullMethod = ''/user.v1.UserService/GetUser'',
       lrTemplate = ''/v1/users/{id}'', lrRequest = local_request_UserService_GetUser_0\<rparr>,
     \<lparr>lrMethod = ''GET'', lrPattern = pattern_UserService_GetMe_0, lrFullMethod = ''/user.v1.UserService/GetMe'',
       lrTemplate = ''/v1/users/me'', lrRequest = local_request_UserService_GetMe_0\<rparr>,
     \<lparr>lrMethod = ''PATCH'', lrPattern = pattern_UserService_UpdateMe_0, lrFullMethod = ''/user.v1.UserService/UpdateMe'',
       lrTemplate = ''/v1/users/me'', lrRequest = local_request_UserService_UpdateMe_0\<rparr>,
     \<lparr>lrMethod = ''DELETE'', lrPattern = pattern_UserService_DeleteMe_0, lrFullMethod = ''/user.v1.UserService/DeleteMe'',
       lrTemplate = ''/v1/users/me'', lrRequest = local_request_UserService_DeleteMe_0\<rparr>,
     \<lparr>lrMethod = ''GET'', lrPattern = pattern_UserService_GetSettings_0, lrFullMethod = ''/user.v1.UserService/GetSettings'',
       lrTemplate = ''/v1/users/me/settings'', lrRequest = local_request_UserService_GetSettings_0\<rparr>,
     \<lparr>lrMethod = ''PUT'', lrPattern = pattern_UserService_UpdateSettings_0, lrFullMethod = ''/user.v1.UserService/UpdateSettings'',
       lrTemplate = ''/v1/users/me/settings'', lrRequest = local_request_UserService_UpdateSettings_0\<rparr>,
     \<lparr>lrMethod = ''POST'', lrPattern = pattern_UserService_RegisterPushToken_0, lrFullMethod = ''/user.v1.UserService/RegisterPushToken'',
       lrTemplate = ''/v1/users/me/push-tokens'', lrRequest = local_request_UserService_RegisterPushToken_0\<rparr>,
     \<lparr>lrMethod = ''GET'', lrPattern = pattern_UserService_GetNotificationPreferences_0, lrFullMethod = ''/user.v1.UserService/GetNotificationPreferences'',
       lrTemplate = ''/v1/users/me/notification-preferences'', lrRequest = local_request_UserService_GetNotificationPreferences_0\<rparr>,
     \<lparr>lrMethod = ''PUT'', lrPattern = pattern_UserService_UpdateNotificationPreferences_0, lrFullMethod = ''/user.v1.UserService/UpdateNotificationPreferences'',
       lrTemplate = ''/v1/users/me/notification-preferences'', lrRequest = local_request_UserService_UpdateNotificationPreferences_0\<rparr>]"

definition RegisterAdminServiceHandlerServer :: "('r, 'p) local_route list" where
  "RegisterAdminServiceHandlerServer = [
     \<lparr>lrMethod = ''GET'', lrPattern = pattern_AdminService_ListUsers_0, lrFullMethod = ''/admin.v1.AdminService/ListUsers'',
       lrTemplate = ''/v1/admin/users'', lrRequest = local_request_AdminService_ListUsers_0\<rparr>,
     \<lparr>lrMethod = ''GET'', lrPattern = pattern_AdminService_GetUser_0, lrFullMethod = ''/admin.v1.AdminService/GetUser'',
       lrTemplate = ''/v1/admin/users/{id}'', lrRequest = local_request_AdminService_GetUser_0\<rparr>,
     \<lparr>lrMethod = ''POST'', lrPattern = pattern_AdminService_SuspendUser_0, lrFullMethod = ''/admin.v1.AdminService/SuspendUser'',
       lrTemplate = ''/v1/admin/users/{id}/suspend'', lrRequest = local_request_AdminService_SuspendUser_0\<rparr>,
     \<lparr>lrMethod = ''POST'', lrPattern = pattern_AdminService_UnsuspendUser_0, lrFullMethod = ''/admin.v1.AdminService/UnsuspendUser'',
       lrTemplate = ''/v1/admin/users/{id}/unsuspend'', lrRequest = local_request_AdminService_UnsuspendUser_0\<rparr>,
     \<lparr>lrMethod = ''PUT'', lrPattern = pattern_AdminService_SetUserRole_0, lrFullMethod = ''/admin.v1.AdminService/SetUserRole'',
       lrTemplate = ''/v1/admin/users/{id}/role'', lrRequest = local_request_AdminService_SetUserRole_0\<rparr>]"

definition RegisterHealthServiceHandlerServer :: "('r, 'p) local_route list" where
  "RegisterHealthServiceHandlerServer = [
     \<lparr>lrMethod = ''GET'', lrPattern = pattern_HealthService_Check_0, lrFullMethod = ''/health.v1.HealthService/Check'',
       lrTemplate = ''/v1/health'', lrRequest = local_request_HealthService_Check_0\<rparr>,
     \<lparr>lrMethod = ''GET'', lrPattern = pattern_HealthService_Ready_0, lrFullMethod = ''/health.v1.HealthService/Ready'',
       lrTemplate = ''/v1/health/ready'', lrRequest = local_request_HealthService_Ready_0\<rparr>]"

definition local_routes :: "('r, 'p) local_route list" where
  "local_routes = RegisterAuthServiceHandlerServer @ RegisterUserServiceHandlerServer @
     RegisterAdminServiceHandlerServer @ RegisterHealthServiceHandlerServer"

subsection \<open>Serving a request\<close>

text \<open>The handler closure of a route; \<open>annotate\<close> is \<open>runtime.AnnotateIncomingContext\<close>, which makes of the
  headers the context the server reads its metadata from.\<close>

type_synonym annotate_incoming = "(string \<Rightarrow> string option) \<Rightarrow> string \<Rightarrow> http_request \<Rightarrow> goerr + ctx"

definition local_handler ::
  "gw_runtime \<Rightarrow> annotate_incoming \<Rightarrow> ('r, 'p) rpc_server \<Rightarrow> ('r, 'p) local_route \<Rightarrow> http_request \<Rightarrow> path_params \<Rightarrow>
     ('r, 'p http_answer) proc" where
  "local_handler g annotate server r req pathParams =
     (case annotate (headerMatcher g) (lrFullMethod r) req of Inl err \<Rightarrow> ret (HTTPError err)
      | Inr c \<Rightarrow> do {
          resp \<leftarrow> lrRequest r g server c req pathParams;
          case resp of Inl err \<Rightarrow> ret (HTTPError err) | Inr msg \<Rightarrow> ret (Forwarded msg) })"

definition local_lookup :: "gw_runtime \<Rightarrow> http_request \<Rightarrow> (('r, 'p) local_route \<times> path_params) option" where
  "local_lookup g req =
     (case rtDispatch g (map (\<lambda>r. (lrMethod r, lrPattern r)) (local_routes :: ('r, 'p) local_route list)) req of None \<Rightarrow> None
      | Some (i, pathParams) \<Rightarrow> Some (local_routes ! i, pathParams))"

definition local_serve ::
  "gw_runtime \<Rightarrow> annotate_incoming \<Rightarrow> ('r, 'p) rpc_server \<Rightarrow> http_request \<Rightarrow> ('r, 'p http_answer) proc" where
  "local_serve g annotate server req =
     (case local_lookup g req of None \<Rightarrow> ret RouteNotFound
      | Some (r, pathParams) \<Rightarrow> local_handler g annotate server r req pathParams)"

subsection \<open>The same gateway\<close>

text \<open>What a handler does with the message its counterpart over a connection would send.\<close>

definition call_with :: "('r, 'p) rpc_server \<Rightarrow> ctx \<Rightarrow> goerr + grpc_request \<Rightarrow> ('r, 'p) call" where
  "call_with server c rq = (case rq of Inl err \<Rightarrow> fail err | Inr q \<Rightarrow> server c q)"

lemma call_with_simps [simp]: "call_with server c (Inl err) = fail err" "call_with server c (Inr q) = server c q"
  by (simp_all add: call_with_def)

lemma local_decode_call:
  "local_decode d z (\<lambda>x. call_with server c (k x)) = call_with server c (gw_decode d z k)"
  by (simp add: local_decode_def gw_decode_def split: decoded.split)

lemma local_path_param_call:
  "local_path_param g ps nm (\<lambda>x. call_with server c (k x)) = call_with server c (gw_path_param g ps nm k)"
  by (simp add: local_path_param_def gw_path_param_def split: option.split sum.split)

lemmas local_request_defs =
  local_request_AuthService_Register_0_def local_request_AuthService_Login_0_def
  local_request_AuthService_RefreshToken_0_def local_request_AuthService_Logout_0_def
  local_request_AuthService_VerifyEmail_0_def local_request_AuthService_ResendVerification_0_def
  local_request_AuthService_RequestPasswordReset_0_def local_request_AuthService_ResetPassword_0_def
  local_request_AuthService_ChangePassword_0_def local_request_AuthService_ListDevices_0_def
  local_request_AuthService_RevokeDevice_0_def local_request_UserService_GetUser_0_def
  local_request_UserService_GetMe_0_def local_request_UserService_UpdateMe_0_def
  local_request_UserService_DeleteMe_0_def local_request_UserService_GetSettings_0_def
  local_request_UserService_UpdateSettings_0_def local_request_UserService_RegisterPushToken_0_def
  local_request_UserService_GetNotificationPreferences_0_def
  local_request_UserService_UpdateNotificationPreferences_0_def local_request_AdminService_ListUsers_0_def
  local_request_AdminService_GetUser_0_def local_request_AdminService_SuspendUser_0_def
  local_request_AdminService_UnsuspendUser_0_def local_request_AdminService_SetUserRole_0_def
  local_request_HealthService_Check_0_def local_request_HealthService_Ready_0_def

lemmas local_register_defs = RegisterAuthServiceHandlerServer_def RegisterUserServiceHandlerServer_def
  RegisterAdminServiceHandlerServer_def RegisterHealthServiceHandlerServer_def

definition same_route :: "gw_route \<Rightarrow> ('r, 'p) local_route \<Rightarrow> bool" where
  "same_route r l = (lrMethod l = grMethod r \<and> lrPattern l = grPattern r \<and> lrFullMethod l = grFullMethod r \<and>
     lrTemplate l = grTemplate r \<and>
     (\<forall>g server c req ps. lrRequest l g server c req ps = call_with server c (grRequest r g req ps)))"

lemma same_routes: "list_all2 same_route mux_routes local_routes"
  by (simp add: mux_routes_def register_defs local_routes_def local_register_defs same_route_def
      request_defs local_request_defs local_decode_call [symmetric] local_path_param_call [symmetric]
      split: sum.split)

lemma same_route_entries:
  "map (\<lambda>r. (lrMethod r, lrPattern r)) (local_routes :: ('r, 'p) local_route list) = map (\<lambda>r. (grMethod r, grPattern r)) mux_routes"
  using same_routes by (intro nth_equalityI) (auto simp: list_all2_conv_all_nth same_route_def)

lemma local_lookup_none:
  "gw_lookup g req = None \<Longrightarrow> (local_lookup g req :: (('r, 'p) local_route \<times> path_params) option) = None"
  by (simp add: gw_lookup_def local_lookup_def same_route_entries split: option.splits prod.splits)

lemma local_lookup_some:
  assumes "gateway_runtime g" and "gw_lookup g req = Some (r, ps)"
  shows "\<exists>l :: ('r, 'p) local_route. local_lookup g req = Some (l, ps) \<and> same_route r l"
proof -
  let ?entries = "map (\<lambda>r. (grMethod r, grPattern r)) mux_routes"
  from assms(2) obtain i where i: "rtDispatch g ?entries req = Some (i, ps)" and r: "r = mux_routes ! i"
    by (auto simp: gw_lookup_def split: option.splits)
  from gateway_runtime.dispatch_bound [OF assms(1) i] have "i < length mux_routes" by simp
  then have "same_route r (local_routes ! i :: ('r, 'p) local_route)"
    unfolding r by (rule list_all2_nthD [OF same_routes])
  moreover have "local_lookup g req = Some (local_routes ! i :: ('r, 'p) local_route, ps)"
    by (simp add: local_lookup_def same_route_entries i)
  ultimately show ?thesis by blast
qed

lemma run_call_with:
  "run_state (call_with server c rq) w = (case rq of Inl err \<Rightarrow> (Inl err, w) | Inr q \<Rightarrow> run_state (server c q) w)"
  by (simp add: call_with_def split: sum.split)

text \<open>Serving in process is serving over a connection whose other end is the server without its chain, as far
  as the annotated context is the one the connection would have carried.\<close>

lemma local_serve_is_direct:
  fixes server :: "('r, 'p) rpc_server"
  assumes "gateway_runtime g"
    and "\<And>m. annotate (headerMatcher g) m req = map_sum id (rtIncoming g) (rtAnnotate g (headerMatcher g) m req)"
  shows "run_state (local_serve g annotate server req) w =
    run_state (gw_serve g (\<lambda>md q. server (rtIncoming g md) q) req) w"
proof (cases "gw_lookup g req")
  case None
  moreover have "(local_lookup g req :: (('r, 'p) local_route \<times> path_params) option) = None"
    by (rule local_lookup_none [OF None])
  ultimately show ?thesis by (simp add: local_serve_def gw_serve_def)
next
  case (Some x)
  obtain r ps where x: "x = (r, ps)" by (cases x)
  from local_lookup_some [OF assms(1) Some [unfolded x]] obtain l :: "('r, 'p) local_route" where
    l: "local_lookup g req = Some (l, ps)" "same_route r l" by blast
  then have f: "lrFullMethod l = grFullMethod r" "\<And>g server c req ps. lrRequest l g server c req ps = call_with server c (grRequest r g req ps)"
    by (simp_all add: same_route_def)
  show ?thesis
    by (cases "rtAnnotate g (headerMatcher g) (grFullMethod r) req"; cases "grRequest r g req ps")
      (simp_all add: local_serve_def gw_serve_def Some x l(1) local_handler_def gw_handler_def f assms(2) run_call_with case_prod_beta)
qed

text \<open>Nothing stands before the handler: in contrast to \<open>http_handler_runs_only_authenticated\<close>, a request whose
  message can be made is answered by the handler, whoever sent it.\<close>

lemma in_process_skips_gate:
  fixes server :: "('r, 'p) rpc_server"
  assumes "gateway_runtime g" and "gw_lookup g req = Some (r, ps)" and "grRequest r g req ps = Inr q"
    and "annotate (headerMatcher g) (grFullMethod r) req = Inr c"
  shows "run_state (local_serve g annotate server req) w =
    (case run_state (server c q) w of (Inl err, w') \<Rightarrow> (HTTPError err, w') | (Inr msg, w') \<Rightarrow> (Forwarded msg, w'))"
proof -
  from local_lookup_some [OF assms(1,2)] obtain l :: "('r, 'p) local_route" where
    l: "local_lookup g req = Some (l, ps)" "same_route r l" by blast
  with assms(3,4) show ?thesis
    by (simp add: local_serve_def local_handler_def same_route_def case_prod_beta split: sum.split)
qed

end
