(* ===== verification/Background_Loops.thy ===== *)
theory Background_Loops
  imports System_Steps
begin

section \<open>The loops of the background\<close>

text \<open>
  What the processes run beside the calls and tasks: the loop of \<open>Bus.DrainOutbox\<close>
  (\<open>internal/event/bus.go\<close>), the gauges of the outbox (\<open>internal/event/outbox_metrics.go\<close>, with the two
  statements of \<open>gen/db/outbox.sql.go\<close> they need) and the monitor of the queues
  (\<open>internal/monitor/queues.go\<close>). Each is a \<open>select\<close> over a ticker and its context; what arrives is a
  list of \<open>wakeup\<close>s, between which the other parties change the world.
\<close>

subsection \<open>Wake-ups\<close>

text \<open>A wake-up with what others did to the world before it; \<open>Done\<close> is the end of the context.\<close>

datatype 'r wakeup = Tick "'r world \<Rightarrow> 'r world" | Kick "'r world \<Rightarrow> 'r world" | Done

definition bad_ticker :: goerr where "bad_ticker = PanicE ''non-positive interval for NewTicker''"

subsection \<open>Draining\<close>

text \<open>The channel of the kicks has room for one; receiving empties it.\<close>

fun drain_select :: "nat \<Rightarrow> ('r world \<Rightarrow> bool) \<Rightarrow> 'r bus \<Rightarrow> ctx \<Rightarrow> 'r wakeup list \<Rightarrow> ('r, unit) call" where
  "drain_select fuel stop b c [] = returnE ()"
| "drain_select fuel stop b c (Done # evs) = returnE ()"
| "drain_select fuel stop b c (Tick env # evs) = do {
     modw env; ended \<leftarrow> drainOnce fuel stop b c; drain_select fuel stop b c evs }"
| "drain_select fuel stop b c (Kick env # evs) = do {
     modw env; modw (\<lambda>w. w\<lparr>busKick := False\<rparr>); ended \<leftarrow> drainOnce fuel stop b c; drain_select fuel stop b c evs }"

definition DrainOutbox ::
  "nat \<Rightarrow> ('r world \<Rightarrow> bool) \<Rightarrow> 'r bus \<Rightarrow> ctx \<Rightarrow> duration \<Rightarrow> int \<Rightarrow> 'r wakeup list \<Rightarrow> ('r, unit) call" where
  "DrainOutbox fuel stop b c interval batchSize evs =
     (if \<not> busOutbox b then returnE ()
      else let b = b\<lparr>busBatchSize := drain_batch_size batchSize\<rparr>
           in if interval \<le> 0 then fail bad_ticker else drain_select fuel stop b c evs)"

subsection \<open>The gauges of the outbox\<close>

record outbox_stats =
  osPending :: nat
  osExhausted :: nat
  osOldestPending :: duration

text \<open>\<open>MIN\<close> over no rows is NULL, which \<open>COALESCE\<close> turns into 0.\<close>

definition OutboxStats :: "nat \<Rightarrow> outbox_stats query" where
  "OutboxStats maxRetry rl t n d =
     (let pending = filter (\<lambda>r. pending_row r \<and> obRetryCount r < maxRetry) (outbox d);
          exhausted = filter (\<lambda>r. pending_row r \<and> obRetryCount r \<ge> maxRetry) (outbox d)
      in Inr (\<lparr>osPending = length pending, osExhausted = length exhausted,
                osOldestPending = (case map obCreatedAt pending of [] \<Rightarrow> 0 | x # xs \<Rightarrow> t - fold min xs x)\<rparr>, d))"

text \<open>The role of the API has no policy on the table, so that it sees no row.\<close>

definition CountOutboxDeadLetters :: "nat query" where
  "CountOutboxDeadLetters rl t n d = Inr (if rl = AppApi then 0 else length (deadLetters d), d)"

text \<open>A gauge is known by the variable that holds it and its label values.\<close>

definition set_gauge :: "string \<Rightarrow> string list \<Rightarrow> int \<Rightarrow> ('r, unit) proc" where
  "set_gauge nm labels v = modw (\<lambda>w. w\<lparr>gauges := (gauges w)((nm, labels) := v)\<rparr>)"

text \<open>A gauge keeps its value when the statement before it fails, and what was set stays set when the
  transaction ends badly.\<close>

definition UpdateMetrics :: "ctx \<Rightarrow> ('r, unit) call" where
  "UpdateMetrics c = store_run c (\<lambda>c. do {
     r \<leftarrow> exec_query (OutboxStats outboxMaxRetry);
     case r of Inl err \<Rightarrow> fail (WrapE ''outbox metrics'' err)
     | Inr stats \<Rightarrow> do {
         set_gauge ''OutboxPendingRows'' [] (int (osPending stats));
         set_gauge ''OutboxExhaustedRows'' [] (int (osExhausted stats));
         set_gauge ''OutboxDrainLagSeconds'' [] (osOldestPending stats);
         r \<leftarrow> exec_query CountOutboxDeadLetters;
         case r of Inl err \<Rightarrow> fail (WrapE ''outbox dead-letter depth'' err)
         | Inr dlDepth \<Rightarrow> do { set_gauge ''OutboxDeadLetterDepth'' [] (int dlDepth); returnE () }}})"

text \<open>The loop around it, in the server and (with a default interval) in the worker; a failure is logged.\<close>

fun metrics_select :: "ctx \<Rightarrow> 'r wakeup list \<Rightarrow> ('r, unit) call" where
  "metrics_select c [] = returnE ()"
| "metrics_select c (Done # evs) = returnE ()"
| "metrics_select c (Tick env # evs) = do { modw env; r \<leftarrow> UpdateMetrics c; metrics_select c evs }"
| "metrics_select c (Kick env # evs) = metrics_select c evs"

definition outboxMetricsLoop :: "ctx \<Rightarrow> duration \<Rightarrow> 'r wakeup list \<Rightarrow> ('r, unit) call" where
  "outboxMetricsLoop c interval evs = (if interval \<le> 0 then fail bad_ticker else metrics_select c evs)"

definition runOutboxMetrics :: "ctx \<Rightarrow> duration \<Rightarrow> 'r wakeup list \<Rightarrow> ('r, unit) call" where
  "runOutboxMetrics c interval evs = outboxMetricsLoop c (if interval \<le> 0 then 15 * second else interval) evs"

subsection \<open>The monitor of the queues\<close>

text \<open>What Asynq's inspector tells of a queue; a queue that had no task yet is an error.\<close>

record queue_info =
  qiPending :: int
  qiActive :: int
  qiScheduled :: int
  qiRetry :: int
  qiArchived :: int
  qiLatency :: duration

record 'r queue_monitor =
  qmInspector :: "'r world \<Rightarrow> string \<Rightarrow> goerr + queue_info"
  qmInterval :: duration
  qmQueues :: "string list"

definition NewQueueMonitor ::
  "('r world \<Rightarrow> string \<Rightarrow> goerr + queue_info) \<Rightarrow> duration \<Rightarrow> string list \<Rightarrow> 'r queue_monitor" where
  "NewQueueMonitor inspector interval queues = \<lparr>qmInspector = inspector, qmInterval = interval, qmQueues = queues\<rparr>"

definition collect_queue :: "'r queue_monitor \<Rightarrow> string \<Rightarrow> ('r, unit) proc" where
  "collect_queue m q = do {
     r \<leftarrow> getw (\<lambda>w. qmInspector m w q);
     case r of Inl err \<Rightarrow> ret ()
     | Inr info \<Rightarrow> do {
         set_gauge ''AsynqQueueDepth'' [q, ''pending''] (qiPending info);
         set_gauge ''AsynqQueueDepth'' [q, ''active''] (qiActive info);
         set_gauge ''AsynqQueueDepth'' [q, ''scheduled''] (qiScheduled info);
         set_gauge ''AsynqQueueDepth'' [q, ''retry''] (qiRetry info);
         set_gauge ''AsynqQueueDepth'' [q, ''archived''] (qiArchived info);
         set_gauge ''AsynqQueueLatencySeconds'' [q] (qiLatency info) }}"

definition queue_collect :: "'r queue_monitor \<Rightarrow> ('r, unit) proc" where
  "queue_collect m = for_each (collect_queue m) (qmQueues m)"

fun monitor_select :: "'r queue_monitor \<Rightarrow> 'r wakeup list \<Rightarrow> ('r, unit) call" where
  "monitor_select m [] = returnE ()"
| "monitor_select m (Done # evs) = returnE ()"
| "monitor_select m (Tick env # evs) = do { modw env; queue_collect m; monitor_select m evs }"
| "monitor_select m (Kick env # evs) = monitor_select m evs"

definition QueueMonitor_Run :: "'r queue_monitor \<Rightarrow> 'r wakeup list \<Rightarrow> ('r, unit) call" where
  "QueueMonitor_Run m evs = (if qmInterval m \<le> 0 then fail bad_ticker else monitor_select m evs)"

end
