(* ===== verification/Drain_Liveness.thy ===== *)
theory Drain_Liveness
  imports Background_Loops
begin

section \<open>A drain with the services up empties the outbox\<close>

text \<open>
  With database and queue up and the breaker closed, no round of the drain fails, so that the loop ends
  only when a batch was not full: then every eligible row is processed and its event is in the queue, a
  dead letter, or was given to its synchronous handler.
\<close>

subsection \<open>Services that stay up\<close>

definition drain_ready :: "'r world \<Rightarrow> bool" where
  "drain_ready w = (db_up w \<and> dbRole w \<noteq> AppApi \<and> mqReplies w = [])"

lemma drain_readyD:
  assumes "drain_ready w"
  shows "db_up w" "dbRole w \<noteq> AppApi" "mqReplies w = []"
  using assms by (simp_all add: drain_ready_def)

lemma drain_ready_after [simp]: "drain_ready (after_query c d w) = drain_ready w"
  by (simp add: drain_ready_def)

text \<open>Publishing from the drain succeeds: the event is enqueued or its handler ran.\<close>

lemma drain_publish_up:
  assumes "drain_ready w" and "cxFromDrain c"
  shows "\<exists>w' ts. run_state (bus_Publish (wired_bus E n) c evt) w = (Inr (), w') \<and> drain_ready w' \<and>
    db w' = db w \<and> now w' = now w \<and> mq w' = mq w @ ts \<and> busFailures w' = busFailures w \<and>
    (eventType evt = ''user.account.deleted'' \<or>
       (\<exists>t\<in>set ts. tkType t = TaskTypeDispatch \<and> tkBody t = TEnvelope (eventType evt) (JEvent evt) (cxRequestID c)))"
    (is ?goal)
proof -
  have async: ?goal if s: "suIsAsync s" "busSubs (wired_bus E n) (eventType evt) = [s]" for s
  proof -
    have "run_state (bus_Publish (wired_bus E n) c evt) w =
        (Inr (), w\<lparr>mq := mq w @ [dispatch_task c evt (enqueue_opts evt s)]\<rparr>)"
      using assms s drain_readyD [OF assms(1)]
      by (simp add: bus_Publish_def Let_def dispatch_single_async [OF s(1) wired_bus_simps(1)])
    then show ?thesis using assms(1)
      by (auto simp: drain_ready_def db_up_def intro!: exI [of _ "[dispatch_task c evt (enqueue_opts evt s)]"])
  qed
  show ?thesis
  proof (cases evt)
    case (UserAccountDeleted u)
    have "frames (\<lambda>w. (db w, now w, mq w, mqReplies w, dbFaults w, txAborted w, dbRole w, busFailures w))
        (bus_Publish (wired_bus E n) c evt)"
      using assms(2) unfolding UserAccountDeleted
      by (auto simp: bus_Publish_def dispatch_def runSync_def deleted_sub_def typed_invoke_def
          intro!: frames_intros frames_deleted split: goerr.split)
    moreover have "fst (run_state (bus_Publish (wired_bus E n) c evt) w) = Inr ()"
      using assms(2) unfolding UserAccountDeleted
      by (simp add: bus_Publish_def dispatch_def deleted_sub_def case_prod_beta split: sum.split)
    ultimately show ?thesis using assms(1) UserAccountDeleted
      by (cases "run_state (bus_Publish (wired_bus E n) c evt) w")
        (auto simp: drain_ready_def db_up_def dest!: framesD intro!: exI [of _ "[]"])
  next
    case (AuditLogWritten a)
    then show ?thesis by (intro async [of audit_sub]) (simp_all add: wired_async)
  next
    case (AuthAttemptRecorded a)
    then show ?thesis by (intro async [of attempt_sub]) (simp_all add: wired_async)
  qed
qed

subsection \<open>A row, a batch\<close>

definition processed_in :: "time \<Rightarrow> int set \<Rightarrow> outbox_row list \<Rightarrow> outbox_row list" where
  "processed_in t ids rs = map (\<lambda>r. if obID r \<in> ids then mark_processed t r else r) rs"

lemma mark_processed_id [simp]: "obID (mark_processed t r) = obID r"
  by (simp add: mark_processed_def)

lemma processed_in_empty [simp]: "processed_in t {} rs = rs"
  by (simp add: processed_in_def)

lemma processed_in_twice: "processed_in t B (processed_in t A rs) = processed_in t (A \<union> B) rs"
  by (auto simp: processed_in_def mark_processed_def)

lemma upd_processed: "upd_where (\<lambda>r. obID r = i) (mark_processed t) rs = processed_in t {i} rs"
  by (simp add: upd_where_def processed_in_def)

lemma MarkProcessed_up:
  assumes "drain_ready w"
  shows "run_state (outbox_MarkProcessed c i) w =
    (Inr (), after_query c ((db w)\<lparr>outbox := processed_in (now w) {i} (outbox (db w))\<rparr>) w)"
  using run_query_up [OF drain_readyD(1) [OF assms], of "MarkOutboxProcessed i" "()" _ c]
  by (simp add: outbox_MarkProcessed_def MarkOutboxProcessed_def upd_processed)

definition row_drained :: "ctx \<Rightarrow> outbox_row list \<Rightarrow> 'r world \<Rightarrow> 'r world \<Rightarrow> bool" where
  "row_drained c rows w w' = (drain_ready w' \<and> now w' = now w \<and> busFailures w' = busFailures w \<and>
     outbox (db w') = processed_in (now w) (obID ` set rows) (outbox (db w)) \<and>
     (\<exists>ts dls. mq w' = mq w @ ts \<and> deadLetters (db w') = deadLetters (db w) @ dls \<and>
        (\<forall>r\<in>set rows. accounted c ts dls r)))"

lemma row_drained_append:
  assumes "row_drained c xs w w1" and "row_drained c ys w1 w2"
  shows "row_drained c (xs @ ys) w w2"
proof -
  from assms(1) obtain ts dls where 1: "mq w1 = mq w @ ts" "deadLetters (db w1) = deadLetters (db w) @ dls"
    "\<forall>r\<in>set xs. accounted c ts dls r" by (auto simp: row_drained_def)
  from assms(2) obtain ts' dls' where 2: "mq w2 = mq w1 @ ts'" "deadLetters (db w2) = deadLetters (db w1) @ dls'"
    "\<forall>r\<in>set ys. accounted c ts' dls' r" by (auto simp: row_drained_def)
  have "\<forall>r\<in>set (xs @ ys). accounted c (ts @ ts') (dls @ dls') r"
    using 1(3) 2(3) by (auto intro: accounted_mono)
  with 1 2 assms show ?thesis
    unfolding row_drained_def by (simp add: processed_in_twice image_Un)
qed

lemma bury_up:
  assumes "drain_ready w"
  shows "\<exists>w'. run_state (bury c row reason m) w = (Inr (), w') \<and> row_drained c [row] w w'"
proof -
  let ?dl = "\<lparr>dlSourceID = obID row, dlEventType = obEventType row,
            dlPayload = obPayload row, dlReason = reason, dlLastError = NullStr m\<rparr>"
  let ?w = "after_query c ((db w)\<lparr>deadLetters := deadLetters (db w) @ [?dl]\<rparr>) w"
  have 1: "run_state (run_query c (InsertOutboxDeadLetter ?dl)) w = (Inr (), ?w)"
    using drain_readyD [OF assms] by (intro run_query_up) (simp_all add: InsertOutboxDeadLetter_def)
  have "drain_ready ?w" using assms by simp
  note m = MarkProcessed_up [OF this, of c "obID row"]
  show ?thesis
    using assms by (auto simp: bury_def outbox_DeadLetter_def 1 m row_drained_def accounted_def)
qed

lemma drain_row_up:
  assumes "drain_ready w"
  shows "\<exists>a w'. run_state (drain_row (wired_bus E n) c row) w = (Inr (a, 0), w') \<and> row_drained c [row] w w'"
proof -
  note dead = bury_up [OF assms, of c row]
  have pub: "\<exists>a w'. run_state (drain_row (wired_bus E n) c row) w = (Inr (a, 0), w') \<and> row_drained c [row] w w'"
    if "\<not> obRetryCount row \<ge> outboxMaxRetry" "FactoryFor (obEventType row)"
      and u: "unmarshal_event (obEventType row) (obPayload row) = Inr evt" for evt
  proof -
    let ?d = "c\<lparr>cxFromDrain := True\<rparr>"
    have e: "eventType evt = obEventType row" "obPayload row = JEvent evt"
      using u by (auto simp: unmarshal_event_def split: payload.splits if_splits)
    from drain_publish_up [OF assms, of ?d E n evt] obtain w1 ts where
      p: "run_state (bus_Publish (wired_bus E n) ?d evt) w = (Inr (), w1)" and up: "drain_ready w1"
      and k: "db w1 = db w" "now w1 = now w" "mq w1 = mq w @ ts" "busFailures w1 = busFailures w"
      and acc: "eventType evt = ''user.account.deleted'' \<or>
        (\<exists>t\<in>set ts. tkType t = TaskTypeDispatch \<and> tkBody t = TEnvelope (eventType evt) (JEvent evt) (cxRequestID c))"
      by auto
    from acc e have "accounted c ts [] row" by (auto simp: accounted_def row_task_def)
    with that p up k show ?thesis
      by (auto simp: drain_row_def MarkProcessed_up [OF up] row_drained_def)
  qed
  have buried: "\<exists>w'. run_state (do { r \<leftarrow> bury c row reason m;
      case r of Inl e \<Rightarrow> fail e | Inr _ \<Rightarrow> returnE (0, 0) }) w = (Inr (0, 0), w') \<and> row_drained c [row] w w'" for reason m
    using dead [of reason m] by auto
  show ?thesis
  proof (cases "obRetryCount row \<ge> outboxMaxRetry")
    case True
    then show ?thesis using buried unfolding drain_row_def by (simp only: if_True) blast
  next
    case retry: False
    show ?thesis
    proof (cases "FactoryFor (obEventType row)")
      case False
      then show ?thesis using retry buried unfolding drain_row_def by (simp only: if_True if_False not_False_eq_True) blast
    next
      case True
      show ?thesis
      proof (cases "unmarshal_event (obEventType row) (obPayload row)")
        case (Inl err)
        then show ?thesis using True retry buried unfolding drain_row_def
          by (simp only: if_False not_True_eq_False sum.case) blast
      next
        case (Inr evt)
        then show ?thesis using pub [OF retry True] by blast
      qed
    qed
  qed
qed

lemma drain_rows_up:
  "drain_ready w \<Longrightarrow>
     \<exists>a w'. run_state (drain_rows (wired_bus E n) c rows a0 f0) w = (Inr (a, f0), w') \<and> row_drained c rows w w'"
proof (induction rows arbitrary: w a0)
  case Nil
  then show ?case by (auto simp: row_drained_def)
next
  case (Cons row rows)
  from drain_row_up [OF Cons.prems, of E n c row] obtain a w1 where
    1: "run_state (drain_row (wired_bus E n) c row) w = (Inr (a, 0), w1)" and d1: "row_drained c [row] w w1" by auto
  from d1 have "drain_ready w1" by (simp add: row_drained_def)
  from Cons.IH [OF this, of "a0 + a"] obtain a' w' where
    2: "run_state (drain_rows (wired_bus E n) c rows (a0 + a) f0) w1 = (Inr (a', f0), w')"
    and d2: "row_drained c rows w1 w'" by auto
  from row_drained_append [OF d1 d2] 1 2 show ?case by auto
qed

lemma enter_tx_ready: "drain_ready w \<Longrightarrow> drain_ready (enter_tx c w)"
  by (simp add: drain_ready_def db_up_def enter_tx_def)

lemma row_drained_gucs:
  "row_drained (c\<lparr>cxInTx := True\<rparr>) rows (after_query c' (db w) (enter_tx c w)) w1 \<Longrightarrow>
     row_drained c rows w (w1\<lparr>gucs := g\<rparr>)"
  by (simp add: row_drained_def enter_tx_def drain_ready_def db_up_def accounted_def row_task_def)

lemma drain_batch_up:
  assumes "drain_ready w" and "\<not> cxInTx c" and "busFailures w < drainBreakerThreshold"
  shows "\<exists>w'. run_state (drainBatch (wired_bus E n) c) w =
      ((length (pending_batch outboxMaxRetry n (now w) (outbox (db w))), True), w') \<and>
    busFailures w' < drainBreakerThreshold \<and>
    (\<exists>w1 m. row_drained c (pending_batch outboxMaxRetry n (now w) (outbox (db w))) w w1 \<and>
      w' = w1\<lparr>busFailures := m\<rparr>)"
proof -
  let ?c = "c\<lparr>cxInTx := True\<rparr>" and ?w0 = "enter_tx c w"
  let ?batch = "pending_batch outboxMaxRetry n (now w) (outbox (db w))"
  have up: "drain_ready ?w0" using assms(1) by (rule enter_tx_ready)
  let ?w1 = "after_query ?c (db w) ?w0"
  have q: "run_state (run_query ?c (PendingOutboxBatch outboxMaxRetry n)) ?w0 = (Inr ?batch, ?w1)"
    by (rule run_query_up [OF drain_readyD(1) [OF up]]) (simp add: PendingOutboxBatch_def enter_tx_def)
  from up have "drain_ready ?w1" by simp
  from drain_rows_up [OF this, of E n ?c ?batch 0 0] obtain a w2 where
    d: "run_state (drain_rows (wired_bus E n) ?c ?batch 0 0) ?w1 = (Inr (a, 0), w2)"
    and r: "row_drained ?c ?batch ?w1 w2" by auto
  have t: "run_state (drain_tx (wired_bus E n) ?c) ?w0 = (Inr (length ?batch, a, 0), w2)"
    by (simp add: drain_tx_def outbox_PendingBatch_def wired_bus_simps q d)
  have "db_up w2" using r drain_readyD by (auto simp: row_drained_def)
  then have "run_state (with_tx c (drain_tx (wired_bus E n))) w = (Inr (length ?batch, a, 0), w2\<lparr>gucs := ([], [])\<rparr>)"
    using drain_readyD(1) [OF assms(1)] t assms(2) with_tx_run [of c w "drain_tx (wired_bus E n)"] by (simp add: db_up_def)
  note w = this
  have r2: "row_drained c ?batch w (w2\<lparr>gucs := ([], [])\<rparr>)" using r by (rule row_drained_gucs)
  then have b: "busFailures (w2\<lparr>gucs := ([], [])\<rparr>) = busFailures w" by (simp add: row_drained_def)
  let ?w3 = "w2\<lparr>gucs := ([], [])\<rparr>"
  define k where "k = (if a = 0 then busFailures ?w3 else 0)"
  have rb: "run_state (recordBreaker a 0) ?w3 = ((), ?w3\<lparr>busFailures := k\<rparr>)"
    by (cases w2) (simp add: recordBreaker_def k_def)
  have k: "k < drainBreakerThreshold" using b assms(3) by (simp add: k_def drainBreakerThreshold_def)
  show ?thesis
    using k r2 by (auto simp: drainBatch_def w rb intro!: exI [of _ ?w3])
qed

text \<open>A batch that is not full holds every eligible row.\<close>

lemma short_batch_all:
  assumes "length (pending_batch outboxMaxRetry n t rs) < n"
  shows "set (pending_batch outboxMaxRetry n t rs) = set (filter (eligible t) rs)"
proof -
  let ?all = "sort_key attempt_key (sort_key obID
    (filter (\<lambda>r. pending_row r \<and> obRetryCount r < outboxMaxRetry \<and> backoff_elapsed t r) rs))"
  from assms have "pending_batch outboxMaxRetry n t rs = ?all"
    by (simp add: pending_batch_def del: sort_key_simps)
  then show ?thesis by (auto simp: eligible_def)
qed

definition drained :: "time \<Rightarrow> outbox_row list \<Rightarrow> outbox_row list" where
  "drained t rs = map (\<lambda>r. if eligible t r then mark_processed t r else r) rs"

lemma mark_processed_not_eligible [simp]: "\<not> eligible t (mark_processed t' r)"
  by (simp add: eligible_def pending_row_def mark_processed_def)

text \<open>Draining what a batch has left is draining all.\<close>

lemma drained_processed:
  assumes "distinct (map obID rs)" and "set batch \<subseteq> set (filter (eligible t) rs)"
  shows "drained t (processed_in t (obID ` set batch) rs) = drained t rs"
    and "\<And>r. r \<in> set rs \<Longrightarrow> obID r \<in> obID ` set batch \<longleftrightarrow> r \<in> set batch"
proof -
  have inj: "r = r'" if "r \<in> set rs" "r' \<in> set rs" "obID r = obID r'" for r r'
    using assms(1) that by (simp add: distinct_map inj_on_def)
  show mem: "obID r \<in> obID ` set batch \<longleftrightarrow> r \<in> set batch" if "r \<in> set rs" for r
  proof
    assume "obID r \<in> obID ` set batch"
    then obtain r' where "r' \<in> set batch" "obID r = obID r'" by auto
    with assms(2) inj [of r r'] that show "r \<in> set batch" by auto
  qed simp
  show "drained t (processed_in t (obID ` set batch) rs) = drained t rs"
    using mem assms(2) by (auto simp: drained_def processed_in_def)
qed

lemma drained_none: "\<forall>r\<in>set rs. \<not> eligible t r \<Longrightarrow> drained t rs = rs"
  by (simp add: drained_def map_idI)

lemma drainOnce_up:
  assumes "\<not> cxInTx c" and "n > 0"
  shows "drain_ready w \<Longrightarrow> busFailures w < drainBreakerThreshold \<Longrightarrow> distinct (map obID (outbox (db w))) \<Longrightarrow>
    length (filter (eligible (now w)) (outbox (db w))) < fuel \<Longrightarrow>
    \<exists>w' ts dls. run_state (drainOnce fuel (\<lambda>_. False) (wired_bus E n) c) w = (True, w') \<and>
      outbox (db w') = drained (now w) (outbox (db w)) \<and> mq w' = mq w @ ts \<and>
      deadLetters (db w') = deadLetters (db w) @ dls \<and>
      (\<forall>r\<in>set (filter (eligible (now w)) (outbox (db w))). accounted c ts dls r)"
proof (induction fuel arbitrary: w)
  case (Suc fuel)
  let ?t = "now w" and ?rs = "outbox (db w)"
  let ?batch = "pending_batch outboxMaxRetry n ?t ?rs"
  have allow: "breakerAllows w" using Suc.prems(2) by (simp add: breakerAllows_def)
  from drain_batch_up [OF Suc.prems(1) assms(1) Suc.prems(2), of E n] obtain w' w1 m where
    run: "run_state (drainBatch (wired_bus E n) c) w = ((length ?batch, True), w')"
    and bf: "busFailures w' < drainBreakerThreshold" and rd: "row_drained c ?batch w w1"
    and w': "w' = w1\<lparr>busFailures := m\<rparr>" by auto
  from w' have k: "now w' = now w1" "db w' = db w1" "mq w' = mq w1" "drain_ready w' = drain_ready w1"
    by (simp_all add: drain_ready_def db_up_def)
  from rd obtain ts dls where t1: "now w1 = ?t" and up: "drain_ready w1"
    and o1: "outbox (db w1) = processed_in ?t (obID ` set ?batch) ?rs"
    and m1: "mq w1 = mq w @ ts" "deadLetters (db w1) = deadLetters (db w) @ dls"
    and acc: "\<forall>r\<in>set ?batch. accounted c ts dls r" by (auto simp: row_drained_def)
  have sub: "set ?batch \<subseteq> set (filter (eligible ?t) ?rs)" by (auto dest: pending_batch_eligible)
  note dp = drained_processed [OF Suc.prems(3) sub]
  show ?case
  proof (cases "length ?batch < n")
    case True
    from short_batch_all [OF this] dp(2) have "outbox (db w1) = drained ?t ?rs"
      unfolding o1 by (auto simp: processed_in_def drained_def)
    moreover have "run_state (drainOnce (Suc fuel) (\<lambda>_. False) (wired_bus E n) c) w = (True, w')"
      using True by (simp add: allow run wired_bus_simps)
    ultimately show ?thesis using k m1 acc short_batch_all [OF True] by auto
  next
    case False
    have d1: "distinct (map obID (outbox (db w1)))"
      using Suc.prems(3) unfolding o1 by (simp add: processed_in_def comp_def if_distrib [of obID] cong: if_cong)
    have prog: "length (filter (eligible ?t) (outbox (db w1))) < length (filter (eligible ?t) ?rs)"
      using wired.drainBatch_progress [OF assms(1) Suc.prems(3) _ run] assms(2) False k t1
      by (simp add: wired_bus_simps)
    from Suc.IH [of w'] up bf d1 prog Suc.prems(4) k t1 obtain w2 ts' dls' where
      r2: "run_state (drainOnce fuel (\<lambda>_. False) (wired_bus E n) c) w' = (True, w2)"
      and o2: "outbox (db w2) = drained ?t (outbox (db w1))" and m2: "mq w2 = mq w1 @ ts'"
      "deadLetters (db w2) = deadLetters (db w1) @ dls'"
      and acc2: "\<forall>r\<in>set (filter (eligible ?t) (outbox (db w1))). accounted c ts' dls' r" by auto
    have "run_state (drainOnce (Suc fuel) (\<lambda>_. False) (wired_bus E n) c) w = (True, w2)"
      using False by (simp add: allow run wired_bus_simps r2)
    moreover have "outbox (db w2) = drained ?t ?rs" unfolding o2 o1 by (rule dp(1))
    moreover have "accounted c (ts @ ts') (dls @ dls') r" if r: "r \<in> set (filter (eligible ?t) ?rs)" for r
    proof (cases "r \<in> set ?batch")
      case True
      with acc show ?thesis by (auto intro: accounted_mono)
    next
      case False
      with r dp(2) have "r \<in> set (filter (eligible ?t) (outbox (db w1)))"
        unfolding o1 by (force simp: processed_in_def)
      with acc2 show ?thesis by (auto intro: accounted_mono)
    qed
    ultimately show ?thesis using m1 m2
      by (intro exI [of _ w2] exI [of _ "ts @ ts'"] exI [of _ "dls @ dls'"]) (simp del: drainOnce.simps)
  qed
qed simp

text \<open>A loop whose context has ended between the wake-ups returns; a kick is as good as a tick.\<close>

lemma drain_select_kick:
  "run_state (drain_select fuel stop b c [Kick env, Done]) w =
   run_state (drain_select fuel stop b c [Tick (\<lambda>w. (env w)\<lparr>busKick := False\<rparr>), Done]) w"
  by (simp add: case_prod_beta)

subsection \<open>The property\<close>


end
