(* ===== verification/Server_Lifecycle.thy ===== *)
theory Server_Lifecycle
  imports Grpc_Server
begin

section \<open>Start-up, options and shutdown of the server process\<close>

text \<open>
  \<open>serverOptions\<close> and \<open>Shutdown\<close> of \<open>internal/grpcsvc/server.go\<close>, and the life of the process in
  \<open>internal/app/app.go\<close>: \<open>Initialize\<close>, \<open>Bootstrap\<close>, \<open>AwaitShutdown\<close>. \<open>Shutdown\<close> runs two goroutines and a
  timer, so it is a step relation; the gRPC library's server is the locale \<open>graceful_server\<close>.
\<close>

subsection \<open>Server options\<close>

record keepalive_params =
  kpTime :: duration
  kpTimeout :: duration
  kpMaxConnectionIdle :: duration
  kpMaxConnectionAge :: duration
  kpMaxConnectionAgeGrace :: duration

definition zero_keepalive :: keepalive_params where
  "zero_keepalive = \<lparr>kpTime = 0, kpTimeout = 0, kpMaxConnectionIdle = 0, kpMaxConnectionAge = 0, kpMaxConnectionAgeGrace = 0\<rparr>"

datatype server_option = OptMaxRecvMsgSize int | OptMaxSendMsgSize int | OptConnectionTimeout duration
  | OptKeepaliveParams keepalive_params | OptKeepaliveEnforcementPolicy duration bool

definition serverOptions :: "configs \<Rightarrow> server_option list" where
  "serverOptions cfg =
     (let sc = csApp cfg;
          opts = [];
          opts = (if apMaxRecvMsgSizeBytes sc > 0 then opts @ [OptMaxRecvMsgSize (apMaxRecvMsgSizeBytes sc)] else opts);
          opts = (if apMaxSendMsgSizeBytes sc > 0 then opts @ [OptMaxSendMsgSize (apMaxSendMsgSizeBytes sc)] else opts);
          opts = (if apConnectionTimeout sc > 0 then opts @ [OptConnectionTimeout (apConnectionTimeout sc)] else opts);
          kp = \<lparr>kpTime = apKeepaliveTime sc, kpTimeout = apKeepaliveTimeout sc,
            kpMaxConnectionIdle = apMaxConnectionIdle sc, kpMaxConnectionAge = apMaxConnectionAge sc,
            kpMaxConnectionAgeGrace = apMaxConnectionAgeGrace sc\<rparr>;
          opts = (if kp \<noteq> zero_keepalive then opts @ [OptKeepaliveParams kp] else opts);
          opts = (if apMinClientInterval sc > 0 then opts @ [OptKeepaliveEnforcementPolicy (apMinClientInterval sc) True] else opts)
      in opts)"

subsection \<open>Shutdown\<close>

text \<open>
  The library's server: \<open>drained s\<close> says that \<open>GracefulStop\<close> can return, no call being in flight;
  \<open>stop s\<close> closes the connections that remain. Calls in flight make steps of their own, and no new
  one is accepted once \<open>GracefulStop\<close> has begun.
\<close>

locale graceful_server =
  fixes drained :: "'s \<Rightarrow> bool" and stop :: "'s \<Rightarrow> 's" and srv_step :: "'s \<Rightarrow> 's \<Rightarrow> bool"
  assumes stop_drains: "drained (stop s)"
    and drained_stays: "drained s \<Longrightarrow> srv_step s s' \<Longrightarrow> drained s'"

datatype shutdown_pc = AtHealth | AtLaunch | AtSelect | AtStop | AtJoin | AtReturn

record 's shutdown =
  sdServing :: bool        \<comment> \<open>what the health service reports\<close>
  sdServer :: 's
  sdDone :: bool           \<comment> \<open>the channel \<open>done\<close> is closed\<close>
  sdClock :: duration      \<comment> \<open>time since the timer was started\<close>
  sdPc :: shutdown_pc

definition shutdown_grace :: "duration \<Rightarrow> duration" where
  "shutdown_grace grace = (if grace \<le> 0 then 20 * second else grace)"

definition shutdown_start :: "'s \<Rightarrow> 's shutdown" where
  "shutdown_start s = \<lparr>sdServing = True, sdServer = s, sdDone = False, sdClock = 0, sdPc = AtHealth\<rparr>"

text \<open>Time passes only while the caller waits in the select and neither of its arms is ready, nor the
  other goroutine able to close the channel: what is measured is the waiting, not the scheduling.\<close>

inductive shutdown_step ::
  "('s \<Rightarrow> bool) \<Rightarrow> ('s \<Rightarrow> 's) \<Rightarrow> ('s \<Rightarrow> 's \<Rightarrow> bool) \<Rightarrow> duration \<Rightarrow> 's shutdown \<Rightarrow> 's shutdown \<Rightarrow> bool"
  for drained stop srv_step grace where
  sd_health: "sdPc x = AtHealth \<Longrightarrow> shutdown_step drained stop srv_step grace x (x\<lparr>sdServing := False, sdPc := AtLaunch\<rparr>)"
| sd_launch: "sdPc x = AtLaunch \<Longrightarrow> shutdown_step drained stop srv_step grace x (x\<lparr>sdPc := AtSelect, sdClock := 0\<rparr>)"
| sd_drained: "sdPc x \<in> {AtSelect, AtStop, AtJoin} \<Longrightarrow> drained (sdServer x) \<Longrightarrow>
    shutdown_step drained stop srv_step grace x (x\<lparr>sdDone := True\<rparr>)"
| sd_done: "sdPc x = AtSelect \<Longrightarrow> sdDone x \<Longrightarrow> shutdown_step drained stop srv_step grace x (x\<lparr>sdPc := AtReturn\<rparr>)"
| sd_timer: "sdPc x = AtSelect \<Longrightarrow> sdClock x = shutdown_grace grace \<Longrightarrow>
    shutdown_step drained stop srv_step grace x (x\<lparr>sdPc := AtStop\<rparr>)"
| sd_stop: "sdPc x = AtStop \<Longrightarrow>
    shutdown_step drained stop srv_step grace x (x\<lparr>sdServer := stop (sdServer x), sdPc := AtJoin\<rparr>)"
| sd_join: "sdPc x = AtJoin \<Longrightarrow> sdDone x \<Longrightarrow> shutdown_step drained stop srv_step grace x (x\<lparr>sdPc := AtReturn\<rparr>)"
| sd_server: "srv_step (sdServer x) s \<Longrightarrow> shutdown_step drained stop srv_step grace x (x\<lparr>sdServer := s\<rparr>)"
| sd_time: "sdPc x = AtSelect \<Longrightarrow> \<not> sdDone x \<Longrightarrow> \<not> drained (sdServer x) \<Longrightarrow> 0 < dt \<Longrightarrow>
    sdClock x + dt \<le> shutdown_grace grace \<Longrightarrow>
    shutdown_step drained stop srv_step grace x (x\<lparr>sdClock := sdClock x + dt\<rparr>)"

inductive_cases shutdown_stepE: "shutdown_step drained stop srv_step grace x x'"

lemma shutdown_grace_pos: "0 < shutdown_grace grace"
  by (simp add: shutdown_grace_def second_def)

text \<open>The invariant: the health service is off from the first step on, the clock stays within the grace
  period, the stop comes at its end only, and the channel is closed only when no call is in flight.\<close>

definition shutdown_inv :: "('s \<Rightarrow> bool) \<Rightarrow> duration \<Rightarrow> 's shutdown \<Rightarrow> bool" where
  "shutdown_inv drained grace x =
     ((sdServing x \<longrightarrow> sdPc x = AtHealth) \<and> 0 \<le> sdClock x \<and> sdClock x \<le> shutdown_grace grace \<and>
      (sdPc x \<in> {AtStop, AtJoin} \<longrightarrow> sdClock x = shutdown_grace grace) \<and>
      (sdDone x \<longrightarrow> drained (sdServer x)) \<and> (sdPc x \<in> {AtHealth, AtLaunch} \<longrightarrow> \<not> sdDone x) \<and>
      (sdPc x = AtJoin \<longrightarrow> drained (sdServer x)) \<and> (sdPc x = AtReturn \<longrightarrow> sdDone x))"

lemma shutdown_start_inv: "shutdown_inv drained grace (shutdown_start s)"
  using shutdown_grace_pos [of grace] by (simp add: shutdown_inv_def shutdown_start_def)

context graceful_server
begin

lemma shutdown_step_inv:
  assumes "shutdown_step drained stop srv_step grace x x'" and "shutdown_inv drained grace x"
  shows "shutdown_inv drained grace x'"
  using assms
proof (cases rule: shutdown_step.cases)
  case (sd_server s)
  with assms(2) show ?thesis by (auto simp: shutdown_inv_def intro: drained_stays)
qed (use shutdown_grace_pos [of grace] in \<open>auto simp: shutdown_inv_def stop_drains\<close>)

lemma shutdown_steps_inv:
  "(shutdown_step drained stop srv_step grace)\<^sup>*\<^sup>* x y \<Longrightarrow> shutdown_inv drained grace x \<Longrightarrow> shutdown_inv drained grace y"
  by (induction rule: rtranclp_induct) (auto intro: shutdown_step_inv)

lemmas sd_intros = shutdown_step.intros

lemma step_then_return:
  assumes "shutdown_step drained stop srv_step grace x x'"
    and "\<exists>y. (shutdown_step drained stop srv_step grace)\<^sup>*\<^sup>* x' y \<and> sdPc y = AtReturn"
  shows "\<exists>y. (shutdown_step drained stop srv_step grace)\<^sup>*\<^sup>* x y \<and> sdPc y = AtReturn"
  using assms by (blast intro: converse_rtranclp_into_rtranclp)

text \<open>From any state the caller gets home without the help of the calls in flight.\<close>

lemma return_from_join:
  assumes "sdPc x = AtJoin" and "shutdown_inv drained grace x"
  shows "\<exists>y. (shutdown_step drained stop srv_step grace)\<^sup>*\<^sup>* x y \<and> sdPc y = AtReturn"
proof (rule step_then_return)
  show "shutdown_step drained stop srv_step grace x (x\<lparr>sdDone := True\<rparr>)"
    using assms by (intro sd_drained) (simp_all add: shutdown_inv_def)
  show "\<exists>y. (shutdown_step drained stop srv_step grace)\<^sup>*\<^sup>* (x\<lparr>sdDone := True\<rparr>) y \<and> sdPc y = AtReturn"
    by (rule step_then_return, rule sd_join) (use assms(1) in auto)
qed

lemma return_from_stop:
  assumes "sdPc x = AtStop" and "shutdown_inv drained grace x"
  shows "\<exists>y. (shutdown_step drained stop srv_step grace)\<^sup>*\<^sup>* x y \<and> sdPc y = AtReturn"
  using return_from_join [OF _ shutdown_step_inv [OF sd_stop [OF assms(1)] assms(2)]]
  by (intro step_then_return [OF sd_stop [OF assms(1)]]) simp

lemma return_from_select:
  assumes "sdPc x = AtSelect" and "shutdown_inv drained grace x"
  shows "\<exists>y. (shutdown_step drained stop srv_step grace)\<^sup>*\<^sup>* x y \<and> sdPc y = AtReturn"
proof (cases "drained (sdServer x)")
  case True
  have "\<exists>y. (shutdown_step drained stop srv_step grace)\<^sup>*\<^sup>* (x\<lparr>sdDone := True\<rparr>) y \<and> sdPc y = AtReturn"
    by (rule step_then_return, rule sd_done) (use assms(1) in auto)
  then show ?thesis using assms(1) True by (intro step_then_return [OF sd_drained [of x]]) simp_all
next
  case False
  with assms have nd: "\<not> sdDone x" and c: "sdClock x \<le> shutdown_grace grace" by (auto simp: shutdown_inv_def)
  let ?x = "x\<lparr>sdClock := shutdown_grace grace\<rparr>"
  have "(shutdown_step drained stop srv_step grace)\<^sup>*\<^sup>* x ?x"
  proof (cases "sdClock x = shutdown_grace grace")
    case True
    then have "?x = x" by simp
    then show ?thesis by simp
  next
    case False
    with c sd_time [of x drained "shutdown_grace grace - sdClock x" grace] assms(1) nd \<open>\<not> drained (sdServer x)\<close>
    have "shutdown_step drained stop srv_step grace x ?x" by simp
    then show ?thesis ..
  qed
  moreover from assms(1) sd_timer [of ?x grace]
  have t: "shutdown_step drained stop srv_step grace ?x (?x\<lparr>sdPc := AtStop\<rparr>)" by simp
  ultimately have r: "(shutdown_step drained stop srv_step grace)\<^sup>*\<^sup>* x (?x\<lparr>sdPc := AtStop\<rparr>)" by (rule rtranclp.rtrancl_into_rtrancl)
  have "shutdown_inv drained grace (?x\<lparr>sdPc := AtStop\<rparr>)"
    using assms nd shutdown_grace_pos [of grace] by (auto simp: shutdown_inv_def)
  from return_from_stop [OF _ this] r show ?thesis by (auto intro: rtranclp_trans)
qed

lemma shutdown_can_return:
  assumes "shutdown_inv drained grace x"
  shows "\<exists>y. (shutdown_step drained stop srv_step grace)\<^sup>*\<^sup>* x y \<and> sdPc y = AtReturn"
proof -
  have launch: "\<exists>y. (shutdown_step drained stop srv_step grace)\<^sup>*\<^sup>* x y \<and> sdPc y = AtReturn"
    if "sdPc x = AtLaunch" "shutdown_inv drained grace x" for x
    using return_from_select [OF _ shutdown_step_inv [OF sd_launch [OF that(1)] that(2)]]
    by (intro step_then_return [OF sd_launch [OF that(1)]]) simp
  have health: "\<exists>y. (shutdown_step drained stop srv_step grace)\<^sup>*\<^sup>* x y \<and> sdPc y = AtReturn" if "sdPc x = AtHealth"
    using launch [OF _ shutdown_step_inv [OF sd_health [OF that] assms]]
    by (intro step_then_return [OF sd_health [OF that]]) simp
  show ?thesis
    using assms launch health return_from_select return_from_stop return_from_join
    by (cases "sdPc x") (auto intro: rtranclp.rtrancl_refl)
qed

end

text \<open>A server as a number of calls in flight, each of which may end.\<close>

interpretation counting: graceful_server "\<lambda>n. n = (0::nat)" "\<lambda>n. 0" "\<lambda>n m. n = Suc m"
  by unfold_locales simp_all



end
