(* ===== verification/Locale_Bundle.thy ===== *)
theory Locale_Bundle
  imports Gate_Guarantees Emails_Worker
begin

section \<open>The locale bundle\<close>

text \<open>
  \<open>pkg/locale\<close>: loading the message files, the bundle's \<open>T\<close> and the request-scoped helper. The i18n
  library is the record \<open>i18n_api\<close> over its own type of bundles; a localizer is the bundle with the
  languages it tries. Walking a directory is the list of calls \<open>WalkDir\<close> makes of its function.
\<close>

subsection \<open>The library and the files\<close>

record localize_config =
  lcMessageID :: string
  lcTemplateData :: "any_map option"
  lcPluralCount :: "int option"

type_synonym 'b localizer = "'b \<times> string list"

record 'b i18n_api =
  i18nEmpty :: 'b                                            \<comment> \<open>\<open>NewBundle(language.English)\<close>\<close>
  i18nParse :: "'b \<Rightarrow> string \<Rightarrow> string \<Rightarrow> goerr + 'b"       \<comment> \<open>\<open>ParseMessageFileBytes\<close>: data, name\<close>
  i18nLocalize :: "'b localizer \<Rightarrow> localize_config \<Rightarrow> goerr + string"
  i18nTags :: "'b \<Rightarrow> string list"

datatype locale_entry = WalkError string goerr | WalkDirectory string | WalkFile string string "goerr + string"
  \<comment> \<open>path; path; path, name and what reading gives\<close>

definition has_suffix :: "string \<Rightarrow> string \<Rightarrow> bool" where
  "has_suffix s p = has_prefix (rev s) (rev p)"

text \<open>The function \<open>WalkDir\<close> calls, and the walk, which stops at its first error.\<close>

definition load_entry :: "'b i18n_api \<Rightarrow> 'b \<Rightarrow> locale_entry \<Rightarrow> goerr + 'b" where
  "load_entry api b e =
     (case e of WalkError path err \<Rightarrow> Inl err
      | WalkDirectory path \<Rightarrow> Inr b
      | WalkFile path nm content \<Rightarrow>
          if \<not> has_suffix path ''.toml'' then Inr b
          else (case content of Inl readErr \<Rightarrow> Inl (WrapE (''locale: read '' @ path) readErr)
                | Inr data \<Rightarrow>
                    (case i18nParse api b data nm of Inl parseErr \<Rightarrow> Inl (WrapE (''locale: parse '' @ path) parseErr)
                     | Inr b' \<Rightarrow> Inr b')))"

fun load_walk :: "'b i18n_api \<Rightarrow> 'b \<Rightarrow> locale_entry list \<Rightarrow> goerr + 'b" where
  "load_walk api b [] = Inr b"
| "load_walk api b (e # es) = (case load_entry api b e of Inl err \<Rightarrow> Inl err | Inr b' \<Rightarrow> load_walk api b' es)"

record 'b locale_bundle =
  blBundle :: 'b
  blDefaultLang :: string

definition locale_New :: "'b i18n_api \<Rightarrow> locale_entry list \<Rightarrow> string \<Rightarrow> goerr + 'b locale_bundle" where
  "locale_New api walk defaultLang =
     (case load_walk api (i18nEmpty api) walk of Inl err \<Rightarrow> Inl err
      | Inr b \<Rightarrow> Inr \<lparr>blBundle = b, blDefaultLang = defaultLang\<rparr>)"

subsection \<open>Translating\<close>

definition NewLocalizer :: "'b locale_bundle \<Rightarrow> string list \<Rightarrow> 'b localizer" where
  "NewLocalizer b langs = (blBundle b, langs)"

text \<open>The maps are association lists, the first entry of a key counting. The second result is the map of
  the caller afterwards, into which the plural count is written.\<close>

definition localize ::
  "'b i18n_api \<Rightarrow> 'b localizer \<Rightarrow> string \<Rightarrow> int \<Rightarrow> bool \<Rightarrow> any_map option \<Rightarrow> string \<times> any_map option" where
  "localize api loc i pluralCount usePlural data =
     (let cfg = \<lparr>lcMessageID = i, lcTemplateData = data, lcPluralCount = None\<rparr>;
          counted = (\<lambda>m. (''count'', show_int pluralCount) # m);
          cfg = (if usePlural
                 then cfg\<lparr>lcPluralCount := Some pluralCount,
                   lcTemplateData := Some (case data of None \<Rightarrow> counted [] | Some m \<Rightarrow> counted m)\<rparr>
                 else cfg);
          after = (if usePlural then map_option counted data else data)
      in case i18nLocalize api loc cfg of Inl err \<Rightarrow> (i, after)
         | Inr msg \<Rightarrow> if msg = [] then (i, after) else (msg, after))"

definition bundle_T :: "'b i18n_api \<Rightarrow> 'b locale_bundle \<Rightarrow> string \<Rightarrow> string \<Rightarrow> any_map option \<Rightarrow> string" where
  "bundle_T api b lang i data = fst (localize api (NewLocalizer b [lang, blDefaultLang b]) i 0 False data)"

definition SupportedLanguages :: "'b i18n_api \<Rightarrow> 'b locale_bundle \<Rightarrow> string list" where
  "SupportedLanguages api b = map (\<lambda>t. t) (i18nTags api (blBundle b))"

definition bundle_DefaultLanguage :: "'b locale_bundle \<Rightarrow> string" where "bundle_DefaultLanguage b = blDefaultLang b"

text \<open>The bundle as the translator of the interceptors and of the mail sender.\<close>

definition bundle_translator :: "'b i18n_api \<Rightarrow> 'b locale_bundle \<Rightarrow> translator" where
  "bundle_translator api b = \<lparr>trT = (\<lambda>lang i data. bundle_T api b lang i (Some data)), trDefaultLanguage = bundle_DefaultLanguage b\<rparr>"

subsection \<open>The helper\<close>

text \<open>What the context of a request may carry.\<close>

record 'b locale_ctx =
  lxLanguage :: "string option"
  lxLocalizer :: "'b localizer option"

definition GetLanguageFromContext :: "'b locale_ctx \<Rightarrow> string \<Rightarrow> string" where
  "GetLanguageFromContext c defaultLocale =
     (case lxLanguage c of Some lang \<Rightarrow> if lang \<noteq> [] then lang else defaultLocale | None \<Rightarrow> defaultLocale)"

record 'b helper =
  hpBundle :: "'b locale_bundle option"
  hpDefaultLang :: string

definition localizerFromCtx :: "'b i18n_api \<Rightarrow> 'b helper option \<Rightarrow> 'b locale_ctx \<Rightarrow> 'b localizer" where
  "localizerFromCtx api h c =
     (case lxLocalizer c of Some loc \<Rightarrow> loc
      | None \<Rightarrow>
          (case h of None \<Rightarrow> (i18nEmpty api, [])
           | Some h' \<Rightarrow>
               (case hpBundle h' of None \<Rightarrow> (i18nEmpty api, [])
                | Some b \<Rightarrow> NewLocalizer b [hpDefaultLang h'])))"

definition helper_T :: "'b i18n_api \<Rightarrow> 'b helper option \<Rightarrow> 'b locale_ctx \<Rightarrow> string \<Rightarrow> any_map option \<Rightarrow> string" where
  "helper_T api h c i data = fst (localize api (localizerFromCtx api h c) i 0 False data)"

definition Pluralize ::
  "'b i18n_api \<Rightarrow> 'b helper option \<Rightarrow> 'b locale_ctx \<Rightarrow> string \<Rightarrow> int \<Rightarrow> any_map option \<Rightarrow> string \<times> any_map option" where
  "Pluralize api h c i count data = localize api (localizerFromCtx api h c) i count True data"

definition helper_GetLanguage :: "'b helper \<Rightarrow> 'b locale_ctx \<Rightarrow> string" where
  "helper_GetLanguage h c = GetLanguageFromContext c (hpDefaultLang h)"

subsection \<open>What loading and translating give\<close>

text \<open>The message files of a walk; the others do not matter.\<close>

definition message_file :: "locale_entry \<Rightarrow> bool" where
  "message_file e = (case e of WalkFile path nm content \<Rightarrow> has_suffix path ''.toml'' | _ \<Rightarrow> False)"

definition entry_fails :: "locale_entry \<Rightarrow> bool" where
  "entry_fails e = (case e of WalkError path err \<Rightarrow> True | _ \<Rightarrow> False)"

text \<open>A bundle is loaded from all its message files in the order of the walk or not at all.\<close>

lemma load_entry_Inr:
  "load_entry api b e = Inr b' \<Longrightarrow> \<not> entry_fails e \<and> (\<not> message_file e \<longrightarrow> b' = b)"
  by (auto simp: load_entry_def entry_fails_def message_file_def split: locale_entry.splits sum.splits if_splits)

lemma load_walk_all:
  "load_walk api b es = Inr b' \<Longrightarrow>
     list_all (\<lambda>e. \<not> entry_fails e) es \<and> load_walk api b (filter message_file es) = Inr b'"
proof (induction es arbitrary: b)
  case (Cons e es)
  then obtain b1 where b1: "load_entry api b e = Inr b1" and r: "load_walk api b1 es = Inr b'" by (auto split: sum.splits)
  from load_entry_Inr [OF b1] Cons.IH [OF r] b1 show ?case by (cases "message_file e") simp_all
qed simp

lemma load_walk_error:
  assumes "load_walk api b es = Inl err"
  shows "\<exists>pre e post b1. es = pre @ e # post \<and> load_walk api b pre = Inr b1 \<and> load_entry api b1 e = Inl err"
  using assms
proof (induction es arbitrary: b)
  case (Cons e es)
  show ?case
  proof (cases "load_entry api b e")
    case (Inl x)
    with Cons.prems show ?thesis by (intro exI [of _ "[]"] exI [of _ e] exI [of _ es] exI [of _ b]) simp
  next
    case (Inr b2)
    with Cons.prems Cons.IH [of b2] obtain pre e' post b1 where
      "es = pre @ e' # post" "load_walk api b2 pre = Inr b1" "load_entry api b1 e' = Inl err" by auto
    with Inr show ?thesis by (intro exI [of _ "e # pre"] exI [of _ e'] exI [of _ post] exI [of _ b1]) simp
  qed
qed simp

lemma bundle_T_nonempty: "i \<noteq> [] \<Longrightarrow> bundle_T api b lang i data \<noteq> []"
  by (auto simp: bundle_T_def localize_def Let_def split: sum.split)

text \<open>The plural count reaches the template, and the map of the caller as well.\<close>

lemma Pluralize_writes_count:
  "snd (Pluralize api h c i count (Some m)) = Some ((''count'', show_int count) # m)"
  by (auto simp: Pluralize_def localize_def Let_def split: sum.split)

text \<open>Behind the interceptors, with or without a bundle, a domain error that has a message key reaches the
  client with a message: its translation, or the key itself.\<close>

lemma domain_errors_have_messages:
  assumes "asApp err = Some e" and "messageKey e \<noteq> []"
  shows "\<exists>g msg code lang fs. mapError c err (map_option (bundle_translator api) b) = StatusD g msg code lang fs \<and> msg \<noteq> [] \<and>
    (b = None \<longrightarrow> msg = messageKey e)"
  using assms by (auto simp: mapError_def Let_def bundle_translator_def bundle_T_nonempty split: option.split)

end
