(* ===== verification/App_Process.thy ===== *)
theory App_Process
  imports Server_Lifecycle Locale_Bundle
begin

section \<open>The server and the worker process from start to end\<close>

text \<open>
  \<open>internal/app/app.go\<close> and \<open>cmd/worker/main.go\<close>: what a process builds from its configuration, what it
  starts, and the order in which it gives things up. The clients of the outside world (Postgres,
  Redis, Firebase, MinIO, the listener) are what they answer, in the record \<open>startup_api\<close>; the
  functions that wrap them are \<open>InitRedis\<close>, \<open>NewMinIO\<close> and \<open>firebase_NewClient\<close>.
\<close>

subsection \<open>Clients\<close>

record redis_options =
  roAddr :: string
  roPassword :: string
  roDB :: int
  roPoolSize :: int
  roMinIdleConns :: int
  roMaxIdleConns :: int
  roConnMaxLifetime :: duration
  roConnMaxIdleTime :: duration
  roPoolTimeout :: duration
  roDialTimeout :: duration
  roReadTimeout :: duration
  roWriteTimeout :: duration
  roMaxRetries :: int
  roMinRetryBackoff :: duration
  roMaxRetryBackoff :: duration

definition InitRedis :: "(redis_options \<Rightarrow> goerr option) \<Rightarrow> redis_config \<Rightarrow> goerr + redis_options" where
  "InitRedis ping cfg =
     (let client = \<lparr>roAddr = rcHost cfg @ '':'' @ show_int (rcPort cfg), roPassword = rcPassword cfg, roDB = rcDB cfg,
        roPoolSize = rcPoolSize cfg, roMinIdleConns = rcMinIdleConns cfg, roMaxIdleConns = rcMaxIdleConns cfg,
        roConnMaxLifetime = rcConnMaxLifetime cfg, roConnMaxIdleTime = rcConnMaxIdleTime cfg, roPoolTimeout = rcPoolTimeout cfg,
        roDialTimeout = rcDialTimeout cfg, roReadTimeout = rcReadTimeout cfg, roWriteTimeout = rcWriteTimeout cfg,
        roMaxRetries = rcMaxRetries cfg, roMinRetryBackoff = rcMinRetryBackoff cfg, roMaxRetryBackoff = rcMaxRetryBackoff cfg\<rparr>
      in case ping client of Some err \<Rightarrow> Inl err | None \<Rightarrow> Inr client)"

record minio_api =
  mnNew :: "string \<Rightarrow> string \<times> string \<Rightarrow> bool \<Rightarrow> goerr option"  \<comment> \<open>endpoint, keys, secure\<close>
  mnBucketExists :: "string \<Rightarrow> goerr + bool"
  mnMakeBucket :: "string \<Rightarrow> goerr option"

record minio_store =
  msBucket :: string
  msPublicBaseURL :: string

definition NewMinIO :: "minio_api \<Rightarrow> storage_config \<Rightarrow> goerr + minio_store" where
  "NewMinIO api cfg =
     (case mnNew api (stEndpoint cfg) (stAccessKey cfg, stSecretKey cfg) (stUseSSL cfg) of
        Some err \<Rightarrow> Inl (WrapE ''storage: connect'' err)
      | None \<Rightarrow>
          (case mnBucketExists api (stBucket cfg) of Inl err \<Rightarrow> Inl (WrapE ''storage: bucket check'' err)
           | Inr exists \<Rightarrow>
               (case (if \<not> exists then mnMakeBucket api (stBucket cfg) else None) of
                  Some err \<Rightarrow> Inl (WrapE ''storage: create bucket'' err)
                | None \<Rightarrow> Inr \<lparr>msBucket = stBucket cfg, msPublicBaseURL = stPublicBaseURL cfg\<rparr>)))"

definition firebase_NewClient :: "(firebase_config \<Rightarrow> goerr option) \<Rightarrow> firebase_config \<Rightarrow> goerr + unit" where
  "firebase_NewClient newApp cfg =
     (case newApp cfg of Some err \<Rightarrow> Inl (WrapE ''initialize firebase app'' err) | None \<Rightarrow> Inr ())"

definition GetMessagingClient :: "goerr option \<Rightarrow> goerr + unit" where
  "GetMessagingClient messaging =
     (case messaging of Some err \<Rightarrow> Inl (WrapE ''get messaging client'' err) | None \<Rightarrow> Inr ())"

text \<open>The sqids library's constructor; an error of it is a panic.\<close>

definition NewSqidsEncoder :: "(string \<Rightarrow> nat \<Rightarrow> goerr option) \<Rightarrow> string \<Rightarrow> int \<Rightarrow> goerr + (string \<times> nat)" where
  "NewSqidsEncoder new alphabet minLength =
     (if \<not> NewSqidsEncoder_ok minLength then Inl (PanicE (''invalid sqids minLength '' @ show_int minLength))
      else (case new alphabet (nat minLength) of
              Some err \<Rightarrow> Inl (PanicE (''failed to create sqids encoder: '' @ error_text err))
            | None \<Rightarrow> Inr (alphabet, nat minLength)))"

subsection \<open>\<open>Initialize\<close>\<close>

text \<open>
  The environment of a process is what the system gives it; \<open>LoadEnvFile\<close>, which \<open>LoadAllConfigs\<close>
  calls first, adds the variables of the \<open>.env\<close> file that are not set (\<open>godotenv.Load\<close>). The
  decoded configuration files are those with the variables substituted.
\<close>

type_synonym environ = "string \<rightharpoonup> string"

definition Getenv :: "environ \<Rightarrow> string \<Rightarrow> string" where
  "Getenv env k = (case env k of None \<Rightarrow> [] | Some v \<Rightarrow> v)"

text \<open>\<open>None\<close>: the file cannot be read, which is only logged.\<close>

definition LoadEnvFile :: "(string \<Rightarrow> environ option) \<Rightarrow> environ \<Rightarrow> environ" where
  "LoadEnvFile readEnv env =
     (let envFile = (if Getenv env ''ENV_FILE'' = [] then ''.env'' else Getenv env ''ENV_FILE'')
      in case readEnv envFile of None \<Rightarrow> env | Some vars \<Rightarrow> vars ++ env)"

record 'b startup_api =
  saEnviron :: environ
  saEnvFiles :: "string \<Rightarrow> environ option"
  saFiles :: "environ \<Rightarrow> config_files"
  saPgx :: pgx_api
  saParseDuration :: "string \<Rightarrow> duration option"
  saRedisPing :: "redis_options \<Rightarrow> goerr option"
  saSqidsNew :: "string \<Rightarrow> nat \<Rightarrow> goerr option"
  saFirebaseApp :: "firebase_config \<Rightarrow> goerr option"
  saMessaging :: "goerr option"
  saMinio :: minio_api
  saI18n :: "'b i18n_api"
  saLocaleWalk :: "locale_entry list"
  saListen :: "string \<Rightarrow> goerr option"

record infrastructure =
  ifConfig :: configs
  ifEnv :: string
  ifPool :: pgx_pool_config
  ifRedis :: redis_options
  ifEncoder :: "string \<times> nat"
  ifFCM :: bool
  ifStorage :: "minio_store option"

definition initStorage :: "minio_api \<Rightarrow> configs \<Rightarrow> minio_store option" where
  "initStorage api cfgs =
     (if \<not> storage_Enabled (Some (csStorage cfgs)) then None
      else (case NewMinIO api (csStorage cfgs) of Inl err \<Rightarrow> None | Inr store \<Rightarrow> Some store))"

definition initFCM :: "(firebase_config \<Rightarrow> goerr option) \<Rightarrow> goerr option \<Rightarrow> configs \<Rightarrow> bool" where
  "initFCM newApp messaging cfgs =
     (case firebase_NewClient newApp (csFirebase cfgs) of Inl err \<Rightarrow> False
      | Inr _ \<Rightarrow> (case GetMessagingClient messaging of Inl err \<Rightarrow> False | Inr _ \<Rightarrow> True))"

definition loaded_env :: "'b startup_api \<Rightarrow> environ" where
  "loaded_env a = LoadEnvFile (saEnvFiles a) (saEnviron a)"

definition Initialize :: "'b startup_api \<Rightarrow> goerr + infrastructure" where
  "Initialize a =
     (case LoadAllConfigs (saFiles a (loaded_env a)) of Inl err \<Rightarrow> Inl (WrapE ''load config'' err)
      | Inr cfgs \<Rightarrow>
          let envName = InitApp (Getenv (loaded_env a))
          in (case InitPool (saPgx a) (saParseDuration a) (csDatabase cfgs) RoleAppDB of Inl err \<Rightarrow> Inl (WrapE ''database init'' err)
              | Inr pool \<Rightarrow>
                  (case InitRedis (saRedisPing a) (csRedis cfgs) of Inl err \<Rightarrow> Inl (WrapE ''redis init'' err)
                   | Inr rdb \<Rightarrow>
                       (case NewSqidsEncoder (saSqidsNew a) (scAlphabet (csSecurity cfgs)) (scMinLength (csSecurity cfgs)) of Inl p \<Rightarrow> Inl p
                        | Inr enc \<Rightarrow>
                            Inr \<lparr>ifConfig = cfgs, ifEnv = envName, ifPool = pool, ifRedis = rdb, ifEncoder = enc,
                              ifFCM = initFCM (saFirebaseApp a) (saMessaging a) cfgs, ifStorage = initStorage (saMinio a) cfgs\<rparr>))))"

subsection \<open>\<open>Bootstrap\<close>\<close>

text \<open>The loops started in the background, with their intervals.\<close>

datatype background_loop = DrainLoop duration int | OutboxMetricsLoop duration | QueueMonitorLoop duration "string list"
  | SweeperLoop maintenance_config

definition all_queue_names :: "string list" where
  "all_queue_names = event_QueueNames @ em_QueueNames @ nt_QueueNames"

definition startBackground :: "configs \<Rightarrow> background_loop list" where
  "startBackground cfgs =
     (if evDrainOnAPI (csEvents cfgs) then [DrainLoop (evInterval (csEvents cfgs)) (evBatchSize (csEvents cfgs))] else []) @
     [OutboxMetricsLoop (evMetricsInterval (csEvents cfgs)), QueueMonitorLoop minute all_queue_names]"

record 'b application =
  axInfra :: infrastructure
  axWebURL :: string
  axLocale :: "'b locale_bundle option"
  axOptions :: "server_option list"
  axReflection :: bool
  axBackground :: "background_loop list"
  axListenAddr :: string

definition web_url :: "environ \<Rightarrow> string" where
  "web_url env = (if Getenv env ''APP_WEB_URL'' = [] then ''http://localhost:3000'' else Getenv env ''APP_WEB_URL'')"

text \<open>The bundle, the mail interface and the authentication service the server is assembled of. The two
  dispatchers and the bus use the Redis of the credentials; the rest of the services have no state of
  their own.\<close>

definition server_bundle :: "'b startup_api \<Rightarrow> configs \<Rightarrow> 'b locale_bundle option" where
  "server_bundle a cfgs =
     (case locale_New (saI18n a) (saLocaleWalk a) (apDefaultLanguage (csApp cfgs)) of Inl err \<Rightarrow> None | Inr b \<Rightarrow> Some b)"

definition buildDispatchers :: "configs \<Rightarrow> (string \<times> string) \<times> email_config \<times> notif_config" where
  "buildDispatchers cfgs = (redis_Credentials (csRedis cfgs), csEmail cfgs, csNotifications cfgs)"

definition buildGRPCDeps ::
  "'r ext \<Rightarrow> 'r bus \<Rightarrow> 'b startup_api \<Rightarrow> infrastructure \<Rightarrow> ('r, 'r auth_service \<times> translator option) proc" where
  "buildGRPCDeps E bus a infra =
     (let cfgs = ifConfig infra;
          translator = map_option (bundle_translator (saI18n a)) (server_bundle a cfgs);
          sender = newEmailSender (csEmail cfgs) (web_url (loaded_env a)) translator
      in do {
        authSvc \<leftarrow> newAuthService (E\<lparr>xPrefix := rcCachePrefix (csRedis cfgs)\<rparr>) bus (scAuth (csSecurity cfgs)) sender;
        ret (authSvc, translator) })"

definition grpcserver_New ::
  "('q \<Rightarrow> validation) \<Rightarrow> configs \<Rightarrow> 'r auth_service \<times> translator option \<Rightarrow> ('r, 'q) icset \<times> server_option list \<times> bool" where
  "grpcserver_New v cfgs deps =
     (newSet (svExt (fst deps)) (cfMaxInactivityTimeout (scAuth (csSecurity cfgs))) (snd deps) v,
      serverOptions cfgs, apReflection (csApp cfgs))"

definition Bootstrap :: "'b startup_api \<Rightarrow> infrastructure \<Rightarrow> goerr + 'b application" where
  "Bootstrap a infra =
     (let cfgs = ifConfig infra;
          addr = GetServerAddress (csApp cfgs)
      in case saListen a addr of Some err \<Rightarrow> Inl (WrapE (''listen on '' @ addr) err)
         | None \<Rightarrow> Inr \<lparr>axInfra = infra, axWebURL = web_url (loaded_env a), axLocale = server_bundle a cfgs, axOptions = serverOptions cfgs,
             axReflection = apReflection (csApp cfgs), axBackground = startBackground cfgs, axListenAddr = addr\<rparr>)"

datatype 'b server_outcome = ServerFatal goerr | ServerRuns "'b application"

definition server_main :: "'b startup_api \<Rightarrow> 'b server_outcome" where
  "server_main a =
     (case Initialize a of Inl err \<Rightarrow> ServerFatal err
      | Inr infra \<Rightarrow> (case Bootstrap a infra of Inl err \<Rightarrow> ServerFatal err | Inr app \<Rightarrow> ServerRuns app))"

subsection \<open>\<open>AwaitShutdown\<close>\<close>

text \<open>What is given up after the signal, in order.\<close>

datatype closing = CancelBackground | ShutdownServer duration | ShutdownObservability | ClosePool | CloseRedis
  | CloseNotifications | CloseEmails | CloseEventDispatcher | SyncLogger

definition AwaitShutdown :: "'b application \<Rightarrow> closing list" where
  "AwaitShutdown app =
     [CancelBackground, ShutdownServer (apShutdownGrace (csApp (ifConfig (axInfra app)))), ShutdownObservability,
      ClosePool, CloseRedis, CloseNotifications, CloseEmails, CloseEventDispatcher, SyncLogger]"

subsection \<open>The worker process\<close>

text \<open>What \<open>asynq.NewServer\<close> is given; \<open>Start\<close> registers the handlers of \<open>task_servers\<close> on it.\<close>

record asynq_server =
  asyRedis :: "string \<times> string"
  asyConcurrency :: int
  asyQueues :: "(string \<times> int) list"
  asyShutdownTimeout :: duration

record worker_config =
  wcConcurrency :: int
  wcQueues :: "(string \<times> int) list"

definition DefaultWorkerConfig :: worker_config where
  "DefaultWorkerConfig = \<lparr>wcConcurrency = 10, wcQueues = [(QueueHigh, 6), (QueueNormal, 3), (QueueLow, 1)]\<rparr>"

definition event_NewWorker :: "string \<times> string \<Rightarrow> worker_config \<Rightarrow> asynq_server" where
  "event_NewWorker cred cfg =
     \<lparr>asyRedis = cred, asyConcurrency = wcConcurrency cfg, asyQueues = wcQueues cfg, asyShutdownTimeout = 30 * second\<rparr>"

definition emails_NewWorker :: "string \<times> string \<Rightarrow> email_config \<Rightarrow> asynq_server" where
  "emails_NewWorker cred cfg =
     \<lparr>asyRedis = cred, asyConcurrency = ecConcurrency cfg, asyQueues = [(em_queueName PriorityHigh, 6), (em_queueName PriorityNormal, 3), (em_queueName PriorityLow, 1)],
      asyShutdownTimeout = 30 * second\<rparr>"

definition notifications_NewWorker :: "string \<times> string \<Rightarrow> notif_config \<Rightarrow> asynq_server" where
  "notifications_NewWorker cred cfg =
     \<lparr>asyRedis = cred, asyConcurrency = ncConcurrency cfg, asyQueues = [(nt_queueName nt_PriorityHigh, 6), (nt_queueName nt_PriorityNormal, 3), (nt_queueName nt_PriorityLow, 1)],
      asyShutdownTimeout = 30 * second\<rparr>"

record worker_plan =
  wpEnv :: string
  wpPool :: pgx_pool_config
  wpWorkers :: "asynq_server list"
  wpLoops :: "background_loop list"

definition metrics_interval :: "duration \<Rightarrow> duration" where
  "metrics_interval interval = (if interval \<le> 0 then 15 * second else interval)"

definition worker_main :: "'b startup_api \<Rightarrow> (asynq_server \<Rightarrow> goerr option) \<Rightarrow> goerr + worker_plan" where
  "worker_main a start =
     (let env = InitApp (Getenv (saEnviron a))
      in case LoadAllConfigs (saFiles a (loaded_env a)) of Inl err \<Rightarrow> Inl (WrapE ''failed to load configs'' err)
      | Inr cfg \<Rightarrow>
        (case InitPool (saPgx a) (saParseDuration a) (csDatabase cfg) RoleAdminDB of Inl err \<Rightarrow> Inl (WrapE ''worker: database init failed'' err)
         | Inr pool \<Rightarrow>
           (case InitRedis (saRedisPing a) (csRedis cfg) of Inl err \<Rightarrow> Inl (WrapE ''worker: redis init failed'' err)
            | Inr rdb \<Rightarrow>
              (case locale_New (saI18n a) (saLocaleWalk a) (apDefaultLanguage (csApp cfg)) of Inl err \<Rightarrow> Inl (WrapE ''worker: i18n init failed'' err)
               | Inr localizer \<Rightarrow>
                   let eventCfg = (if evConcurrency (csEvents cfg) > 0
                         then DefaultWorkerConfig\<lparr>wcConcurrency := evConcurrency (csEvents cfg)\<rparr> else DefaultWorkerConfig);
                       redisCred = redis_Credentials (csRedis cfg);
                       workers = [emails_NewWorker redisCred (csEmail cfg)] @
                         (if initFCM (saFirebaseApp a) (saMessaging a) cfg then [notifications_NewWorker redisCred (csNotifications cfg)] else []) @
                         [event_NewWorker redisCred eventCfg];
                       drainInterval = (if evInterval (csEvents cfg) \<le> 0 then 5 * second else evInterval (csEvents cfg))
                   in (case List.find (\<lambda>wk. start wk \<noteq> None) workers of
                         Some wk \<Rightarrow> Inl (WrapE ''worker: start failed'' (case start wk of Some err \<Rightarrow> err | None \<Rightarrow> MsgE []))
                       | None \<Rightarrow> Inr \<lparr>wpEnv = env, wpPool = pool, wpWorkers = workers,
                           wpLoops = [DrainLoop drainInterval (evBatchSize (csEvents cfg)),
                             OutboxMetricsLoop (metrics_interval (evMetricsInterval (csEvents cfg))), SweeperLoop (csMaintenance cfg),
                             QueueMonitorLoop minute all_queue_names]\<rparr>)))))"

end
