(* ===== verification/App_Guarantees.thy ===== *)
theory App_Guarantees
  imports App_Process Emails_Guarantees Background_Loops
begin

section \<open>What starting a process guarantees\<close>

text \<open>
  The server starts exactly when the services it needs are there, whatever becomes of the optional ones;
  what it is assembled of meets the contract of the services; the queues of the three task servers are
  those the monitor watches.
\<close>

subsection \<open>The server\<close>

text \<open>The services a server cannot do without.\<close>

definition required_up :: "'b startup_api \<Rightarrow> configs \<Rightarrow> bool" where
  "required_up a cfgs =
     (\<not> isl (InitPool (saPgx a) (saParseDuration a) (csDatabase cfgs) RoleAppDB) \<and>
      \<not> isl (InitRedis (saRedisPing a) (csRedis cfgs)) \<and>
      \<not> isl (NewSqidsEncoder (saSqidsNew a) (scAlphabet (csSecurity cfgs)) (scMinLength (csSecurity cfgs))) \<and>
      saListen a (GetServerAddress (csApp cfgs)) = None)"

lemma Initialize_Inr:
  "Initialize a = Inr infra \<longleftrightarrow>
     (\<exists>cfgs pool rdb enc. LoadAllConfigs (saFiles a (loaded_env a)) = Inr cfgs \<and>
        InitPool (saPgx a) (saParseDuration a) (csDatabase cfgs) RoleAppDB = Inr pool \<and>
        InitRedis (saRedisPing a) (csRedis cfgs) = Inr rdb \<and>
        NewSqidsEncoder (saSqidsNew a) (scAlphabet (csSecurity cfgs)) (scMinLength (csSecurity cfgs)) = Inr enc \<and>
        infra = \<lparr>ifConfig = cfgs, ifEnv = InitApp (Getenv (loaded_env a)), ifPool = pool, ifRedis = rdb, ifEncoder = enc,
           ifFCM = initFCM (saFirebaseApp a) (saMessaging a) cfgs, ifStorage = initStorage (saMinio a) cfgs\<rparr>)"
  by (auto simp: Initialize_def Let_def split: sum.split)

lemma Bootstrap_Inr:
  "Bootstrap a infra = Inr app \<longleftrightarrow>
     saListen a (GetServerAddress (csApp (ifConfig infra))) = None \<and>
     app = \<lparr>axInfra = infra, axWebURL = web_url (loaded_env a), axLocale = server_bundle a (ifConfig infra),
       axOptions = serverOptions (ifConfig infra), axReflection = apReflection (csApp (ifConfig infra)),
       axBackground = startBackground (ifConfig infra), axListenAddr = GetServerAddress (csApp (ifConfig infra))\<rparr>"
  by (auto simp: Bootstrap_def Let_def split: option.split)

text \<open>The server comes up exactly when its configuration loads and validates, Postgres and Redis
  answer, the id encoder can be made and the port is free. The object store, Firebase and the locale
  files have no part in that: when they fail the server runs without avatars, push or translations.\<close>

theorem server_starts_with_required:
  "(\<exists>app. server_main a = ServerRuns app) \<longleftrightarrow>
     (\<exists>cfgs. LoadAllConfigs (saFiles a (loaded_env a)) = Inr cfgs \<and> required_up a cfgs)"
proof -
  have isr: "\<not> isl x \<longleftrightarrow> (\<exists>y. x = Inr y)" for x :: "goerr + 'z"
    by (cases x) auto
  have "(\<exists>app. server_main a = ServerRuns app) \<longleftrightarrow> (\<exists>infra app. Initialize a = Inr infra \<and> Bootstrap a infra = Inr app)"
    by (auto simp: server_main_def split: sum.splits)
  also have "\<dots> \<longleftrightarrow> (\<exists>infra. Initialize a = Inr infra \<and> saListen a (GetServerAddress (csApp (ifConfig infra))) = None)"
    unfolding Bootstrap_Inr by simp
  also have "\<dots> \<longleftrightarrow> (\<exists>cfgs. LoadAllConfigs (saFiles a (loaded_env a)) = Inr cfgs \<and>
      (\<exists>pool. InitPool (saPgx a) (saParseDuration a) (csDatabase cfgs) RoleAppDB = Inr pool) \<and>
      (\<exists>rdb. InitRedis (saRedisPing a) (csRedis cfgs) = Inr rdb) \<and>
      (\<exists>enc. NewSqidsEncoder (saSqidsNew a) (scAlphabet (csSecurity cfgs)) (scMinLength (csSecurity cfgs)) = Inr enc) \<and>
      saListen a (GetServerAddress (csApp cfgs)) = None)"
    unfolding Initialize_Inr by (simp add: ex_simps [symmetric] del: ex_simps split_paired_Ex) blast
  finally show ?thesis unfolding required_up_def isr .
qed

text \<open>What the server is assembled of at start-up meets the contract under which the invariants of
  the services are proved: the bus is the wired one, the mail interface touches nothing but the task
  queue, and the interceptors use the Redis prefix, the clock bounds and the language of the same
  configuration as the service behind them.\<close>

theorem started_service_is_wired:
  "let cfgs = ifConfig infra;
       E' = E\<lparr>xPrefix := rcCachePrefix (csRedis cfgs)\<rparr>;
       deps = fst (run_state (buildGRPCDeps E (wired_bus E' n) a infra) w);
       ic = fst (grpcserver_New v cfgs deps)
   in wired_service (fst deps) n \<and> svCfg (fst deps) = scAuth (csSecurity cfgs) \<and> icExt ic = svExt (fst deps) \<and>
      icMaxInactivity ic = cfMaxInactivityTimeout (svCfg (fst deps)) \<and>
      icLocaleDefLang ic = (case server_bundle a cfgs of None \<Rightarrow> ''en'' | Some b \<Rightarrow> bundle_DefaultLanguage b)"
  by (simp add: buildGRPCDeps_def grpcserver_New_def newSet_def newAuthService_def wired_service_def
      newEmailSender_mail_only bundle_translator_def Let_def case_prod_beta split: option.split)

subsection \<open>The worker\<close>

lemma worker_main_Inr:
  assumes "worker_main a start = Inr plan" and "LoadAllConfigs (saFiles a (loaded_env a)) = Inr cfg"
  shows "wpEnv plan = InitApp (Getenv (saEnviron a)) \<and>
    wpWorkers plan = [emails_NewWorker (redis_Credentials (csRedis cfg)) (csEmail cfg)] @
      (if initFCM (saFirebaseApp a) (saMessaging a) cfg
       then [notifications_NewWorker (redis_Credentials (csRedis cfg)) (csNotifications cfg)] else []) @
      [event_NewWorker (redis_Credentials (csRedis cfg)) (if evConcurrency (csEvents cfg) > 0
         then DefaultWorkerConfig\<lparr>wcConcurrency := evConcurrency (csEvents cfg)\<rparr> else DefaultWorkerConfig)] \<and>
    wpLoops plan = [DrainLoop (if evInterval (csEvents cfg) \<le> 0 then 5 * second else evInterval (csEvents cfg)) (evBatchSize (csEvents cfg)),
      OutboxMetricsLoop (metrics_interval (evMetricsInterval (csEvents cfg))), SweeperLoop (csMaintenance cfg),
      QueueMonitorLoop minute all_queue_names]"
  using assms by (auto simp: worker_main_def Let_def split: sum.splits option.splits)

lemma worker_queue_names:
  "map fst (asyQueues (emails_NewWorker r ecfg)) = em_QueueNames"
  "map fst (asyQueues (notifications_NewWorker r ncfg)) = nt_QueueNames"
  "map fst (asyQueues (event_NewWorker r (DefaultWorkerConfig\<lparr>wcConcurrency := m\<rparr>))) = event_QueueNames"
  "map fst (asyQueues (event_NewWorker r DefaultWorkerConfig)) = event_QueueNames"
  by (simp_all add: emails_NewWorker_def notifications_NewWorker_def event_NewWorker_def DefaultWorkerConfig_def
      em_QueueNames_def nt_QueueNames_def event_QueueNames_def)

lemma all_queues_distinct: "distinct (em_QueueNames @ nt_QueueNames @ event_QueueNames)"
  by (simp add: queue_defs)

lemma worker_timeouts:
  "asyShutdownTimeout (emails_NewWorker r ecfg) = 30 * second"
  "asyShutdownTimeout (notifications_NewWorker r ncfg) = 30 * second"
  "asyShutdownTimeout (event_NewWorker r wcfg) = 30 * second"
  by (simp_all add: emails_NewWorker_def notifications_NewWorker_def event_NewWorker_def)

text \<open>A worker process that starts runs the task servers of the model, on queues no two of them
  share and all of which its monitor watches, against the Redis the server's dispatchers enqueue into;
  it drains at a positive interval, and its task servers stop within ninety seconds.\<close>

theorem worker_serves_watched_queues:
  assumes "worker_main a start = Inr plan" and "LoadAllConfigs (saFiles a (loaded_env a)) = Inr cfg"
    and "syFCM y = initFCM (saFirebaseApp a) (saMessaging a) cfg"
  shows "map (\<lambda>s. map fst (asyQueues s)) (wpWorkers plan) = map fst (task_servers y) \<and>
    distinct (concat (map (\<lambda>s. map fst (asyQueues s)) (wpWorkers plan))) \<and>
    QueueMonitorLoop minute all_queue_names \<in> set (wpLoops plan) \<and>
    set (concat (map (\<lambda>s. map fst (asyQueues s)) (wpWorkers plan))) \<subseteq> set all_queue_names \<and>
    asyRedis ` set (wpWorkers plan) = {fst (buildDispatchers cfg)} \<and>
    (\<exists>d n. DrainLoop d n \<in> set (wpLoops plan) \<and> 0 < d) \<and>
    sum_list (map asyShutdownTimeout (wpWorkers plan)) \<le> 90 * second"
proof -
  let ?r = "redis_Credentials (csRedis cfg)"
  note m = worker_main_Inr [OF assms(1,2)]
  have q: "map (\<lambda>s. map fst (asyQueues s)) (wpWorkers plan) = map fst (task_servers y)"
    using m assms(3) by (simp add: worker_queue_names task_servers_def emails_worker_def notifications_worker_def event_worker_def)
  have t: "map fst (task_servers y) = [em_QueueNames] @ (if syFCM y then [nt_QueueNames] else []) @ [event_QueueNames]"
    by (simp add: task_servers_def emails_worker_def notifications_worker_def event_worker_def)
  have "distinct (concat (map fst (task_servers y)))"
    using all_queues_distinct unfolding t by auto
  moreover have "set (concat (map fst (task_servers y))) \<subseteq> set all_queue_names"
    unfolding t all_queue_names_def by auto
  moreover have "asyRedis ` set (wpWorkers plan) = {fst (buildDispatchers cfg)}"
    using m by (auto simp: buildDispatchers_def emails_NewWorker_def notifications_NewWorker_def event_NewWorker_def)
  moreover have "\<exists>d n. DrainLoop d n \<in> set (wpLoops plan) \<and> 0 < d"
    using m by (auto simp: second_def)
  moreover have "sum_list (map asyShutdownTimeout (wpWorkers plan)) \<le> 90 * second"
    using m by (simp add: worker_timeouts second_def)
  ultimately show ?thesis using q m by simp
qed

lemma InitApp_unset: "InitApp (\<lambda>k. []) = env_development"
  by code_simp

lemma sanitize_production: "sanitize ''production'' = env_production"
  by code_simp

text \<open>The worker reads the environment before the \<open>.env\<close> file is loaded, the server after it, so that
  an environment named in the file holds for the server alone.\<close>

lemma worker_ignores_env_file:
  assumes "worker_main a start = Inr plan" and "LoadAllConfigs (saFiles a (loaded_env a)) = Inr cfg"
    and "Initialize a = Inr infra" and "saEnviron a = Map.empty"
    and "saEnvFiles a ''.env'' = Some [''APP_ENV'' \<mapsto> ''production'']"
  shows "wpEnv plan = env_development" and "ifEnv infra = env_production"
proof -
  have e: "Getenv (loaded_env a) = (\<lambda>k. if k = ''APP_ENV'' then ''production'' else [])"
    unfolding loaded_env_def LoadEnvFile_def assms(4) by (simp add: assms(5) Getenv_def fun_eq_iff)
  have "Getenv (saEnviron a) = (\<lambda>k. [])" unfolding assms(4) by (simp add: Getenv_def fun_eq_iff)
  with worker_main_Inr [OF assms(1,2)] show "wpEnv plan = env_development" by (simp add: InitApp_unset)
  show "ifEnv infra = env_production"
    using assms(3) unfolding Initialize_Inr by (auto simp: e InitApp_def GetOrDefault_def sanitize_production Let_def)
qed

end
