(* ===== verification/Loop_Witnesses.thy ===== *)
theory Loop_Witnesses
  imports Drain_Liveness App_Guarantees System_Witnesses
begin

section \<open>Witnesses for the background loops\<close>

text \<open>
  The properties of the drain and of process start-up, evaluated at a concrete world and a concrete
  configuration.
\<close>


subsection \<open>Start-up\<close>

definition ref_credentials :: "string \<Rightarrow> db_credentials" where
  "ref_credentials user = \<lparr>dcHost = ''db'', dcPort = ''5432'', dcUser = user, dcPassword = ''secret'', dcDBName = ''app'', dcSSLMode = ''disable''\<rparr>"

definition ref_files :: config_files where
  "ref_files = \<lparr>
     cfApi = Inr \<lparr>apName = ''shop'', apVersion = ''1.0'', apPort = ''50051'', apReflection = False, apMaxRecvMsgSizeBytes = 0,
       apMaxSendMsgSizeBytes = 0, apConnectionTimeout = 0, apKeepaliveTime = 0, apKeepaliveTimeout = 0, apMaxConnectionIdle = 0,
       apMaxConnectionAge = 0, apMaxConnectionAgeGrace = 0, apMinClientInterval = 0, apShutdownGrace = 10 * second,
       apDefaultLanguage = ''en'', apLocalesDir = ''locales''\<rparr>,
     cfDatabase = Inr \<lparr>dbCredentials = ref_credentials ''postgres'', dbAppCredentials = ref_credentials ''app_api'',
       dbAdminCredentials = ref_credentials ''app_worker'',
       dbConnectionPool = \<lparr>cpMaxOpenConnections = 10, cpMinOpenConnections = 1, cpConnectionMaxLifetime = ''1h'',
         cpConnectionMaxIdleTime = ''5m'', cpHealthCheckPeriod = ''1m''\<rparr>,
       dbAppPool = None, dbAdminPool = None, dbMigratePool = None, dbStatementTimeoutMs = 0\<rparr>,
     cfRedis = Inr \<lparr>rcHost = ''redis'', rcPort = 6379, rcPassword = [], rcDB = 0, rcPoolSize = 10, rcMinIdleConns = 1,
       rcMaxIdleConns = 5, rcConnMaxLifetime = 0, rcConnMaxIdleTime = 0, rcPoolTimeout = 0, rcMaxRetries = 3,
       rcMinRetryBackoff = 0, rcMaxRetryBackoff = 0, rcDialTimeout = 0, rcReadTimeout = 0, rcWriteTimeout = 0,
       rcCachePrefix = ''shop''\<rparr>,
     cfSecurity = Inr \<lparr>scAuth = ref_cfg, scMinLength = 8, scAlphabet = ''abcdefgh''\<rparr>,
     cfNotifications = Inr ref_notif_cfg, cfEmail = Inr (ref_mail_cfg 2),
     cfEvents = Inr \<lparr>evInterval = 0, evBatchSize = 0, evMetricsInterval = 0, evDrainOnAPI = False, evConcurrency = 0\<rparr>,
     cfStorage = Inr \<lparr>stEndpoint = [], stAccessKey = [], stSecretKey = [], stBucket = [], stUseSSL = False, stPublicBaseURL = []\<rparr>,
     cfFirebase = Inr \<lparr>fbProjectID = [], fbCredentialsFile = []\<rparr>,
     cfGateway = Inr \<lparr>gwEnabled = False, gwListenAddr = [], gwUpstreamAddr = []\<rparr>,
     cfMaintenance = Inr ref_sweep_cfg\<rparr>"

text \<open>Postgres and Redis answer; Firebase has no credentials and there is no locale file.\<close>

definition ref_startup :: "unit startup_api" where
  "ref_startup = \<lparr>saEnviron = Map.empty, saEnvFiles = (\<lambda>_. None), saFiles = (\<lambda>_. ref_files),
     saPgx = \<lparr>pxParseConfig = (\<lambda>dsn. Inr \<lparr>pxMaxConns = 4, pxMinConns = 0, pxMaxConnLifetime = 0, pxMaxConnIdleTime = 0,
       pxHealthCheckPeriod = 0, pxRuntimeParams = Map.empty\<rparr>), pxConnect = (\<lambda>_. None), pxPing = (\<lambda>_. None)\<rparr>,
     saParseDuration = (\<lambda>_. None), saRedisPing = (\<lambda>_. None), saSqidsNew = (\<lambda>_ _. None),
     saFirebaseApp = (\<lambda>_. Some (MsgE ''no credentials'')), saMessaging = None,
     saMinio = \<lparr>mnNew = (\<lambda>_ _ _. None), mnBucketExists = (\<lambda>_. Inr True), mnMakeBucket = (\<lambda>_. None)\<rparr>,
     saI18n = \<lparr>i18nEmpty = (), i18nParse = (\<lambda>_ _ _. Inr ()), i18nLocalize = (\<lambda>_ l. Inr (lcMessageID l)), i18nTags = (\<lambda>_. [''en''])\<rparr>,
     saLocaleWalk = [], saListen = (\<lambda>_. None)\<rparr>"

lemma ref_loads: "\<exists>cfg. LoadAllConfigs ref_files = Inr cfg"
  by (simp add: ref_files_def LoadAllConfigs_def load_as_def Let_def configs_Validate_def config_problems_def ref_credentials_def)

lemma ref_pool: "role = RoleAppDB \<or> role = RoleAdminDB \<Longrightarrow> LoadAllConfigs ref_files = Inr cfg \<Longrightarrow>
    \<exists>p. InitPool (saPgx ref_startup) (saParseDuration ref_startup) (csDatabase cfg) role = Inr p"
  by (auto simp: ref_files_def LoadAllConfigs_def load_as_def Let_def configs_Validate_def config_problems_def ref_credentials_def
      InitPool_def credentialsFor_def RoleAppDB_def RoleAdminDB_def ref_startup_def)

theorem worker_serves_watched_queues_witness:
  "\<exists>plan. worker_main ref_startup (\<lambda>_. None) = Inr plan \<and>
     map (\<lambda>s. map fst (asyQueues s)) (wpWorkers plan) = map fst (task_servers (ref_processes\<lparr>syFCM := False\<rparr>)) \<and>
     sum_list (map asyShutdownTimeout (wpWorkers plan)) \<le> 90 * second"
proof -
  obtain cfg where cfg: "LoadAllConfigs ref_files = Inr cfg" using ref_loads by blast
  have files: "saFiles ref_startup (loaded_env ref_startup) = ref_files"
    by (simp add: ref_startup_def)
  obtain p where p: "InitPool (saPgx ref_startup) (saParseDuration ref_startup) (csDatabase cfg) RoleAdminDB = Inr p"
    using ref_pool cfg by blast
  have rest: "saRedisPing ref_startup = (\<lambda>_. None)" "saLocaleWalk ref_startup = []"
    "initFCM (saFirebaseApp ref_startup) (saMessaging ref_startup) cfg = False"
    by (simp_all add: ref_startup_def initFCM_def firebase_NewClient_def)
  have "\<not> isl (worker_main ref_startup (\<lambda>_. None))"
    by (simp add: worker_main_def Let_def files cfg p rest InitRedis_def locale_New_def)
  then obtain plan where plan: "worker_main ref_startup (\<lambda>_. None) = Inr plan"
    by (cases "worker_main ref_startup (\<lambda>_. None)") auto
  have fcm: "syFCM (ref_processes\<lparr>syFCM := False\<rparr>) = initFCM (saFirebaseApp ref_startup) (saMessaging ref_startup) cfg"
    by (simp add: rest)
  from worker_serves_watched_queues [OF plan _ fcm] plan cfg files show ?thesis by auto
qed

end
