(* ===== verification/Observability.thy ===== *)
theory Observability
  imports App_Process
begin

section \<open>Metrics, logging and the operational endpoints\<close>

text \<open>
  \<open>internal/metrics\<close>: the metrics registered when the package is loaded and the collectors of the two
  pools; \<open>internal/platform/obs\<close>: the endpoints every process serves; \<open>pkg/logger\<close>: what the logger is
  made of. The help texts are left out. The Prometheus client, zap and the pools are parameters; the name the client gives a metric is
  the function \<open>fq\<close> of the lemma about names.
\<close>

subsection \<open>The metrics of the package\<close>

datatype metric_kind = Counter | Gauge | Histogram

record metric_desc =
  mdKind :: metric_kind
  mdNamespace :: string
  mdSubsystem :: string
  mdName :: string
  mdLabels :: "string list"
  mdBuckets :: "int list"  \<comment> \<open>upper bounds in units of a tenth of a millisecond; none: the default of the client\<close>

definition metricsNamespace :: string where "metricsNamespace = ''app''"
definition subsystemAdmin :: string where "subsystemAdmin = ''admin''"
definition subsystemEvents :: string where "subsystemEvents = ''events''"
definition subsystemWorker :: string where "subsystemWorker = ''worker''"
definition subsystemCache :: string where "subsystemCache = ''cache''"
definition subsystemOutbox :: string where "subsystemOutbox = ''outbox''"
definition labelEventType :: string where "labelEventType = ''event_type''"

definition EventsPublishedTotal :: metric_desc where
  "EventsPublishedTotal = \<lparr>mdKind = Counter, mdNamespace = metricsNamespace, mdSubsystem = subsystemEvents, mdName = ''published_total'', mdLabels = [labelEventType], mdBuckets = []\<rparr>"
definition EventsEnqueueFailuresTotal :: metric_desc where
  "EventsEnqueueFailuresTotal = \<lparr>mdKind = Counter, mdNamespace = metricsNamespace, mdSubsystem = subsystemEvents, mdName = ''enqueue_failures_total'', mdLabels = [labelEventType], mdBuckets = []\<rparr>"
definition EventsEnqueueDedupedTotal :: metric_desc where
  "EventsEnqueueDedupedTotal = \<lparr>mdKind = Counter, mdNamespace = metricsNamespace, mdSubsystem = subsystemEvents, mdName = ''enqueue_deduped_total'', mdLabels = [labelEventType], mdBuckets = []\<rparr>"
definition EventsHandlerDurationSeconds :: metric_desc where
  "EventsHandlerDurationSeconds = \<lparr>mdKind = Histogram, mdNamespace = metricsNamespace, mdSubsystem = subsystemEvents, mdName = ''handler_duration_seconds'', mdLabels = [''event_type'', ''handler'', ''kind''], mdBuckets = []\<rparr>"
definition WorkerTasksProcessedTotal :: metric_desc where
  "WorkerTasksProcessedTotal = \<lparr>mdKind = Counter, mdNamespace = metricsNamespace, mdSubsystem = subsystemWorker, mdName = ''tasks_processed_total'', mdLabels = [subsystemWorker, ''task_type'', ''status''], mdBuckets = []\<rparr>"
definition WorkerTaskDurationSeconds :: metric_desc where
  "WorkerTaskDurationSeconds = \<lparr>mdKind = Histogram, mdNamespace = metricsNamespace, mdSubsystem = subsystemWorker, mdName = ''task_duration_seconds'', mdLabels = [subsystemWorker, ''task_type''], mdBuckets = [100, 500, 1000, 2500, 5000, 10000, 25000, 50000, 100000, 300000]\<rparr>"
definition WorkerPanicsTotal :: metric_desc where
  "WorkerPanicsTotal = \<lparr>mdKind = Counter, mdNamespace = metricsNamespace, mdSubsystem = subsystemWorker, mdName = ''panics_total'', mdLabels = [subsystemWorker], mdBuckets = []\<rparr>"
definition CacheInvalidationsTotal :: metric_desc where
  "CacheInvalidationsTotal = \<lparr>mdKind = Counter, mdNamespace = metricsNamespace, mdSubsystem = subsystemCache, mdName = ''invalidations_total'', mdLabels = [labelEventType], mdBuckets = []\<rparr>"
definition CacheInvalidationFailedTotal :: metric_desc where
  "CacheInvalidationFailedTotal = \<lparr>mdKind = Counter, mdNamespace = metricsNamespace, mdSubsystem = subsystemCache, mdName = ''invalidation_failed_total'', mdLabels = [''event_type'', ''tags''], mdBuckets = []\<rparr>"
definition CacheSingleflightCollapsedTotal :: metric_desc where
  "CacheSingleflightCollapsedTotal = \<lparr>mdKind = Counter, mdNamespace = metricsNamespace, mdSubsystem = subsystemCache, mdName = ''singleflight_collapsed_total'', mdLabels = [''key_kind''], mdBuckets = []\<rparr>"
definition AsynqQueueDepth :: metric_desc where
  "AsynqQueueDepth = \<lparr>mdKind = Gauge, mdNamespace = metricsNamespace, mdSubsystem = ''asynq'', mdName = ''queue_depth'', mdLabels = [''queue'', ''state''], mdBuckets = []\<rparr>"
definition AsynqQueueLatencySeconds :: metric_desc where
  "AsynqQueueLatencySeconds = \<lparr>mdKind = Gauge, mdNamespace = metricsNamespace, mdSubsystem = ''asynq'', mdName = ''queue_latency_seconds'', mdLabels = [''queue''], mdBuckets = []\<rparr>"
definition OutboxPendingRows :: metric_desc where
  "OutboxPendingRows = \<lparr>mdKind = Gauge, mdNamespace = metricsNamespace, mdSubsystem = subsystemOutbox, mdName = ''pending_rows'', mdLabels = [], mdBuckets = []\<rparr>"
definition OutboxExhaustedRows :: metric_desc where
  "OutboxExhaustedRows = \<lparr>mdKind = Gauge, mdNamespace = metricsNamespace, mdSubsystem = subsystemOutbox, mdName = ''exhausted_rows'', mdLabels = [], mdBuckets = []\<rparr>"
definition OutboxDrainLagSeconds :: metric_desc where
  "OutboxDrainLagSeconds = \<lparr>mdKind = Gauge, mdNamespace = metricsNamespace, mdSubsystem = subsystemOutbox, mdName = ''drain_lag_seconds'', mdLabels = [], mdBuckets = []\<rparr>"
definition OutboxMarkFailuresTotal :: metric_desc where
  "OutboxMarkFailuresTotal = \<lparr>mdKind = Counter, mdNamespace = metricsNamespace, mdSubsystem = subsystemOutbox, mdName = ''mark_failures_total'', mdLabels = [''op''], mdBuckets = []\<rparr>"
definition OutboxDeadLetterTotal :: metric_desc where
  "OutboxDeadLetterTotal = \<lparr>mdKind = Counter, mdNamespace = metricsNamespace, mdSubsystem = subsystemOutbox, mdName = ''dead_letter_total'', mdLabels = [''reason''], mdBuckets = []\<rparr>"
definition OutboxDeadLetterDepth :: metric_desc where
  "OutboxDeadLetterDepth = \<lparr>mdKind = Gauge, mdNamespace = metricsNamespace, mdSubsystem = subsystemOutbox, mdName = ''dead_letter_depth'', mdLabels = [], mdBuckets = []\<rparr>"
definition MaintenanceRowsDeletedTotal :: metric_desc where
  "MaintenanceRowsDeletedTotal = \<lparr>mdKind = Counter, mdNamespace = metricsNamespace, mdSubsystem = ''maintenance'', mdName = ''rows_deleted_total'', mdLabels = [''job''], mdBuckets = []\<rparr>"
definition AuditLogWriteFailuresTotal :: metric_desc where
  "AuditLogWriteFailuresTotal = \<lparr>mdKind = Counter, mdNamespace = metricsNamespace, mdSubsystem = subsystemAdmin, mdName = ''audit_log_write_failures_total'', mdLabels = [''reason''], mdBuckets = []\<rparr>"

text \<open>\<open>internal/metrics/grpc.go\<close>.\<close>

definition GRPCRequestsTotal :: metric_desc where
  "GRPCRequestsTotal = \<lparr>mdKind = Counter, mdNamespace = metricsNamespace, mdSubsystem = ''grpc'', mdName = ''requests_total'', mdLabels = [''method'', ''code''], mdBuckets = []\<rparr>"
definition GRPCRequestDurationSeconds :: metric_desc where
  "GRPCRequestDurationSeconds = \<lparr>mdKind = Histogram, mdNamespace = metricsNamespace, mdSubsystem = ''grpc'', mdName = ''request_duration_seconds'', mdLabels = [''method''], mdBuckets = [10, 25, 50, 100, 250, 500, 1000, 2500, 5000, 10000, 25000, 50000, 100000]\<rparr>"
definition GRPCRequestsInFlight :: metric_desc where
  "GRPCRequestsInFlight = \<lparr>mdKind = Gauge, mdNamespace = metricsNamespace, mdSubsystem = ''grpc'', mdName = ''requests_in_flight'', mdLabels = [], mdBuckets = []\<rparr>"
definition BuildInfo :: metric_desc where
  "BuildInfo = \<lparr>mdKind = Gauge, mdNamespace = metricsNamespace, mdSubsystem = [], mdName = ''build_info'', mdLabels = [''version'', ''commit''], mdBuckets = []\<rparr>"

definition package_metrics :: "metric_desc list" where
  "package_metrics = [EventsPublishedTotal, EventsEnqueueFailuresTotal, EventsEnqueueDedupedTotal, EventsHandlerDurationSeconds,
     WorkerTasksProcessedTotal, WorkerTaskDurationSeconds, WorkerPanicsTotal, CacheInvalidationsTotal,
     CacheInvalidationFailedTotal, CacheSingleflightCollapsedTotal, AsynqQueueDepth, AsynqQueueLatencySeconds,
     OutboxPendingRows, OutboxExhaustedRows, OutboxDrainLagSeconds, OutboxMarkFailuresTotal,
     OutboxDeadLetterTotal, OutboxDeadLetterDepth, MaintenanceRowsDeletedTotal, AuditLogWriteFailuresTotal,
     GRPCRequestsTotal, GRPCRequestDurationSeconds, GRPCRequestsInFlight, BuildInfo]"

subsection \<open>The collectors of the pools\<close>

definition pgxTotalDesc :: string where "pgxTotalDesc = ''app_db_pool_total_conns''"
definition pgxIdleDesc :: string where "pgxIdleDesc = ''app_db_pool_idle_conns''"
definition pgxAcquiredDesc :: string where "pgxAcquiredDesc = ''app_db_pool_acquired_conns''"
definition pgxMaxDesc :: string where "pgxMaxDesc = ''app_db_pool_max_conns''"
definition pgxWaitDesc :: string where "pgxWaitDesc = ''app_db_pool_acquire_wait_seconds_total''"
definition pgxEmptyAcquireDesc :: string where "pgxEmptyAcquireDesc = ''app_db_pool_empty_acquires_total''"
definition redisHitsDesc :: string where "redisHitsDesc = ''app_redis_pool_hits_total''"
definition redisMissesDesc :: string where "redisMissesDesc = ''app_redis_pool_misses_total''"
definition redisTimeoutsDesc :: string where "redisTimeoutsDesc = ''app_redis_pool_timeouts_total''"
definition redisTotalDesc :: string where "redisTotalDesc = ''app_redis_pool_total_conns''"
definition redisIdleDesc :: string where "redisIdleDesc = ''app_redis_pool_idle_conns''"

datatype value_type = CounterValue | GaugeValue

text \<open>What the pools report; the waiting time is a duration.\<close>

record pgx_stat =
  psTotalConns :: int
  psIdleConns :: int
  psAcquiredConns :: int
  psMaxConns :: int
  psAcquireDuration :: duration
  psEmptyAcquireCount :: int

record redis_stat =
  rsHits :: int
  rsMisses :: int
  rsTimeouts :: int
  rsTotalConns :: int
  rsIdleConns :: int

definition pgx_Describe :: "string list" where
  "pgx_Describe = [pgxTotalDesc, pgxIdleDesc, pgxAcquiredDesc, pgxMaxDesc, pgxWaitDesc, pgxEmptyAcquireDesc]"

definition pgx_Collect :: "pgx_stat \<Rightarrow> (string \<times> value_type \<times> int) list" where
  "pgx_Collect s = [(pgxTotalDesc, GaugeValue, psTotalConns s), (pgxIdleDesc, GaugeValue, psIdleConns s),
     (pgxAcquiredDesc, GaugeValue, psAcquiredConns s), (pgxMaxDesc, GaugeValue, psMaxConns s),
     (pgxWaitDesc, CounterValue, psAcquireDuration s), (pgxEmptyAcquireDesc, CounterValue, psEmptyAcquireCount s)]"

definition redis_Describe :: "string list" where
  "redis_Describe = [redisHitsDesc, redisMissesDesc, redisTimeoutsDesc, redisTotalDesc, redisIdleDesc]"

definition redis_Collect :: "redis_stat \<Rightarrow> (string \<times> value_type \<times> int) list" where
  "redis_Collect s = [(redisHitsDesc, CounterValue, rsHits s), (redisMissesDesc, CounterValue, rsMisses s),
     (redisTimeoutsDesc, CounterValue, rsTimeouts s), (redisTotalDesc, GaugeValue, rsTotalConns s),
     (redisIdleDesc, GaugeValue, rsIdleConns s)]"

text \<open>The names \<open>RegisterPoolCollectors\<close> adds to the default registry.\<close>

definition RegisterPoolCollectors :: "string list" where
  "RegisterPoolCollectors = pgx_Describe @ redis_Describe"

text \<open>A collector sends what it described, in the same order.\<close>

lemma collectors_consistent: "map fst (pgx_Collect s) = pgx_Describe" "map fst (redis_Collect r) = redis_Describe"
  by (simp_all add: pgx_Collect_def pgx_Describe_def redis_Collect_def redis_Describe_def)

text \<open>The names of a process's metrics differ, so that no registration panics: the client joins the
  components that are not empty with underscores.\<close>

lemmas metric_defs = EventsPublishedTotal_def EventsEnqueueFailuresTotal_def EventsEnqueueDedupedTotal_def EventsHandlerDurationSeconds_def WorkerTasksProcessedTotal_def WorkerTaskDurationSeconds_def WorkerPanicsTotal_def CacheInvalidationsTotal_def CacheInvalidationFailedTotal_def CacheSingleflightCollapsedTotal_def AsynqQueueDepth_def AsynqQueueLatencySeconds_def OutboxPendingRows_def OutboxExhaustedRows_def OutboxDrainLagSeconds_def OutboxMarkFailuresTotal_def OutboxDeadLetterTotal_def OutboxDeadLetterDepth_def MaintenanceRowsDeletedTotal_def AuditLogWriteFailuresTotal_def GRPCRequestsTotal_def GRPCRequestDurationSeconds_def GRPCRequestsInFlight_def BuildInfo_def
  metricsNamespace_def subsystemAdmin_def subsystemEvents_def subsystemWorker_def subsystemCache_def subsystemOutbox_def labelEventType_def

lemma metric_names:
  assumes "\<And>ns sub nm. nm \<noteq> [] \<Longrightarrow> fq ns sub nm = join_with ''_'' (filter (\<lambda>s. s \<noteq> []) [ns, sub, nm])"
  shows "distinct (map (\<lambda>m. fq (mdNamespace m) (mdSubsystem m) (mdName m)) package_metrics @ RegisterPoolCollectors)"
proof -
  let ?j = "\<lambda>m. join_with ''_'' (filter (\<lambda>s. s \<noteq> []) [mdNamespace m, mdSubsystem m, mdName m])"
  have "\<forall>m\<in>set package_metrics. mdName m \<noteq> []"
    by (simp add: package_metrics_def metric_defs)
  then have "map (\<lambda>m. fq (mdNamespace m) (mdSubsystem m) (mdName m)) package_metrics = map ?j package_metrics"
    using assms by (intro map_cong) auto
  moreover have "distinct (map ?j package_metrics @ RegisterPoolCollectors)" by code_simp
  ultimately show ?thesis by (simp only:)
qed

subsection \<open>The operational endpoints\<close>

text \<open>An answer is a status and a body. The order in which \<open>/readyz\<close> visits the checks is that of the
  map, which may be any.\<close>

type_synonym ready_checks = "(string \<times> goerr option) list"

fun readyz :: "ready_checks \<Rightarrow> nat \<times> string" where
  "readyz [] = (200, [])"
| "readyz ((nm, check) # checks) =
     (case check of Some err \<Rightarrow> (503, nm @ '': unavailable'') | None \<Rightarrow> readyz checks)"

definition healthz :: "nat \<times> string" where "healthz = (200, ''ok'')"

record obs_server =
  osAddr :: string
  osRoutes :: "string list"
  osReadHeaderTimeout :: duration

definition StartServer :: "environ \<Rightarrow> string \<Rightarrow> obs_server" where
  "StartServer env port =
     \<lparr>osAddr = '':'' @ port,
      osRoutes = [''/metrics'', ''/healthz'', ''/readyz''] @
        (if Getenv env ''PPROF_ENABLED'' = ''true''
         then [''/debug/pprof/'', ''/debug/pprof/cmdline'', ''/debug/pprof/profile'', ''/debug/pprof/symbol'', ''/debug/pprof/trace'']
         else []),
      osReadHeaderTimeout = 5 * second\<rparr>"

definition startObservability :: "environ \<Rightarrow> goerr option \<Rightarrow> goerr option \<Rightarrow> obs_server \<times> ready_checks" where
  "startObservability env pingDB pingCache =
     (let port = (if Getenv env ''METRICS_PORT'' = [] then ''9090'' else Getenv env ''METRICS_PORT'')
      in (StartServer env port, [(''database'', pingDB), (''cache'', pingCache)]))"

text \<open>Whatever the order, a process is ready exactly when no check fails, and a refusal names one that
  does.\<close>

lemma readyz_ready: "fst (readyz checks) = 200 \<longleftrightarrow> (\<forall>c\<in>set checks. snd c = None)"
  by (induction checks rule: readyz.induct) (auto split: option.split)

lemma readyz_names_failure:
  "fst (readyz checks) \<noteq> 200 \<Longrightarrow>
     \<exists>nm err. (nm, Some err) \<in> set checks \<and> readyz checks = (503, nm @ '': unavailable'')"
  by (induction checks rule: readyz.induct) (auto split: option.splits)

lemma readyz_order: "mset checks = mset checks' \<Longrightarrow> fst (readyz checks) = 200 \<longleftrightarrow> fst (readyz checks') = 200"
  unfolding readyz_ready by (metis set_mset_mset)

lemma pprof_only_when_enabled:
  "''/debug/pprof/profile'' \<in> set (osRoutes (StartServer env port)) \<longleftrightarrow> Getenv env ''PPROF_ENABLED'' = ''true''"
  by (simp add: StartServer_def)

subsection \<open>The logger\<close>

text \<open>The level's parser is zap's; \<open>lgBuffered\<close> is the buffered writer of production, which \<open>Sync\<close> flushes.\<close>

datatype log_encoder = JSONEncoder | ConsoleEncoder

record 'l log_core =
  lgEncoder :: log_encoder
  lgBuffered :: bool
  lgLevel :: 'l

definition levelFromEnv :: "(string \<Rightarrow> 'l option) \<Rightarrow> environ \<Rightarrow> 'l \<Rightarrow> 'l" where
  "levelFromEnv parse env def =
     (let raw = Getenv env ''LOG_LEVEL''
      in if raw \<noteq> [] then (case parse raw of Some lvl \<Rightarrow> lvl | None \<Rightarrow> def) else def)"

definition logger_New :: "(string \<Rightarrow> 'l option) \<Rightarrow> 'l \<Rightarrow> 'l \<Rightarrow> environ \<Rightarrow> string \<Rightarrow> 'l log_core" where
  "logger_New parse infoLevel debugLevel env envName =
     (if envName = ''production''
      then \<lparr>lgEncoder = JSONEncoder, lgBuffered = True, lgLevel = levelFromEnv parse env infoLevel\<rparr>
      else \<lparr>lgEncoder = ConsoleEncoder, lgBuffered = False, lgLevel = levelFromEnv parse env debugLevel\<rparr>)"

lemma logger_level: "lgLevel (logger_New parse i d env nm) = levelFromEnv parse env (if nm = ''production'' then i else d)"
  by (simp add: logger_New_def)

end
