(* ===== verification/Row_Models.thy ===== *)
theory Row_Models
  imports System_Steps
begin

section \<open>Rows, columns and their Go values\<close>

text \<open>
  \<open>gen/db/models.go\<close> and \<open>internal/store/convert.go\<close>: the enumerations of the schema as the driver reads and
  writes them, the nullable columns, and the rows of the tables the repositories turn into entities
  (\<open>toUser\<close>, \<open>toOutboxEvent\<close>, \<open>toTemplate\<close>, \<open>toTemplateTranslation\<close>). The tables of the model hold the
  entities; the lemmas show that nothing is lost by that.
\<close>

subsection \<open>Enumerations\<close>

text \<open>What the driver hands to \<open>Scan\<close>. A nullable enumeration is the struct every \<open>Null...\<close> type has; a
  failed \<open>Scan\<close> keeps the value that was there, but marks it as valid.\<close>

datatype driver_value = DvNil | DvBytes string | DvString string | DvOther

record null_enum =
  neEnum :: string
  neValid :: bool

definition AuthChangeActor_values :: "string list" where
  "AuthChangeActor_values = [''admin'', ''system'']"

definition AuthChangeActor_Scan :: "string \<Rightarrow> driver_value \<Rightarrow> goerr option \<times> string" where
  "AuthChangeActor_Scan e src =
     (case src of DvBytes s \<Rightarrow> (None, s) | DvString s \<Rightarrow> (None, s)
      | _ \<Rightarrow> (Some (MsgE ''unsupported scan type for AuthChangeActor''), e))"

definition NullAuthChangeActor_Scan :: "null_enum \<Rightarrow> driver_value \<Rightarrow> goerr option \<times> null_enum" where
  "NullAuthChangeActor_Scan ns value =
     (if value = DvNil then (None, ns\<lparr>neEnum := [], neValid := False\<rparr>)
      else (let (err, e) = AuthChangeActor_Scan (neEnum ns) value in (err, ns\<lparr>neEnum := e, neValid := True\<rparr>)))"

definition NullAuthChangeActor_Value :: "null_enum \<Rightarrow> driver_value" where
  "NullAuthChangeActor_Value ns = (if \<not> neValid ns then DvNil else DvString (neEnum ns))"

definition AuthNotificationPlatform_values :: "string list" where
  "AuthNotificationPlatform_values = [''android'', ''ios'', ''web'']"

definition AuthNotificationPlatform_Scan :: "string \<Rightarrow> driver_value \<Rightarrow> goerr option \<times> string" where
  "AuthNotificationPlatform_Scan e src =
     (case src of DvBytes s \<Rightarrow> (None, s) | DvString s \<Rightarrow> (None, s)
      | _ \<Rightarrow> (Some (MsgE ''unsupported scan type for AuthNotificationPlatform''), e))"

definition NullAuthNotificationPlatform_Scan :: "null_enum \<Rightarrow> driver_value \<Rightarrow> goerr option \<times> null_enum" where
  "NullAuthNotificationPlatform_Scan ns value =
     (if value = DvNil then (None, ns\<lparr>neEnum := [], neValid := False\<rparr>)
      else (let (err, e) = AuthNotificationPlatform_Scan (neEnum ns) value in (err, ns\<lparr>neEnum := e, neValid := True\<rparr>)))"

definition NullAuthNotificationPlatform_Value :: "null_enum \<Rightarrow> driver_value" where
  "NullAuthNotificationPlatform_Value ns = (if \<not> neValid ns then DvNil else DvString (neEnum ns))"

definition AuthSuspensionReason_values :: "string list" where
  "AuthSuspensionReason_values = [''terms_violation'', ''fraudulent_activity'', ''harassment'', ''spam'', ''security_breach'', ''legal_request'', ''other'']"

definition AuthSuspensionReason_Scan :: "string \<Rightarrow> driver_value \<Rightarrow> goerr option \<times> string" where
  "AuthSuspensionReason_Scan e src =
     (case src of DvBytes s \<Rightarrow> (None, s) | DvString s \<Rightarrow> (None, s)
      | _ \<Rightarrow> (Some (MsgE ''unsupported scan type for AuthSuspensionReason''), e))"

definition NullAuthSuspensionReason_Scan :: "null_enum \<Rightarrow> driver_value \<Rightarrow> goerr option \<times> null_enum" where
  "NullAuthSuspensionReason_Scan ns value =
     (if value = DvNil then (None, ns\<lparr>neEnum := [], neValid := False\<rparr>)
      else (let (err, e) = AuthSuspensionReason_Scan (neEnum ns) value in (err, ns\<lparr>neEnum := e, neValid := True\<rparr>)))"

definition NullAuthSuspensionReason_Value :: "null_enum \<Rightarrow> driver_value" where
  "NullAuthSuspensionReason_Value ns = (if \<not> neValid ns then DvNil else DvString (neEnum ns))"

definition AuthUserRole_values :: "string list" where
  "AuthUserRole_values = [''user'', ''admin'']"

definition AuthUserRole_Scan :: "string \<Rightarrow> driver_value \<Rightarrow> goerr option \<times> string" where
  "AuthUserRole_Scan e src =
     (case src of DvBytes s \<Rightarrow> (None, s) | DvString s \<Rightarrow> (None, s)
      | _ \<Rightarrow> (Some (MsgE ''unsupported scan type for AuthUserRole''), e))"

definition NullAuthUserRole_Scan :: "null_enum \<Rightarrow> driver_value \<Rightarrow> goerr option \<times> null_enum" where
  "NullAuthUserRole_Scan ns value =
     (if value = DvNil then (None, ns\<lparr>neEnum := [], neValid := False\<rparr>)
      else (let (err, e) = AuthUserRole_Scan (neEnum ns) value in (err, ns\<lparr>neEnum := e, neValid := True\<rparr>)))"

definition NullAuthUserRole_Value :: "null_enum \<Rightarrow> driver_value" where
  "NullAuthUserRole_Value ns = (if \<not> neValid ns then DvNil else DvString (neEnum ns))"

definition AuthUserStatus_values :: "string list" where
  "AuthUserStatus_values = [''active'', ''inactive'', ''suspended'']"

definition AuthUserStatus_Scan :: "string \<Rightarrow> driver_value \<Rightarrow> goerr option \<times> string" where
  "AuthUserStatus_Scan e src =
     (case src of DvBytes s \<Rightarrow> (None, s) | DvString s \<Rightarrow> (None, s)
      | _ \<Rightarrow> (Some (MsgE ''unsupported scan type for AuthUserStatus''), e))"

definition NullAuthUserStatus_Scan :: "null_enum \<Rightarrow> driver_value \<Rightarrow> goerr option \<times> null_enum" where
  "NullAuthUserStatus_Scan ns value =
     (if value = DvNil then (None, ns\<lparr>neEnum := [], neValid := False\<rparr>)
      else (let (err, e) = AuthUserStatus_Scan (neEnum ns) value in (err, ns\<lparr>neEnum := e, neValid := True\<rparr>)))"

definition NullAuthUserStatus_Value :: "null_enum \<Rightarrow> driver_value" where
  "NullAuthUserStatus_Value ns = (if \<not> neValid ns then DvNil else DvString (neEnum ns))"

definition NotificationsNotificationStatus_values :: "string list" where
  "NotificationsNotificationStatus_values = [''sent'', ''failed'', ''clicked'', ''dismissed'']"

definition NotificationsNotificationStatus_Scan :: "string \<Rightarrow> driver_value \<Rightarrow> goerr option \<times> string" where
  "NotificationsNotificationStatus_Scan e src =
     (case src of DvBytes s \<Rightarrow> (None, s) | DvString s \<Rightarrow> (None, s)
      | _ \<Rightarrow> (Some (MsgE ''unsupported scan type for NotificationsNotificationStatus''), e))"

definition NullNotificationsNotificationStatus_Scan :: "null_enum \<Rightarrow> driver_value \<Rightarrow> goerr option \<times> null_enum" where
  "NullNotificationsNotificationStatus_Scan ns value =
     (if value = DvNil then (None, ns\<lparr>neEnum := [], neValid := False\<rparr>)
      else (let (err, e) = NotificationsNotificationStatus_Scan (neEnum ns) value in (err, ns\<lparr>neEnum := e, neValid := True\<rparr>)))"

definition NullNotificationsNotificationStatus_Value :: "null_enum \<Rightarrow> driver_value" where
  "NullNotificationsNotificationStatus_Value ns = (if \<not> neValid ns then DvNil else DvString (neEnum ns))"

lemmas enum_defs = AuthChangeActor_Scan_def AuthNotificationPlatform_Scan_def AuthSuspensionReason_Scan_def AuthUserRole_Scan_def AuthUserStatus_Scan_def NotificationsNotificationStatus_Scan_def
  NullAuthChangeActor_Scan_def NullAuthNotificationPlatform_Scan_def NullAuthSuspensionReason_Scan_def NullAuthUserRole_Scan_def NullAuthUserStatus_Scan_def NullNotificationsNotificationStatus_Scan_def
  NullAuthChangeActor_Value_def NullAuthNotificationPlatform_Value_def NullAuthSuspensionReason_Value_def NullAuthUserRole_Value_def NullAuthUserStatus_Value_def NullNotificationsNotificationStatus_Value_def

text \<open>What is written is read back: NULL as the zero value, any other value as itself.\<close>

lemma enum_roundtrip:
  assumes "neValid ns \<or> neEnum ns = []"
  shows "NullAuthChangeActor_Scan ns0 (NullAuthChangeActor_Value ns) = (None, ns)"
    "NullAuthNotificationPlatform_Scan ns0 (NullAuthNotificationPlatform_Value ns) = (None, ns)"
    "NullAuthSuspensionReason_Scan ns0 (NullAuthSuspensionReason_Value ns) = (None, ns)"
    "NullAuthUserRole_Scan ns0 (NullAuthUserRole_Value ns) = (None, ns)"
    "NullAuthUserStatus_Scan ns0 (NullAuthUserStatus_Value ns) = (None, ns)"
    "NullNotificationsNotificationStatus_Scan ns0 (NullNotificationsNotificationStatus_Value ns) = (None, ns)"
  using assms by (cases ns; cases ns0; auto simp: enum_defs)+

text \<open>The constants are the values the model's statements accept.\<close>

lemma status_constants: "set AuthUserStatus_values = range status_text" "set AuthUserRole_values = range role_text"
proof -
  have "range status_text = status_text ` {StActive, StInactive, StSuspended}"
    by (auto simp: image_iff) (metis status_text.simps user_status.exhaust)+
  then show "set AuthUserStatus_values = range status_text" by (auto simp: AuthUserStatus_values_def)
  have "range role_text = role_text ` {RoUser, RoAdmin}"
    by (auto simp: image_iff) (metis role_text.simps user_role.exhaust)+
  then show "set AuthUserRole_values = range role_text" by (auto simp: AuthUserRole_values_def)
qed

lemma status_roundtrip: "user_status_of (status_text s) = Some s" "user_role_of (role_text r) = Some r"
  by (cases s; cases r; simp add: user_status_of_def user_role_of_def)+

subsection \<open>Nullable columns\<close>

text \<open>The zero \<open>time.Time\<close> is 0 in the model.\<close>

record timestamptz =
  tzTime :: time
  tzValid :: bool

record pg_uuid =
  puBytes :: string
  puValid :: bool

definition store_Time :: "timestamptz \<Rightarrow> time" where
  "store_Time t = (if tzValid t then tzTime t else 0)"

definition store_TimePtr :: "timestamptz \<Rightarrow> time option" where
  "store_TimePtr t = (if \<not> tzValid t then None else Some (tzTime t))"

definition store_TS :: "time \<Rightarrow> timestamptz" where
  "store_TS t = \<lparr>tzTime = t, tzValid = (t \<noteq> 0)\<rparr>"

definition store_TSPtr :: "time option \<Rightarrow> timestamptz" where
  "store_TSPtr t = (case t of None \<Rightarrow> \<lparr>tzTime = 0, tzValid = False\<rparr> | Some x \<Rightarrow> \<lparr>tzTime = x, tzValid = True\<rparr>)"

definition store_Int64 :: "int option \<Rightarrow> int" where
  "store_Int64 i = (case i of None \<Rightarrow> 0 | Some x \<Rightarrow> x)"

definition store_Bool :: "bool option \<Rightarrow> bool" where
  "store_Bool b = (case b of None \<Rightarrow> False | Some x \<Rightarrow> x)"

text \<open>The text of a UUID and its parser are the library's.\<close>

definition UUIDString :: "(string \<Rightarrow> string) \<Rightarrow> pg_uuid \<Rightarrow> string" where
  "UUIDString fmt u = (if \<not> puValid u then [] else fmt (puBytes u))"

definition store_ParseUUID :: "(string \<Rightarrow> string option) \<Rightarrow> string \<Rightarrow> pg_uuid" where
  "store_ParseUUID parse s =
     (case parse s of None \<Rightarrow> \<lparr>puBytes = [], puValid = False\<rparr> | Some u \<Rightarrow> \<lparr>puBytes = u, puValid = True\<rparr>)"

lemma time_columns [simp]:
  "store_Time (store_TS t) = t" "store_TimePtr (store_TSPtr x) = x" "store_Time (store_TSPtr (Some t)) = t"
  by (simp_all add: store_Time_def store_TS_def store_TimePtr_def store_TSPtr_def split: option.split)

text \<open>Reading a pointer keeps NULL and the zero time apart; reading a value does not.\<close>

lemma time_column_null:
  "store_TimePtr t = None \<longleftrightarrow> \<not> tzValid t"
  "store_Time \<lparr>tzTime = t0, tzValid = False\<rparr> = store_Time \<lparr>tzTime = 0, tzValid = True\<rparr>"
  by (simp_all add: store_TimePtr_def store_Time_def)

lemma uuid_columns:
  assumes "\<And>u. parse (fmt u) = Some u" and "parse [] = None"
  shows "puValid u \<or> puBytes u = [] \<Longrightarrow> store_ParseUUID parse (UUIDString fmt u) = u"
  using assms by (cases u) (auto simp: store_ParseUUID_def UUIDString_def)

subsection \<open>Rows\<close>

text \<open>A column of an enumeration of the schema holds one of its values.\<close>

record auth_user_row =
  auID :: int
  auEmail :: string
  auPasswordHash :: string
  auFirstName :: string
  auLastName :: string
  auAvatar :: string
  auBio :: string
  auStatus :: user_status
  auRole :: user_role
  auEmailVerifiedAt :: timestamptz
  auLastLoginAt :: timestamptz
  auCreatedAt :: timestamptz
  auUpdatedAt :: timestamptz
  auDeletedAt :: timestamptz

definition toUser :: "auth_user_row \<Rightarrow> user" where
  "toUser r = \<lparr>uID = auID r, uEmail = auEmail r, uPasswordHash = auPasswordHash r, uFirstName = auFirstName r,
     uLastName = auLastName r, uAvatar = auAvatar r, uBio = auBio r, uStatus = auStatus r, uRole = auRole r,
     uEmailVerifiedAt = store_TimePtr (auEmailVerifiedAt r), uLastLoginAt = store_TimePtr (auLastLoginAt r),
     uCreatedAt = store_Time (auCreatedAt r), uUpdatedAt = store_Time (auUpdatedAt r),
     uDeletedAt = store_TimePtr (auDeletedAt r)\<rparr>"

record events_outbox_row =
  eoID :: int
  eoEventType :: string
  eoPayload :: payload
  eoDedupeKey :: "string option"
  eoCreatedAt :: timestamptz
  eoProcessedAt :: timestamptz
  eoRetryCount :: nat
  eoLastError :: "string option"
  eoLastAttemptedAt :: timestamptz

definition toOutboxEvent :: "events_outbox_row \<Rightarrow> outbox_row" where
  "toOutboxEvent r = \<lparr>obID = eoID r, obEventType = eoEventType r, obPayload = eoPayload r, obDedupeKey = eoDedupeKey r,
     obCreatedAt = store_Time (eoCreatedAt r), obProcessedAt = store_TimePtr (eoProcessedAt r),
     obRetryCount = eoRetryCount r, obLastError = eoLastError r, obLastAttemptedAt = store_TimePtr (eoLastAttemptedAt r)\<rparr>"

record template_row =
  trwID :: int
  trwEventType :: string
  trwIcon :: "string option"
  trwSound :: string
  trwPriority :: string
  trwAndroidChannelID :: "string option"
  trwAction :: "string option"
  trwCreatedAt :: timestamptz
  trwUpdatedAt :: timestamptz

definition toTemplate :: "template_row \<Rightarrow> notif_template" where
  "toTemplate r = \<lparr>tmID = trwID r, tmEventType = trwEventType r, tmIcon = trwIcon r, tmSound = trwSound r,
     tmPriority = trwPriority r, tmAndroidChannelID = trwAndroidChannelID r, tmAction = trwAction r,
     tmCreatedAt = store_Time (trwCreatedAt r), tmUpdatedAt = store_Time (trwUpdatedAt r)\<rparr>"

record translation_row =
  tnID :: int
  tnTemplateID :: int
  tnLanguage :: string
  tnTitle :: string
  tnBody :: string
  tnCreatedAt :: timestamptz
  tnUpdatedAt :: timestamptz

definition toTemplateTranslation :: "translation_row \<Rightarrow> template_translation" where
  "toTemplateTranslation r = \<lparr>ttID = tnID r, ttTemplateID = tnTemplateID r, ttLanguage = tnLanguage r, ttTitle = tnTitle r,
     ttBody = tnBody r, ttCreatedAt = store_Time (tnCreatedAt r), ttUpdatedAt = store_Time (tnUpdatedAt r)\<rparr>"

text \<open>Every entity is what some row is turned into: the tables of entities are a faithful view of the
  tables of rows. The rows of a table whose \<open>NOT NULL\<close> columns are set are told apart by it.\<close>

lemma toUser_onto: "\<exists>r. toUser r = u"
  by (cases u) (auto simp: toUser_def intro!: exI [of _ "\<lparr>auID = uID u, auEmail = uEmail u, auPasswordHash = uPasswordHash u,
    auFirstName = uFirstName u, auLastName = uLastName u, auAvatar = uAvatar u, auBio = uBio u, auStatus = uStatus u,
    auRole = uRole u, auEmailVerifiedAt = store_TSPtr (uEmailVerifiedAt u), auLastLoginAt = store_TSPtr (uLastLoginAt u),
    auCreatedAt = store_TSPtr (Some (uCreatedAt u)), auUpdatedAt = store_TSPtr (Some (uUpdatedAt u)),
    auDeletedAt = store_TSPtr (uDeletedAt u)\<rparr>"])

text \<open>A column as PostgreSQL returns it: NULL has no time.\<close>

definition canonical :: "timestamptz \<Rightarrow> bool" where
  "canonical t = (tzValid t \<or> tzTime t = 0)"

lemma store_TimePtr_inj: "canonical t \<Longrightarrow> canonical t' \<Longrightarrow> store_TimePtr t = store_TimePtr t' \<longleftrightarrow> t = t'"
  by (cases t; cases t') (auto simp: canonical_def store_TimePtr_def)

lemma store_Time_inj: "tzValid t \<Longrightarrow> tzValid t' \<Longrightarrow> store_Time t = store_Time t' \<longleftrightarrow> t = t'"
  by (cases t; cases t') (auto simp: store_Time_def)

lemma toOutboxEvent_inj:
  assumes "list_all canonical [eoProcessedAt r, eoLastAttemptedAt r, eoProcessedAt r', eoLastAttemptedAt r']"
    and "tzValid (eoCreatedAt r)" and "tzValid (eoCreatedAt r')" and "toOutboxEvent r = toOutboxEvent r'"
  shows "r = r'"
  using assms by (cases r; cases r') (auto simp: toOutboxEvent_def store_TimePtr_inj store_Time_inj)

subsection \<open>Entities that merge NULL and the empty string\<close>

record fcm_entity =
  feID :: int
  feUserID :: int
  feDeviceID :: string
  feToken :: string
  fePlatform :: string
  feAppVersion :: string
  feIsActive :: bool
  feLastUsedAt :: "time option"
  feCreatedAt :: time
  feUpdatedAt :: time

definition toFCMToken :: "fcm_token \<Rightarrow> fcm_entity" where
  "toFCMToken r = \<lparr>feID = ftID r, feUserID = ftUserID r, feDeviceID = ftDeviceID r, feToken = ftToken r,
     fePlatform = ftPlatform r, feAppVersion = StrOf (ftAppVersion r), feIsActive = ftIsActive r,
     feLastUsedAt = ftLastUsedAt r, feCreatedAt = ftCreatedAt r, feUpdatedAt = ftUpdatedAt r\<rparr>"

record account_suspension =
  acsID :: int
  acsUserID :: int
  acsReason :: string
  acsDetails :: string
  acsSuspendedAt :: time
  acsSuspendedUntil :: "time option"
  acsIsPermanent :: bool
  acsCreatedAt :: time
  acsUpdatedAt :: time

definition toSuspension :: "suspension \<Rightarrow> account_suspension" where
  "toSuspension r = \<lparr>acsID = susID r, acsUserID = susUserID r, acsReason = susReason r, acsDetails = StrOf (susDetails r),
     acsSuspendedAt = susSuspendedAt r, acsSuspendedUntil = susSuspendedUntil r, acsIsPermanent = susIsPermanent r,
     acsCreatedAt = susCreatedAt r, acsUpdatedAt = susUpdatedAt r\<rparr>"

text \<open>The repositories write the empty string as NULL (\<open>StrOf_NullStr\<close>), so that nothing they have written is merged.\<close>

lemma toFCMToken_inj:
  assumes "ftAppVersion r \<noteq> Some []" and "ftAppVersion r' \<noteq> Some []" and "toFCMToken r = toFCMToken r'"
  shows "r = r'"
  using assms by (cases r; cases r') (auto simp: toFCMToken_def StrOf_def split: option.splits)

lemma toSuspension_inj:
  assumes "susDetails r \<noteq> Some []" and "susDetails r' \<noteq> Some []" and "toSuspension r = toSuspension r'"
  shows "r = r'"
  using assms by (cases r; cases r') (auto simp: toSuspension_def StrOf_def split: option.splits)

subsection \<open>The conversions the worker and the sessions have of their own\<close>

definition worker_toFCMToken :: "fcm_token \<Rightarrow> fcm_entity" where
  "worker_toFCMToken r = \<lparr>feID = ftID r, feUserID = ftUserID r, feDeviceID = ftDeviceID r, feToken = ftToken r,
     fePlatform = ftPlatform r, feAppVersion = StrOf (ftAppVersion r), feIsActive = ftIsActive r,
     feLastUsedAt = ftLastUsedAt r, feCreatedAt = ftCreatedAt r, feUpdatedAt = ftUpdatedAt r\<rparr>"

definition worker_toPreferences :: "prefs_row \<Rightarrow> notif_prefs" where
  "worker_toPreferences r = \<lparr>npUserID = prUserID r, npPush = prPush r, npEmail = prEmail r,
     npMarketing = prMarketing r, npQuietHoursEnabled = prQuietEnabled r,
     npQuietHoursStart = TimeOfDayStr (prQuietStart r), npQuietHoursEnd = TimeOfDayStr (prQuietEnd r),
     npTimezone = prTimezone r, npCreatedAt = prCreatedAt r, npUpdatedAt = prUpdatedAt r\<rparr>"

definition rowToUser :: "auth_user_row \<Rightarrow> user" where
  "rowToUser r = \<lparr>uID = auID r, uEmail = auEmail r, uPasswordHash = auPasswordHash r, uFirstName = auFirstName r,
     uLastName = auLastName r, uAvatar = auAvatar r, uBio = auBio r, uStatus = auStatus r, uRole = auRole r,
     uEmailVerifiedAt = store_TimePtr (auEmailVerifiedAt r), uLastLoginAt = store_TimePtr (auLastLoginAt r),
     uCreatedAt = store_Time (auCreatedAt r), uUpdatedAt = store_Time (auUpdatedAt r),
     uDeletedAt = store_TimePtr (auDeletedAt r)\<rparr>"

lemma copies_agree: "worker_toFCMToken = toFCMToken" "worker_toPreferences = toPreferences" "rowToUser = toUser"
  by (rule ext, simp add: worker_toFCMToken_def toFCMToken_def worker_toPreferences_def toPreferences_def rowToUser_def toUser_def)+

end
