(* ===== verification/Idle_Operations.thy ===== *)
theory Idle_Operations
  imports Row_Models
begin

section \<open>Small parts around the services\<close>

text \<open>
  \<open>internal/persistence/counter.go\<close> (a counter of statements in the context), \<open>pkg/version\<close>, the text form of
  ids (\<open>SqID\<close> of \<open>pkg/idenc\<close>), the registry of event factories, the MinIO store behind the interface of
  the avatars, and \<open>CountActiveDevicesByUser\<close>. Most of them are reached by no command: \<open>store.Run\<close> counts,
  but nobody puts a counter into the context.
\<close>

subsection \<open>The query counter\<close>

text \<open>A counter is a cell, a context holds the address of one or none. The cells are atomic 64-bit integers.\<close>

type_synonym counters = "64 word list"

definition WithQueryCounter :: "counters \<Rightarrow> nat option \<Rightarrow> counters \<times> nat option" where
  "WithQueryCounter cs ctx = (cs @ [0], Some (length cs))"

definition IncrQueryCounter :: "counters \<Rightarrow> nat option \<Rightarrow> counters" where
  "IncrQueryCounter cs ctx = (case ctx of Some a \<Rightarrow> cs[a := cs ! a + 1] | None \<Rightarrow> cs)"

definition QueryCount :: "counters \<Rightarrow> nat option \<Rightarrow> 64 word" where
  "QueryCount cs ctx = (case ctx of Some a \<Rightarrow> cs ! a | None \<Rightarrow> 0)"

text \<open>An address that a context can hold.\<close>

definition counter_of :: "counters \<Rightarrow> nat option \<Rightarrow> bool" where
  "counter_of cs ctx = (\<forall>a. ctx = Some a \<longrightarrow> a < length cs)"

lemma Incr_length [simp]: "length (IncrQueryCounter cs ctx) = length cs"
  by (simp add: IncrQueryCounter_def split: option.split)

lemma count_after_Incr:
  "counter_of cs c' \<Longrightarrow> QueryCount (IncrQueryCounter cs c) c' = QueryCount cs c' + (if c = c' \<and> c \<noteq> None then 1 else 0)"
  by (auto simp: QueryCount_def IncrQueryCounter_def counter_of_def nth_list_update split: option.split)

text \<open>A counter counts the increments of its own context, up to the width of the cell.\<close>

lemma query_count:
  assumes "counter_of cs (Some a)"
  shows "QueryCount (foldl IncrQueryCounter cs ctxs) (Some a) = QueryCount cs (Some a) + of_nat (count_list ctxs (Some a))"
  using assms
proof (induction ctxs arbitrary: cs)
  case (Cons c ctxs)
  have "counter_of (IncrQueryCounter cs c) (Some a)" using Cons.prems by (simp add: counter_of_def)
  from Cons.IH [OF this] show ?case using count_after_Incr [OF Cons.prems, of c] by (auto simp: algebra_simps)
qed simp

lemma fresh_counter:
  assumes "WithQueryCounter cs ctx = (cs', ctx')" and "count_list ctxs ctx' < 2 ^ 63"
  shows "sint (QueryCount (foldl IncrQueryCounter cs' ctxs) ctx') = int (count_list ctxs ctx')"
proof -
  have c: "cs' = cs @ [0]" "ctx' = Some (length cs)" using assms(1) by (simp_all add: WithQueryCounter_def)
  have "QueryCount (foldl IncrQueryCounter cs' ctxs) ctx' = of_nat (count_list ctxs ctx')"
    using query_count [of cs' "length cs" ctxs] by (simp add: c counter_of_def QueryCount_def)
  moreover have "int (count_list ctxs ctx') < 2 ^ (64 - 1)" using assms(2) by simp
  ultimately show ?thesis by (simp add: signed_of_nat signed_take_bit_int_eq_self_iff)
qed

subsection \<open>The build\<close>

record build_info =
  biVersion :: string
  biCommit :: string
  biDate :: string

text \<open>The variables before the linker stamps them.\<close>

definition unstamped :: build_info where
  "unstamped = \<lparr>biVersion = ''dev'', biCommit = ''none'', biDate = ''unknown''\<rparr>"

subsection \<open>Ids as text\<close>

record global_encoder =
  geEncoder :: "id_encoder option"
  geDone :: bool  \<comment> \<open>whether the \<open>Once\<close> has run\<close>

definition SetGlobalEncoder :: "global_encoder \<Rightarrow> id_encoder \<Rightarrow> global_encoder" where
  "SetGlobalEncoder g enc = (if geDone g then g else \<lparr>geEncoder = Some enc, geDone = True\<rparr>)"

definition UnmarshalText :: "global_encoder \<Rightarrow> int \<Rightarrow> string \<Rightarrow> goerr option \<times> int" where
  "UnmarshalText g s txt =
     (case geEncoder g of None \<Rightarrow> (Some (MsgE ''global ID encoder not initialized''), s)
      | Some enc \<Rightarrow>
          (case enDecode enc txt of None \<Rightarrow> (Some (MsgE ''invalid encoded id''), s)
           | Some decoded \<Rightarrow> (None, decoded)))"

text \<open>The first encoder stays; an id is changed only by a text that decodes, and to what it decodes to.\<close>

lemma first_encoder_stays: "SetGlobalEncoder (SetGlobalEncoder g e) e' = SetGlobalEncoder g e"
  by (simp add: SetGlobalEncoder_def)

lemma UnmarshalText_inverse:
  "geEncoder g = Some enc \<Longrightarrow> enDecode enc (enEncode enc i) = Some i \<Longrightarrow> UnmarshalText g s (enEncode enc i) = (None, i)"
  by (simp add: UnmarshalText_def)

lemma UnmarshalText_error: "UnmarshalText g s txt = (Some e, s') \<Longrightarrow> s' = s"
  by (auto simp: UnmarshalText_def split: option.splits)

subsection \<open>The registry of event factories\<close>

text \<open>A factory is its zero event; \<open>init\<close> of \<open>types.go\<close> registers three.\<close>

definition event_Register :: "(string \<rightharpoonup> event) \<Rightarrow> event \<Rightarrow> (string \<rightharpoonup> event)" where
  "event_Register reg zero = reg(eventType zero \<mapsto> zero)"

lemma registry_dom: "dom (foldl event_Register reg zs) = dom reg \<union> eventType ` set zs"
  by (induction zs arbitrary: reg) (auto simp: event_Register_def)

lemma FactoryFor_registered:
  assumes "set registered_types = eventType ` set zs"
  shows "FactoryFor ty \<longleftrightarrow> foldl event_Register Map.empty zs ty \<noteq> None"
  using registry_dom [of Map.empty zs] assms by (auto simp: FactoryFor_def dom_def)

subsection \<open>The object store\<close>

text \<open>\<open>PutObject\<close> of the MinIO client is an argument.\<close>

definition minio_Put ::
  "(ctx \<Rightarrow> string \<Rightarrow> string \<Rightarrow> string \<Rightarrow> string \<Rightarrow> ('r, unit) call) \<Rightarrow> string \<Rightarrow> ctx \<Rightarrow> string \<Rightarrow> string \<Rightarrow> string \<Rightarrow> ('r, unit) call" where
  "minio_Put putObject bucket c key data contentType = do {
     r \<leftarrow> putObject c bucket key data contentType;
     case r of Inl e \<Rightarrow> fail (WrapE (''storage: put '' @ key) e) | Inr _ \<Rightarrow> returnE () }"

definition minioStore ::
  "(ctx \<Rightarrow> string \<Rightarrow> string \<Rightarrow> string \<Rightarrow> string \<Rightarrow> ('r, unit) call) \<Rightarrow> string \<Rightarrow> string \<Rightarrow> 'r storage" where
  "minioStore putObject bucket base = \<lparr>stPut = minio_Put putObject bucket, stPublicURL = minio_PublicURL base\<rparr>"

lemma minio_keeps_db:
  assumes "\<And>c k d t. keeps_db I (putObject c bucket k d t)"
  shows "keeps_db I (stPut (minioStore putObject bucket base) c key data contentType)"
  using assms by (auto simp: minioStore_def minio_Put_def keeps_db_def fail_def returnE_def split: sum.splits prod.splits)

subsection \<open>Counting devices\<close>

definition CountActiveDevicesByUser :: "int \<Rightarrow> time \<Rightarrow> nat query" where
  "CountActiveDevicesByUser i thr rl t n d =
     Inr (length (filter (\<lambda>r. srUserID r = i \<and> active_row r \<and> srLastActivity r > thr) (sessions d)), d)"

text \<open>It is the length of the list the services use, and by the unique index the number of devices.\<close>

lemma CountActiveDevicesByUser_list:
  "ListActiveDevicesByUser i thr rl t n d = Inr (rs, d') \<Longrightarrow> CountActiveDevicesByUser i thr rl t n d = Inr (length rs, d')"
  by (auto simp: ListActiveDevicesByUser_def CountActiveDevicesByUser_def active_devices_def)

lemma CountActiveDevicesByUser_devices:
  assumes "wf_db n d" and "CountActiveDevicesByUser i thr rl t n d = Inr (k, d')"
  shows "k = card (srDeviceID ` {r \<in> set (sessions d). srUserID r = i \<and> active_row r \<and> srLastActivity r > thr})"
proof -
  let ?P = "\<lambda>r. srUserID r = i \<and> active_row r \<and> srLastActivity r > thr"
  have "distinct (map srDeviceID (filter (\<lambda>r. srUserID r = i \<and> srLastActivity r > thr) (filter active_row (sessions d))))"
    using assms(1) by (auto simp: wf_db_def distinct_map intro: inj_on_subset)
  then have "distinct (map srDeviceID (filter ?P (sessions d)))" by (simp add: conj_commute conj_left_commute)
  from distinct_card [OF this] show ?thesis using assms(2) by (auto simp: CountActiveDevicesByUser_def)
qed

end
