(* ===== verification/Task_Conflicts.thy ===== *)
theory Task_Conflicts
  imports Drain_Liveness
begin

section \<open>Task ids and the keys of the outbox\<close>

text \<open>
  The wiring names the task of an audit event after its request and action, and that of an attempt after
  its request and channel, while the outbox keeps rows apart by the resource and the outcome as well
  (\<open>types_admin.go\<close>, \<open>types_auth.go\<close>). Two events of one request that the outbox stores as two rows can
  so ask for one task; the queue refuses the second as long as it holds the first, and the bus takes the
  refusal for an event enqueued before.
\<close>

lemma task_id_set: "tkID (dispatch_task c evt (opts @ [OptTaskID i])) = Some i"
  by (simp add: dispatch_task_def new_task_def)

lemma audit_task_same:
  assumes "alRequestID a = alRequestID b" and "alAction a = alAction b"
  shows "tkID (dispatch_task c (AuditLogWritten a) (enqueue_opts (AuditLogWritten a) audit_sub)) =
    tkID (dispatch_task c' (AuditLogWritten b) (enqueue_opts (AuditLogWritten b) audit_sub))"
  using assms by (simp add: enqueue_opts_def audit_sub_def audit_task_id_def task_id_set del: append_Cons append_Nil)

text \<open>The keys of the outbox differ when the resources do, for identifiers without blanks at their ends.\<close>

lemma audit_keys_differ:
  assumes "alRequestID a \<noteq> []" and "alResourceID a \<noteq> alResourceID b"
    and "alRequestID a = alRequestID b" and "alAction a = alAction b"
  shows "outboxDedupeKey (AuditLogWritten a) \<noteq> outboxDedupeKey (AuditLogWritten b)"
  using assms by simp

text \<open>The refused event is settled as processed although no task carries it.\<close>

lemma conflicting_row_is_lost:
  assumes "cxInTx c" and "db_up w" and "mqReplies w = EnqDuplicate # rs"
    and row: "obRetryCount row < outboxMaxRetry" "obEventType row = ''admin.audit_log.written''"
      "obPayload row = JEvent (AuditLogWritten a)"
  shows "\<exists>w'. run_state (drain_row (wired_bus E n) c row) w = (Inr (1, 0), w') \<and> mq w' = mq w \<and>
    deadLetters (db w') = deadLetters (db w) \<and>
    outbox (db w') = upd_where (\<lambda>r. obID r = obID row) (mark_processed (now w)) (outbox (db w))"
proof -
  let ?d = "c\<lparr>cxFromDrain := True\<rparr>" and ?w = "w\<lparr>mqReplies := rs\<rparr>"
  have p: "run_state (bus_Publish (wired_bus E n) ?d (AuditLogWritten a)) w = (Inr (), ?w)"
    using assms(3) by (simp add: bus_Publish_def Let_def dispatch_single_async [OF wired_async(1) wired_bus_simps(1)])
  have u: "unmarshal_event (obEventType row) (obPayload row) = Inr (AuditLogWritten a)"
    unfolding row(2,3) using unmarshal_marshal [of "AuditLogWritten a"] by simp
  have f: "FactoryFor (obEventType row)" by (simp add: row(2) FactoryFor_def registered_types_def)
  have "db_up ?w" using assms(2) by (simp add: db_up_def)
  then have m: "run_state (outbox_MarkProcessed c (obID row)) ?w = (Inr (), after_query c ((db w)\<lparr>outbox :=
      upd_where (\<lambda>r. obID r = obID row) (mark_processed (now w)) (outbox (db w))\<rparr>) ?w)"
    using run_query_up [of ?w "MarkOutboxProcessed (obID row)" "()" _ c]
    by (simp add: outbox_MarkProcessed_def MarkOutboxProcessed_def)
  show ?thesis using row(1) f by (simp add: drain_row_def u p m)
qed

subsection \<open>Draining in the server process\<close>

lemma drain_publish_role:
  assumes "cxFromDrain c" and "run_state (bus_Publish (wired_bus E n) c evt) w = (r, w')"
  shows "dbRole w' = dbRole w"
proof -
  have async: ?thesis if "suIsAsync s" "busSubs (wired_bus E n) (eventType evt) = [s]" for s
    using assms that unfolding bus_Publish_def Let_def
    by (auto simp: dispatch_single_async [OF that(1) wired_bus_simps(1)] split: list.splits enqueue_reply.splits)
  show ?thesis
  proof (cases evt)
    case (UserAccountDeleted u)
    have "frames dbRole (bus_Publish (wired_bus E n) c evt)"
      using assms(1) unfolding UserAccountDeleted
      by (auto simp: bus_Publish_def dispatch_def runSync_def deleted_sub_def typed_invoke_def
          intro!: frames_intros frames_deleted split: goerr.split)
    from framesD [OF this assms(2)] show ?thesis .
  next
    case (AuditLogWritten a)
    then show ?thesis by (intro async [of audit_sub]) (simp_all add: wired_async)
  next
    case (AuthAttemptRecorded a)
    then show ?thesis by (intro async [of attempt_sub]) (simp_all add: wired_async)
  qed
qed

lemma bury_as_api:
  assumes "cxInTx c" and "dbRole w = AppApi"
  shows "\<exists>e w'. run_state (bury c row reason m) w = (Inl e, w')"
proof (cases "run_state (bury c row reason m) w")
  case (Pair r w')
  show ?thesis
  proof (cases r)
    case (Inr x)
    let ?dl = "\<lparr>dlSourceID = obID row, dlEventType = obEventType row,
            dlPayload = obPayload row, dlReason = reason, dlLastError = NullStr m\<rparr>"
    from Pair Inr obtain y w1 where "run_state (run_query c (InsertOutboxDeadLetter ?dl)) w = (Inr y, w1)"
      by (auto simp: bury_def outbox_DeadLetter_def split: sum.splits prod.splits)
    from run_query_in_tx [OF assms(1) this] assms(2) show ?thesis by (simp add: InsertOutboxDeadLetter_def)
  qed (use Pair in auto)
qed

lemma drain_row_as_api:
  assumes "cxInTx c" and "dbRole w = AppApi" and "run_state (drain_row (wired_bus E n) c row) w = (Inr x, w')"
  shows "FactoryFor (obEventType row)" and "dbRole w' = AppApi"
proof -
  have no: "run_state (State_Monad.bind (bury c row reason m) (case_sum fail (\<lambda>_. returnE (0, 0)))) w \<noteq> (Inr x, w')" for reason m
    using bury_as_api [OF assms(1,2), of row reason m] by auto
  have r: "\<not> obRetryCount row \<ge> outboxMaxRetry"
  proof
    assume "obRetryCount row \<ge> outboxMaxRetry"
    with assms(3) no show False unfolding drain_row_def by (simp only: if_True)
  qed
  have f: "FactoryFor (obEventType row)"
  proof (rule ccontr)
    assume "\<not> FactoryFor (obEventType row)"
    with r assms(3) no show False unfolding drain_row_def by (simp only: if_True if_False not_False_eq_True)
  qed
  show "FactoryFor (obEventType row)" by fact
  from no r f assms(3) obtain evt where u: "unmarshal_event (obEventType row) (obPayload row) = Inr evt"
    unfolding drain_row_def by (cases "unmarshal_event (obEventType row) (obPayload row)") auto
  with assms(3) r f obtain y w1 z where p: "run_state (bus_Publish (wired_bus E n) (c\<lparr>cxFromDrain := True\<rparr>) evt) w = (y, w1)"
    and m: "(\<exists>m. run_state (outbox_MarkFailed c (obID row) m) w1 = (Inr z, w')) \<or> run_state (outbox_MarkProcessed c (obID row)) w1 = (Inr z, w')"
    by (fastforce simp: drain_row_def split: sum.splits prod.splits)
  have "dbRole w1 = AppApi" using drain_publish_role [OF _ p] assms(2) by simp
  with m show "dbRole w' = AppApi"
    using MarkFailed_Inr [OF assms(1)] MarkProcessed_Inr [OF assms(1)] by fastforce
qed

lemma drain_rows_as_api:
  "cxInTx c \<Longrightarrow> dbRole w = AppApi \<Longrightarrow> run_state (drain_rows (wired_bus E n) c rows a f) w = (Inr x, w') \<Longrightarrow>
     \<forall>row\<in>set rows. FactoryFor (obEventType row)"
proof (induction rows arbitrary: w a f)
  case (Cons row rows)
  from Cons.prems(3) obtain a1 f1 w1 where
    1: "run_state (drain_row (wired_bus E n) c row) w = (Inr (a1, f1), w1)"
    and 2: "run_state (drain_rows (wired_bus E n) c rows (a + a1) (f + f1)) w1 = (Inr x, w')"
    by (auto split: sum.splits prod.splits)
  from drain_row_as_api [OF Cons.prems(1,2) 1] Cons.IH [OF Cons.prems(1) _ 2] show ?case by simp
qed simp

text \<open>A drain in the server process, whose role may not write dead letters, cannot settle a batch that
  holds a row it would have to bury: the whole batch is rolled back, again at every tick.\<close>

lemma api_drain_stuck:
  assumes "\<not> cxInTx c" and "dbRole w = AppApi"
    and "row \<in> set (pending_batch outboxMaxRetry n (now w) (outbox (db w)))" and "\<not> FactoryFor (obEventType row)"
  shows "db (snd (run_state (drainBatch (wired_bus E n) c) w)) = db w"
proof -
  let ?c = "c\<lparr>cxInTx := True\<rparr>"
  obtain r w1 where w1: "run_state (with_tx c (drain_tx (wired_bus E n))) w = (r, w1)" by fastforce
  show ?thesis
  proof (cases r)
    case (Inl e)
    with w1 with_tx_atomic [OF assms(1), of "drain_tx (wired_bus E n)" w e w1] show ?thesis by (simp add: drainBatch_def)
  next
    case (Inr x)
    from with_tx_success [OF assms(1) w1 [unfolded Inr]] obtain w2 where
      t: "run_state (drain_tx (wired_bus E n) ?c) (enter_tx c w) = (Inr x, w2)" by auto
    then obtain rows w3 y where
      q: "run_state (run_query ?c (PendingOutboxBatch outboxMaxRetry n)) (enter_tx c w) = (Inr rows, w3)"
      and d: "run_state (drain_rows (wired_bus E n) ?c rows 0 0) w3 = (Inr y, w2)"
      by (auto simp: drain_tx_def outbox_PendingBatch_def wired_bus_simps split: sum.splits prod.splits)
    from run_query_in_tx [OF _ q] have "rows = pending_batch outboxMaxRetry n (now w) (outbox (db w))" "dbRole w3 = AppApi"
      using assms(2) by (auto simp: PendingOutboxBatch_def enter_tx_def)
    with drain_rows_as_api [OF _ _ d] assms(3,4) show ?thesis by auto
  qed
qed

end
