(* ===== verification/Cache_Flights.thy ===== *)
theory Cache_Flights
  imports App_Errors
begin

section \<open>Concurrent reads through the cache\<close>

text \<open>
  \<open>CacheManager.GetOrSet\<close> (\<open>internal/platform/cache/manager.go\<close>) as many callers run it at once on one
  key: \<open>GetOrSet\<close> of \<open>Cache_Extra\<close> is one caller alone. A caller that misses enters the flight of its
  key or waits for the one that is open (\<open>singleflight.Group\<close>, whose documented behaviour this is: one
  execution at a time, whose result every duplicate caller receives). Inside the flight the cache is read again,
  the value fetched and stored. Others may change the source, and the entry may expire, at any time.
\<close>

subsection \<open>Callers\<close>

datatype 'v flight_pc = Calling | Missed | Leading | Fetching | Storing 'v | Waiting | Returned "goerr + 'v"

record 'v flights =
  fsCache :: "'v option"
  fsLeader :: "nat option"       \<comment> \<open>the caller whose flight is open\<close>
  fsPc :: "nat \<Rightarrow> 'v flight_pc"
  fsSource :: 'v                 \<comment> \<open>what fetching gives now\<close>
  fsSeen :: "'v set"             \<comment> \<open>what it has given so far\<close>
  fsFetches :: nat

definition flights_start :: "'v option \<Rightarrow> 'v \<Rightarrow> 'v flights" where
  "flights_start c v = \<lparr>fsCache = c, fsLeader = None, fsPc = (\<lambda>_. Calling), fsSource = v, fsSeen = insert v (set_option c), fsFetches = 0\<rparr>"

text \<open>The first read, and the one inside the flight, where an error counts as a miss.\<close>

definition first_get :: "goerr + 'v option \<Rightarrow> 'v flight_pc" where
  "first_get r = (case r of Inl err \<Rightarrow> Returned (Inl err) | Inr None \<Rightarrow> Missed | Inr (Some v) \<Rightarrow> Returned (Inr v))"

definition flight_get :: "goerr + 'v option \<Rightarrow> 'v flight_pc" where
  "flight_get r = (case r of Inr (Some v) \<Rightarrow> Returned (Inr v) | _ \<Rightarrow> Fetching)"

definition goto :: "nat \<Rightarrow> 'v flight_pc \<Rightarrow> 'v flights \<Rightarrow> 'v flights" where
  "goto i p s = s\<lparr>fsPc := (fsPc s)(i := p)\<rparr>"

text \<open>The end of a flight: its caller and those that wait get the result.\<close>

definition land :: "nat \<Rightarrow> goerr + 'v \<Rightarrow> 'v flights \<Rightarrow> 'v flights" where
  "land i r s = s\<lparr>fsLeader := None, fsPc := (\<lambda>j. if j = i \<or> fsPc s j = Waiting then Returned r else fsPc s j)\<rparr>"

text \<open>What one read of the cache may give: the entry, or, where there are faults, an error.\<close>

definition reads :: "bool \<Rightarrow> 'v option \<Rightarrow> (goerr + 'v option) set" where
  "reads faults c = {r. r = Inr c \<or> faults \<and> isl r}"

inductive flight_step :: "bool \<Rightarrow> 'v flights \<Rightarrow> 'v flights \<Rightarrow> bool" for faults :: bool where
  get: "fsPc s i = Calling \<Longrightarrow> r \<in> reads faults (fsCache s) \<Longrightarrow> flight_step faults s (goto i (first_get r) s)"
| lead: "fsPc s i = Missed \<Longrightarrow> fsLeader s = None \<Longrightarrow> flight_step faults s ((goto i Leading s)\<lparr>fsLeader := Some i\<rparr>)"
| join: "fsPc s i = Missed \<Longrightarrow> fsLeader s = Some l \<Longrightarrow> flight_step faults s (goto i Waiting s)"
| hit: "fsPc s i = Leading \<Longrightarrow> r \<in> reads faults (fsCache s) \<Longrightarrow> flight_get r = Returned x \<Longrightarrow> flight_step faults s (land i x s)"
| miss: "fsPc s i = Leading \<Longrightarrow> r \<in> reads faults (fsCache s) \<Longrightarrow> flight_get r = Fetching \<Longrightarrow> flight_step faults s (goto i Fetching s)"
| fetch: "fsPc s i = Fetching \<Longrightarrow> flight_step faults s ((goto i (Storing (fsSource s)) s)\<lparr>fsFetches := fsFetches s + 1\<rparr>)"
| fetch_fails: "fsPc s i = Fetching \<Longrightarrow> faults \<Longrightarrow> flight_step faults s ((land i (Inl err) s)\<lparr>fsFetches := fsFetches s + 1\<rparr>)"
| store: "fsPc s i = Storing v \<Longrightarrow> flight_step faults s ((land i (Inr v) s)\<lparr>fsCache := Some v\<rparr>)"
| store_fails: "fsPc s i = Storing v \<Longrightarrow> faults \<Longrightarrow> flight_step faults s (land i (Inl err) s)"
| expire: "faults \<Longrightarrow> flight_step faults s (s\<lparr>fsCache := None\<rparr>)"
| change: "flight_step faults s (s\<lparr>fsSource := v, fsSeen := insert v (fsSeen s)\<rparr>)"

inductive_cases flight_stepE: "flight_step faults s s'"

lemmas flight_defs = goto_def land_def first_get_def flight_get_def reads_def

subsection \<open>Invariants\<close>

definition in_flight :: "'v flight_pc \<Rightarrow> bool" where
  "in_flight p = (case p of Leading \<Rightarrow> True | Fetching \<Rightarrow> True | Storing v \<Rightarrow> True | _ \<Rightarrow> False)"

lemma in_flight_simps [simp]:
  "in_flight Leading" "in_flight Fetching" "in_flight (Storing v)"
  "\<not> in_flight Calling" "\<not> in_flight Missed" "\<not> in_flight Waiting" "\<not> in_flight (Returned r)"
  by (simp_all add: in_flight_def)

lemma in_flight_first [simp]: "\<not> in_flight (first_get r)" "first_get r \<noteq> Waiting"
  by (simp_all add: first_get_def split: sum.split option.split)

text \<open>The open flight is that of the one caller inside; who waits, waits for an open flight.\<close>

definition flights_exclusive :: "'v flights \<Rightarrow> bool" where
  "flights_exclusive s = ((\<forall>i. in_flight (fsPc s i) \<longleftrightarrow> fsLeader s = Some i) \<and>
     (\<forall>i. fsPc s i = Waiting \<longrightarrow> fsLeader s \<noteq> None))"

lemma exclusive_start: "flights_exclusive (flights_start c v)"
  by (simp add: flights_exclusive_def flights_start_def)

lemma exclusive_step:
  assumes "flight_step faults s s'" and "flights_exclusive s"
  shows "flights_exclusive s'"
  using assms
proof (induction rule: flight_step.induct)
  case (get s i r)
  then show ?case by (auto simp: flights_exclusive_def goto_def) (metis in_flight_simps(4))+
next
  case (lead s i)
  then show ?case by (auto simp: flights_exclusive_def goto_def)
next
  case (join s i l)
  then show ?case by (auto simp: flights_exclusive_def goto_def) (metis in_flight_simps(5))+
next
  case (hit s i r x)
  then have "fsLeader s = Some i" by (metis flights_exclusive_def in_flight_simps(1))
  with hit show ?case by (auto simp: flights_exclusive_def land_def)
next
  case (miss s i r)
  then have "fsLeader s = Some i" by (metis flights_exclusive_def in_flight_simps(1))
  with miss show ?case by (auto simp: flights_exclusive_def goto_def)
next
  case (fetch s i)
  then have "fsLeader s = Some i" by (metis flights_exclusive_def in_flight_simps(2))
  with fetch show ?case by (auto simp: flights_exclusive_def goto_def)
next
  case (fetch_fails s i err)
  then have "fsLeader s = Some i" by (metis flights_exclusive_def in_flight_simps(2))
  with fetch_fails show ?case by (auto simp: flights_exclusive_def land_def)
next
  case (store s i v)
  then have "fsLeader s = Some i" by (metis flights_exclusive_def in_flight_simps(3))
  with store show ?case by (auto simp: flights_exclusive_def land_def)
next
  case (store_fails s i v err)
  then have "fsLeader s = Some i" by (metis flights_exclusive_def in_flight_simps(3))
  with store_fails show ?case by (auto simp: flights_exclusive_def land_def)
qed (auto simp: flights_exclusive_def)

text \<open>Values are never made up.\<close>

definition flights_sound :: "'v flights \<Rightarrow> bool" where
  "flights_sound s = (fsSource s \<in> fsSeen s \<and> set_option (fsCache s) \<subseteq> fsSeen s \<and>
     (\<forall>i v. fsPc s i = Storing v \<longrightarrow> v \<in> fsSeen s) \<and> (\<forall>i v. fsPc s i = Returned (Inr v) \<longrightarrow> v \<in> fsSeen s))"

lemma sound_start: "flights_sound (flights_start c v)"
  by (auto simp: flights_sound_def flights_start_def)

lemma sound_step: "flight_step faults s s' \<Longrightarrow> flights_sound s \<Longrightarrow> flights_sound s'"
  by (induction rule: flight_step.induct)
    (auto simp: flights_sound_def flight_defs split: if_splits sum.splits option.splits)

text \<open>Where nothing fails or expires, what has been fetched is in the cache or about to be.\<close>

definition flights_once :: "'v flights \<Rightarrow> bool" where
  "flights_once s = (fsFetches s \<le> 1 \<and> (fsFetches s = 0 \<or> fsCache s \<noteq> None \<or> (\<exists>i v. fsPc s i = Storing v)) \<and>
     (\<forall>i. fsPc s i = Fetching \<longrightarrow> fsFetches s = 0))"

lemma once_start: "flights_once (flights_start c v)"
  by (simp add: flights_once_def flights_start_def)

lemma alone:
  assumes "flights_exclusive s" and "in_flight (fsPc s i)" and "in_flight (fsPc s j)"
  shows "i = j"
  using assms by (auto simp: flights_exclusive_def)

lemma alone_pc:
  assumes "flights_exclusive s" and "fsPc s i = p" and "in_flight p"
  shows "p \<noteq> Fetching \<Longrightarrow> fsPc s j \<noteq> Fetching" and "\<forall>v. p \<noteq> Storing v \<Longrightarrow> fsPc s j \<noteq> Storing v"
    and "fsPc s j = Fetching \<Longrightarrow> j = i"
  using alone [OF assms(1), of i j] assms(2,3) by auto

lemma once_goto:
  assumes "flights_once s" and "\<not> in_flight (fsPc s i)" and "p \<noteq> Fetching"
  shows "flights_once (goto i p s)"
proof -
  have "\<exists>j v. fsPc (goto i p s) j = Storing v" if "fsPc s j = Storing v" for j v
  proof -
    have "j \<noteq> i" using that assms(2) by auto
    with that show ?thesis by (intro exI [of _ j] exI [of _ v]) (simp add: goto_def)
  qed
  moreover have "fsPc (goto i p s) j = Fetching \<Longrightarrow> fsPc s j = Fetching" for j
    using assms(3) by (simp add: goto_def split: if_splits)
  moreover have "fsFetches (goto i p s) = fsFetches s" "fsCache (goto i p s) = fsCache s" by (simp_all add: goto_def)
  ultimately show ?thesis using assms(1) unfolding flights_once_def by metis
qed

lemma once_step:
  assumes "flight_step False s s'" and "flights_exclusive s" and "flights_once s"
  shows "flights_once s'"
  using assms
proof (induction rule: flight_step.induct)
  case (get s i r)
  then show ?case by (intro once_goto) (auto simp: first_get_def split: sum.split option.split)
next
  case (lead s i)
  then have "flights_once (goto i Leading s)" by (intro once_goto) simp_all
  then show ?case by (simp add: flights_once_def)
next
  case (join s i l)
  then show ?case by (intro once_goto) simp_all
next
  case (hit s i r x)
  note no = alone_pc [OF hit(4) hit(1)]
  have "fsPc s j \<noteq> Fetching" "fsPc s j \<noteq> Storing v" for j v using no by simp_all
  with hit show ?case by (auto simp: flights_once_def land_def reads_def flight_get_def split: option.splits)
next
  case (miss s i r)
  have "fsPc s j \<noteq> Storing v" for j v using alone_pc(2) [OF miss(4) miss(1)] by simp
  moreover have "fsCache s = None" using miss by (auto simp: reads_def flight_get_def split: option.splits)
  ultimately show ?case using miss by (auto simp: flights_once_def goto_def)
next
  case (fetch s i)
  let ?s = "(goto i (Storing (fsSource s)) s)\<lparr>fsFetches := fsFetches s + 1\<rparr>"
  have "fsFetches s = 0" using fetch(1,3) by (auto simp: flights_once_def)
  then have n: "fsFetches ?s = 1" by simp
  have st: "fsPc ?s i = Storing (fsSource s)" by (simp add: goto_def)
  have "fsPc ?s j \<noteq> Fetching" for j
    using alone_pc(3) [OF fetch(2) fetch(1), of j] by (auto simp: goto_def)
  with n st show ?case unfolding flights_once_def by (intro conjI disjI2 exI [of _ i] exI [of _ "fsSource s"]) simp_all
next
  case (store s i v)
  have "fsPc s j \<noteq> Fetching" for j using alone_pc(1) [OF store(2) store(1)] by simp
  with store show ?case by (auto simp: flights_once_def land_def)
qed (auto simp: flights_once_def flight_defs split: if_splits)

subsection \<open>The property\<close>

text \<open>C20. However the calls of \<open>GetOrSet\<close> on one key interleave: one caller at a time is inside the flight,
  nobody waits for a flight that is not open, and every value returned was given by the source or found
  in the cache at the start. While no entry expires and neither Redis nor the source fails, all of them
  together fetch at most once, even those that missed before the flight closed: the second look inside the
  flight finds what the first one stored.\<close>

theorem concurrent_misses_fetch_once:
  assumes "(flight_step faults)\<^sup>*\<^sup>* (flights_start c v) s"
  shows "(\<forall>i j. in_flight (fsPc s i) \<and> in_flight (fsPc s j) \<longrightarrow> i = j) \<and>
    (\<forall>i. fsPc s i = Waiting \<longrightarrow> (\<exists>j. in_flight (fsPc s j))) \<and>
    (\<forall>i x. fsPc s i = Returned (Inr x) \<longrightarrow> x \<in> fsSeen s) \<and>
    (\<not> faults \<longrightarrow> fsFetches s \<le> 1)"
proof -
  have "flights_exclusive s \<and> flights_sound s \<and> (\<not> faults \<longrightarrow> flights_once s)"
    using assms
  proof (induction rule: rtranclp_induct)
    case base
    then show ?case by (simp add: exclusive_start sound_start once_start)
  next
    case (step s s')
    then show ?case using exclusive_step sound_step once_step by (metis (full_types))
  qed
  then show ?thesis
    by (auto simp: flights_exclusive_def flights_sound_def flights_once_def)
qed

text \<open>Two callers miss together; the first leads, the second comes when the flight has closed.\<close>

theorem concurrent_misses_fetch_once_witness:
  "\<exists>s. (flight_step False)\<^sup>*\<^sup>* (flights_start None (7::nat)) s \<and> fsPc s 0 = Returned (Inr 7) \<and> fsPc s 1 = Returned (Inr 7) \<and>
     fsFetches s \<le> 1"
proof -
  let ?F = "flight_step False"
  let ?s0 = "flights_start None (7::nat)"
  let ?s1 = "goto 0 Missed ?s0" let ?s2 = "goto 1 Missed ?s1"
  let ?s3 = "(goto 0 Leading ?s2)\<lparr>fsLeader := Some 0\<rparr>" let ?s4 = "goto 0 Fetching ?s3"
  let ?s5 = "(goto 0 (Storing 7) ?s4)\<lparr>fsFetches := fsFetches ?s4 + 1\<rparr>"
  let ?s6 = "(land 0 (Inr 7) ?s5)\<lparr>fsCache := Some 7\<rparr>"
  let ?s7 = "(goto 1 Leading ?s6)\<lparr>fsLeader := Some 1\<rparr>" let ?s8 = "land 1 (Inr 7) ?s7"
  have "?F ?s0 ?s1" using flight_step.get [of ?s0 0 "Inr None" False] by (simp add: flights_start_def reads_def first_get_def)
  moreover have "?F ?s1 ?s2"
    using flight_step.get [of ?s1 1 "Inr None" False] by (simp add: flights_start_def goto_def reads_def first_get_def)
  moreover have "?F ?s2 ?s3" by (rule flight_step.lead) (simp_all add: flights_start_def goto_def)
  moreover have "?F ?s3 ?s4"
    by (rule flight_step.miss [where r = "Inr None"]) (simp_all add: flights_start_def goto_def reads_def flight_get_def)
  moreover have "?F ?s4 ?s5" using flight_step.fetch [of ?s4 0 False] by (simp add: flights_start_def goto_def)
  moreover have "?F ?s5 ?s6" by (rule flight_step.store) (simp add: flights_start_def goto_def)
  moreover have "?F ?s6 ?s7" by (rule flight_step.lead) (simp_all add: flights_start_def goto_def land_def)
  moreover have "?F ?s7 ?s8"
    by (rule flight_step.hit [where r = "Inr (Some 7)"]) (simp_all add: flights_start_def goto_def land_def reads_def flight_get_def)
  ultimately have run: "?F\<^sup>*\<^sup>* ?s0 ?s8" by (meson converse_rtranclp_into_rtranclp rtranclp.rtrancl_refl)
  moreover have "fsPc ?s8 0 = Returned (Inr 7)" "fsPc ?s8 1 = Returned (Inr 7)"
    by (simp_all add: goto_def land_def)
  ultimately show ?thesis using concurrent_misses_fetch_once [OF run] by blast
qed

end
